(* ===== verification/Prelude.thy ===== *)
theory Prelude
  imports Main "HOL-Library.Word" "HOL-Library.State_Monad"
    "HOL-Library.Char_ord" "HOL-Library.List_Lexorder" "HOL-Library.Code_Target_Nat"
begin

text \<open>
  Shared vocabulary of the development: the collections of rewrite rules and introduction rules
  the component proofs draw on, Go's error values, calls into the cluster as computations of
  HOL-Library's state monad, the loop combinators that stand for Go's \<^verbatim>\<open>for\<close> loops, and the
  rules that reason about what such a computation returns whatever the cluster does.
\<close>

section \<open>Collections\<close>

named_theorems frame_simps "fields an operation leaves alone"
named_theorems effect_simps "what an operation does to the fields it writes"
named_theorems returns_intros "what a computation may return, whatever the world does"

section \<open>Go errors\<close>

text \<open>
  A Go \<^verbatim>\<open>error\<close> is its text and the reason that \<^verbatim>\<open>k8serrors.IsNotFound\<close>,
  \<^verbatim>\<open>IsAlreadyExists\<close>, \<^verbatim>\<open>IsTooManyRequests\<close> and \<^verbatim>\<open>errors.Is(err, RequeueReconcileErr)\<close> look for.
  Wrapping with \<^verbatim>\<open>fmt.Errorf("...: %w", err)\<close> changes the text and keeps the reason, as Go's
  unwrapping does.
\<close>

datatype err_reason =
    NotFound | AlreadyExists | Conflict | TooManyRequests | RequeueRequested | OtherReason

datatype go_error = Err (reason: err_reason) (errText: string)

definition wrapErr :: "string \<Rightarrow> go_error \<Rightarrow> go_error" where
  "wrapErr prefix e = Err (reason e) (prefix @ '': '' @ errText e)"

lemma reason_wrapErr [simp]: "reason (wrapErr p e) = reason e"
  by (simp add: wrapErr_def)

definition newErr :: "string \<Rightarrow> go_error" where
  "newErr txt = Err OtherReason txt"

type_synonym 'a res = "go_error + 'a"

section \<open>Calls into the cluster\<close>

text \<open>
  The world is a type variable: every call to the API server may change it and may return
  anything. A statement about a computation that does not mention the world holds whatever other
  clients, the Job controller and the network do in between.
\<close>

type_synonym ('w, 'a) io = "('w, 'a) State_Monad.state"

abbreviation returns :: "('a \<Rightarrow> bool) \<Rightarrow> ('w, 'a) io \<Rightarrow> bool" where
  "returns P m \<equiv> pred_state P m"

lemma returns_iff: "returns P m \<longleftrightarrow> (\<forall>w. P (fst (run_state m w)))"
  by (metis pred_stateI pred_state_run_state fst_conv)

lemma returnsI: "(\<And>w. P (fst (run_state m w))) \<Longrightarrow> returns P m"
  by (simp add: returns_iff)

lemma returnsD: "returns P m \<Longrightarrow> run_state m w = (x, w') \<Longrightarrow> P x"
  by (metis returns_iff fst_conv)

lemma returns_return [simp]: "returns P (State_Monad.return x) \<longleftrightarrow> P x"
  by (simp add: returns_iff)

lemma returns_bind: "returns (\<lambda>x. returns P (f x)) m \<Longrightarrow> returns P (State_Monad.bind m f)"
  by (simp add: returns_iff) (metis fst_conv prod.case_eq_if)

lemma returns_mono: "returns P m \<Longrightarrow> (\<And>x. P x \<Longrightarrow> Q x) \<Longrightarrow> returns Q m"
  by (auto simp: returns_iff)

lemma returns_any: "(\<And>x. P x) \<Longrightarrow> returns P m"
  by (auto simp: returns_iff)

lemma returns_bind_mono:
  assumes "returns Q m" and "\<And>x. Q x \<Longrightarrow> returns P (f x)"
  shows "returns P (State_Monad.bind m f)"
  using assms by (auto intro!: returns_bind intro: returns_mono)

lemma returns_bind_any: "(\<And>x. returns P (f x)) \<Longrightarrow> returns P (State_Monad.bind m f)"
  by (auto intro: returns_bind_mono returns_any)

lemma returns_conj: "returns P m \<Longrightarrow> returns Q m \<Longrightarrow> returns (\<lambda>x. P x \<and> Q x) m"
  by (auto simp: returns_iff)

lemma returns_if [returns_intros]:
  "(b \<Longrightarrow> returns P m) \<Longrightarrow> (\<not> b \<Longrightarrow> returns P n) \<Longrightarrow> returns P (if b then m else n)"
  by simp

lemma returns_case_sum [returns_intros]:
  "(\<And>e. r = Inl e \<Longrightarrow> returns P (f e)) \<Longrightarrow> (\<And>x. r = Inr x \<Longrightarrow> returns P (g x)) \<Longrightarrow>
     returns P (case r of Inl e \<Rightarrow> f e | Inr x \<Rightarrow> g x)"
  by (cases r) auto

lemma returns_case_option [returns_intros]:
  "(r = None \<Longrightarrow> returns P m) \<Longrightarrow> (\<And>x. r = Some x \<Longrightarrow> returns P (g x)) \<Longrightarrow>
     returns P (case r of None \<Rightarrow> m | Some x \<Rightarrow> g x)"
  by (cases r) auto

lemma returns_case_prod [returns_intros]:
  "(\<And>a b. r = (a, b) \<Longrightarrow> returns P (f a b)) \<Longrightarrow> returns P (case r of (a, b) \<Rightarrow> f a b)"
  by (cases r) auto

text \<open>Reading the clock or any other observation of the world that does not change it.\<close>

definition observe :: "('w \<Rightarrow> 'a) \<Rightarrow> ('w, 'a) io" where
  "observe f = State (\<lambda>w. (f w, w))"

lemma run_observe [simp]: "run_state (observe f) w = (f w, w)"
  by (simp add: observe_def)

text \<open>What a computation leaves alone of the world.\<close>

definition keeps :: "('w \<Rightarrow> 'b) \<Rightarrow> ('w, 'a) io \<Rightarrow> bool" where
  "keeps f m \<longleftrightarrow> (\<forall>w. f (snd (run_state m w)) = f w)"

lemma keepsD: "keeps f m \<Longrightarrow> run_state m w = (x, w') \<Longrightarrow> f w' = f w"
  by (metis keeps_def snd_conv)

lemma keeps_return: "keeps f (State_Monad.return x)"
  by (simp add: keeps_def)

lemma keeps_if: "(b \<Longrightarrow> keeps f m) \<Longrightarrow> (\<not> b \<Longrightarrow> keeps f n) \<Longrightarrow> keeps f (if b then m else n)"
  by simp

lemma keeps_observe: "keeps f (observe g)"
  by (simp add: keeps_def)

lemma keeps_bind:
  assumes "keeps f m" "\<And>x. keeps f (k x)" shows "keeps f (State_Monad.bind m k)"
  unfolding keeps_def
proof
  fix w obtain x w1 where m: "run_state m w = (x, w1)" by fastforce
  then have "f w1 = f w" using assms(1) by (rule keepsD [rotated])
  then show "f (snd (run_state (m \<bind> k) w)) = f w"
    using m assms(2) [of x] by (simp add: keeps_def)
qed

section \<open>Loops\<close>

text \<open>\<open>foldM\<close> is a \<^verbatim>\<open>for ... range\<close> loop whose body updates the variables \<open>s\<close>.\<close>

primrec foldM :: "('a \<Rightarrow> 's \<Rightarrow> ('w, 's) io) \<Rightarrow> 'a list \<Rightarrow> 's \<Rightarrow> ('w, 's) io" where
  "foldM f [] s = State_Monad.return s"
| "foldM f (x # xs) s = State_Monad.bind (f x s) (foldM f xs)"

lemma foldM_append: "foldM f (xs @ ys) s = State_Monad.bind (foldM f xs s) (foldM f ys)"
proof (induction xs arbitrary: s)
  case (Cons x xs)
  then have "foldM f (xs @ ys) = (\<lambda>t. State_Monad.bind (foldM f xs t) (foldM f ys))" by blast
  then show ?case by simp
qed simp

lemma foldM_Nil_eq: "foldM f [] = State_Monad.return"
  by (simp add: fun_eq_iff)

lemma foldM_single [simp]: "foldM f [x] = f x"
  by (simp add: fun_eq_iff foldM_Nil_eq)

lemma returns_foldM:
  assumes "I s" and "\<And>x s. x \<in> set xs \<Longrightarrow> I s \<Longrightarrow> returns I (f x s)"
  shows "returns I (foldM f xs s)"
  using assms
proof (induction xs arbitrary: s)
  case Nil
  then show ?case by simp
next
  case (Cons x xs)
  have "returns I (f x s)" using Cons.prems by simp
  moreover have "\<And>t. I t \<Longrightarrow> returns I (foldM f xs t)" using Cons by simp
  ultimately show ?case by (auto intro: returns_bind_mono)
qed

text \<open>The rule for a loop over indices: after \<open>k\<close> rounds the invariant speaks about \<open>k\<close>.\<close>

lemma returns_foldM_upt:
  assumes "I 0 s" and "\<And>k s. k < n \<Longrightarrow> I k s \<Longrightarrow> returns (I (Suc k)) (f k s)"
  shows "returns (I n) (foldM f [0..<n] s)"
proof -
  have "m \<le> n \<Longrightarrow> returns (I m) (foldM f [0..<m] s)" for m
  proof (induction m)
    case 0
    then show ?case using assms(1) by simp
  next
    case (Suc m)
    then have "returns (I m) (foldM f [0..<m] s)" by simp
    moreover have "\<And>t. I m t \<Longrightarrow> returns (I (Suc m)) (f m t)" using assms(2) Suc.prems by simp
    ultimately have "returns (I (Suc m)) (State_Monad.bind (foldM f [0..<m] s) (f m))"
      by (rule returns_bind_mono)
    then show ?case by (simp add: foldM_append)
  qed
  then show ?thesis by simp
qed

section \<open>Lists\<close>

text \<open>A map in the order of insertion: writing a present key keeps its place.\<close>

fun put :: "'k \<Rightarrow> 'v \<Rightarrow> ('k \<times> 'v) list \<Rightarrow> ('k \<times> 'v) list" where
  "put k v [] = [(k, v)]"
| "put k v ((k', v') # m) = (if k = k' then (k, v) # m else (k', v') # put k v m)"

lemma map_of_put [simp]: "map_of (put k v m) = (map_of m)(k \<mapsto> v)"
  by (induction k v m rule: put.induct) (auto simp: fun_eq_iff)

lemma fst_put: "fst ` set (put k v m) = insert k (fst ` set m)"
  by (induction k v m rule: put.induct) auto

lemma distinct_put: "distinct (map fst m) \<Longrightarrow> distinct (map fst (put k v m))"
proof (induction k v m rule: put.induct)
  case (2 k v k' v' m)
  then show ?case using fst_put [of k v m] by simp
qed simp

lemma nth_list_update_cases: "j < length xs \<Longrightarrow> (xs[i := x]) ! j = (if i = j then x else xs ! j)"
  by (cases "i = j") simp_all

text \<open>The last \<open>n\<close> elements, which is what dropping from the front until \<open>n\<close> are left keeps.\<close>

definition lastn :: "nat \<Rightarrow> 'a list \<Rightarrow> 'a list" where
  "lastn n xs = drop (length xs - n) xs"

lemma length_lastn: "length (lastn n xs) = min n (length xs)"
  by (auto simp: lastn_def)

end
