(* ===== verification/GoText.thy ===== *)
theory GoText
  imports Prelude
begin

text \<open>
  What the operator's code uses of Go's standard library on strings, numbers and times. A Go
  string is a sequence of bytes, so it is a \<open>char list\<close>; \<^verbatim>\<open>len\<close> counts bytes and
  \<^verbatim>\<open>for _, r := range s\<close> decodes UTF-8.
\<close>

section \<open>Formatting\<close>

definition digitChar :: "nat \<Rightarrow> char" where
  "digitChar d = char_of (48 + d)"

fun natStr :: "nat \<Rightarrow> string" where
  "natStr n = (if n < 10 then [digitChar n] else natStr (n div 10) @ [digitChar (n mod 10)])"

declare natStr.simps [simp del]

definition itoa :: "int \<Rightarrow> string" where
  "itoa i = (if i < 0 then CHR ''-'' # natStr (nat (- i)) else natStr (nat i))"

fun joinStr :: "string \<Rightarrow> string list \<Rightarrow> string" where
  "joinStr sep [] = []"
| "joinStr sep [x] = x"
| "joinStr sep (x # y # xs) = x @ sep @ joinStr sep (y # xs)"

text \<open>The bytes of the em dash the operator's messages contain.\<close>

definition emDash :: string where
  "emDash = [CHR 0xE2, CHR 0x80, CHR 0x94]"

lemma length_emDash [simp]: "length emDash = 3"
  by (simp add: emDash_def)

lemma natStr_nonempty: "natStr n \<noteq> []"
  by (subst natStr.simps) simp

lemma of_char_digitChar: "d < 10 \<Longrightarrow> (of_char (digitChar d) :: nat) = 48 + d"
  by (simp add: digitChar_def)

lemma natStr_digits: "c \<in> set (natStr n) \<Longrightarrow> 48 \<le> (of_char c :: nat) \<and> (of_char c :: nat) \<le> 57"
proof (induction n rule: natStr.induct)
  case (1 n)
  show ?case
  proof (cases "n < 10")
    case True
    with "1.prems" show ?thesis by (subst (asm) natStr.simps) (auto simp: of_char_digitChar)
  next
    case False
    then have "c \<in> set (natStr (n div 10)) \<or> c = digitChar (n mod 10)"
      using "1.prems" by (subst (asm) natStr.simps) auto
    then show ?thesis using "1.IH" False of_char_digitChar [of "n mod 10"] by auto
  qed
qed

lemma natStr_inject: "natStr n = natStr m \<longleftrightarrow> n = m"
proof (induction n arbitrary: m rule: natStr.induct)
  case (1 n)
  have digit: "digitChar a = digitChar b \<longleftrightarrow> a = b" if "a < 10" "b < 10" for a b
    using that of_char_digitChar by (metis add_left_cancel)
  have small: "k < 10 \<Longrightarrow> natStr k = [digitChar k]" for k by (subst natStr.simps) simp
  have big: "\<not> k < 10 \<Longrightarrow> natStr k = natStr (k div 10) @ [digitChar (k mod 10)]" for k by (subst natStr.simps) simp
  have "natStr k = [c] \<Longrightarrow> k < 10" for k c using big [of k] natStr_nonempty [of "k div 10"] by fastforce
  then have mixed: "\<not> k < 10 \<Longrightarrow> j < 10 \<Longrightarrow> natStr k \<noteq> natStr j" for j k using small [of j] by metis
  show ?case
  proof (cases "n < 10 \<or> m < 10")
    case True
    then show ?thesis using mixed [of n m] mixed [of m n] small [of n] small [of m] digit [of n m] by (metis list.inject)
  next
    case False
    have "n = m \<longleftrightarrow> n div 10 = m div 10 \<and> n mod 10 = m mod 10" by (metis div_mult_mod_eq)
    moreover have "natStr n = natStr m \<longleftrightarrow> natStr (n div 10) = natStr (m div 10) \<and> digitChar (n mod 10) = digitChar (m mod 10)"
      using False big [of n] big [of m] by simp
    ultimately show ?thesis using False "1.IH" [of "m div 10"] digit [of "n mod 10" "m mod 10"] by simp
  qed
qed

lemma length_natStr: "n < 10 ^ k \<Longrightarrow> 0 < k \<Longrightarrow> length (natStr n) \<le> k"
proof (induction n arbitrary: k rule: natStr.induct)
  case (1 n)
  show ?case
  proof (cases "n < 10")
    case True
    with "1.prems" show ?thesis by (subst natStr.simps) simp
  next
    case False
    then obtain j where k: "k = Suc j" and j: "0 < j"
      using "1.prems" by (cases k; cases "k - 1") auto
    have "n div 10 < 10 ^ j" using "1.prems"(1) k by (simp add: less_mult_imp_div_less mult.commute)
    then have "length (natStr (n div 10)) \<le> j" using "1.IH" False j by blast
    with False k show ?thesis by (subst natStr.simps) simp
  qed
qed

section \<open>Splitting\<close>

text \<open>\<^verbatim>\<open>strings.Split\<close> on a separator of one byte.\<close>

fun splitOn :: "char \<Rightarrow> string \<Rightarrow> string list" where
  "splitOn sep [] = [[]]"
| "splitOn sep (c # s) = (if c = sep then [] # splitOn sep s
     else case splitOn sep s of [] \<Rightarrow> [[c]] | p # ps \<Rightarrow> (c # p) # ps)"

lemma splitOn_nonempty: "splitOn sep s \<noteq> []"
  by (induction sep s rule: splitOn.induct) (auto split: list.split)

lemma splitOn_none: "sep \<notin> set x \<Longrightarrow> splitOn sep x = [x]"
  by (induction x) auto

lemma splitOn_append: "sep \<notin> set x \<Longrightarrow> splitOn sep (x @ sep # s) = x # splitOn sep s"
  by (induction x) auto

lemma splitOn_join:
  "xs \<noteq> [] \<Longrightarrow> \<forall>x \<in> set xs. sep \<notin> set x \<Longrightarrow> splitOn sep (joinStr [sep] xs) = xs"
  by (induction "[sep]" xs rule: joinStr.induct) (auto simp: splitOn_none splitOn_append)

section \<open>Trimming\<close>

definition trimLeftOf :: "(char \<Rightarrow> bool) \<Rightarrow> string \<Rightarrow> string" where
  "trimLeftOf p s = dropWhile p s"

definition trimRightOf :: "(char \<Rightarrow> bool) \<Rightarrow> string \<Rightarrow> string" where
  "trimRightOf p s = rev (dropWhile p (rev s))"

text \<open>\<^verbatim>\<open>strings.Trim(s, cutset)\<close>\<close>

definition trimOf :: "(char \<Rightarrow> bool) \<Rightarrow> string \<Rightarrow> string" where
  "trimOf p s = trimRightOf p (trimLeftOf p s)"

lemma length_trimLeftOf: "length (trimLeftOf p s) \<le> length s"
  by (simp add: trimLeftOf_def length_dropWhile_le)

lemma length_trimRightOf: "length (trimRightOf p s) \<le> length s"
  using length_dropWhile_le [of p "rev s"] by (simp add: trimRightOf_def)

lemma length_trimOf: "length (trimOf p s) \<le> length s"
  using length_trimLeftOf [of p s] length_trimRightOf [of p "trimLeftOf p s"]
  by (simp add: trimOf_def)

lemma set_trimRightOf: "set (trimRightOf p s) \<subseteq> set s"
  by (auto simp: trimRightOf_def dest: set_dropWhileD)

lemma set_trimOf: "set (trimOf p s) \<subseteq> set s"
  by (auto simp: trimOf_def trimLeftOf_def dest: set_dropWhileD subsetD [OF set_trimRightOf])

lemma last_trimRightOf: "trimRightOf p s \<noteq> [] \<Longrightarrow> \<not> p (last (trimRightOf p s))"
  by (simp add: trimRightOf_def last_rev hd_dropWhile)

lemma trimRightOf_append_last:
  "trimRightOf p s \<noteq> [] \<Longrightarrow> \<exists>t. s = trimRightOf p s @ t"
  by (metis trimRightOf_def rev_append rev_rev_ident takeWhile_dropWhile_id)

lemma hd_trimOf: "trimOf p s \<noteq> [] \<Longrightarrow> \<not> p (hd (trimOf p s))"
proof -
  assume ne: "trimOf p s \<noteq> []"
  then obtain t where "trimLeftOf p s = trimOf p s @ t"
    using trimRightOf_append_last [of p "trimLeftOf p s"] by (auto simp: trimOf_def)
  then have "hd (trimOf p s) = hd (dropWhile p s)" and "dropWhile p s \<noteq> []"
    using ne by (auto simp: trimLeftOf_def)
  then show ?thesis by (simp add: hd_dropWhile)
qed

lemma last_trimOf: "trimOf p s \<noteq> [] \<Longrightarrow> \<not> p (last (trimOf p s))"
  using last_trimRightOf by (auto simp: trimOf_def)

section \<open>Prefixes and substrings\<close>

definition hasPrefix :: "string \<Rightarrow> string \<Rightarrow> bool" where
  "hasPrefix s p \<longleftrightarrow> take (length p) s = p"

definition hasSuffix :: "string \<Rightarrow> string \<Rightarrow> bool" where
  "hasSuffix s p \<longleftrightarrow> drop (length s - length p) s = p"

fun containsStr :: "string \<Rightarrow> string \<Rightarrow> bool" where
  "containsStr [] sub = (sub = [])"
| "containsStr (c # s) sub = (hasPrefix (c # s) sub \<or> containsStr s sub)"

section \<open>UTF-8\<close>

text \<open>
  \<open>runes\<close> is what ranging over a string yields: the code points, and \<open>0xFFFD\<close> (one byte
  consumed) wherever the bytes are not the shortest UTF-8 encoding of a scalar value.
\<close>

definition runeError :: nat where
  "runeError = 0xFFFD"

definition contByte :: "nat \<Rightarrow> bool" where
  "contByte b \<longleftrightarrow> 0x80 \<le> b \<and> b \<le> 0xBF"

definition secondByteOk :: "nat \<Rightarrow> nat \<Rightarrow> bool" where
  "secondByteOk b0 b1 \<longleftrightarrow>
     (if b0 = 0xE0 then 0xA0 \<le> b1 \<and> b1 \<le> 0xBF
      else if b0 = 0xED then 0x80 \<le> b1 \<and> b1 \<le> 0x9F
      else if b0 = 0xF0 then 0x90 \<le> b1 \<and> b1 \<le> 0xBF
      else if b0 = 0xF4 then 0x80 \<le> b1 \<and> b1 \<le> 0x8F
      else contByte b1)"

fun runes :: "nat list \<Rightarrow> nat list" where
  "runes [] = []"
| "runes (b0 # bs) =
     (if b0 < 0x80 then b0 # runes bs
      else case bs of
        [] \<Rightarrow> [runeError]
      | b1 # bs1 \<Rightarrow>
          if 0xC2 \<le> b0 \<and> b0 \<le> 0xDF \<and> contByte b1
          then ((b0 mod 0x20) * 0x40 + b1 mod 0x40) # runes bs1
          else (case bs1 of
            [] \<Rightarrow> runeError # runes bs
          | b2 # bs2 \<Rightarrow>
              if 0xE0 \<le> b0 \<and> b0 \<le> 0xEF \<and> secondByteOk b0 b1 \<and> contByte b2
              then ((b0 mod 0x10) * 0x1000 + (b1 mod 0x40) * 0x40 + b2 mod 0x40) # runes bs2
              else (case bs2 of
                [] \<Rightarrow> runeError # runes bs
              | b3 # bs3 \<Rightarrow>
                  if 0xF0 \<le> b0 \<and> b0 \<le> 0xF4 \<and> secondByteOk b0 b1 \<and> contByte b2 \<and> contByte b3
                  then ((b0 mod 0x8) * 0x40000 + (b1 mod 0x40) * 0x1000 + (b2 mod 0x40) * 0x40
                         + b3 mod 0x40) # runes bs3
                  else runeError # runes bs)))"

declare runes.simps(2) [simp del]

definition rangeString :: "string \<Rightarrow> nat list" where
  "rangeString s = runes (map of_char s)"

text \<open>
  \<^verbatim>\<open>strings.ToLower\<close> as far as its ASCII results go: besides the ASCII capitals exactly two
  code points lower to an ASCII letter, \<open>U+0130\<close> to \<^verbatim>\<open>i\<close> and the Kelvin sign \<open>U+212A\<close> to
  \<^verbatim>\<open>k\<close>. Every other code point above \<open>0x7F\<close> lowers to one above \<open>0x7F\<close> and is left as it is.
\<close>

definition lowerRune :: "nat \<Rightarrow> nat" where
  "lowerRune r = (if 65 \<le> r \<and> r \<le> 90 then r + 32
                  else if r = 0x130 then 105 else if r = 0x212A then 107 else r)"

text \<open>\<^verbatim>\<open>utf8.RuneStart\<close>: the byte is not a continuation byte.\<close>

definition runeStart :: "char \<Rightarrow> bool" where
  "runeStart c \<longleftrightarrow> \<not> contByte (of_char c)"

lemma length_runes: "length (runes bs) \<le> length bs"
proof (induction bs rule: runes.induct)
  case (2 b0 bs)
  then show ?case by (subst runes.simps) (simp split: list.split, fastforce)
qed simp

lemma runes_ascii: "(\<forall>b \<in> set bs. b < 0x80) \<Longrightarrow> runes bs = bs"
  by (induction bs) (simp_all add: runes.simps)

lemma rangeString_ascii:
  "(\<forall>c \<in> set s. (of_char c :: nat) < 0x80) \<Longrightarrow> rangeString s = map of_char s"
  by (auto simp: rangeString_def intro!: runes_ascii)

lemma length_rangeString: "length (rangeString s) \<le> length s"
  using length_runes [of "map of_char s"] by (simp add: rangeString_def)

section \<open>Character classes of the regular expressions\<close>

definition isDigitChar :: "char \<Rightarrow> bool" where
  "isDigitChar c \<longleftrightarrow> c \<in> set ''0123456789''"

definition isLowerChar :: "char \<Rightarrow> bool" where
  "isLowerChar c \<longleftrightarrow> c \<in> set ''abcdefghijklmnopqrstuvwxyz''"

definition isUpperChar :: "char \<Rightarrow> bool" where
  "isUpperChar c \<longleftrightarrow> c \<in> set ''ABCDEFGHIJKLMNOPQRSTUVWXYZ''"

definition isHexChar :: "char \<Rightarrow> bool" where
  "isHexChar c \<longleftrightarrow> c \<in> set ''0123456789abcdefABCDEF''"

definition isLowerHexChar :: "char \<Rightarrow> bool" where
  "isLowerHexChar c \<longleftrightarrow> c \<in> set ''0123456789abcdef''"

text \<open>A regular expression that is a sequence of single character classes, anchored at both ends.\<close>

fun matchClasses :: "(char \<Rightarrow> bool) list \<Rightarrow> string \<Rightarrow> bool" where
  "matchClasses [] [] = True"
| "matchClasses (p # ps) (c # cs) = (p c \<and> matchClasses ps cs)"
| "matchClasses _ _ = False"

lemma matchClasses_length: "matchClasses ps s \<Longrightarrow> length s = length ps"
  by (induction ps s rule: matchClasses.induct) auto

lemma matchClasses_set: "matchClasses ps s \<Longrightarrow> c \<in> set s \<Longrightarrow> \<exists>p \<in> set ps. p c"
  by (induction ps s rule: matchClasses.induct) auto

section \<open>Paths\<close>

text \<open>\<^verbatim>\<open>filepath.Base\<close> on a system whose separator is the slash.\<close>

definition filepathBase :: "string \<Rightarrow> string" where
  "filepathBase s =
     (if s = [] then ''.''
      else let t = trimRightOf (\<lambda>c. c = CHR ''/'') s
           in if t = [] then ''/'' else rev (takeWhile (\<lambda>c. c \<noteq> CHR ''/'') (rev t)))"

lemma filepathBase_fixed: "filepathBase s = s \<Longrightarrow> s \<noteq> ''/'' \<Longrightarrow> CHR ''/'' \<notin> set s"
proof -
  assume s: "filepathBase s = s" "s \<noteq> ''/''"
  then have "s = rev (takeWhile (\<lambda>c. c \<noteq> CHR ''/'') (rev (trimRightOf (\<lambda>c. c = CHR ''/'') s))) \<or> s = ''.''"
    by (auto simp: filepathBase_def Let_def split: if_splits)
  then have "set s = set (takeWhile (\<lambda>c. c \<noteq> CHR ''/'') (rev (trimRightOf (\<lambda>c. c = CHR ''/'') s))) \<or> s = ''.''"
    by (metis set_rev)
  then show ?thesis by (auto dest: set_takeWhileD)
qed

section \<open>Hexadecimal\<close>

definition hexDigit :: "nat \<Rightarrow> char" where
  "hexDigit n = ''0123456789abcdef'' ! (n mod 16)"

definition hexByte :: "8 word \<Rightarrow> string" where
  "hexByte b = [hexDigit (unat b div 16), hexDigit (unat b mod 16)]"

definition hexEncode :: "8 word list \<Rightarrow> string" where
  "hexEncode bs = concat (map hexByte bs)"

lemma length_hexEncode: "length (hexEncode bs) = 2 * length bs"
  by (induction bs) (simp_all add: hexEncode_def hexByte_def)

lemma hexDigit_class: "isLowerHexChar (hexDigit n)"
proof -
  have "n mod 16 < length ''0123456789abcdef''" by simp
  then show ?thesis unfolding hexDigit_def isLowerHexChar_def by (rule nth_mem)
qed

lemma hexEncode_class: "c \<in> set (hexEncode bs) \<Longrightarrow> isLowerHexChar c"
  by (auto simp: hexEncode_def hexByte_def hexDigit_class)

section \<open>Times and durations\<close>

text \<open>
  Instants are integers (nanoseconds). A duration is Go's \<^verbatim>\<open>int64\<close>: arithmetic on it wraps and
  \<^verbatim>\<open>time.Since\<close> saturates at the ends of the range.
\<close>

type_synonym time = int
type_synonym int32 = "32 word"
type_synonym int64 = "64 word"

definition second :: int64 where
  "second = 1000000000"

definition timeSince :: "time \<Rightarrow> time \<Rightarrow> int64" where
  "timeSince now t = word_of_int (max (- (2 ^ 63)) (min (2 ^ 63 - 1) (now - t)))"

lemma sint_int64_of_int: "- (2 ^ 63) \<le> k \<Longrightarrow> k < 2 ^ 63 \<Longrightarrow> sint (word_of_int k :: int64) = k"
  using signed_take_bit_int_eq_self [of 63 k] by (simp add: sint_sbintrunc')

lemma sint_timeSince: "sint (timeSince now t) = max (- (2 ^ 63)) (min (2 ^ 63 - 1) (now - t))"
proof -
  have "- (2 ^ 63) \<le> (max (- (2 ^ 63)) (min (2 ^ 63 - 1) (now - t)) :: int)"
    and "(max (- (2 ^ 63)) (min (2 ^ 63 - 1) (now - t)) :: int) < 2 ^ 63" by auto
  then show ?thesis unfolding timeSince_def by (rule sint_int64_of_int)
qed

lemma sint_int32_bounds: "- (2 ^ 31) \<le> sint (x :: int32)" "sint (x :: int32) < 2 ^ 31"
  using sint_ge [of x] sint_lt [of x] by simp_all

text \<open>Converting an \<^verbatim>\<open>int32\<close> number of seconds to a duration never overflows.\<close>

lemma sint_seconds:
  fixes x :: int32
  assumes "0 \<le> g" and "g < 2 ^ 60"
  shows "sint (scast x * second + word_of_int g) = sint x * 1000000000 + g"
proof -
  have "scast x * second + word_of_int g = (word_of_int (sint x * 1000000000 + g) :: int64)"
    by (simp add: second_def)
  moreover have "- (2 ^ 63) \<le> sint x * 1000000000 + g" and "sint x * 1000000000 + g < 2 ^ 63"
    using sint_int32_bounds [of x] assms by auto
  ultimately show ?thesis using sint_int64_of_int by presburger
qed

end
