(* ===== verification/Cluster.thy ===== *)
theory Cluster
  imports GoText
begin

text \<open>
  The Kubernetes objects the controllers read and write, with the fields the code touches, and the
  client through which they do it. The client is a parameter: a record of operations over an
  unknown world, each of which may fail and may change that world. \<open>memClient\<close> at the end is one
  such client, an in-memory API server, on which the laws a property asks of a client are shown to
  be satisfiable.
\<close>

section \<open>Nodes and pods\<close>

record taint =
  taintKey :: string
  taintValue :: string
  taintEffect :: string
  taintTimeAdded :: "time option"

record node =
  nodeName :: string
  nodeLabels :: "(string \<times> string) list"
  nodeTaints :: "taint list"
  nodeDeleting :: bool
  nodeConditions :: "(string \<times> string) list"

record container =
  cntName :: string
  cntImage :: string
  cntPullPolicy :: string
  cntArgs :: "string list"
  cntLimits :: "string list"

record podClaim =
  pcClaimName :: "string option"
  pcTemplateName :: "string option"

record pod =
  podName :: string
  podNamespace :: string
  podUID :: string
  podNodeName :: string
  podLabels :: "(string \<times> string) list"
  podAnnotations :: "string list"
  podOwnerKinds :: "string list"
  podPhase :: string
  podDeleting :: bool
  podContainers :: "container list"
  podClaims :: "podClaim list"

section \<open>Dynamic resource allocation\<close>

record deviceRequest =
  drExactly :: "string option"
  drFirstAvailable :: "string list"

record device =
  devName :: string
  devAttributes :: "(string \<times> string option) list"
  devTaints :: "string list"

record resourceSlice =
  sliceName :: string
  sliceDriver :: string
  sliceNodeName :: "string option"
  slicePool :: string
  sliceDevices :: "device list"

record allocResult =
  resDriver :: string
  resPool :: string
  resDevice :: string
  resAdminAccess :: "bool option"

record consumerRef =
  consAPIGroup :: string
  consResource :: string
  consName :: string
  consUID :: string

record resourceClaim =
  claimName :: string
  claimNamespace :: string
  claimAllocation :: "allocResult list option"
  claimReservedFor :: "consumerRef list"
  claimRequests :: "deviceRequest list"

section \<open>Jobs\<close>

record jobCondition =
  condType :: string
  condStatus :: string
  condReason :: string
  condMessage :: string

record toleration =
  tolKey :: string
  tolOperator :: string
  tolValue :: string
  tolEffect :: string

record job =
  jobName :: string
  jobNamespace :: string
  jobLabels :: "(string \<times> string) list"
  jobOwner :: "string option"
  jobActiveDeadline :: "int64 option"
  jobBackoffLimit :: "int32 option"
  jobCompletions :: "int32 option"
  jobNodeName :: string
  jobNodeSelector :: "(string \<times> string) list"
  jobTolerations :: "toleration list"
  jobPullSecrets :: "string list"
  jobServiceAccount :: string
  jobInitContainers :: "container list"
  jobContainers :: "container list"
  jobConditions :: "jobCondition list"
  jobStartTime :: "time option"
  jobCreation :: "time option"
  jobDeleting :: bool
  jobSucceeded :: int
  jobFailed :: int

text \<open>The zero value of a Job, which is what a failed \<^verbatim>\<open>Get\<close> leaves in the caller's variable.\<close>

definition emptyJob :: job where
  "emptyJob =
     \<lparr>jobName = '''', jobNamespace = '''', jobLabels = [], jobOwner = None, jobActiveDeadline = None,
      jobBackoffLimit = None, jobCompletions = None, jobNodeName = '''', jobNodeSelector = [],
      jobTolerations = [], jobPullSecrets = [], jobServiceAccount = '''', jobInitContainers = [],
      jobContainers = [], jobConditions = [], jobStartTime = None, jobCreation = None,
      jobDeleting = False, jobSucceeded = 0, jobFailed = 0\<rparr>"

section \<open>The client\<close>

record 'w client =
  cClock :: "'w \<Rightarrow> time"
  cGetNode :: "string \<Rightarrow> ('w, node res) io"
  cUpdateNode :: "node \<Rightarrow> ('w, go_error option) io"
  cListNodes :: "(string \<times> string) list \<Rightarrow> ('w, node list res) io"
  cListPodsOnNode :: "string \<Rightarrow> ('w, pod list res) io"
  cGetPod :: "string \<Rightarrow> string \<Rightarrow> ('w, pod res) io"
  cEvict :: "pod \<Rightarrow> ('w, go_error option) io"
  cGetClaim :: "string \<Rightarrow> string \<Rightarrow> ('w, resourceClaim res) io"
  cGetClaimTemplate :: "string \<Rightarrow> string \<Rightarrow> ('w, deviceRequest list res) io"
  cListSlices :: "('w, resourceSlice list res) io"
  cListClaims :: "('w, resourceClaim list res) io"
  cGetJob :: "string \<Rightarrow> string \<Rightarrow> ('w, job res) io"
  cCreateJob :: "job \<Rightarrow> ('w, go_error option) io"
  cDeleteJob :: "job \<Rightarrow> ('w, go_error option) io"
  cListJobs :: "string \<Rightarrow> string \<times> string \<Rightarrow> ('w, job list res) io"
  cListJobPods :: "string \<Rightarrow> string \<Rightarrow> ('w, pod list res) io"

definition getNow :: "('w, 'x) client_scheme \<Rightarrow> ('w, time) io" where
  "getNow C = observe (cClock C)"

lemma run_getNow [simp]: "run_state (getNow C) w = (cClock C w, w)"
  by (simp add: getNow_def)

section \<open>An in-memory API server\<close>

text \<open>
  Objects are lists keyed by name; a read returns the stored object, a write replaces it, nothing
  else happens in between and nothing fails but a read or a write of an absent object, the
  creation of a Job that exists and an eviction that \<open>mPDB\<close> refuses.
\<close>

record mem =
  mClock :: time
  mNodes :: "node list"
  mPods :: "pod list"
  mPDB :: "pod \<Rightarrow> bool"
  mClaims :: "resourceClaim list"
  mTemplates :: "((string \<times> string) \<times> deviceRequest list) list"
  mSlices :: "resourceSlice list"
  mJobs :: "job list"

definition notFound :: "string \<Rightarrow> go_error" where
  "notFound n = Err NotFound (n @ '' not found'')"

definition findRes :: "('a \<Rightarrow> bool) \<Rightarrow> string \<Rightarrow> 'a list \<Rightarrow> 'a res" where
  "findRes p n xs = (case find p xs of None \<Rightarrow> Inl (notFound n) | Some x \<Rightarrow> Inr x)"

definition memUpdateNode :: "node \<Rightarrow> ('a mem_scheme, go_error option) io" where
  "memUpdateNode nd = State (\<lambda>m.
     if list_ex (\<lambda>x. nodeName x = nodeName nd) (mNodes m)
     then (None, m\<lparr>mNodes := map (\<lambda>x. if nodeName x = nodeName nd then nd else x) (mNodes m)\<rparr>)
     else (Some (notFound (nodeName nd)), m))"

definition sameJob :: "job \<Rightarrow> job \<Rightarrow> bool" where
  "sameJob a b \<longleftrightarrow> jobName a = jobName b \<and> jobNamespace a = jobNamespace b"

definition memCreateJob :: "job \<Rightarrow> ('a mem_scheme, go_error option) io" where
  "memCreateJob j = State (\<lambda>m.
     if list_ex (sameJob j) (mJobs m) then (Some (Err AlreadyExists (jobName j @ '' already exists'')), m)
     else (None, m\<lparr>mJobs := mJobs m @ [j]\<rparr>))"

definition memDeleteJob :: "job \<Rightarrow> ('a mem_scheme, go_error option) io" where
  "memDeleteJob j = State (\<lambda>m.
     if list_ex (sameJob j) (mJobs m) then (None, m\<lparr>mJobs := filter (\<lambda>x. \<not> sameJob j x) (mJobs m)\<rparr>)
     else (Some (notFound (jobName j)), m))"

definition memEvict :: "pod \<Rightarrow> ('a mem_scheme, go_error option) io" where
  "memEvict p = State (\<lambda>m.
     if mPDB m p then (Some (Err TooManyRequests ''disruption budget''), m)
     else (None, m\<lparr>mPods := map (\<lambda>x. if podName x = podName p \<and> podNamespace x = podNamespace p
                                      then x\<lparr>podDeleting := True\<rparr> else x) (mPods m)\<rparr>))"

definition memClient :: "'a mem_scheme client" where
  "memClient =
     \<lparr>cClock = mClock,
      cGetNode = (\<lambda>n. observe (\<lambda>m. findRes (\<lambda>x. nodeName x = n) n (mNodes m))),
      cUpdateNode = memUpdateNode,
      cListNodes = (\<lambda>sel. observe (\<lambda>m. Inr (filter (\<lambda>n. set sel \<subseteq> set (nodeLabels n)) (mNodes m)))),
      cListPodsOnNode = (\<lambda>n. observe (\<lambda>m. Inr (filter (\<lambda>p. podNodeName p = n) (mPods m)))),
      cGetPod = (\<lambda>ns n. observe (\<lambda>m. findRes (\<lambda>x. podNamespace x = ns \<and> podName x = n) n (mPods m))),
      cEvict = memEvict,
      cGetClaim = (\<lambda>ns n. observe (\<lambda>m.
        findRes (\<lambda>x. claimNamespace x = ns \<and> claimName x = n) n (mClaims m))),
      cGetClaimTemplate = (\<lambda>ns n. observe (\<lambda>m.
        map_sum id snd (findRes (\<lambda>x. fst x = (ns, n)) n (mTemplates m)))),
      cListSlices = observe (\<lambda>m. Inr (mSlices m)),
      cListClaims = observe (\<lambda>m. Inr (mClaims m)),
      cGetJob = (\<lambda>ns n. observe (\<lambda>m. findRes (\<lambda>x. jobNamespace x = ns \<and> jobName x = n) n (mJobs m))),
      cCreateJob = memCreateJob,
      cDeleteJob = memDeleteJob,
      cListJobs = (\<lambda>ns kv. observe (\<lambda>m.
        Inr (filter (\<lambda>j. jobNamespace j = ns \<and> kv \<in> set (jobLabels j)) (mJobs m)))),
      cListJobPods = (\<lambda>ns n. observe (\<lambda>m.
        Inr (filter (\<lambda>p. podNamespace p = ns \<and> (''job-name'', n) \<in> set (podLabels p)) (mPods m))))\<rparr>"

end
