(* ===== verification/RecoveryTypes.thy ===== *)
theory RecoveryTypes
  imports Cluster
begin

text \<open>
  The GPURecoveryPlan custom resource (\<^verbatim>\<open>api/v1alpha1/gpurecoveryplan_types.go\<close>): spec, status,
  recovery events and approvals, with the accessors and updates the phases of the controller share.
\<close>

section \<open>Enumerations\<close>

text \<open>
  \<^verbatim>\<open>RecoveryType\<close> is a Go string; the zero value is \<open>OtherType ''''\<close>. \<^verbatim>\<open>RecoveryEventState\<close> is
  restricted to seven values by the CRD's enumeration.
\<close>

datatype RecoveryType = SBR | Slot | AMC | Reflash | OtherType string

abbreviation noType :: RecoveryType where
  "noType \<equiv> OtherType ''''"

definition rtString :: "RecoveryType \<Rightarrow> string" where
  "rtString rt = (case rt of SBR \<Rightarrow> ''sbr'' | Slot \<Rightarrow> ''slot'' | AMC \<Rightarrow> ''amc''
                  | Reflash \<Rightarrow> ''reflash'' | OtherType s \<Rightarrow> s)"

datatype RecoveryEventState =
    WaitingApproval | MissingFirmware | Blocked | Draining | InProgress | Succeeded | Failed

datatype PlanState = PlanStateUnset | PlanStateIdle | PlanStateError | PlanStateActive

section \<open>Spec\<close>

record DrainSpec =
  dsEnable :: "bool option"
  dsTimeoutSeconds :: int32
  dsNamespacesToSkip :: "string list"

definition Enabled :: "DrainSpec \<Rightarrow> bool" where
  "Enabled d \<longleftrightarrow> dsEnable d = None \<or> dsEnable d = Some True"

record RecoveryTimeoutsSpec =
  tmResetSeconds :: int32
  tmReflashSeconds :: int32

record XpuSmiSpec =
  xsImage :: string
  xsPullPolicy :: string
  xsInsecureSkipTLSVerify :: bool

record ApprovalSelector =
  selRecoveryType :: RecoveryType
  selNodeName :: string
  selNodeSelector :: "(string \<times> string) list"

record RecoveryApproval =
  apID :: string
  apEventID :: string
  apSelector :: "ApprovalSelector option"
  apOverride :: "RecoveryType option"
  apPersistent :: bool
  apConsumed :: bool
  apComment :: string

record ContainerFirmwareSource =
  csName :: string
  csInsecureSkipTLSVerify :: bool

record FirmwareSource =
  fsContainerSource :: "ContainerFirmwareSource option"
  fsVolumeSource :: "string option"

record FirmwareSpec =
  fwSource :: FirmwareSource
  fwFile :: string

record GPURecoveryPlanSpec =
  spDeviceID :: string
  spSubDeviceID :: string
  spSubVendorID :: string
  spApprovals :: "RecoveryApproval list"
  spXpuSmi :: XpuSmiSpec
  spDefaultResetType :: RecoveryType
  spFirmware :: "FirmwareSpec option"
  spTolerations :: "toleration list"
  spDrain :: DrainSpec
  spTimeouts :: RecoveryTimeoutsSpec
  spSkipImageVerification :: bool

section \<open>Status\<close>

record RecoveryTypeSpec =
  rtType :: RecoveryType
  rtSuggestedType :: RecoveryType

definition IsReflash :: "RecoveryTypeSpec \<Rightarrow> bool" where
  "IsReflash rt \<longleftrightarrow> rtType rt = Reflash"

record RecoveryEvent =
  evID :: string
  evApprovalID :: string
  evApprovalMatchedAt :: "time option"
  evNodeName :: string
  evGPUBDF :: string
  evReason :: string
  evRecoveryType :: RecoveryTypeSpec
  evState :: RecoveryEventState
  evStateMessage :: string
  evImageVerifyGeneration :: int
  evDrainStartedAt :: "time option"
  evPodsBlockingDrain :: "string list"
  evClaimsBlockingReset :: "string list"
  evJobName :: string
  evPastJobs :: "string list"
  evLastUpdated :: "time option"

record GPURecoveryPlanStatus =
  stState :: PlanState
  stMessages :: "string list"
  stEvents :: "RecoveryEvent list"

record GPURecoveryPlan =
  plName :: string
  plGeneration :: int
  plDeleting :: bool
  plFinalizers :: "string list"
  plSpec :: GPURecoveryPlanSpec
  plStatus :: GPURecoveryPlanStatus

type_synonym plan = GPURecoveryPlan
type_synonym event = RecoveryEvent
type_synonym approval = RecoveryApproval

section \<open>Accessors and updates\<close>

abbreviation events :: "plan \<Rightarrow> event list" where
  "events p \<equiv> stEvents (plStatus p)"

abbreviation messages :: "plan \<Rightarrow> string list" where
  "messages p \<equiv> stMessages (plStatus p)"

abbreviation approvals :: "plan \<Rightarrow> approval list" where
  "approvals p \<equiv> spApprovals (plSpec p)"

definition setEvents :: "event list \<Rightarrow> plan \<Rightarrow> plan" where
  "setEvents es p = p\<lparr>plStatus := (plStatus p)\<lparr>stEvents := es\<rparr>\<rparr>"

definition setMessages :: "string list \<Rightarrow> plan \<Rightarrow> plan" where
  "setMessages ms p = p\<lparr>plStatus := (plStatus p)\<lparr>stMessages := ms\<rparr>\<rparr>"

definition setPlanState :: "PlanState \<Rightarrow> plan \<Rightarrow> plan" where
  "setPlanState s p = p\<lparr>plStatus := (plStatus p)\<lparr>stState := s\<rparr>\<rparr>"

definition setApprovals :: "approval list \<Rightarrow> plan \<Rightarrow> plan" where
  "setApprovals as p = p\<lparr>plSpec := (plSpec p)\<lparr>spApprovals := as\<rparr>\<rparr>"

text \<open>A pointer \<^verbatim>\<open>&plan.Status.Events[i]\<close> is the index; writing through it replaces the entry.\<close>

definition putEvent :: "nat \<Rightarrow> event \<Rightarrow> plan \<Rightarrow> plan" where
  "putEvent i e p = setEvents ((events p)[i := e]) p"

lemma setEvents_frame [simp, frame_simps]:
  "events (setEvents es p) = es" "messages (setEvents es p) = messages p"
  "stState (plStatus (setEvents es p)) = stState (plStatus p)"
  "plSpec (setEvents es p) = plSpec p" "plName (setEvents es p) = plName p"
  "plGeneration (setEvents es p) = plGeneration p" "plDeleting (setEvents es p) = plDeleting p"
  "plFinalizers (setEvents es p) = plFinalizers p"
  by (simp_all add: setEvents_def)

lemma setMessages_frame [simp, frame_simps]:
  "events (setMessages ms p) = events p" "messages (setMessages ms p) = ms"
  "stState (plStatus (setMessages ms p)) = stState (plStatus p)"
  "plSpec (setMessages ms p) = plSpec p" "plName (setMessages ms p) = plName p"
  "plGeneration (setMessages ms p) = plGeneration p" "plDeleting (setMessages ms p) = plDeleting p"
  "plFinalizers (setMessages ms p) = plFinalizers p"
  by (simp_all add: setMessages_def)

lemma setPlanState_frame [simp, frame_simps]:
  "events (setPlanState s p) = events p" "messages (setPlanState s p) = messages p"
  "stState (plStatus (setPlanState s p)) = s"
  "plSpec (setPlanState s p) = plSpec p" "plName (setPlanState s p) = plName p"
  "plGeneration (setPlanState s p) = plGeneration p" "plDeleting (setPlanState s p) = plDeleting p"
  "plFinalizers (setPlanState s p) = plFinalizers p"
  by (simp_all add: setPlanState_def)

lemma setApprovals_frame [simp, frame_simps]:
  "plStatus (setApprovals as p) = plStatus p" "approvals (setApprovals as p) = as"
  "plName (setApprovals as p) = plName p" "plGeneration (setApprovals as p) = plGeneration p"
  "plDeleting (setApprovals as p) = plDeleting p" "plFinalizers (setApprovals as p) = plFinalizers p"
  "spFirmware (plSpec (setApprovals as p)) = spFirmware (plSpec p)"
  "spDrain (plSpec (setApprovals as p)) = spDrain (plSpec p)"
  "spDeviceID (plSpec (setApprovals as p)) = spDeviceID (plSpec p)"
  "spTimeouts (plSpec (setApprovals as p)) = spTimeouts (plSpec p)"
  "spDefaultResetType (plSpec (setApprovals as p)) = spDefaultResetType (plSpec p)"
  by (simp_all add: setApprovals_def)

lemma putEvent_frame [simp, frame_simps]:
  "events (putEvent i e p) = (events p)[i := e]" "messages (putEvent i e p) = messages p"
  "stState (plStatus (putEvent i e p)) = stState (plStatus p)"
  "plSpec (putEvent i e p) = plSpec p" "plName (putEvent i e p) = plName p"
  "plGeneration (putEvent i e p) = plGeneration p" "plDeleting (putEvent i e p) = plDeleting p"
  "plFinalizers (putEvent i e p) = plFinalizers p"
  by (simp_all add: putEvent_def)

lemma putEvent_same: "i < length (events p) \<Longrightarrow> putEvent i (events p ! i) p = p"
  by (simp add: putEvent_def setEvents_def)

end
