(* ===== verification/Sha256.thy ===== *)
theory Sha256
  imports GoText
begin

text \<open>
  SHA-256 (FIPS 180-4), which the operator takes from Go's \<^verbatim>\<open>crypto/sha256\<close> to shorten names:
  \<open>sha256\<close> is \<^verbatim>\<open>sha256.Sum256\<close> on the bytes of a string and \<open>hexSum\<close> its hexadecimal
  rendering. The names only rely on the length of the digest and on its alphabet.
\<close>

unbundle bit_operations_syntax

type_synonym w32 = "32 word"

definition kConst :: "w32 list" where
  "kConst =
    [0x428A2F98, 0x71374491, 0xB5C0FBCF, 0xE9B5DBA5,
     0x3956C25B, 0x59F111F1, 0x923F82A4, 0xAB1C5ED5,
     0xD807AA98, 0x12835B01, 0x243185BE, 0x550C7DC3,
     0x72BE5D74, 0x80DEB1FE, 0x9BDC06A7, 0xC19BF174,
     0xE49B69C1, 0xEFBE4786, 0x0FC19DC6, 0x240CA1CC,
     0x2DE92C6F, 0x4A7484AA, 0x5CB0A9DC, 0x76F988DA,
     0x983E5152, 0xA831C66D, 0xB00327C8, 0xBF597FC7,
     0xC6E00BF3, 0xD5A79147, 0x06CA6351, 0x14292967,
     0x27B70A85, 0x2E1B2138, 0x4D2C6DFC, 0x53380D13,
     0x650A7354, 0x766A0ABB, 0x81C2C92E, 0x92722C85,
     0xA2BFE8A1, 0xA81A664B, 0xC24B8B70, 0xC76C51A3,
     0xD192E819, 0xD6990624, 0xF40E3585, 0x106AA070,
     0x19A4C116, 0x1E376C08, 0x2748774C, 0x34B0BCB5,
     0x391C0CB3, 0x4ED8AA4A, 0x5B9CCA4F, 0x682E6FF3,
     0x748F82EE, 0x78A5636F, 0x84C87814, 0x8CC70208,
     0x90BEFFFA, 0xA4506CEB, 0xBEF9A3F7, 0xC67178F2]"

definition hInit :: "w32 list" where
  "hInit =
    [0x6A09E667, 0xBB67AE85, 0x3C6EF372, 0xA54FF53A,
     0x510E527F, 0x9B05688C, 0x1F83D9AB, 0x5BE0CD19]"

definition rotr :: "nat \<Rightarrow> w32 \<Rightarrow> w32" where
  "rotr n x = drop_bit n x OR push_bit (32 - n) x"

definition bigSigma0 :: "w32 \<Rightarrow> w32" where
  "bigSigma0 x = rotr 2 x XOR rotr 13 x XOR rotr 22 x"

definition bigSigma1 :: "w32 \<Rightarrow> w32" where
  "bigSigma1 x = rotr 6 x XOR rotr 11 x XOR rotr 25 x"

definition smallSigma0 :: "w32 \<Rightarrow> w32" where
  "smallSigma0 x = rotr 7 x XOR rotr 18 x XOR drop_bit 3 x"

definition smallSigma1 :: "w32 \<Rightarrow> w32" where
  "smallSigma1 x = rotr 17 x XOR rotr 19 x XOR drop_bit 10 x"

definition choose32 :: "w32 \<Rightarrow> w32 \<Rightarrow> w32 \<Rightarrow> w32" where
  "choose32 x y z = (x AND y) XOR (NOT x AND z)"

definition majority32 :: "w32 \<Rightarrow> w32 \<Rightarrow> w32 \<Rightarrow> w32" where
  "majority32 x y z = (x AND y) XOR (x AND z) XOR (y AND z)"

text \<open>The message schedule, latest word first: each round reads the words 2, 7, 15 and 16 back.\<close>

fun extendSchedule :: "nat \<Rightarrow> w32 list \<Rightarrow> w32 list" where
  "extendSchedule 0 ws = ws"
| "extendSchedule (Suc n) ws =
     extendSchedule n
       ((smallSigma1 (ws ! 1) + ws ! 6 + smallSigma0 (ws ! 14) + ws ! 15) # ws)"

definition schedule :: "w32 list \<Rightarrow> w32 list" where
  "schedule block = rev (extendSchedule 48 (rev block))"

fun rounds :: "(w32 \<times> w32) list \<Rightarrow> w32 list \<Rightarrow> w32 list" where
  "rounds ((k, w) # kws) [a, b, c, d, e, f, g, h] =
     (let t1 = h + bigSigma1 e + choose32 e f g + k + w;
          t2 = bigSigma0 a + majority32 a b c
      in rounds kws [t1 + t2, a, b, c, d + t1, e, f, g])"
| "rounds _ st = st"

definition compress :: "w32 list \<Rightarrow> w32 list \<Rightarrow> w32 list" where
  "compress st block = map2 (+) st (rounds (zip kConst (schedule block)) st)"

text \<open>Padding: a one bit, zeros up to 56 modulo 64 bytes, the length in bits as eight bytes.\<close>

definition padMessage :: "8 word list \<Rightarrow> 8 word list" where
  "padMessage m =
     m @ [0x80] @ replicate ((119 - length m mod 64) mod 64) 0
       @ map (\<lambda>i. word_of_nat (8 * length m div 256 ^ i)) [7, 6, 5, 4, 3, 2, 1, 0]"

fun words32 :: "8 word list \<Rightarrow> w32 list" where
  "words32 (a # b # c # d # m) =
     (push_bit 24 (ucast a) OR push_bit 16 (ucast b) OR push_bit 8 (ucast c) OR ucast d) # words32 m"
| "words32 _ = []"

fun blocks :: "w32 list \<Rightarrow> w32 list list" where
  "blocks ws = (if length ws < 16 then [] else take 16 ws # blocks (drop 16 ws))"

declare blocks.simps [simp del]

definition bytesOfWord :: "w32 \<Rightarrow> 8 word list" where
  "bytesOfWord x = [ucast (drop_bit 24 x), ucast (drop_bit 16 x), ucast (drop_bit 8 x), ucast x]"

definition sha256 :: "string \<Rightarrow> 8 word list" where
  "sha256 s =
     concat (map bytesOfWord
       (foldl compress hInit (blocks (words32 (padMessage (map of_char s))))))"

definition hexSum :: "string \<Rightarrow> string" where
  "hexSum s = hexEncode (sha256 s)"

section \<open>The digest has 32 bytes\<close>

lemma length_extendSchedule: "length (extendSchedule n ws) = n + length ws"
  by (induction n ws rule: extendSchedule.induct) simp_all

lemma length_rounds: "length (rounds kws st) = length st"
  by (induction kws st rule: rounds.induct) (simp_all add: Let_def)

lemma length_compress: "length (compress st block) = length st"
  by (simp add: compress_def length_rounds)

lemma length_foldl_compress: "length (foldl compress st bs) = length st"
  by (induction bs arbitrary: st) (simp_all add: length_compress)

lemma length_concat_bytesOfWord: "length (concat (map bytesOfWord ws)) = 4 * length ws"
  by (induction ws) (simp_all add: bytesOfWord_def)

lemma length_sha256: "length (sha256 s) = 32"
  by (simp add: sha256_def length_concat_bytesOfWord length_foldl_compress hInit_def)

lemma length_hexSum: "length (hexSum s) = 64"
  by (simp add: hexSum_def length_hexEncode length_sha256)

lemma hexSum_class: "c \<in> set (hexSum s) \<Longrightarrow> isLowerHexChar c"
  by (simp add: hexSum_def hexEncode_class)

end
