(* ===== verification/Drain.thy ===== *)
theory Drain
  imports Cluster
begin

text \<open>
  The node taint and pod drain primitives both controllers share
  (\<^verbatim>\<open>internal/controller/common/drain.go\<close>) and the GPU vocabulary they use
  (\<^verbatim>\<open>internal/controller/common/gpu.go\<close>). The set laws of the taint operations are the locale
  \<open>taint_ops\<close>, interpreted on the list operations the code performs; the locale \<open>node_store\<close> says
  what a client has to promise about Node objects, and lifts those laws to the cluster.
\<close>

section \<open>gpu.go\<close>

definition XeResource :: string where "XeResource = ''gpu.intel.com/xe''"
definition I915Resource :: string where "I915Resource = ''gpu.intel.com/i915''"
definition GPUDeviceClass :: string where "GPUDeviceClass = ''gpu.intel.com''"
definition DeviceAttrDeviceID :: string where "DeviceAttrDeviceID = ''pciId''"
definition DeviceAttrBDF :: string where "DeviceAttrBDF = ''pciAddress''"
definition DeviceTaintKeyReset :: string where
  "DeviceTaintKeyReset = ''health-xpumd-gpu.wedged''"
definition DeviceTaintKeyReflash :: string where
  "DeviceTaintKeyReflash = ''health-Survivability''"
definition DeviceTaintKeyXpumdReflash :: string where
  "DeviceTaintKeyXpumdReflash = ''health-xpumd-gpu.survivability''"

lemmas gpu_consts = XeResource_def I915Resource_def GPUDeviceClass_def DeviceAttrDeviceID_def
  DeviceAttrBDF_def DeviceTaintKeyReset_def DeviceTaintKeyReflash_def DeviceTaintKeyXpumdReflash_def

datatype DeviceRecovery = DeviceRecoveryNone | DeviceRecoveryReset | DeviceRecoveryReflash

definition RecoveryForDeviceTaint :: "string \<Rightarrow> DeviceRecovery" where
  "RecoveryForDeviceTaint key =
     (if key = DeviceTaintKeyReset then DeviceRecoveryReset
      else if key = DeviceTaintKeyXpumdReflash \<or> key = DeviceTaintKeyReflash
      then DeviceRecoveryReflash
      else DeviceRecoveryNone)"

section \<open>Node taints\<close>

text \<open>\<^verbatim>\<open>TimeAdded\<close> is not compared.\<close>

definition taintsEqual :: "taint \<Rightarrow> taint \<Rightarrow> bool" where
  "taintsEqual a b \<longleftrightarrow>
     taintKey a = taintKey b \<and> taintValue a = taintValue b \<and> taintEffect a = taintEffect b"

definition hasTaint :: "taint \<Rightarrow> taint list \<Rightarrow> bool" where
  "hasTaint t ts \<longleftrightarrow> list_ex (\<lambda>x. taintsEqual x t) ts"

definition addTaint :: "taint \<Rightarrow> taint list \<Rightarrow> taint list" where
  "addTaint t ts = (if hasTaint t ts then ts else ts @ [t])"

definition dropTaint :: "taint \<Rightarrow> taint list \<Rightarrow> taint list" where
  "dropTaint t ts = filter (\<lambda>x. \<not> taintsEqual x t) ts"

definition EnsureNodeTaint ::
  "('w, 'x) client_scheme \<Rightarrow> string \<Rightarrow> taint \<Rightarrow> ('w, bool res) io" where
  "EnsureNodeTaint C n t = do {
     r \<leftarrow> cGetNode C n;
     case r of
       Inl e \<Rightarrow> State_Monad.return (Inl (wrapErr (''failed to get node '' @ n) e))
     | Inr nd \<Rightarrow>
         if hasTaint t (nodeTaints nd) then State_Monad.return (Inr False)
         else do {
           u \<leftarrow> cUpdateNode C (nd\<lparr>nodeTaints := addTaint t (nodeTaints nd)\<rparr>);
           State_Monad.return (case u of
             Some e \<Rightarrow> Inl (wrapErr (''failed to update node '' @ n @ '' with taint '' @ taintKey t) e)
           | None \<Rightarrow> Inr True)
         }
   }"

definition RemoveNodeTaint ::
  "('w, 'x) client_scheme \<Rightarrow> string \<Rightarrow> taint \<Rightarrow> ('w, bool res) io" where
  "RemoveNodeTaint C n t = do {
     r \<leftarrow> cGetNode C n;
     case r of
       Inl e \<Rightarrow> State_Monad.return (Inl (wrapErr (''failed to get node '' @ n) e))
     | Inr nd \<Rightarrow>
         if \<not> hasTaint t (nodeTaints nd) then State_Monad.return (Inr False)
         else do {
           u \<leftarrow> cUpdateNode C (nd\<lparr>nodeTaints := dropTaint t (nodeTaints nd)\<rparr>);
           State_Monad.return (case u of
             Some e \<Rightarrow> Inl (wrapErr (''failed to remove taint '' @ taintKey t @ '' from node '' @ n) e)
           | None \<Rightarrow> Inr True)
         }
   }"

definition NodesWithTaint ::
  "('w, 'x) client_scheme \<Rightarrow> taint \<Rightarrow> ('w, string list res) io" where
  "NodesWithTaint C t = do {
     r \<leftarrow> cListNodes C [];
     State_Monad.return (case r of
       Inl e \<Rightarrow> Inl (wrapErr ''failed to list nodes'' e)
     | Inr nds \<Rightarrow> Inr (map nodeName (filter (\<lambda>nd. hasTaint t (nodeTaints nd)) nds)))
   }"

section \<open>Which pods are on a node, and which hold a GPU\<close>

definition podsOnNode :: "('w, 'x) client_scheme \<Rightarrow> string \<Rightarrow> ('w, pod list res) io" where
  "podsOnNode C n = do {
     r \<leftarrow> cListPodsOnNode C n;
     State_Monad.return (map_sum (wrapErr (''failed to list pods on node '' @ n)) id r)
   }"

definition requestsIntelGPU :: "deviceRequest list \<Rightarrow> bool" where
  "requestsIntelGPU requests \<longleftrightarrow>
     list_ex (\<lambda>req. drExactly req = Some GPUDeviceClass
                    \<or> list_ex (\<lambda>fa. fa = GPUDeviceClass) (drFirstAvailable req)) requests"

fun podClaimsIntelGPU ::
  "('w, 'x) client_scheme \<Rightarrow> podClaim list \<Rightarrow> string \<Rightarrow> ('w, bool res) io" where
  "podClaimsIntelGPU C [] ns = State_Monad.return (Inr False)"
| "podClaimsIntelGPU C (rc # claims) ns = do {
     direct \<leftarrow> (case pcClaimName rc of
       None \<Rightarrow> State_Monad.return (Inr False)
     | Some n \<Rightarrow> do {
         r \<leftarrow> cGetClaim C ns n;
         State_Monad.return (case r of
           Inl e \<Rightarrow> Inl (wrapErr (''failed to get ResourceClaim '' @ n) e)
         | Inr cl \<Rightarrow> Inr (requestsIntelGPU (claimRequests cl)))
       });
     case direct of
       Inl e \<Rightarrow> State_Monad.return (Inl e)
     | Inr True \<Rightarrow> State_Monad.return (Inr True)
     | Inr False \<Rightarrow> do {
         viaTemplate \<leftarrow> (case pcTemplateName rc of
           None \<Rightarrow> State_Monad.return (Inr False)
         | Some n \<Rightarrow> do {
             r \<leftarrow> cGetClaimTemplate C ns n;
             State_Monad.return (case r of
               Inl e \<Rightarrow> Inl (wrapErr (''failed to get ResourceClaimTemplate '' @ n) e)
             | Inr reqs \<Rightarrow> Inr (requestsIntelGPU reqs))
           });
         case viaTemplate of
           Inl e \<Rightarrow> State_Monad.return (Inl e)
         | Inr True \<Rightarrow> State_Monad.return (Inr True)
         | Inr False \<Rightarrow> podClaimsIntelGPU C claims ns
       }
   }"

definition podLimitsGPU :: "pod \<Rightarrow> bool" where
  "podLimitsGPU p \<longleftrightarrow>
     list_ex (\<lambda>cnt. XeResource \<in> set (cntLimits cnt) \<or> I915Resource \<in> set (cntLimits cnt))
       (podContainers p)"

fun gpuPodsAmong :: "('w, 'x) client_scheme \<Rightarrow> pod list \<Rightarrow> ('w, pod list res) io" where
  "gpuPodsAmong C [] = State_Monad.return (Inr [])"
| "gpuPodsAmong C (p # ps) = do {
     incl \<leftarrow> (if podLimitsGPU p then State_Monad.return (Inr True)
             else if podClaims p \<noteq> [] then podClaimsIntelGPU C (podClaims p) (podNamespace p)
             else State_Monad.return (Inr False));
     case incl of
       Inl e \<Rightarrow> State_Monad.return (Inl (wrapErr (''failed to check ResourceClaims for pod '' @ podName p) e))
     | Inr b \<Rightarrow> do {
         rest \<leftarrow> gpuPodsAmong C ps;
         State_Monad.return (map_sum id (\<lambda>gs. if b then p # gs else gs) rest)
       }
   }"

definition GPUPodsOnNode :: "('w, 'x) client_scheme \<Rightarrow> string \<Rightarrow> ('w, pod list res) io" where
  "GPUPodsOnNode C n = do {
     r \<leftarrow> podsOnNode C n;
     case r of Inl e \<Rightarrow> State_Monad.return (Inl e) | Inr ps \<Rightarrow> gpuPodsAmong C ps
   }"

section \<open>Classifying pods for a full-node drain\<close>

definition mirrorPodAnnotation :: string where
  "mirrorPodAnnotation = ''kubernetes.io/config.mirror''"

definition DrainNeverEvicts :: "pod \<Rightarrow> string \<Rightarrow> string list \<Rightarrow> string \<times> bool" where
  "DrainNeverEvicts p operatorNamespace skipNamespaces =
     (if podNamespace p = operatorNamespace then (''operator namespace'', True)
      else if podNamespace p \<in> set skipNamespaces then (''namespace in namespacesToSkip'', True)
      else if mirrorPodAnnotation \<in> set (podAnnotations p) then (''static pod'', True)
      else if list_ex (\<lambda>k. k = ''DaemonSet'') (podOwnerKinds p) then (''DaemonSet pod'', True)
      else ('''', False))"

datatype drainAction = drainIgnore | drainEvict | drainAwait

definition classifyPodForDrain :: "pod \<Rightarrow> string \<Rightarrow> string list \<Rightarrow> drainAction \<times> string" where
  "classifyPodForDrain p operatorNamespace skipNamespaces =
     (case DrainNeverEvicts p operatorNamespace skipNamespaces of
        (why, True) \<Rightarrow> (drainIgnore, why)
      | (_, False) \<Rightarrow>
          if podPhase p = ''Succeeded'' \<or> podPhase p = ''Failed''
          then (drainIgnore, ''already '' @ podPhase p)
          else if podDeleting p then (drainAwait, ''already terminating'')
          else (drainEvict, ''evictable''))"

definition PodsBlockingDrain ::
  "('w, 'x) client_scheme \<Rightarrow> string \<Rightarrow> string \<Rightarrow> string list \<Rightarrow> ('w, (pod list \<times> pod list) res) io" where
  "PodsBlockingDrain C n operatorNamespace skipNamespaces = do {
     r \<leftarrow> podsOnNode C n;
     State_Monad.return (case r of
       Inl e \<Rightarrow> Inl e
     | Inr ps \<Rightarrow>
         Inr (filter (\<lambda>p. fst (classifyPodForDrain p operatorNamespace skipNamespaces) = drainEvict) ps,
              filter (\<lambda>p. fst (classifyPodForDrain p operatorNamespace skipNamespaces) = drainAwait) ps))
   }"

section \<open>Evicting\<close>

definition evictPod :: "('w, 'x) client_scheme \<Rightarrow> pod \<Rightarrow> ('w, go_error option) io" where
  "evictPod C p = do {
     r \<leftarrow> cEvict C p;
     State_Monad.return
       (map_option (wrapErr (''failed to evict pod '' @ podNamespace p @ ''/'' @ podName p)) r)
   }"

fun evictAll :: "('w, 'x) client_scheme \<Rightarrow> pod list \<Rightarrow> ('w, go_error list) io" where
  "evictAll C [] = State_Monad.return []"
| "evictAll C (p # ps) =
     (if podDeleting p then evictAll C ps
      else do {
        r \<leftarrow> evictPod C p;
        errs \<leftarrow> evictAll C ps;
        State_Monad.return (case r of
          None \<Rightarrow> errs
        | Some e \<Rightarrow> if reason e = NotFound \<or> reason e = TooManyRequests then errs else e # errs)
      })"

text \<open>\<^verbatim>\<open>errors.Join\<close>: no error for an empty list, the texts on lines of their own otherwise.\<close>

definition joinErrs :: "go_error list \<Rightarrow> go_error option" where
  "joinErrs es = (if es = [] then None
                  else Some (Err OtherReason (joinStr [CHR 0x0A] (map errText es))))"

definition EvictPods :: "('w, 'x) client_scheme \<Rightarrow> pod list \<Rightarrow> ('w, go_error option) io" where
  "EvictPods C ps = do { errs \<leftarrow> evictAll C ps; State_Monad.return (joinErrs errs) }"

section \<open>Taints as a set\<close>

text \<open>
  What a controller relies on when it taints and untaints a node: adding makes the taint present,
  removing makes it absent, neither touches a taint another owner put there, and repeating either
  changes nothing.
\<close>

locale taint_ops =
  fixes same :: "'t \<Rightarrow> 't \<Rightarrow> bool"
    and has :: "'t \<Rightarrow> 't list \<Rightarrow> bool"
    and add :: "'t \<Rightarrow> 't list \<Rightarrow> 't list"
    and remove :: "'t \<Rightarrow> 't list \<Rightarrow> 't list"
  assumes same_refl: "same t t"
    and same_sym: "same t u \<Longrightarrow> same u t"
    and same_trans: "same t u \<Longrightarrow> same u v \<Longrightarrow> same t v"
    and has_add: "has u (add t ts) \<longleftrightarrow> same t u \<or> has u ts"
    and has_remove: "has u (remove t ts) \<longleftrightarrow> \<not> same t u \<and> has u ts"
    and add_present: "has t ts \<Longrightarrow> add t ts = ts"
    and remove_absent: "\<not> has t ts \<Longrightarrow> remove t ts = ts"
begin

lemma add_idem: "add t (add t ts) = add t ts"
  by (simp add: add_present has_add same_refl)

lemma remove_idem: "remove t (remove t ts) = remove t ts"
  by (simp add: remove_absent has_remove same_refl)

lemma add_then_remove: "\<not> has t ts \<Longrightarrow> has u (remove t (add t ts)) \<longleftrightarrow> has u ts"
  by (metis has_add has_remove remove_absent)

lemma owners_apart: "\<not> same t u \<Longrightarrow> has u (remove t (add t ts)) \<longleftrightarrow> has u ts"
  by (simp add: has_add has_remove)

end

lemma hasTaint_iff: "hasTaint t ts \<longleftrightarrow> (\<exists>x \<in> set ts. taintsEqual x t)"
  by (simp add: hasTaint_def list_ex_iff)

lemma taintsEqual_sym: "taintsEqual a b \<longleftrightarrow> taintsEqual b a"
  by (auto simp: taintsEqual_def)

lemma taintsEqual_trans: "taintsEqual a b \<Longrightarrow> taintsEqual b c \<Longrightarrow> taintsEqual a c"
  by (simp add: taintsEqual_def)

lemma hasTaint_dropTaint: "hasTaint u (dropTaint t ts) \<longleftrightarrow> \<not> taintsEqual t u \<and> hasTaint u ts"
  by (auto simp: hasTaint_iff dropTaint_def taintsEqual_def)

interpretation nt: taint_ops taintsEqual hasTaint addTaint dropTaint
proof unfold_locales
  fix t u :: taint and ts
  show "hasTaint u (addTaint t ts) \<longleftrightarrow> taintsEqual t u \<or> hasTaint u ts"
    by (auto simp: addTaint_def hasTaint_iff intro: taintsEqual_trans)
  show "hasTaint u (dropTaint t ts) \<longleftrightarrow> \<not> taintsEqual t u \<and> hasTaint u ts"
    by (rule hasTaint_dropTaint)
  show "\<not> hasTaint t ts \<Longrightarrow> dropTaint t ts = ts"
    by (auto simp: hasTaint_iff dropTaint_def intro: filter_True)
qed (auto simp: taintsEqual_def addTaint_def)

section \<open>What a client promises about Nodes\<close>

text \<open>
  \<open>nodeOf w n\<close> is the Node stored under a name. A read returns the stored object and changes no
  Node; an update that succeeds stores exactly the given object under its name, one that fails
  stores nothing; a list returns every stored Node. This is what the API documents; whether a call
  succeeds is left open.
\<close>

definition carriesTaint :: "('w \<Rightarrow> string \<Rightarrow> node option) \<Rightarrow> 'w \<Rightarrow> string \<Rightarrow> taint \<Rightarrow> bool" where
  "carriesTaint nodeOf w n t \<longleftrightarrow>
     (case nodeOf w n of None \<Rightarrow> False | Some nd \<Rightarrow> hasTaint t (nodeTaints nd))"

locale node_store =
  fixes C :: "('w, 'x) client_scheme"
    and nodeOf :: "'w \<Rightarrow> string \<Rightarrow> node option"
  assumes stored_name: "nodeOf w n = Some nd \<Longrightarrow> nodeName nd = n"
    and get_frame: "run_state (cGetNode C n) w = (r, w') \<Longrightarrow> nodeOf w' = nodeOf w"
    and get_ok: "run_state (cGetNode C n) w = (Inr nd, w') \<Longrightarrow> nodeOf w n = Some nd"
    and update_ok: "run_state (cUpdateNode C nd) w = (None, w') \<Longrightarrow>
       nodeOf w' = (nodeOf w)(nodeName nd \<mapsto> nd)"
    and update_err: "run_state (cUpdateNode C nd) w = (Some e, w') \<Longrightarrow> nodeOf w' = nodeOf w"
    and list_frame: "run_state (cListNodes C sel) w = (rs, w') \<Longrightarrow> nodeOf w' = nodeOf w"
    and list_ok: "run_state (cListNodes C []) w = (Inr nds, w') \<Longrightarrow> nodeOf w n = Some nd \<Longrightarrow>
       nd \<in> set nds"
begin

lemma ensure_ok:
  assumes "run_state (EnsureNodeTaint C n t) w = (Inr b, w')"
  shows "carriesTaint nodeOf w' m u \<longleftrightarrow> m = n \<and> taintsEqual t u \<or> carriesTaint nodeOf w m u"
proof -
  obtain r w1 where get: "run_state (cGetNode C n) w = (r, w1)" by fastforce
  with assms obtain nd where r: "r = Inr nd"
    by (auto simp: EnsureNodeTaint_def split: sum.splits)
  note stored = get_ok [OF get [unfolded r]] and frame = get_frame [OF get]
  show ?thesis
  proof (cases "hasTaint t (nodeTaints nd)")
    case True
    then have "w' = w1" using assms get r by (simp add: EnsureNodeTaint_def)
    then show ?thesis
      using True stored frame nt.has_add [of u t "nodeTaints nd"] nt.add_present [of t "nodeTaints nd"]
      by (auto simp: carriesTaint_def)
  next
    case False
    then obtain u' where upd: "run_state (cUpdateNode C (nd\<lparr>nodeTaints := addTaint t (nodeTaints nd)\<rparr>)) w1
        = (u', w')" and "u' = None"
      using assms get r by (auto simp: EnsureNodeTaint_def split: prod.splits option.splits)
    then have "nodeOf w' = (nodeOf w)(n \<mapsto> nd\<lparr>nodeTaints := addTaint t (nodeTaints nd)\<rparr>)"
      using update_ok [OF upd [unfolded \<open>u' = None\<close>]] frame stored_name [OF stored] by simp
    then show ?thesis using stored by (auto simp: carriesTaint_def nt.has_add)
  qed
qed

lemma ensure_err:
  assumes "run_state (EnsureNodeTaint C n t) w = (Inl e, w')"
  shows "nodeOf w' = nodeOf w"
  using assms get_frame update_err
  by (auto simp: EnsureNodeTaint_def split: prod.splits sum.splits if_splits option.splits)

lemma remove_ok:
  assumes "run_state (RemoveNodeTaint C n t) w = (Inr b, w')"
  shows "carriesTaint nodeOf w' m u \<longleftrightarrow> \<not> (m = n \<and> taintsEqual t u) \<and> carriesTaint nodeOf w m u"
proof -
  obtain r w1 where get: "run_state (cGetNode C n) w = (r, w1)" by fastforce
  with assms obtain nd where r: "r = Inr nd"
    by (auto simp: RemoveNodeTaint_def split: sum.splits)
  note stored = get_ok [OF get [unfolded r]] and frame = get_frame [OF get]
  show ?thesis
  proof (cases "hasTaint t (nodeTaints nd)")
    case False
    then have "w' = w1" using assms get r by (simp add: RemoveNodeTaint_def)
    then show ?thesis
      using False stored frame nt.has_remove [of u t "nodeTaints nd"] nt.remove_absent [of t "nodeTaints nd"]
      by (auto simp: carriesTaint_def)
  next
    case True
    then obtain u' where upd: "run_state (cUpdateNode C (nd\<lparr>nodeTaints := dropTaint t (nodeTaints nd)\<rparr>)) w1
        = (u', w')" and "u' = None"
      using assms get r by (auto simp: RemoveNodeTaint_def split: prod.splits option.splits)
    then have "nodeOf w' = (nodeOf w)(n \<mapsto> nd\<lparr>nodeTaints := dropTaint t (nodeTaints nd)\<rparr>)"
      using update_ok [OF upd [unfolded \<open>u' = None\<close>]] frame stored_name [OF stored] by simp
    then show ?thesis using stored by (auto simp: carriesTaint_def nt.has_remove)
  qed
qed

lemma remove_err:
  assumes "run_state (RemoveNodeTaint C n t) w = (Inl e, w')"
  shows "nodeOf w' = nodeOf w"
  using assms get_frame update_err
  by (auto simp: RemoveNodeTaint_def split: prod.splits sum.splits if_splits option.splits)

lemma tainted_ok:
  assumes "run_state (NodesWithTaint C t) w = (Inr ns, w')"
  shows "nodeOf w' = nodeOf w" and "carriesTaint nodeOf w n t \<Longrightarrow> n \<in> set ns"
proof -
  obtain r w1 where l: "run_state (cListNodes C []) w = (r, w1)" by fastforce
  with assms obtain nds where r: "r = Inr nds" and w': "w' = w1"
    and ns: "ns = map nodeName (filter (\<lambda>nd. hasTaint t (nodeTaints nd)) nds)"
    by (auto simp: NodesWithTaint_def split: sum.splits)
  show "nodeOf w' = nodeOf w" using list_frame [OF l] w' by simp
  assume "carriesTaint nodeOf w n t"
  then obtain nd where nd: "nodeOf w n = Some nd" "hasTaint t (nodeTaints nd)"
    by (auto simp: carriesTaint_def split: option.splits)
  with list_ok [OF l [unfolded r]] stored_name show "n \<in> set ns" by (force simp: ns)
qed

lemma tainted_err:
  assumes "run_state (NodesWithTaint C t) w = (Inl e, w')"
  shows "nodeOf w' = nodeOf w"
  using assms list_frame by (auto simp: NodesWithTaint_def split: prod.splits sum.splits)

end

text \<open>A client whose calls on stored Nodes do not fail.\<close>

locale reliable_nodes = node_store C nodeOf
  for C :: "('w, 'x) client_scheme" and nodeOf :: "'w \<Rightarrow> string \<Rightarrow> node option" +
  assumes get_succeeds: "nodeOf w n = Some nd \<Longrightarrow> \<exists>w'. run_state (cGetNode C n) w = (Inr nd, w')"
    and update_succeeds: "nodeOf w (nodeName nd) \<noteq> None \<Longrightarrow> \<exists>w'. run_state (cUpdateNode C nd) w = (None, w')"
    and list_succeeds: "\<exists>nds w'. run_state (cListNodes C []) w = (Inr nds, w')"
    and list_names: "run_state (cListNodes C []) w = (Inr nds, w') \<Longrightarrow> nd \<in> set nds \<Longrightarrow>
       nodeOf w (nodeName nd) \<noteq> None"
begin

lemma remove_succeeds:
  assumes "nodeOf w n = Some nd"
  shows "\<exists>b w'. run_state (RemoveNodeTaint C n t) w = (Inr b, w')"
proof -
  obtain w1 where g: "run_state (cGetNode C n) w = (Inr nd, w1)" using get_succeeds [OF assms] by blast
  have "nodeOf w1 (nodeName nd) \<noteq> None" using get_frame [OF g] assms stored_name by fastforce
  then obtain w2 where "run_state (cUpdateNode C (nd\<lparr>nodeTaints := dropTaint t (nodeTaints nd)\<rparr>)) w1 = (None, w2)"
    using update_succeeds [where nd = "nd\<lparr>nodeTaints := dropTaint t (nodeTaints nd)\<rparr>"] by auto
  with g show ?thesis by (auto simp: RemoveNodeTaint_def)
qed

end

definition memNode :: "'a mem_scheme \<Rightarrow> string \<Rightarrow> node option" where
  "memNode m n = find (\<lambda>x. nodeName x = n) (mNodes m)"

lemma find_map_other: "n \<noteq> f y \<Longrightarrow>
   find (\<lambda>x. f x = n) (map (\<lambda>x. if f x = f y then y else x) xs) = find (\<lambda>x. f x = n) xs"
  by (induction xs) auto

lemma find_map_replace:
  "list_ex (\<lambda>x. f x = f y) xs \<Longrightarrow>
   find (\<lambda>x. f x = n) (map (\<lambda>x. if f x = f y then y else x) xs)
     = (if n = f y then Some y else find (\<lambda>x. f x = n) xs)"
  by (induction xs) (auto simp: find_map_other)

interpretation memNodes: reliable_nodes memClient memNode
proof unfold_locales
  show "memNode w n = Some nd \<Longrightarrow> nodeName nd = n" for w n nd
    by (auto simp: memNode_def find_Some_iff)
  show "run_state (cListNodes memClient []) w = (Inr nds, w') \<Longrightarrow> memNode w n = Some nd \<Longrightarrow> nd \<in> set nds"
    for w n nd nds w'
    by (auto simp: memClient_def memNode_def find_Some_iff)
  show "run_state (cUpdateNode memClient nd) w = (None, w') \<Longrightarrow>
     memNode w' = (memNode w)(nodeName nd \<mapsto> nd)" for nd w w'
    by (auto simp: memClient_def memUpdateNode_def memNode_def fun_eq_iff find_map_replace
        split: if_splits)
  show "memNode w (nodeName nd) \<noteq> None \<Longrightarrow> \<exists>w'. run_state (cUpdateNode memClient nd) w = (None, w')" for w nd
    by (auto simp: memClient_def memUpdateNode_def memNode_def find_Some_iff list_ex_iff)
  show "run_state (cListNodes memClient []) w = (Inr nds, w') \<Longrightarrow> nd \<in> set nds \<Longrightarrow>
     memNode w (nodeName nd) \<noteq> None" for w nds w' nd
    by (auto simp: memClient_def memNode_def find_None_iff)
qed (auto simp: memClient_def memUpdateNode_def memNode_def findRes_def
    split: if_splits option.splits)

end
