(* ===== verification/RecoveryNames.thy ===== *)
theory RecoveryNames
  imports RecoveryTypes Sha256 Drain
begin

text \<open>
  Names and command lines of the recovery controller (\<^verbatim>\<open>gpurecoveryplan_helpers.go\<close>,
  \<^verbatim>\<open>gpurecoveryplan_const.go\<close>): event IDs, Job names, the shape check on PCI addresses and the
  shell commands the recovery Jobs run. Kubernetes' \<^verbatim>\<open>validation.IsDNS1123Subdomain\<close> is not part
  of the repository; it is the parameter \<open>dns\<close>, which returns the list of complaints.
\<close>

section \<open>Constants\<close>

definition maxRecoveryNameLen :: nat where "maxRecoveryNameLen = 63"
definition nodeSegmentMax :: nat where "nodeSegmentMax = 26"
definition idHashLen :: nat where "idHashLen = 6"
definition reflashStagingDir :: string where "reflashStagingDir = ''/update''"
definition firmwareImageDir :: string where "firmwareImageDir = ''/fwupdate''"
definition reasonWedged :: string where "reasonWedged = ''gpu-wedged''"
definition reasonSurvivability :: string where "reasonSurvivability = ''survivability-mode''"

lemmas name_consts = maxRecoveryNameLen_def nodeSegmentMax_def idHashLen_def

section \<open>What a device needs\<close>

datatype deviceKey = DeviceKey (dkNode: string) (dkBDF: string)

record deviceNeed =
  needRT :: RecoveryType
  needReason :: string

definition emptyNeed :: deviceNeed where
  "emptyNeed = \<lparr>needRT = noType, needReason = ''''\<rparr>"

definition deviceAttributeString :: "(string \<times> string option) list \<Rightarrow> string \<Rightarrow> string" where
  "deviceAttributeString attrs name =
     (case map_of attrs name of None \<Rightarrow> '''' | Some None \<Rightarrow> '''' | Some (Some s) \<Rightarrow> s)"

definition resetTypeOrDefault :: "RecoveryType \<Rightarrow> RecoveryType" where
  "resetTypeOrDefault rt = (if rt = noType then SBR else rt)"

definition taintToDeviceNeed :: "string \<Rightarrow> RecoveryType \<Rightarrow> deviceNeed option" where
  "taintToDeviceNeed key defaultReset =
     (case RecoveryForDeviceTaint key of
        DeviceRecoveryReset \<Rightarrow>
          Some \<lparr>needRT = resetTypeOrDefault defaultReset, needReason = reasonWedged\<rparr>
      | DeviceRecoveryReflash \<Rightarrow> Some \<lparr>needRT = Reflash, needReason = reasonSurvivability\<rparr>
      | DeviceRecoveryNone \<Rightarrow> None)"

definition recoveryTypePriority :: "RecoveryType \<Rightarrow> int" where
  "recoveryTypePriority rt =
     (case rt of Reflash \<Rightarrow> 2 | SBR \<Rightarrow> 1 | Slot \<Rightarrow> 1 | AMC \<Rightarrow> 1 | OtherType _ \<Rightarrow> 0)"

definition higherPriorityNeed :: "deviceNeed \<Rightarrow> deviceNeed \<Rightarrow> deviceNeed" where
  "higherPriorityNeed a b =
     (if recoveryTypePriority (needRT b) > recoveryTypePriority (needRT a) then b else a)"

section \<open>Segments, event IDs and Job names\<close>

definition segmentRuneOk :: "nat \<Rightarrow> bool" where
  "segmentRuneOk r \<longleftrightarrow> 97 \<le> r \<and> r \<le> 122 \<or> 48 \<le> r \<and> r \<le> 57 \<or> r = 45"

definition sanitizeSegment :: "string \<Rightarrow> string" where
  "sanitizeSegment s =
     trimOf (\<lambda>c. c = CHR ''-'')
       (map (\<lambda>r. if segmentRuneOk (lowerRune r) then char_of (lowerRune r) else CHR ''-'')
         (rangeString s))"

definition hashSegment :: "string \<Rightarrow> string" where
  "hashSegment s = take idHashLen (hexSum s)"

definition nodeSegment :: "string \<Rightarrow> string" where
  "nodeSegment n =
     (let safe = sanitizeSegment n
      in if length safe \<le> nodeSegmentMax then safe
         else trimOf (\<lambda>c. c = CHR ''-'') (take (nodeSegmentMax - idHashLen - 1) safe)
                @ ''-'' @ hashSegment n)"

definition idBudget :: nat where
  "idBudget = maxRecoveryNameLen - length ''recovery-'' - length ''-99''"

definition generateEventID ::
  "(string \<Rightarrow> string list) \<Rightarrow> string \<Rightarrow> string \<Rightarrow> RecoveryType \<Rightarrow> string" where
  "generateEventID dns n bdf rt =
     (let ident = ''evt-'' @ nodeSegment n @ ''-'' @ rtString rt @ ''-'' @ sanitizeSegment bdf
      in if dns ident \<noteq> [] \<or> length ident > idBudget
         then ''evt-'' @ rtString rt @ ''-'' @ hashSegment (n @ ''/'' @ bdf)
         else ident)"

definition recoveryJobName :: "(string \<Rightarrow> string list) \<Rightarrow> string \<Rightarrow> nat \<Rightarrow> string" where
  "recoveryJobName dns eventID attempt =
     (let name = ''recovery-'' @ eventID @ ''-'' @ natStr attempt
      in if length name \<le> maxRecoveryNameLen \<and> dns name = [] then name
         else ''recovery-'' @ hashSegment eventID @ ''-'' @ natStr attempt)"

section \<open>PCI addresses and command lines\<close>

definition validDeviceBDF :: "string \<Rightarrow> bool" where
  "validDeviceBDF =
     matchClasses
       [isHexChar, isHexChar, isHexChar, isHexChar, (\<lambda>c. c = CHR '':''), isHexChar, isHexChar,
        (\<lambda>c. c = CHR '':''), isHexChar, isHexChar, (\<lambda>c. c = CHR ''.''),
        (\<lambda>c. c \<in> set ''01234567'')]"

definition buildResetCommand :: "string \<Rightarrow> RecoveryType \<Rightarrow> string" where
  "buildResetCommand bdf rt =
     (case rt of
        SBR \<Rightarrow> ''xpu-smi config -d '' @ bdf @ '' --reset''
      | Slot \<Rightarrow> ''xpu-smi config -d '' @ bdf @ '' --coldreset --force-reset-gpus''
      | AMC \<Rightarrow> ''xpu-smi amc --gpureset -d '' @ bdf @ '' -y''
      | _ \<Rightarrow> '''')"

definition buildFDOFlashCommand :: "string \<Rightarrow> string \<Rightarrow> string" where
  "buildFDOFlashCommand bdf file =
     ''xpu-smi updatefw -d '' @ bdf @ '' -t FDO -f '' @ reflashStagingDir @ ''/'' @ file
       @ '' -y --force''"

definition firmwareImagePath :: "string \<Rightarrow> string" where
  "firmwareImagePath file = firmwareImageDir @ ''/'' @ file"

section \<open>Alphabet and length of segments\<close>

text \<open>The characters a DNS-1123 label is made of, and the shape of a name built from them.\<close>

definition slugChar :: "char \<Rightarrow> bool" where
  "slugChar c \<longleftrightarrow> isLowerChar c \<or> isDigitChar c \<or> c = CHR ''-''"

definition slug :: "string \<Rightarrow> bool" where
  "slug s \<longleftrightarrow> list_all slugChar s \<and> s \<noteq> [] \<and> hd s \<noteq> CHR ''-'' \<and> last s \<noteq> CHR ''-''"

lemma upt_char_97: "[97..<123] = map of_char ''abcdefghijklmnopqrstuvwxyz''"
  by (simp add: upt_rec)

lemma upt_char_48: "[48..<58] = map of_char ''0123456789''"
  by (simp add: upt_rec)

lemma slugChar_rune: "segmentRuneOk r \<Longrightarrow> slugChar (char_of r)"
proof -
  assume "segmentRuneOk r"
  then consider "97 \<le> r \<and> r < 123" | "48 \<le> r \<and> r < 58" | "r = 45"
    by (force simp: segmentRuneOk_def)
  then show ?thesis
  proof cases
    case 1
    then have "r \<in> set [97..<123]" by (simp only: set_upt atLeastLessThan_iff)
    then obtain c where "r = of_char c" and "isLowerChar c"
      unfolding upt_char_97 set_map isLowerChar_def by (rule imageE)
    then show ?thesis by (simp add: slugChar_def)
  next
    case 2
    then have "r \<in> set [48..<58]" by (simp only: set_upt atLeastLessThan_iff)
    then obtain c where "r = of_char c" and "isDigitChar c"
      unfolding upt_char_48 set_map isDigitChar_def by (rule imageE)
    then show ?thesis by (simp add: slugChar_def)
  next
    case 3
    then have "r = of_char (CHR ''-'')" by simp
    then show ?thesis by (simp only: char_of_char slugChar_def simp_thms)
  qed
qed

lemma sanitizeSegment_chars: "list_all slugChar (sanitizeSegment s)"
proof -
  have "list_all slugChar
     (map (\<lambda>r. if segmentRuneOk (lowerRune r) then char_of (lowerRune r) else CHR ''-'') (rangeString s))"
    by (auto simp: list_all_iff slugChar_rune) (simp add: slugChar_def)
  then show ?thesis using set_trimOf by (fastforce simp: sanitizeSegment_def list_all_iff)
qed

lemma sanitizeSegment_ends:
  "sanitizeSegment s \<noteq> [] \<Longrightarrow> hd (sanitizeSegment s) \<noteq> CHR ''-'' \<and> last (sanitizeSegment s) \<noteq> CHR ''-''"
  using hd_trimOf last_trimOf unfolding sanitizeSegment_def by fast

lemma length_sanitizeSegment: "length (sanitizeSegment s) \<le> length s"
  using order_trans [OF length_trimOf length_map [THEN eq_imp_le, THEN order_trans, OF length_rangeString]]
  by (simp add: sanitizeSegment_def)

lemma length_hashSegment [simp]: "length (hashSegment s) = 6"
  by (simp add: hashSegment_def length_hexSum idHashLen_def)

lemma slugChar_hex: "isLowerHexChar c \<Longrightarrow> slugChar c"
  by (auto simp: isLowerHexChar_def slugChar_def isLowerChar_def isDigitChar_def)

lemma hashSegment_hex: "c \<in> set (hashSegment s) \<Longrightarrow> isLowerHexChar c"
  by (auto simp: hashSegment_def dest!: in_set_takeD intro: hexSum_class)

lemma hashSegment_chars: "list_all slugChar (hashSegment s)"
  by (auto simp: list_all_iff dest: hashSegment_hex slugChar_hex)

lemma hashSegment_nonempty: "hashSegment s \<noteq> []"
  using length_hashSegment [of s] by (metis length_0_conv zero_neq_numeral)

lemma hashSegment_last: "last (hashSegment s) \<noteq> CHR ''-''"
  using hashSegment_hex [OF last_in_set [OF hashSegment_nonempty [of s]]]
  by (auto simp: isLowerHexChar_def)

lemma length_nodeSegment: "length (nodeSegment n) \<le> 26"
proof (cases "length (sanitizeSegment n) \<le> nodeSegmentMax")
  case True
  then show ?thesis by (simp add: nodeSegment_def Let_def nodeSegmentMax_def)
next
  case False
  have "length (trimOf (\<lambda>c. c = CHR ''-'') (take 19 (sanitizeSegment n))) \<le> 19"
    by (rule order_trans [OF length_trimOf]) simp
  then show ?thesis using False by (simp add: nodeSegment_def Let_def name_consts)
qed

lemma nodeSegment_chars: "list_all slugChar (nodeSegment n)"
proof (cases "length (sanitizeSegment n) \<le> nodeSegmentMax")
  case True
  then show ?thesis by (simp add: nodeSegment_def Let_def sanitizeSegment_chars)
next
  case False
  have "list_all slugChar (trimOf (\<lambda>c. c = CHR ''-'') (take k (sanitizeSegment n)))" for k
    using sanitizeSegment_chars [of n] set_trimOf
    by (fastforce simp: list_all_iff dest: in_set_takeD)
  then show ?thesis using False
    by (simp add: nodeSegment_def Let_def hashSegment_chars) (simp add: slugChar_def)
qed

lemma rtString_closed:
  "rt \<in> {SBR, Slot, AMC, Reflash} \<Longrightarrow> list_all slugChar (rtString rt) \<and> length (rtString rt) \<le> 7"
  by (auto simp: rtString_def slugChar_def isLowerChar_def)

lemma validDeviceBDF_length: "validDeviceBDF bdf \<Longrightarrow> length bdf = 12"
  unfolding validDeviceBDF_def by (drule matchClasses_length) simp

definition bdfChar :: "char \<Rightarrow> bool" where
  "bdfChar c \<longleftrightarrow> isHexChar c \<or> c = CHR '':'' \<or> c = CHR ''.''"

lemma validDeviceBDF_chars: "validDeviceBDF bdf \<Longrightarrow> list_all bdfChar bdf"
  unfolding validDeviceBDF_def list_all_iff
  by (auto dest!: matchClasses_set simp: bdfChar_def isHexChar_def)

end
