(* ===== verification/RecoveryEvents.thy ===== *)
theory RecoveryEvents
  imports RecoveryNames
begin

text \<open>
  The recovery controller's operations on one event and on the plan's status that make no call into
  the cluster (\<^verbatim>\<open>gpurecoveryplan_helpers.go\<close>). An operation that takes \<^verbatim>\<open>plan\<close> and a pointer
  \<^verbatim>\<open>evt\<close> into \<^verbatim>\<open>plan.Status.Events\<close> is a function that returns both. \<^verbatim>\<open>time.Now()\<close> is the
  argument \<open>now\<close>. Log lines are left out.
\<close>

section \<open>Constants\<close>

definition maxStatusMessages :: nat where "maxStatusMessages = 50"
definition maxStatusEvents :: nat where "maxStatusEvents = 1000"
definition maxStateMessageLen :: nat where "maxStateMessageLen = 200"
definition maxPodsBlockingDrainReported :: nat where "maxPodsBlockingDrainReported = 10"
definition recoveryTaintKey :: string where
  "recoveryTaintKey = ''gpurecoveryplan.intel.com/recovery''"
definition recoveryPlanFinalizer :: string where
  "recoveryPlanFinalizer = ''gpurecoveryplan.intel.com/finalizer''"
definition recoveryJobLabelPlan :: string where
  "recoveryJobLabelPlan = ''gpurecoveryplan.intel.com/plan''"
definition recoveryJobLabelEvent :: string where
  "recoveryJobLabelEvent = ''gpurecoveryplan.intel.com/event''"
definition defaultDrainTimeout :: int64 where "defaultDrainTimeout = 300 * second"
definition defaultResetJobTimeout :: int64 where "defaultResetJobTimeout = 300"
definition defaultReflashJobTimeout :: int64 where "defaultReflashJobTimeout = 600"
definition recoveryJobVerdictGrace :: int64 where "recoveryJobVerdictGrace = 60 * second"

section \<open>Bounded text\<close>

fun backOff :: "string \<Rightarrow> nat \<Rightarrow> nat" where
  "backOff s 0 = 0"
| "backOff s (Suc k) = (if runeStart (s ! Suc k) then Suc k else backOff s k)"

definition capString :: "string \<Rightarrow> nat \<Rightarrow> string" where
  "capString s limit =
     (if length s \<le> limit then s else take (backOff s (limit - 3)) s @ ''...'')"

definition capStrings :: "string list \<Rightarrow> nat \<Rightarrow> string list" where
  "capStrings items limit =
     (if items = [] then []
      else if length items \<le> limit then items
      else take limit items @ [''... and '' @ natStr (length items - limit) @ '' more''])"

definition appendMessage :: "plan \<Rightarrow> string \<Rightarrow> plan" where
  "appendMessage p msg =
     (if messages p \<noteq> [] \<and> last (messages p) = msg then p
      else setMessages (lastn maxStatusMessages (messages p @ [msg])) p)"

section \<open>States of an event\<close>

definition setEventState :: "time \<Rightarrow> event \<Rightarrow> RecoveryEventState \<Rightarrow> string \<Rightarrow> event" where
  "setEventState now evt st text =
     (let msg = capString text maxStateMessageLen
      in if evState evt = st \<and> evStateMessage evt = msg \<and> evLastUpdated evt \<noteq> None then evt
         else evt\<lparr>evState := st, evStateMessage := msg, evLastUpdated := Some now\<rparr>)"

definition clearImageVerifyHold :: "event \<Rightarrow> event" where
  "clearImageVerifyHold evt = evt\<lparr>evImageVerifyGeneration := 0, evStateMessage := ''''\<rparr>"

definition needsDrain :: "plan \<Rightarrow> event \<Rightarrow> bool" where
  "needsDrain p evt \<longleftrightarrow> Enabled (spDrain (plSpec p)) \<and> \<not> IsReflash (evRecoveryType evt)"

definition inFlight :: "event \<Rightarrow> bool" where
  "inFlight evt \<longleftrightarrow> evState evt = Draining \<or> evState evt = InProgress"

definition nodeBusyWith :: "plan \<Rightarrow> event \<Rightarrow> string option" where
  "nodeBusyWith p evt =
     map_option evID
       (find (\<lambda>other. evID other \<noteq> evID evt \<and> evNodeName other = evNodeName evt \<and> inFlight other)
         (events p))"

definition blockEvent :: "time \<Rightarrow> plan \<Rightarrow> event \<Rightarrow> string \<Rightarrow> plan \<times> event" where
  "blockEvent now p evt blockerID =
     (if evState evt = Blocked then (p, evt)
      else (appendMessage p (''Event '' @ evID evt @ '': held back '' @ emDash @ '' recovery ''
              @ blockerID @ '' is already running on node '' @ evNodeName evt @ ''; approval retained''),
            setEventState now evt Blocked (''recovery '' @ blockerID @ '' is already running on node ''
              @ evNodeName evt @ ''; approval retained'')))"

definition beginDrain :: "time \<Rightarrow> plan \<Rightarrow> event \<Rightarrow> plan \<times> event" where
  "beginDrain now p evt =
     (let evt' = setEventState now evt Draining ''''
      in (appendMessage p (''Event '' @ evID evt @ '': draining node '' @ evNodeName evt
            @ '' before '' @ rtString (rtType (evRecoveryType evt)) @ '' reset''),
          evt'\<lparr>evDrainStartedAt := evLastUpdated evt'\<rparr>))"

definition drainTimeout :: "plan \<Rightarrow> int64" where
  "drainTimeout p =
     (let timeout = scast (dsTimeoutSeconds (spDrain (plSpec p))) * second
      in if sint timeout \<le> 0 then defaultDrainTimeout else timeout)"

definition drainDeadlineExceeded :: "time \<Rightarrow> plan \<Rightarrow> event \<Rightarrow> event \<times> bool" where
  "drainDeadlineExceeded now p evt =
     (case evDrainStartedAt evt of
        None \<Rightarrow> (evt\<lparr>evDrainStartedAt := Some now\<rparr>, False)
      | Some t \<Rightarrow> (evt, sint (timeSince now t) > sint (drainTimeout p)))"

definition drainBlockerDetail :: "string list \<Rightarrow> string list \<Rightarrow> string" where
  "drainBlockerDetail blocking claims =
     natStr (length blocking) @ '' pod(s) still present''
     @ (if claims \<noteq> []
        then '', '' @ natStr (length claims) @ '' ResourceClaim(s) still reserving the GPU''
        else '''')"

definition failDrain :: "time \<Rightarrow> plan \<Rightarrow> event \<Rightarrow> string \<Rightarrow> plan \<times> event" where
  "failDrain now p evt cause =
     (let evt' = setEventState now (evt\<lparr>evDrainStartedAt := None\<rparr>) Failed
            (''drain of node '' @ evNodeName evt @ '' timed out after ''
             @ itoa (sint (dsTimeoutSeconds (spDrain (plSpec p)))) @ ''s ('' @ cause
             @ ''); reset not attempted'')
      in (appendMessage p (''Event '' @ evID evt @ '': '' @ evStateMessage evt'), evt'))"

section \<open>Job verdicts\<close>

definition recoveryJobTimeout :: "plan \<Rightarrow> event \<Rightarrow> int64" where
  "recoveryJobTimeout p evt =
     (let tm = spTimeouts (plSpec p)
      in if IsReflash (evRecoveryType evt)
         then (if sint (tmReflashSeconds tm) > 0 then scast (tmReflashSeconds tm)
               else defaultReflashJobTimeout)
         else (if sint (tmResetSeconds tm) > 0 then scast (tmResetSeconds tm)
               else defaultResetJobTimeout))"

definition jobTerminalCondition :: "job \<Rightarrow> jobCondition option" where
  "jobTerminalCondition j =
     find (\<lambda>c. condStatus c = ''True'' \<and> (condType c = ''Complete'' \<or> condType c = ''Failed''))
       (jobConditions j)"

definition jobIsTerminal :: "job \<Rightarrow> bool" where
  "jobIsTerminal j \<longleftrightarrow> jobTerminalCondition j \<noteq> None"

definition jobStartedAt :: "job \<Rightarrow> time option" where
  "jobStartedAt j = (case jobStartTime j of Some t \<Rightarrow> Some t | None \<Rightarrow> jobCreation j)"

definition jobDeadlineSeconds :: "plan \<Rightarrow> event \<Rightarrow> job \<Rightarrow> int64" where
  "jobDeadlineSeconds p evt j =
     (case jobActiveDeadline j of
        Some d \<Rightarrow> if sint d > 0 then d else recoveryJobTimeout p evt
      | None \<Rightarrow> recoveryJobTimeout p evt)"

definition jobVerdictOverdue :: "time \<Rightarrow> int64 \<Rightarrow> time option \<Rightarrow> bool" where
  "jobVerdictOverdue now deadlineSeconds since =
     (case since of
        None \<Rightarrow> False
      | Some t \<Rightarrow> sint (timeSince now t) > sint (deadlineSeconds * second + recoveryJobVerdictGrace))"

definition jobFailureDetail :: "jobCondition \<Rightarrow> string" where
  "jobFailureDetail c =
     (if condReason c \<noteq> '''' \<and> condMessage c \<noteq> '''' then condReason c @ '' ('' @ condMessage c @ '')''
      else if condReason c \<noteq> '''' then condReason c
      else if condMessage c \<noteq> '''' then condMessage c
      else ''no reason reported by the Job controller'')"

definition failEventJob :: "time \<Rightarrow> plan \<Rightarrow> event \<Rightarrow> string \<Rightarrow> plan \<times> event" where
  "failEventJob now p evt detail =
     (let evt1 = evt\<lparr>evPastJobs := evPastJobs evt @ [evJobName evt], evJobName := ''''\<rparr>;
          attempt = natStr (length (evPastJobs evt1))
      in (appendMessage p (''Event '' @ evID evt @ '': attempt '' @ attempt @ '' failed: '' @ detail
            @ '' '' @ emDash @ '' pods retained until taint clears''),
          setEventState now evt1 Failed (''attempt '' @ attempt @ '' failed: '' @ detail)))"

definition applyJobVerdict :: "time \<Rightarrow> plan \<Rightarrow> event \<Rightarrow> jobCondition \<Rightarrow> plan \<times> event" where
  "applyJobVerdict now p evt c =
     (if condType c = ''Complete''
      then (appendMessage p (''Event '' @ evID evt @ '': recovery Job '' @ evJobName evt
              @ '' succeeded '' @ emDash @ '' pods retained until taint clears''),
            setEventState now
              (evt\<lparr>evPastJobs := evPastJobs evt @ [evJobName evt], evJobName := ''''\<rparr>) Succeeded '''')
      else failEventJob now p evt
             (''recovery Job '' @ evJobName evt @ '' failed: '' @ jobFailureDetail c))"

section \<open>Creating and escalating events\<close>

definition findEventForDevice :: "plan \<Rightarrow> string \<Rightarrow> string \<Rightarrow> nat option" where
  "findEventForDevice p n bdf =
     find (\<lambda>i. evNodeName (events p ! i) = n \<and> evGPUBDF (events p ! i) = bdf) [0..<length (events p)]"

definition newEvent :: "string \<Rightarrow> string \<Rightarrow> string \<Rightarrow> deviceNeed \<Rightarrow> event" where
  "newEvent ident n bdf need =
     \<lparr>evID = ident, evApprovalID = '''', evApprovalMatchedAt = None, evNodeName = n, evGPUBDF = bdf,
      evReason = needReason need, evRecoveryType = \<lparr>rtType = needRT need, rtSuggestedType = noType\<rparr>,
      evState = WaitingApproval, evStateMessage = '''', evImageVerifyGeneration = 0,
      evDrainStartedAt = None, evPodsBlockingDrain = [], evClaimsBlockingReset = [],
      evJobName = '''', evPastJobs = [], evLastUpdated = None\<rparr>"

definition addRecoveryEvent ::
  "(string \<Rightarrow> string list) \<Rightarrow> time \<Rightarrow> plan \<Rightarrow> string \<Rightarrow> string \<Rightarrow> deviceNeed \<Rightarrow> plan" where
  "addRecoveryEvent dns now p n bdf need =
     setEvents (events p
       @ [setEventState now (newEvent (generateEventID dns n bdf (needRT need)) n bdf need)
            WaitingApproval '''']) p"

definition escalateEvent ::
  "(string \<Rightarrow> string list) \<Rightarrow> time \<Rightarrow> plan \<Rightarrow> event \<Rightarrow> deviceNeed \<Rightarrow> plan \<times> event" where
  "escalateEvent dns now p evt need =
     (if recoveryTypePriority (needRT need) \<le> recoveryTypePriority (rtType (evRecoveryType evt))
      then (p, evt)
      else if evState evt = InProgress then (p, evt)
      else let oldType = rtType (evRecoveryType evt);
               newID = generateEventID dns (evNodeName evt) (evGPUBDF evt) (needRT need);
               evt1 = clearImageVerifyHold
                 (evt\<lparr>evID := newID,
                      evRecoveryType := \<lparr>rtType = needRT need, rtSuggestedType = noType\<rparr>,
                      evReason := needReason need, evApprovalID := '''', evApprovalMatchedAt := None\<rparr>)
      in (appendMessage p (''Event '' @ evID evt @ '' escalated to '' @ newID @ '' on ''
            @ evNodeName evt @ ''/'' @ evGPUBDF evt @ '' (was '' @ rtString oldType @ '', now ''
            @ rtString (needRT need) @ ''); previous approval no longer applies''),
          setEventState now evt1 WaitingApproval
            (''escalated from '' @ rtString oldType @ '' to '' @ rtString (needRT need) @ '' (''
             @ needReason need @ ''); the approval for the previous type no longer applies'')))"

text \<open>The map of active devices is visited in the order of the list.\<close>

fun addNewEventsFrom ::
  "(string \<Rightarrow> string list) \<Rightarrow> time \<Rightarrow> (deviceKey \<times> deviceNeed) list \<Rightarrow> plan \<Rightarrow> nat \<Rightarrow> plan \<times> nat" where
  "addNewEventsFrom dns now [] p skipped = (p, skipped)"
| "addNewEventsFrom dns now ((dk, need) # active) p skipped =
     (case findEventForDevice p (dkNode dk) (dkBDF dk) of
        Some i \<Rightarrow>
          (case escalateEvent dns now p (events p ! i) need of
             (p', evt') \<Rightarrow> addNewEventsFrom dns now active (putEvent i evt' p') skipped)
      | None \<Rightarrow>
          if length (events p) \<ge> maxStatusEvents
          then addNewEventsFrom dns now active p (Suc skipped)
          else addNewEventsFrom dns now active
                 (addRecoveryEvent dns now p (dkNode dk) (dkBDF dk) need) skipped)"

definition addNewEvents ::
  "(string \<Rightarrow> string list) \<Rightarrow> time \<Rightarrow> plan \<Rightarrow> (deviceKey \<times> deviceNeed) list \<Rightarrow> plan" where
  "addNewEvents dns now p active =
     (case addNewEventsFrom dns now active p 0 of
        (p', skipped) \<Rightarrow>
          if skipped > 0
          then appendMessage p' (''status.events is at its '' @ natStr maxStatusEvents
                 @ ''-entry limit: '' @ natStr skipped @ '' newly detected device(s) not recorded'')
          else p')"

section \<open>The plan as a whole\<close>

definition hasActiveJobs :: "plan \<Rightarrow> bool" where
  "hasActiveJobs p \<longleftrightarrow>
     list_ex (\<lambda>evt. evState evt = InProgress \<or> evState evt = Draining \<or> evState evt = Blocked) (events p)"

definition heldForImage :: "plan \<Rightarrow> event \<Rightarrow> bool" where
  "heldForImage p evt \<longleftrightarrow>
     evImageVerifyGeneration evt \<noteq> 0 \<and> evImageVerifyGeneration evt = plGeneration p"

definition eventActive :: "plan \<Rightarrow> event \<Rightarrow> bool" where
  "eventActive p evt \<longleftrightarrow>
     evState evt \<in> {Blocked, Draining, InProgress}
     \<or> evState evt = WaitingApproval \<and> \<not> heldForImage p evt"

definition eventStuck :: "plan \<Rightarrow> event \<Rightarrow> bool" where
  "eventStuck p evt \<longleftrightarrow>
     evState evt \<in> {MissingFirmware, Failed}
     \<or> evState evt = WaitingApproval \<and> heldForImage p evt"

definition updatePlanState :: "plan \<Rightarrow> plan" where
  "updatePlanState p =
     setPlanState (if list_ex (eventStuck p) (events p) then PlanStateError
                   else if list_ex (eventActive p) (events p) then PlanStateActive
                   else PlanStateIdle) p"

definition pruneConsumedApprovals :: "plan \<Rightarrow> plan" where
  "pruneConsumedApprovals p =
     (let referenced = set (filter (\<lambda>i. i \<noteq> '''') (map evApprovalID (events p)))
      in setApprovals
           (filter (\<lambda>a. \<not> (apConsumed a \<and> \<not> apPersistent a \<and> apID a \<notin> referenced)) (approvals p)) p)"

fun markFirst :: "string \<Rightarrow> approval list \<Rightarrow> approval list" where
  "markFirst ident [] = []"
| "markFirst ident (a # as) =
     (if apID a = ident then a\<lparr>apConsumed := True\<rparr> # as else a # markFirst ident as)"

definition setApprovalConsumed :: "plan \<Rightarrow> string \<Rightarrow> plan" where
  "setApprovalConsumed p ident = setApprovals (markFirst ident (approvals p)) p"

section \<open>What a pass did to the approvals\<close>

record approvalChanges =
  chConsumed :: "string set"
  chRemoved :: "string set"

definition wasConsumed :: "approval list \<Rightarrow> string \<Rightarrow> bool" where
  "wasConsumed as ident = (map_of (rev (map (\<lambda>a. (apID a, apConsumed a)) as)) ident = Some True)"

definition diffApprovals :: "plan \<Rightarrow> plan \<Rightarrow> approvalChanges" where
  "diffApprovals orig p =
     \<lparr>chConsumed = set (map apID (filter (\<lambda>a. apConsumed a \<and> \<not> wasConsumed (approvals orig) (apID a))
                                     (approvals p))),
      chRemoved = set (map apID (filter (\<lambda>a. apID a \<notin> set (map apID (approvals p))) (approvals orig)))\<rparr>"

definition changesEmpty :: "approvalChanges \<Rightarrow> bool" where
  "changesEmpty ch \<longleftrightarrow> chConsumed ch = {} \<and> chRemoved ch = {}"

definition applyToApproval :: "approvalChanges \<Rightarrow> approval \<Rightarrow> approval" where
  "applyToApproval ch a =
     (if apID a \<in> chConsumed ch \<and> \<not> apConsumed a then a\<lparr>apConsumed := True\<rparr> else a)"

definition applyChanges :: "approvalChanges \<Rightarrow> plan \<Rightarrow> plan \<times> bool" where
  "applyChanges ch p =
     (setApprovals (map (applyToApproval ch) (filter (\<lambda>a. apID a \<notin> chRemoved ch) (approvals p))) p,
      list_ex (\<lambda>a. apID a \<in> chRemoved ch \<or> apID a \<in> chConsumed ch \<and> \<not> apConsumed a) (approvals p))"

section \<open>Claims, taints, containers\<close>

definition claimHoldsDevice :: "resourceClaim \<Rightarrow> (string \<times> string) set \<Rightarrow> bool" where
  "claimHoldsDevice claim devices \<longleftrightarrow>
     list_ex (\<lambda>r. resDriver r = GPUDeviceClass \<and> (resPool r, resDevice r) \<in> devices
                  \<and> resAdminAccess r \<noteq> Some True)
       (case claimAllocation claim of None \<Rightarrow> [] | Some rs \<Rightarrow> rs)"

definition recoveryTaint :: "string \<Rightarrow> taint" where
  "recoveryTaint planName =
     \<lparr>taintKey = recoveryTaintKey, taintValue = planName, taintEffect = ''NoSchedule'',
      taintTimeAdded = None\<rparr>"

fun onContainer :: "string \<Rightarrow> (container \<Rightarrow> container) \<Rightarrow> container list \<Rightarrow> container list" where
  "onContainer name f [] = []"
| "onContainer name f (c # cs) = (if cntName c = name then f c # cs else c # onContainer name f cs)"

definition applyXpuSmiImage :: "plan \<Rightarrow> container \<Rightarrow> container" where
  "applyXpuSmiImage p c =
     c\<lparr>cntImage := xsImage (spXpuSmi (plSpec p)), cntPullPolicy := xsPullPolicy (spXpuSmi (plSpec p))\<rparr>"

section \<open>Bounds\<close>

lemma backOff_le: "backOff s k \<le> k"
  by (induction s k rule: backOff.induct) auto

lemma length_capString: "3 \<le> limit \<Longrightarrow> length (capString s limit) \<le> limit"
  using backOff_le [of s "limit - 3"] by (auto simp: capString_def min_def)

lemma capString_short [simp]: "length s \<le> limit \<Longrightarrow> capString s limit = s"
  by (simp add: capString_def)

lemma length_capStrings: "length (capStrings xs n) \<le> Suc n"
  by (simp add: capStrings_def)

lemma capStrings_empty: "capStrings xs n = [] \<longleftrightarrow> xs = []"
  by (simp add: capStrings_def)

section \<open>Log entries\<close>

text \<open>
  \<open>logged p q\<close>: \<open>q\<close> is \<open>p\<close> up to \<^verbatim>\<open>status.messages\<close>, which stays within its cap.
\<close>

definition logged :: "plan \<Rightarrow> plan \<Rightarrow> bool" where
  "logged p q \<longleftrightarrow> (\<exists>ms. q = setMessages ms p) \<and>
     (length (messages p) \<le> maxStatusMessages \<longrightarrow> length (messages q) \<le> maxStatusMessages)"

lemma logged_refl [simp]: "logged p p"
proof -
  have "p = setMessages (messages p) p" by (simp add: setMessages_def)
  then show ?thesis by (metis logged_def)
qed

lemma logged_trans [trans]: "logged p q \<Longrightarrow> logged q r \<Longrightarrow> logged p r"
  by (auto simp: logged_def setMessages_def)

lemma loggedD:
  assumes "logged p q"
  shows "events q = events p" "plSpec q = plSpec p" "plName q = plName p"
    "plGeneration q = plGeneration p" "plDeleting q = plDeleting p" "plFinalizers q = plFinalizers p"
    "stState (plStatus q) = stState (plStatus p)"
    "length (messages p) \<le> maxStatusMessages \<Longrightarrow> length (messages q) \<le> maxStatusMessages"
  using assms by (auto simp: logged_def)

lemma logged_appendMessage [simp]: "logged p (appendMessage p m)"
proof (cases "messages p \<noteq> [] \<and> last (messages p) = m")
  case True
  then show ?thesis by (simp add: appendMessage_def)
next
  case False
  then have "appendMessage p m = setMessages (lastn maxStatusMessages (messages p @ [m])) p"
    by (auto simp: appendMessage_def)
  then show ?thesis by (auto simp: logged_def length_lastn)
qed

lemmas appendMessage_frame [simp, frame_simps] = loggedD(1-7) [OF logged_appendMessage]

lemma appendMessage_last: "last (messages (appendMessage p m)) = m"
  by (simp add: appendMessage_def lastn_def maxStatusMessages_def last_drop)

lemma logged_appendI: "logged p q \<Longrightarrow> logged p (appendMessage q m)"
  by (rule logged_trans [OF _ logged_appendMessage])

lemma logged_setEvents: "logged p q \<Longrightarrow> logged (setEvents es p) (setEvents es q)"
proof -
  assume *: "logged p q"
  then obtain ms where q: "q = setMessages ms p" by (auto simp: logged_def)
  then have "setEvents es q = setMessages ms (setEvents es p)"
    by (simp add: setEvents_def setMessages_def)
  moreover have "messages (setEvents es p) = messages p" "messages (setEvents es q) = messages q" by simp_all
  ultimately show ?thesis using * unfolding logged_def by metis
qed

lemma logged_putEvent: "logged p q \<Longrightarrow> logged (putEvent i e p) (putEvent i e q)"
  using logged_setEvents [of p q "(events p)[i := e]"] by (simp add: putEvent_def loggedD)

lemma logged_blockEvent [simp]: "logged p (fst (blockEvent now p evt b))"
  by (simp add: blockEvent_def)

lemma logged_beginDrain [simp]: "logged p (fst (beginDrain now p evt))"
  by (simp add: beginDrain_def Let_def)

lemma logged_failDrain [simp]: "logged p (fst (failDrain now p evt c))"
  by (simp add: failDrain_def Let_def)

lemma logged_failEventJob [simp]: "logged p (fst (failEventJob now p evt d))"
  by (simp add: failEventJob_def Let_def)

lemma logged_applyJobVerdict [simp]: "logged p (fst (applyJobVerdict now p evt c))"
  by (simp add: applyJobVerdict_def)

lemma logged_escalateEvent [simp]: "logged p (fst (escalateEvent dns now p evt need))"
  by (simp add: escalateEvent_def Let_def)

section \<open>What the operations leave alone on an event\<close>

definition sameDevice :: "event \<Rightarrow> event \<Rightarrow> bool" where
  "sameDevice e f \<longleftrightarrow> evNodeName f = evNodeName e \<and> evGPUBDF f = evGPUBDF e"

definition sameEvent :: "event \<Rightarrow> event \<Rightarrow> bool" where
  "sameEvent e f \<longleftrightarrow> sameDevice e f \<and> evID f = evID e"

lemma sameDevice_refl [simp]: "sameDevice e e"
  by (simp add: sameDevice_def)

lemma sameEvent_refl [simp]: "sameEvent e e"
  by (simp add: sameEvent_def)

lemma sameEvent_trans [trans]: "sameEvent e f \<Longrightarrow> sameEvent f g \<Longrightarrow> sameEvent e g"
  by (simp add: sameEvent_def sameDevice_def)

lemma sameEvent_device: "sameEvent e f \<Longrightarrow> sameDevice e f"
  by (simp add: sameEvent_def)

lemma setEventState_effect [simp, effect_simps]:
  "evState (setEventState now e st m) = st"
  "evStateMessage (setEventState now e st m) = capString m maxStateMessageLen"
  "evLastUpdated (setEventState now e st m) \<noteq> None"
  by (simp_all add: setEventState_def Let_def)

lemma setEventState_frame [simp, frame_simps]:
  "evID (setEventState now e st m) = evID e"
  "evApprovalID (setEventState now e st m) = evApprovalID e"
  "evNodeName (setEventState now e st m) = evNodeName e"
  "evGPUBDF (setEventState now e st m) = evGPUBDF e"
  "evReason (setEventState now e st m) = evReason e"
  "evRecoveryType (setEventState now e st m) = evRecoveryType e"
  "evImageVerifyGeneration (setEventState now e st m) = evImageVerifyGeneration e"
  "evDrainStartedAt (setEventState now e st m) = evDrainStartedAt e"
  "evPodsBlockingDrain (setEventState now e st m) = evPodsBlockingDrain e"
  "evClaimsBlockingReset (setEventState now e st m) = evClaimsBlockingReset e"
  "evJobName (setEventState now e st m) = evJobName e"
  "evPastJobs (setEventState now e st m) = evPastJobs e"
  by (simp_all add: setEventState_def Let_def)

lemma sameEvent_setEventState [simp]: "sameEvent e (setEventState now e st m)"
  by (simp add: sameEvent_def sameDevice_def)

lemma blockEvent_effect [simp, effect_simps]:
  "evState (snd (blockEvent now p evt b)) = Blocked"
  "sameEvent evt (snd (blockEvent now p evt b))"
  "evApprovalID (snd (blockEvent now p evt b)) = evApprovalID evt"
  by (simp_all add: blockEvent_def)

lemma beginDrain_effect [simp, effect_simps]:
  "evState (snd (beginDrain now p evt)) = Draining"
  "sameEvent evt (snd (beginDrain now p evt))"
  "evApprovalID (snd (beginDrain now p evt)) = evApprovalID evt"
  "evDrainStartedAt (snd (beginDrain now p evt)) \<noteq> None"
  by (simp_all add: beginDrain_def Let_def sameEvent_def sameDevice_def
      del: setEventState_effect(3)) (simp add: setEventState_def Let_def)

lemma failDrain_effect [simp, effect_simps]:
  "evState (snd (failDrain now p evt c)) = Failed"
  "sameEvent evt (snd (failDrain now p evt c))"
  by (simp_all add: failDrain_def Let_def sameEvent_def sameDevice_def)

lemma failEventJob_effect [simp, effect_simps]:
  "evState (snd (failEventJob now p evt d)) = Failed"
  "sameEvent evt (snd (failEventJob now p evt d))"
  "evPastJobs (snd (failEventJob now p evt d)) = evPastJobs evt @ [evJobName evt]"
  "evJobName (snd (failEventJob now p evt d)) = ''''"
  "evRecoveryType (snd (failEventJob now p evt d)) = evRecoveryType evt"
  by (simp_all add: failEventJob_def Let_def sameEvent_def sameDevice_def)

lemma applyJobVerdict_effect [simp, effect_simps]:
  "evState (snd (applyJobVerdict now p evt c)) = (if condType c = ''Complete'' then Succeeded else Failed)"
  "sameEvent evt (snd (applyJobVerdict now p evt c))"
  "evPastJobs (snd (applyJobVerdict now p evt c)) = evPastJobs evt @ [evJobName evt]"
  "evJobName (snd (applyJobVerdict now p evt c)) = ''''"
  "evRecoveryType (snd (applyJobVerdict now p evt c)) = evRecoveryType evt"
  by (simp_all add: applyJobVerdict_def sameEvent_def sameDevice_def)
     (simp_all add: failEventJob_def Let_def)

lemma drainDeadlineExceeded_frame [simp, frame_simps]:
  "evState (fst (drainDeadlineExceeded now p evt)) = evState evt"
  "sameEvent evt (fst (drainDeadlineExceeded now p evt))"
  "evStateMessage (fst (drainDeadlineExceeded now p evt)) = evStateMessage evt"
  by (simp_all add: drainDeadlineExceeded_def sameEvent_def sameDevice_def split: option.splits)

lemma escalateEvent_device: "sameDevice evt (snd (escalateEvent dns now p evt need))"
  by (simp add: escalateEvent_def Let_def sameDevice_def clearImageVerifyHold_def)

lemma escalateEvent_state:
  "snd (escalateEvent dns now p evt need) = evt \<or>
   evState (snd (escalateEvent dns now p evt need)) = WaitingApproval"
  by (simp add: escalateEvent_def Let_def)

end
