(* ===== verification/OpenShift.thy ===== *)
theory OpenShift
  imports Cluster
begin

text \<open>
  The OpenShift objects a controller creates so that its privileged Job pods are admitted
  (\<^verbatim>\<open>internal/controller/common/openshift.go\<close> and the two \<^verbatim>\<open>openshift.go\<close> files of the
  controllers): a SecurityContextConstraints, a ClusterRole that may use it, a ServiceAccount and
  the binding between them. \<^verbatim>\<open>controllerutil.CreateOrPatch\<close> is a parameter.
\<close>

section \<open>Objects and client\<close>

datatype sccValue = SccNull | SccBool bool | SccList "string list" | SccStrategy string

record scc =
  sccName :: string
  sccSpec :: "(string \<times> sccValue) list"
  sccResourceVersion :: string

record clusterRole =
  crName :: string
  crAPIGroups :: "string list"
  crResources :: "string list"
  crResourceNames :: "string list"
  crVerbs :: "string list"

record clusterRoleBinding =
  crbName :: string
  crbRoleName :: string
  crbSubjectName :: string
  crbSubjectNamespace :: string

datatype osKind = KindSCC | KindClusterRole | KindClusterRoleBinding | KindServiceAccount

record 'w osClient = "'w client" +
  oGetSCC :: "string \<Rightarrow> ('w, scc res) io"
  oCreateSCC :: "scc \<Rightarrow> ('w, go_error option) io"
  oUpdateSCC :: "scc \<Rightarrow> ('w, go_error option) io"
  oGetServiceAccount :: "string \<Rightarrow> string \<Rightarrow> ('w, unit res) io"
  oCreateServiceAccount :: "string \<Rightarrow> string \<Rightarrow> ('w, go_error option) io"
  oCreateOrPatchRole :: "clusterRole \<Rightarrow> ('w, go_error option) io"
  oCreateOrPatchBinding :: "clusterRoleBinding \<Rightarrow> ('w, go_error option) io"
  oDelete :: "osKind \<Rightarrow> string \<Rightarrow> string \<Rightarrow> ('w, go_error option) io"

section \<open>common/openshift.go\<close>

definition BuildSCC :: "string \<Rightarrow> (string \<times> sccValue) list \<Rightarrow> scc" where
  "BuildSCC name sp = \<lparr>sccName = name, sccSpec = sp, sccResourceVersion = ''''\<rparr>"

definition BuildOpenShiftNames :: "string \<Rightarrow> string \<Rightarrow> string \<times> string \<times> string \<times> string" where
  "BuildOpenShiftNames crn part =
     (crn @ ''-'' @ part @ ''-scc'', crn @ ''-'' @ part @ ''-scc-role'',
      crn @ ''-'' @ part @ ''-scc-binding'', crn @ ''-'' @ part @ ''-sa'')"

definition ignoreAlreadyExists :: "go_error option \<Rightarrow> go_error option" where
  "ignoreAlreadyExists r =
     (case r of None \<Rightarrow> None | Some e \<Rightarrow> if reason e = AlreadyExists then None else Some e)"

definition EnsureSCC :: "('w, 'x) osClient_scheme \<Rightarrow> scc \<Rightarrow> ('w, go_error option) io" where
  "EnsureSCC C s = do {
     r \<leftarrow> oGetSCC C (sccName s);
     case r of
       Inl e \<Rightarrow>
         if reason e = NotFound
         then do { c \<leftarrow> oCreateSCC C s; State_Monad.return (ignoreAlreadyExists c) }
         else State_Monad.return (Some e)
     | Inr existing \<Rightarrow> oUpdateSCC C (s\<lparr>sccResourceVersion := sccResourceVersion existing\<rparr>)
   }"

definition CreateSCCRole ::
  "('w, 'x) osClient_scheme \<Rightarrow> string \<Rightarrow> string \<Rightarrow> ('w, go_error option) io" where
  "CreateSCCRole C roleName sccn = do {
     r \<leftarrow> oCreateOrPatchRole C
       \<lparr>crName = roleName, crAPIGroups = [''security.openshift.io''],
        crResources = [''securitycontextconstraints''], crResourceNames = [sccn], crVerbs = [''use'']\<rparr>;
     State_Monad.return (map_option (\<lambda>e. newErr (''failed to create or patch ClusterRole '' @ roleName
       @ '': '' @ errText e)) r)
   }"

definition CreateSCCRoleBinding ::
  "('w, 'x) osClient_scheme \<Rightarrow> string \<Rightarrow> string \<Rightarrow> string \<Rightarrow> string \<Rightarrow> ('w, go_error option) io" where
  "CreateSCCRoleBinding C bindingName roleName saName ns = do {
     r \<leftarrow> oCreateOrPatchBinding C
       \<lparr>crbName = bindingName, crbRoleName = roleName, crbSubjectName = saName,
        crbSubjectNamespace = ns\<rparr>;
     State_Monad.return (map_option (\<lambda>e. newErr (''failed to create or patch ClusterRoleBinding ''
       @ bindingName @ '': '' @ errText e)) r)
   }"

definition CreateServiceAccount ::
  "('w, 'x) osClient_scheme \<Rightarrow> string \<Rightarrow> string \<Rightarrow> ('w, go_error option) io" where
  "CreateServiceAccount C name ns = do {
     r \<leftarrow> oGetServiceAccount C ns name;
     case r of
       Inl e \<Rightarrow>
         if reason e = NotFound
         then do { c \<leftarrow> oCreateServiceAccount C ns name; State_Monad.return (ignoreAlreadyExists c) }
         else State_Monad.return (Some e)
     | Inr _ \<Rightarrow> State_Monad.return None
   }"

text \<open>Deletion errors are only logged.\<close>

definition DeleteOpenShiftSCCResources ::
  "('w, 'x) osClient_scheme \<Rightarrow> string \<Rightarrow> string \<Rightarrow> string \<Rightarrow> string \<Rightarrow> string \<Rightarrow> ('w, unit) io" where
  "DeleteOpenShiftSCCResources C sccn roleName bindingName saName ns = do {
     _ \<leftarrow> oDelete C KindSCC '''' sccn;
     _ \<leftarrow> oDelete C KindClusterRole '''' roleName;
     _ \<leftarrow> oDelete C KindClusterRoleBinding '''' bindingName;
     if saName \<noteq> '''' \<and> ns \<noteq> ''''
     then do { _ \<leftarrow> oDelete C KindServiceAccount ns saName; State_Monad.return () }
     else State_Monad.return ()
   }"

section \<open>The constraints of the two controllers\<close>

definition recoveryResourcePart :: string where "recoveryResourcePart = ''gpu-recovery''"
definition gpuFwUpdateResourcePart :: string where "gpuFwUpdateResourcePart = ''gpu-fwupdate''"

definition sccBase :: "sccValue \<Rightarrow> (string \<times> sccValue) list" where
  "sccBase requiredDrop =
     [(''allowPrivilegedContainer'', SccBool True), (''allowHostDirVolumePlugin'', SccBool True),
      (''allowHostIPC'', SccBool False), (''allowHostNetwork'', SccBool False),
      (''allowHostPID'', SccBool False), (''allowHostPorts'', SccBool False),
      (''allowPrivilegeEscalation'', SccBool True), (''allowedCapabilities'', SccNull),
      (''defaultAddCapabilities'', SccNull), (''fsGroup'', SccStrategy ''RunAsAny''),
      (''readOnlyRootFilesystem'', SccBool False), (''requiredDropCapabilities'', requiredDrop),
      (''runAsUser'', SccStrategy ''RunAsAny''), (''seLinuxContext'', SccStrategy ''RunAsAny''),
      (''seccompProfiles'', SccList [''*'']), (''supplementalGroups'', SccStrategy ''RunAsAny''),
      (''volumes'', SccList [''hostPath'', ''emptyDir'']), (''users'', SccList []),
      (''groups'', SccList [])]"

definition buildRecoverySCC :: "string \<Rightarrow> scc" where
  "buildRecoverySCC name = BuildSCC name (sccBase (SccList [''ALL'']))"

definition buildFWUpdateSCC :: "string \<Rightarrow> scc" where
  "buildFWUpdateSCC name = BuildSCC name (sccBase SccNull)"

text \<open>
  \<^verbatim>\<open>ensureOpenShiftResources\<close> of both controllers: the four objects in order, stopping at the
  first error. \<open>what\<close> is the controller's word for itself in the error texts.
\<close>

definition ensureSCCQuadruple ::
  "('w, 'x) osClient_scheme \<Rightarrow> string \<Rightarrow> string \<Rightarrow> (string \<Rightarrow> scc) \<Rightarrow> string \<Rightarrow> string \<Rightarrow>
     ('w, go_error option) io" where
  "ensureSCCQuadruple C what part build ns crn =
     (case BuildOpenShiftNames crn part of (sccn, roleName, bindingName, saName) \<Rightarrow> do {
        r1 \<leftarrow> CreateServiceAccount C saName ns;
        case r1 of Some e \<Rightarrow> State_Monad.return (Some (wrapErr (''failed to ensure '' @ what @ '' ServiceAccount'') e))
        | None \<Rightarrow> do {
            r2 \<leftarrow> EnsureSCC C (build sccn);
            case r2 of Some e \<Rightarrow> State_Monad.return (Some (wrapErr (''failed to ensure '' @ what @ '' SCC'') e))
            | None \<Rightarrow> do {
                r3 \<leftarrow> CreateSCCRole C roleName sccn;
                case r3 of
                  Some e \<Rightarrow> State_Monad.return (Some (wrapErr (''failed to ensure '' @ what @ '' SCC ClusterRole'') e))
                | None \<Rightarrow> do {
                    r4 \<leftarrow> CreateSCCRoleBinding C bindingName roleName saName ns;
                    State_Monad.return (map_option
                      (wrapErr (''failed to ensure '' @ what @ '' SCC ClusterRoleBinding'')) r4)
                  }
              }
          }
      })"

definition cleanupSCCQuadruple ::
  "('w, 'x) osClient_scheme \<Rightarrow> string \<Rightarrow> string \<Rightarrow> string \<Rightarrow> ('w, unit) io" where
  "cleanupSCCQuadruple C part ns crn =
     (case BuildOpenShiftNames crn part of (sccn, roleName, bindingName, saName) \<Rightarrow>
        DeleteOpenShiftSCCResources C sccn roleName bindingName saName ns)"

section \<open>What the constraints allow\<close>

lemma sccBase_denies_host:
  "map_of (sccBase d) ''allowHostNetwork'' = Some (SccBool False)"
  "map_of (sccBase d) ''allowHostPID'' = Some (SccBool False)"
  "map_of (sccBase d) ''allowHostIPC'' = Some (SccBool False)"
  "map_of (sccBase d) ''allowHostPorts'' = Some (SccBool False)"
  by (simp_all add: sccBase_def)

lemma recoverySCC_drops_all:
  "map_of (sccSpec (buildRecoverySCC n)) ''requiredDropCapabilities'' = Some (SccList [''ALL''])"
  by (simp add: buildRecoverySCC_def BuildSCC_def sccBase_def)

end
