(* ===== verification/RecoveryController.thy ===== *)
theory RecoveryController
  imports RecoveryEvents OpenShift
begin

text \<open>
  The GPURecoveryPlan reconciler (\<^verbatim>\<open>gpurecoveryplan_controller.go\<close>,
  \<^verbatim>\<open>gpurecoveryplan_imageverific.go\<close>): one definition per method, in the source's order of calls.
  \<open>recoveryEnv\<close> extends the client by what the reconciler is configured with and by the code it calls
  in other modules: the DNS-1123 check, label matching, the registry check, the retry helper, the
  owner reference helper and the two Job templates decoded from embedded YAML.
  \<open>rMapOrder\<close> is the order in which the runtime happens to visit the map of tainted devices.
\<close>

section \<open>Environment\<close>

record imageVerifyRequest =
  ivImage :: string
  ivPullSecret :: string
  ivInsecureSkipTLSVerify :: bool
  ivFiles :: "(string \<times> string) list"

record 'w recoveryEnv = "'w osClient" +
  rNamespace :: string
  rSecretName :: string
  rRequeueDelay :: int
  rOpenShift :: bool
  rDNS :: "string \<Rightarrow> string list"
  rLabelsMatch :: "(string \<times> string) list \<Rightarrow> (string \<times> string) list \<Rightarrow> bool"
  rMapOrder :: "(deviceKey \<times> deviceNeed) list \<Rightarrow> (deviceKey \<times> deviceNeed) list"
  rVerifyImage :: "imageVerifyRequest \<Rightarrow> ('w, go_error option) io"
  rResetJobTemplate :: job
  rReflashJobTemplate :: job
  rSetControllerReference :: "plan \<Rightarrow> job \<Rightarrow> job res"
  rGetPlan :: "string \<Rightarrow> ('w, plan res) io"
  rUpdatePlan :: "plan \<Rightarrow> ('w, plan res) io"
  rUpdatePlanStatus :: "plan \<Rightarrow> ('w, plan res) io"
  rListPlans :: "('w, plan list res) io"
  rRetryOnConflict :: "('w, go_error option) io \<Rightarrow> ('w, go_error option) io"

section \<open>Image verification\<close>

record recoveryImage =
  riImage :: string
  riField :: string
  riInsecureSkipTLSVerify :: bool
  riFiles :: "(string \<times> string) list"

definition recoveryImagesForEvent :: "plan \<Rightarrow> event \<Rightarrow> recoveryImage list" where
  "recoveryImagesForEvent p evt =
     (let xs = spXpuSmi (plSpec p)
      in (if xsPullPolicy xs \<noteq> ''Never'' \<and> xsImage xs \<noteq> ''''
          then [\<lparr>riImage = xsImage xs, riField = ''spec.xpuSmi.image'',
                 riInsecureSkipTLSVerify = xsInsecureSkipTLSVerify xs, riFiles = []\<rparr>]
          else []))
     @ (if IsReflash (evRecoveryType evt)
        then (case spFirmware (plSpec p) of
                None \<Rightarrow> []
              | Some fw \<Rightarrow>
                  (case fsContainerSource (fwSource fw) of
                     None \<Rightarrow> []
                   | Some cs \<Rightarrow>
                       if fwFile fw \<noteq> '''' \<and> csName cs \<noteq> ''''
                       then [\<lparr>riImage = csName cs, riField = ''spec.firmware.source.containerSource.name'',
                              riInsecureSkipTLSVerify = csInsecureSkipTLSVerify cs,
                              riFiles = [(firmwareImagePath (fwFile fw), '''')]\<rparr>]
                       else []))
        else [])"

definition holdForImageFix ::
  "time \<Rightarrow> plan \<Rightarrow> event \<Rightarrow> recoveryImage \<Rightarrow> go_error \<Rightarrow> plan \<times> event" where
  "holdForImageFix now p evt img e =
     (let evt' = setEventState now (evt\<lparr>evImageVerifyGeneration := plGeneration p\<rparr>) WaitingApproval
            (riField img @ '' ('' @ riImage img @ '') cannot be pulled: '' @ errText e
             @ ''; correct the plan to retry (approval retained)'')
      in (appendMessage p (''Event '' @ evID evt @ '': recovery held back '' @ emDash @ '' ''
            @ evStateMessage evt'), evt'))"

fun verifyImages ::
  "('w, 'x) recoveryEnv_scheme \<Rightarrow> recoveryImage list \<Rightarrow> ('w, (recoveryImage \<times> go_error) option) io" where
  "verifyImages E [] = State_Monad.return None"
| "verifyImages E (img # imgs) = do {
     r \<leftarrow> rVerifyImage E \<lparr>ivImage = riImage img, ivPullSecret = rSecretName E,
            ivInsecureSkipTLSVerify = riInsecureSkipTLSVerify img, ivFiles = riFiles img\<rparr>;
     case r of Some e \<Rightarrow> State_Monad.return (Some (img, e)) | None \<Rightarrow> verifyImages E imgs
   }"

definition ensureImagesUsable ::
  "('w, 'x) recoveryEnv_scheme \<Rightarrow> plan \<Rightarrow> event \<Rightarrow> ('w, plan \<times> event \<times> bool) io" where
  "ensureImagesUsable E p evt =
     (if spSkipImageVerification (plSpec p) then State_Monad.return (p, evt, True)
      else if heldForImage p evt then State_Monad.return (p, evt, False)
      else do {
        r \<leftarrow> verifyImages E (recoveryImagesForEvent p evt);
        now \<leftarrow> getNow E;
        case r of
          Some (img, e) \<Rightarrow>
            (case holdForImageFix now p evt img e of (p', evt') \<Rightarrow> State_Monad.return (p', evt', False))
        | None \<Rightarrow>
            (let p' = (if evImageVerifyGeneration evt \<noteq> 0
                       then appendMessage p (''Event '' @ evID evt
                              @ '': images verified after an earlier failure; resuming recovery'')
                       else p)
             in State_Monad.return (p', clearImageVerifyHold evt, True))
      })"

section \<open>Recovery Jobs\<close>

definition prepareRecoveryJob ::
  "('w, 'x) recoveryEnv_scheme \<Rightarrow> job \<Rightarrow> plan \<Rightarrow> event \<Rightarrow> plan \<times> job \<times> string" where
  "prepareRecoveryJob E tmpl p evt =
     (let jn = recoveryJobName (rDNS E) (evID evt) (length (evPastJobs evt));
          j1 = tmpl\<lparr>jobName := jn, jobNamespace := rNamespace E,
                 jobLabels := put recoveryJobLabelEvent (evID evt)
                                (put recoveryJobLabelPlan (plName p) (jobLabels tmpl))\<rparr>;
          pj = (case rSetControllerReference E p j1 of
                  Inl e \<Rightarrow> (appendMessage p (''Event '' @ evID evt
                              @ '': failed to set controller reference on Job '' @ jn @ '': '' @ errText e), j1)
                | Inr j2 \<Rightarrow> (p, j2))
      in (fst pj,
          (snd pj)\<lparr>jobActiveDeadline := Some (recoveryJobTimeout p evt), jobBackoffLimit := Some 0,
            jobNodeName := evNodeName evt,
            jobTolerations := \<lparr>tolKey = '''', tolOperator = ''Exists'', tolValue = '''', tolEffect = ''''\<rparr>
                                # spTolerations (plSpec p),
            jobPullSecrets := (if rSecretName E \<noteq> '''' then [rSecretName E]
                               else jobPullSecrets (snd pj)),
            jobServiceAccount := (if rOpenShift E
                                  then snd (snd (snd (BuildOpenShiftNames (plName p) recoveryResourcePart)))
                                  else jobServiceAccount (snd pj))\<rparr>, jn))"

definition resetJob :: "('w, 'x) recoveryEnv_scheme \<Rightarrow> plan \<Rightarrow> event \<Rightarrow> plan \<times> job \<times> string" where
  "resetJob E p evt =
     (case prepareRecoveryJob E (rResetJobTemplate E) p evt of
        (p', j, jn) \<Rightarrow> (p', j\<lparr>jobContainers := onContainer ''resetter''
          (\<lambda>c. (applyXpuSmiImage p c)\<lparr>cntArgs :=
                 [buildResetCommand (evGPUBDF evt) (rtType (evRecoveryType evt))]\<rparr>) (jobContainers j)\<rparr>, jn))"

text \<open>Creating the Job and, unless that failed, moving the event to in-progress.\<close>

definition launchJob ::
  "('w, 'x) recoveryEnv_scheme \<Rightarrow> plan \<Rightarrow> event \<Rightarrow> job \<Rightarrow> string \<Rightarrow> string \<Rightarrow> string \<Rightarrow>
     ('w, plan \<times> event \<times> go_error option) io" where
  "launchJob E p evt j jn what created = do {
     r \<leftarrow> cCreateJob E j;
     now \<leftarrow> getNow E;
     let started = (appendMessage p created,
                    setEventState now (evt\<lparr>evJobName := jn\<rparr>) InProgress '''', None);
     State_Monad.return (case r of
       None \<Rightarrow> started
     | Some e \<Rightarrow>
         if reason e = AlreadyExists then started
         else (p, evt, Some (wrapErr (''creating '' @ what @ '' Job '' @ jn) e)))
   }"

definition createResetJob ::
  "('w, 'x) recoveryEnv_scheme \<Rightarrow> plan \<Rightarrow> event \<Rightarrow> ('w, plan \<times> event \<times> go_error option) io" where
  "createResetJob E p evt =
     (if buildResetCommand (evGPUBDF evt) (rtType (evRecoveryType evt)) = ''''
      then State_Monad.return (p, evt, None)
      else case resetJob E p evt of (p', j, jn) \<Rightarrow>
        launchJob E p' evt j jn ''recovery''
          (''Event '' @ evID evt @ '': recovery Job '' @ jn @ '' created (type: ''
           @ rtString (rtType (evRecoveryType evt)) @ '', node: '' @ evNodeName evt @ '', bdf: ''
           @ evGPUBDF evt @ '')''))"

definition parkForFirmware ::
  "time \<Rightarrow> plan \<Rightarrow> event \<Rightarrow> string \<Rightarrow> string \<Rightarrow> plan \<times> event" where
  "parkForFirmware now p evt stateMsg planMsg =
     (appendMessage p (''Event '' @ evID evt @ '': firmware reflash pending '' @ emDash @ '' '' @ planMsg),
      setEventState now evt MissingFirmware stateMsg)"

definition reflashJob ::
  "('w, 'x) recoveryEnv_scheme \<Rightarrow> plan \<Rightarrow> event \<Rightarrow> FirmwareSpec \<Rightarrow> ContainerFirmwareSource \<Rightarrow>
     plan \<times> job \<times> string" where
  "reflashJob E p evt fw cs =
     (case prepareRecoveryJob E (rReflashJobTemplate E) p evt of
        (p', j, jn) \<Rightarrow> (p', j\<lparr>jobInitContainers := onContainer ''fw-copy'' (\<lambda>c. c\<lparr>cntImage := csName cs\<rparr>)
                           (jobInitContainers j),
                         jobContainers := onContainer ''updater''
          (\<lambda>c. (applyXpuSmiImage p c)\<lparr>cntArgs := [buildFDOFlashCommand (evGPUBDF evt) (fwFile fw)]\<rparr>)
          (jobContainers j)\<rparr>, jn))"

definition createReflashJob ::
  "('w, 'x) recoveryEnv_scheme \<Rightarrow> plan \<Rightarrow> event \<Rightarrow> ('w, plan \<times> event \<times> go_error option) io" where
  "createReflashJob E p evt = do {
     now \<leftarrow> getNow E;
     case spFirmware (plSpec p) of
       None \<Rightarrow>
         (case parkForFirmware now p evt
                ''spec.firmware is not configured, so a reflash cannot be attempted''
                ''spec.firmware not configured'' of (p', evt') \<Rightarrow> State_Monad.return (p', evt', None))
     | Some fw \<Rightarrow>
         if fwFile fw = ''''
         then (case parkForFirmware now p evt
                ''spec.firmware is not configured, so a reflash cannot be attempted''
                ''spec.firmware not configured'' of (p', evt') \<Rightarrow> State_Monad.return (p', evt', None))
         else (case fsContainerSource (fwSource fw) of
             None \<Rightarrow>
               (case parkForFirmware now p evt
                  (''spec.firmware.source.containerSource is not set; a reflash copies the firmware from a ''
                   @ ''container image, and volumeSource is not supported yet'')
                  ''spec.firmware.source.containerSource not configured'' of
                 (p', evt') \<Rightarrow> State_Monad.return (p', evt', None))
           | Some cs \<Rightarrow>
               (case reflashJob E p evt fw cs of (p', j, jn) \<Rightarrow>
                  launchJob E p' evt j jn ''reflash''
                    (''Event '' @ evID evt @ '': FDO reflash Job '' @ jn @ '' created (node: ''
                     @ evNodeName evt @ '', bdf: '' @ evGPUBDF evt @ '', file: '' @ fwFile fw @ '')'')))
   }"

definition createRecoveryJob ::
  "('w, 'x) recoveryEnv_scheme \<Rightarrow> plan \<Rightarrow> event \<Rightarrow> ('w, plan \<times> event \<times> go_error option) io" where
  "createRecoveryJob E p evt =
     (if IsReflash (evRecoveryType evt) then createReflashJob E p evt else createResetJob E p evt)"

section \<open>Deleting Jobs\<close>

definition deleteJobByName :: "('w, 'x) recoveryEnv_scheme \<Rightarrow> string \<Rightarrow> ('w, unit) io" where
  "deleteJobByName E n = do {
     r \<leftarrow> cGetJob E (rNamespace E) n;
     case r of
       Inl _ \<Rightarrow> State_Monad.return ()
     | Inr j \<Rightarrow> do { _ \<leftarrow> cDeleteJob E j; State_Monad.return () }
   }"

definition deleteEventJobs :: "('w, 'x) recoveryEnv_scheme \<Rightarrow> event \<Rightarrow> ('w, unit) io" where
  "deleteEventJobs E evt = do {
     _ \<leftarrow> (if evJobName evt \<noteq> '''' then deleteJobByName E (evJobName evt) else State_Monad.return ());
     foldM (\<lambda>n _. deleteJobByName E n) (evPastJobs evt) ()
   }"

definition deleteAllJobs :: "('w, 'x) recoveryEnv_scheme \<Rightarrow> plan \<Rightarrow> ('w, unit) io" where
  "deleteAllJobs E p = do {
     r \<leftarrow> cListJobs E (rNamespace E) (recoveryJobLabelPlan, plName p);
     _ \<leftarrow> foldM (\<lambda>j _. deleteJobByName E (jobName j)) (case r of Inl _ \<Rightarrow> [] | Inr js \<Rightarrow> js) ();
     foldM (\<lambda>evt _. deleteEventJobs E evt) (events p) ()
   }"

section \<open>Well-formed events\<close>

text \<open>
  What every event in \<^verbatim>\<open>status.events\<close> satisfies: its device is a PCI address, an event in
  progress names its Job, and the fields that are capped stay within their caps.
\<close>

definition wfEvent :: "event \<Rightarrow> bool" where
  "wfEvent e \<longleftrightarrow>
     validDeviceBDF (evGPUBDF e) \<and> (evState e = InProgress \<longrightarrow> evJobName e \<noteq> '''')
     \<and> length (evStateMessage e) \<le> maxStateMessageLen
     \<and> length (evPodsBlockingDrain e) \<le> Suc maxPodsBlockingDrainReported
     \<and> length (evClaimsBlockingReset e) \<le> Suc maxPodsBlockingDrainReported"

text \<open>The same event, still well-formed if it was.\<close>

definition carried :: "event \<Rightarrow> event \<Rightarrow> bool" where
  "carried e f \<longleftrightarrow> sameEvent e f \<and> (wfEvent e \<longrightarrow> wfEvent f)"

definition sameWork :: "event \<Rightarrow> event \<Rightarrow> bool" where
  "sameWork e f \<longleftrightarrow> carried e f \<and> evApprovalID f = evApprovalID e \<and> evRecoveryType f = evRecoveryType e"

lemma carried_refl [simp]: "carried e e"
  by (simp add: carried_def)

lemma carried_trans [trans]: "carried e f \<Longrightarrow> carried f g \<Longrightarrow> carried e g"
  by (auto simp: carried_def intro: sameEvent_trans)

lemma sameWork_refl [simp]: "sameWork e e"
  by (simp add: sameWork_def)

lemma sameWork_trans [trans]: "sameWork e f \<Longrightarrow> sameWork f g \<Longrightarrow> sameWork e g"
  by (auto simp: sameWork_def intro: carried_trans)

lemma sameWorkD: "sameWork e f \<Longrightarrow> carried e f" "sameWork e f \<Longrightarrow> evApprovalID f = evApprovalID e"
  "sameWork e f \<Longrightarrow> evRecoveryType f = evRecoveryType e"
  by (simp_all add: sameWork_def)

lemma carriedD: "carried e f \<Longrightarrow> evID f = evID e" "carried e f \<Longrightarrow> evNodeName f = evNodeName e"
  "carried e f \<Longrightarrow> evGPUBDF f = evGPUBDF e" "carried e f \<Longrightarrow> wfEvent e \<Longrightarrow> wfEvent f"
  by (simp_all add: carried_def sameEvent_def sameDevice_def)

lemma length_stateMessage: "length (evStateMessage (setEventState now e st m)) \<le> maxStateMessageLen"
  by (simp add: length_capString maxStateMessageLen_def)

lemma wfEvent_setEventState:
  "wfEvent e \<Longrightarrow> (st = InProgress \<longrightarrow> evJobName e \<noteq> '''') \<Longrightarrow> wfEvent (setEventState now e st m)"
  using length_stateMessage [of now e st m] by (auto simp: wfEvent_def)

lemma sameWork_setEventState:
  "(st = InProgress \<longrightarrow> evState e = InProgress) \<Longrightarrow> sameWork e (setEventState now e st m)"
  by (auto simp: sameWork_def carried_def intro!: wfEvent_setEventState) (simp add: wfEvent_def)

lemma sameWork_clearImageVerifyHold [simp]: "sameWork e (clearImageVerifyHold e)"
  by (simp add: sameWork_def carried_def sameEvent_def sameDevice_def clearImageVerifyHold_def wfEvent_def)

lemma evState_clearImageVerifyHold [simp]: "evState (clearImageVerifyHold e) = evState e"
  by (simp add: clearImageVerifyHold_def)

lemma sameWork_hold:
  "sameWork e (setEventState now (e\<lparr>evImageVerifyGeneration := g\<rparr>) WaitingApproval m)"
  using wfEvent_setEventState [of "e\<lparr>evImageVerifyGeneration := g\<rparr>" WaitingApproval now m]
  by (simp add: sameWork_def carried_def sameEvent_def sameDevice_def) (simp add: wfEvent_def)

lemma sameWork_jobStarted:
  "jn \<noteq> '''' \<Longrightarrow> sameWork e (setEventState now (e\<lparr>evJobName := jn\<rparr>) InProgress m)"
  using wfEvent_setEventState [of "e\<lparr>evJobName := jn\<rparr>" InProgress now m]
  by (simp add: sameWork_def carried_def sameEvent_def sameDevice_def) (simp add: wfEvent_def)

lemma sameWork_blockEvent [simp]: "sameWork e (snd (blockEvent now p e b))"
  by (simp add: blockEvent_def sameWork_setEventState)

lemma sameWork_beginDrain [simp]: "sameWork e (snd (beginDrain now p e))"
proof -
  have "wfEvent e \<Longrightarrow> wfEvent (setEventState now e Draining '''')" by (simp add: wfEvent_setEventState)
  then show ?thesis
    by (simp add: beginDrain_def Let_def sameWork_def carried_def sameEvent_def sameDevice_def)
       (simp add: wfEvent_def)
qed

section \<open>What starting a recovery does to the event\<close>

lemma logged_holdForImageFix [simp]: "logged p (fst (holdForImageFix now p evt img e))"
  by (simp add: holdForImageFix_def Let_def)

definition imagesResult :: "plan \<Rightarrow> event \<Rightarrow> plan \<times> event \<times> bool \<Rightarrow> bool" where
  "imagesResult p evt r \<longleftrightarrow>
     (case r of (p', evt', ok) \<Rightarrow> logged p p' \<and> sameWork evt evt'
        \<and> (if ok then evState evt' = evState evt else evt' = evt \<or> evState evt' = WaitingApproval))"

lemma returns_ensureImagesUsable: "returns (imagesResult p evt) (ensureImagesUsable E p evt)"
  unfolding ensureImagesUsable_def
  by (auto simp: imagesResult_def Let_def holdForImageFix_def sameWork_hold
      intro!: returns_intros returns_bind_any split: option.splits prod.splits)

lemma recoveryJobName_nonempty: "recoveryJobName dns i n \<noteq> ''''"
  by (simp add: recoveryJobName_def Let_def)

lemma logged_prepareRecoveryJob:
  "prepareRecoveryJob E t p evt = (p', j, jn) \<Longrightarrow> logged p p' \<and> jn \<noteq> ''''"
  by (auto simp: prepareRecoveryJob_def Let_def recoveryJobName_nonempty split: sum.splits)

definition jobStarted :: "event \<Rightarrow> event \<Rightarrow> go_error option \<Rightarrow> bool" where
  "jobStarted e e' err \<longleftrightarrow> sameWork e e' \<and> (err \<noteq> None \<longrightarrow> e' = e)
     \<and> (e' = e \<or> evState e' = InProgress \<or> evState e' = MissingFirmware \<and> IsReflash (evRecoveryType e))"

definition jobResult :: "plan \<Rightarrow> event \<Rightarrow> plan \<times> event \<times> go_error option \<Rightarrow> bool" where
  "jobResult p evt r \<longleftrightarrow> (case r of (p', evt', err) \<Rightarrow> logged p p' \<and> jobStarted evt evt' err)"

lemma returns_launchJob:
  "logged p0 p \<Longrightarrow> jn \<noteq> '''' \<Longrightarrow>
   returns (jobResult p0 evt) (launchJob E p evt j jn what created)"
  unfolding launchJob_def
  by (auto simp: Let_def jobResult_def jobStarted_def sameWork_jobStarted intro!: returns_bind_any logged_appendI
      split: option.splits)

lemma returns_parked:
  "IsReflash (evRecoveryType evt) \<Longrightarrow>
   returns (jobResult p evt)
     (case parkForFirmware now p evt a b of (p', evt') \<Rightarrow> State_Monad.return (p', evt', None))"
  by (simp add: parkForFirmware_def jobResult_def jobStarted_def sameWork_setEventState)

lemma returns_createReflashJob:
  assumes "IsReflash (evRecoveryType evt)"
  shows "returns (jobResult p evt) (createReflashJob E p evt)"
proof -
  have "returns (jobResult p evt)
      (case reflashJob E p evt fw cs of (p', j, jn) \<Rightarrow> launchJob E p' evt j jn what (msg jn))" for fw cs what msg
    by (auto simp: reflashJob_def dest: logged_prepareRecoveryJob split: prod.splits
        intro!: returns_launchJob)
  then show ?thesis
    unfolding createReflashJob_def using assms
    by (intro returns_bind_any returns_case_option returns_if returns_parked)
qed

lemma returns_createResetJob:
  "returns (jobResult p evt) (createResetJob E p evt)"
proof -
  have "returns (jobResult p evt)
      (case resetJob E p evt of (p', j, jn) \<Rightarrow> launchJob E p' evt j jn what (msg jn))" for what msg
    by (auto simp: resetJob_def dest: logged_prepareRecoveryJob split: prod.splits
        intro!: returns_launchJob)
  then show ?thesis
    unfolding createResetJob_def by (intro returns_if) (simp_all add: jobResult_def jobStarted_def)
qed

lemma returns_createRecoveryJob:
  "returns (jobResult p evt) (createRecoveryJob E p evt)"
  by (simp add: createRecoveryJob_def returns_createReflashJob returns_createResetJob)

section \<open>What the phases keep of the plan\<close>

text \<open>Everything but the events, the log, the approvals and the derived state.\<close>

definition sameMeta :: "plan \<Rightarrow> plan \<Rightarrow> bool" where
  "sameMeta p q \<longleftrightarrow>
     plName q = plName p \<and> plGeneration q = plGeneration p \<and> plDeleting q = plDeleting p
     \<and> plFinalizers q = plFinalizers p \<and> (\<exists>as. plSpec q = (plSpec p)\<lparr>spApprovals := as\<rparr>)
     \<and> (length (messages p) \<le> maxStatusMessages \<longrightarrow> length (messages q) \<le> maxStatusMessages)"

lemma sameSpec: "\<exists>as. plSpec (p :: plan) = (plSpec p)\<lparr>spApprovals := as\<rparr>"
  by (rule exI [of _ "approvals p"]) simp

lemma sameMeta_refl [simp]: "sameMeta p p"
  by (simp add: sameMeta_def sameSpec)

lemma sameMeta_trans [trans]: "sameMeta p q \<Longrightarrow> sameMeta q r \<Longrightarrow> sameMeta p r"
  by (auto simp: sameMeta_def)

lemma sameMeta_logged: "logged p q \<Longrightarrow> sameMeta p q"
  by (simp add: sameMeta_def loggedD sameSpec)

lemma sameMeta_update [simp]:
  "sameMeta p (setEvents es p)" "sameMeta p (putEvent i e p)" "sameMeta p (setApprovals as p)"
  "sameMeta p (setPlanState s p)"
  by (simp_all add: sameMeta_def sameSpec) (auto simp: setApprovals_def)

text \<open>At most one recovery in flight per node, up to events that share their ID.\<close>

definition exclusive :: "plan \<Rightarrow> bool" where
  "exclusive p \<longleftrightarrow>
     (\<forall>e \<in> set (events p). \<forall>f \<in> set (events p).
        inFlight e \<longrightarrow> inFlight f \<longrightarrow> evNodeName e = evNodeName f \<longrightarrow> evID e = evID f)"

lemma exclusive_cong: "events q = events p \<Longrightarrow> exclusive q = exclusive p"
  by (simp only: exclusive_def)

lemma exclusiveD:
  "exclusive p \<Longrightarrow> e \<in> set (events p) \<Longrightarrow> f \<in> set (events p) \<Longrightarrow> inFlight e \<Longrightarrow> inFlight f \<Longrightarrow>
   evNodeName e = evNodeName f \<Longrightarrow> evID e = evID f"
  unfolding exclusive_def by blast

lemma exclusive_shrink:
  assumes "exclusive p" and "\<And>f. f \<in> set (events q) \<Longrightarrow> inFlight f \<Longrightarrow>
     \<exists>e \<in> set (events p). inFlight e \<and> evID f = evID e \<and> evNodeName f = evNodeName e"
  shows "exclusive q"
  using assms unfolding exclusive_def by metis

text \<open>A phase that only moves events out of flight.\<close>

lemma exclusive_list_all2:
  assumes "exclusive p" "list_all2 R (events p) (events q)"
    and "\<And>e f. R e f \<Longrightarrow> carried e f \<and> (inFlight f \<longrightarrow> inFlight e)"
  shows "exclusive q"
proof (rule exclusive_shrink [OF assms(1)])
  fix f assume "f \<in> set (events q)" "inFlight f"
  then obtain e where "e \<in> set (events p)" "R e f"
    using assms(2) by (metis in_set_conv_nth list_all2_conv_all_nth)
  then show "\<exists>e \<in> set (events p). inFlight e \<and> evID f = evID e \<and> evNodeName f = evNodeName e"
    using assms(3) \<open>inFlight f\<close> carriedD by metis
qed

text \<open>A loop that rewrites one event per round relates every event to what it became.\<close>

definition eventRound :: "(event \<Rightarrow> event \<Rightarrow> bool) \<Rightarrow> nat \<Rightarrow> plan \<Rightarrow> plan \<Rightarrow> bool" where
  "eventRound R i p q \<longleftrightarrow> (\<exists>e'. R (events p ! i) e' \<and> logged (putEvent i e' p) q)"

definition phaseResult :: "(event \<Rightarrow> event \<Rightarrow> bool) \<Rightarrow> plan \<Rightarrow> plan \<Rightarrow> bool" where
  "phaseResult R p q \<longleftrightarrow> sameMeta p q \<and> approvals q = approvals p \<and> list_all2 R (events p) (events q)"

lemma returns_eventLoop:
  assumes "\<And>i p. i < length (events p) \<Longrightarrow> returns (eventRound R i p) (f i p)"
  shows "returns (phaseResult R p) (foldM f [0..<length (events p)] p)"
proof -
  let ?I = "\<lambda>k q. sameMeta p q \<and> approvals q = approvals p \<and> length (events q) = length (events p)
    \<and> (\<forall>j < length (events p). if j < k then R (events p ! j) (events q ! j) else events q ! j = events p ! j)"
  have "returns (?I (length (events p))) (foldM f [0..<length (events p)] p)"
  proof (rule returns_foldM_upt [where I = ?I])
    fix k q assume k: "k < length (events p)" and I: "?I k q"
    show "returns (?I (Suc k)) (f k q)"
    proof (rule returns_mono [OF assms])
      fix r assume "eventRound R k q r"
      then obtain e' where e': "R (events q ! k) e'" "logged (putEvent k e' q) r" by (auto simp: eventRound_def)
      then have "sameMeta p r" using I by (blast intro: sameMeta_trans sameMeta_logged sameMeta_update)
      moreover have "events r = (events q)[k := e']" "approvals r = approvals q" using e'(2) by (simp_all add: loggedD)
      ultimately show "?I (Suc k) r" using I e'(1) k by (auto simp: nth_list_update_cases less_Suc_eq)
    qed (use I k in simp)
  qed simp
  then show ?thesis
    by (rule returns_mono) (auto simp: phaseResult_def list_all2_conv_all_nth)
qed

end
