(* ===== verification/RecoveryDetection.thy ===== *)
theory RecoveryDetection
  imports RecoveryController
begin

text \<open>
  Detection: the tainted GPUs of the published ResourceSlices, mirrored into
  \<^verbatim>\<open>status.events\<close> (\<^verbatim>\<open>syncRecoveryEventsFromSlices\<close>, \<^verbatim>\<open>removeResolvedEvents\<close>,
  \<^verbatim>\<open>resourceSliceToPlans\<close>). The map \<^verbatim>\<open>activeKeys\<close> is an association list without
  repeated keys; the order in which Go visits it is the environment's \<open>rMapOrder\<close>.
\<close>

section \<open>Scanning the slices\<close>

type_synonym activeMap = "(deviceKey \<times> deviceNeed) list"

definition needOf :: "activeMap \<Rightarrow> deviceKey \<Rightarrow> deviceNeed" where
  "needOf active key = (case map_of active key of None \<Rightarrow> emptyNeed | Some n \<Rightarrow> n)"

definition scanTaint :: "RecoveryType \<Rightarrow> deviceKey \<Rightarrow> string \<Rightarrow> activeMap \<Rightarrow> activeMap" where
  "scanTaint defaultReset key tk active =
     (case taintToDeviceNeed tk defaultReset of
        None \<Rightarrow> active
      | Some need \<Rightarrow> put key (higherPriorityNeed (needOf active key) need) active)"

definition scanDevice :: "plan \<Rightarrow> string \<Rightarrow> device \<Rightarrow> activeMap \<Rightarrow> activeMap" where
  "scanDevice p node dev active =
     (let bdf = deviceAttributeString (devAttributes dev) DeviceAttrBDF
      in if deviceAttributeString (devAttributes dev) DeviceAttrDeviceID \<noteq> spDeviceID (plSpec p)
         then active
         else if bdf = '''' then active
         else if \<not> validDeviceBDF bdf then active
         else fold (scanTaint (spDefaultResetType (plSpec p)) (DeviceKey node bdf)) (devTaints dev) active)"

definition scanSlice :: "plan \<Rightarrow> resourceSlice \<Rightarrow> activeMap \<Rightarrow> activeMap" where
  "scanSlice p sl active =
     (if sliceDriver sl \<noteq> GPUDeviceClass then active
      else case sliceNodeName sl of
             None \<Rightarrow> active
           | Some node \<Rightarrow> fold (scanDevice p node) (sliceDevices sl) active)"

definition activeDevices :: "plan \<Rightarrow> resourceSlice list \<Rightarrow> activeMap" where
  "activeDevices p slices = fold (scanSlice p) slices []"

section \<open>Removing resolved events\<close>

definition devKey :: "event \<Rightarrow> deviceKey" where
  "devKey evt = DeviceKey (evNodeName evt) (evGPUBDF evt)"

definition stillActive :: "activeMap \<Rightarrow> event \<Rightarrow> bool" where
  "stillActive active evt \<longleftrightarrow> map_of active (devKey evt) \<noteq> None"

definition removeOrKeep ::
  "('w, 'x) recoveryEnv_scheme \<Rightarrow> activeMap \<Rightarrow> event \<Rightarrow> plan \<times> event list \<Rightarrow> ('w, plan \<times> event list) io" where
  "removeOrKeep E active evt st =
     (case st of (p, kept) \<Rightarrow>
        if stillActive active evt then State_Monad.return (p, kept @ [evt])
        else if evState evt = InProgress then State_Monad.return (p, kept @ [evt])
        else do {
          _ \<leftarrow> deleteEventJobs E evt;
          State_Monad.return (appendMessage p (''Event '' @ evID evt @ '' cleared: taint resolved on ''
            @ evNodeName evt @ ''/'' @ evGPUBDF evt), kept)
        })"

definition removeResolvedEvents ::
  "('w, 'x) recoveryEnv_scheme \<Rightarrow> plan \<Rightarrow> activeMap \<Rightarrow> ('w, plan) io" where
  "removeResolvedEvents E p active = do {
     (p', kept) \<leftarrow> foldM (removeOrKeep E active) (events p) (p, []);
     State_Monad.return (setEvents kept p')
   }"

section \<open>The phase\<close>

definition syncRecoveryEventsFromSlices ::
  "('w, 'x) recoveryEnv_scheme \<Rightarrow> plan \<Rightarrow> ('w, plan \<times> go_error option) io" where
  "syncRecoveryEventsFromSlices E p = do {
     r \<leftarrow> cListSlices E;
     case r of
       Inl e \<Rightarrow> State_Monad.return (p, Some (wrapErr ''listing ResourceSlices'' e))
     | Inr slices \<Rightarrow> do {
         let active = activeDevices p slices;
         p' \<leftarrow> removeResolvedEvents E p active;
         now \<leftarrow> getNow E;
         State_Monad.return (addNewEvents (rDNS E) now p' (rMapOrder E active), None)
       }
   }"

text \<open>The watch on ResourceSlices: which plans a changed slice concerns.\<close>

definition resourceSliceToPlans ::
  "('w, 'x) recoveryEnv_scheme \<Rightarrow> resourceSlice \<Rightarrow> ('w, string list) io" where
  "resourceSliceToPlans E sl =
     (let ids = filter (\<lambda>i. i \<noteq> '''')
            (map (\<lambda>dev. deviceAttributeString (devAttributes dev) DeviceAttrDeviceID) (sliceDevices sl))
      in if ids = [] then State_Monad.return []
         else do {
           r \<leftarrow> rListPlans E;
           State_Monad.return (case r of
             Inl e \<Rightarrow> []
           | Inr plans \<Rightarrow> map plName (filter (\<lambda>p. spDeviceID (plSpec p) \<in> set ids) plans))
         })"

section \<open>What the scan finds\<close>

text \<open>The pairs of device and taint the scan looks at, in order.\<close>

definition deviceTaintsOf :: "plan \<Rightarrow> string \<Rightarrow> device \<Rightarrow> (deviceKey \<times> string) list" where
  "deviceTaintsOf p node dev =
     (let bdf = deviceAttributeString (devAttributes dev) DeviceAttrBDF
      in if deviceAttributeString (devAttributes dev) DeviceAttrDeviceID = spDeviceID (plSpec p)
            \<and> validDeviceBDF bdf
         then map (Pair (DeviceKey node bdf)) (devTaints dev) else [])"

definition sliceTaintsOf :: "plan \<Rightarrow> resourceSlice \<Rightarrow> (deviceKey \<times> string) list" where
  "sliceTaintsOf p sl =
     (if sliceDriver sl = GPUDeviceClass
      then (case sliceNodeName sl of
              None \<Rightarrow> [] | Some node \<Rightarrow> concat (map (deviceTaintsOf p node) (sliceDevices sl)))
      else [])"

definition publishedTaints :: "plan \<Rightarrow> resourceSlice list \<Rightarrow> (deviceKey \<times> string) list" where
  "publishedTaints p slices = concat (map (sliceTaintsOf p) slices)"

definition scanPair :: "plan \<Rightarrow> deviceKey \<times> string \<Rightarrow> activeMap \<Rightarrow> activeMap" where
  "scanPair p kt = scanTaint (spDefaultResetType (plSpec p)) (fst kt) (snd kt)"

lemma fold_concat_map: "fold f (concat (map g xs)) = fold (\<lambda>x. fold f (g x)) xs"
  by (induction xs) (simp_all add: fun_eq_iff)

lemma validDeviceBDF_nonempty: "validDeviceBDF bdf \<Longrightarrow> bdf \<noteq> ''''"
  using validDeviceBDF_length by fastforce

lemma scanDevice_pairs: "scanDevice p node dev = fold (scanPair p) (deviceTaintsOf p node dev)"
  by (auto simp: fun_eq_iff scanDevice_def deviceTaintsOf_def Let_def fold_map comp_def scanPair_def
      dest: validDeviceBDF_nonempty)

lemma scanSlice_pairs: "scanSlice p sl = fold (scanPair p) (sliceTaintsOf p sl)"
  by (auto simp: fun_eq_iff scanSlice_def sliceTaintsOf_def fold_concat_map
      scanDevice_pairs [abs_def] split: option.splits)

lemma activeDevices_pairs: "activeDevices p slices = fold (scanPair p) (publishedTaints p slices) []"
  by (simp add: activeDevices_def publishedTaints_def fold_concat_map scanSlice_pairs [abs_def])

text \<open>What a device needs, from the taints published on it.\<close>

definition neededRecovery :: "plan \<Rightarrow> (deviceKey \<times> string) list \<Rightarrow> deviceKey \<Rightarrow> deviceNeed option" where
  "neededRecovery p obs key =
     (if list_ex (\<lambda>(k, t). k = key \<and> RecoveryForDeviceTaint t = DeviceRecoveryReflash) obs
      then Some \<lparr>needRT = Reflash, needReason = reasonSurvivability\<rparr>
      else if list_ex (\<lambda>(k, t). k = key \<and> RecoveryForDeviceTaint t = DeviceRecoveryReset) obs
      then Some \<lparr>needRT = resetTypeOrDefault (spDefaultResetType (plSpec p)), needReason = reasonWedged\<rparr>
      else None)"

definition resetDefaultOk :: "plan \<Rightarrow> bool" where
  "resetDefaultOk p \<longleftrightarrow> spDefaultResetType (plSpec p) \<in> {noType, SBR, Slot, AMC}"

lemma neededRecovery_snoc:
  assumes "resetDefaultOk p" and "map_of m = neededRecovery p obs"
  shows "map_of (scanPair p kt m) = neededRecovery p (obs @ [kt])"
proof -
  obtain k t where kt: "kt = (k, t)" by fastforce
  show ?thesis
    using assms(1) fun_cong [OF assms(2), of k]
    by (cases "RecoveryForDeviceTaint t")
       (auto simp: kt fun_eq_iff assms(2) scanPair_def scanTaint_def taintToDeviceNeed_def needOf_def
         neededRecovery_def higherPriorityNeed_def recoveryTypePriority_def resetTypeOrDefault_def
         emptyNeed_def resetDefaultOk_def split: if_splits)
qed

lemma map_of_activeDevices:
  assumes "resetDefaultOk p"
  shows "map_of (activeDevices p slices) = neededRecovery p (publishedTaints p slices)"
proof -
  have "map_of (fold (scanPair p) obs []) = neededRecovery p obs" for obs
  proof (induction obs rule: rev_induct)
    case Nil
    then show ?case by (simp add: neededRecovery_def fun_eq_iff)
  next
    case (snoc kt obs)
    then show ?case by (simp add: neededRecovery_snoc [OF assms])
  qed
  then show ?thesis by (simp add: activeDevices_pairs)
qed

lemma distinct_activeDevices: "distinct (map fst (activeDevices p slices))"
proof -
  have "distinct (map fst (scanPair p kt m))" if "distinct (map fst m)" for kt m
    using that by (auto simp: scanPair_def scanTaint_def distinct_put split: option.splits)
  then have "distinct (map fst m) \<Longrightarrow> distinct (map fst (fold (scanPair p) obs m))" for obs m
    by (induction obs arbitrary: m) simp_all
  then show ?thesis by (simp add: activeDevices_pairs)
qed

lemma activeDevices_keys: "fst ` set (activeDevices p slices) \<subseteq> fst ` set (publishedTaints p slices)"
proof -
  have step: "fst ` set (scanPair p kt m) \<subseteq> insert (fst kt) (fst ` set m)" for kt m
  proof (cases "taintToDeviceNeed (snd kt) (spDefaultResetType (plSpec p))")
    case (Some need)
    then show ?thesis by (simp add: scanPair_def scanTaint_def fst_put)
  qed (auto simp: scanPair_def scanTaint_def)
  have "fst ` set (fold (scanPair p) obs m) \<subseteq> fst ` set obs \<union> fst ` set m" for obs m
  proof (induction obs arbitrary: m)
    case (Cons kt obs)
    show ?case using Cons.IH [of "scanPair p kt m"] step [of kt m] by auto
  qed simp
  from this [of "publishedTaints p slices" "[]"]
  show ?thesis by (simp add: activeDevices_pairs)
qed

lemma publishedTaints_valid:
  "k \<in> fst ` set (publishedTaints p slices) \<Longrightarrow> validDeviceBDF (dkBDF k)"
  by (auto simp: publishedTaints_def sliceTaintsOf_def deviceTaintsOf_def Let_def
      split: if_splits option.splits)

lemmas activeDevices_valid = publishedTaints_valid [OF subsetD [OF activeDevices_keys]]

section \<open>What removal keeps\<close>

definition keepsEvent :: "activeMap \<Rightarrow> event \<Rightarrow> bool" where
  "keepsEvent active evt \<longleftrightarrow> stillActive active evt \<or> evState evt = InProgress"

lemma returns_removeOrKeep:
  "returns (\<lambda>(q, kept'). logged p q \<and> kept' = kept @ filter (keepsEvent active) [evt])
     (removeOrKeep E active evt (p, kept))"
  by (auto simp: removeOrKeep_def keepsEvent_def intro!: returns_bind_any)

lemma returns_removeOrKeep_all:
  "returns (\<lambda>(q, kept'). logged p q \<and> kept' = kept @ filter (keepsEvent active) evts)
     (foldM (removeOrKeep E active) evts (p, kept))"
proof (induction evts arbitrary: p kept)
  case (Cons evt evts)
  have "returns (\<lambda>(q', kept'). logged p q' \<and> kept' = kept @ filter (keepsEvent active) (evt # evts))
      (foldM (removeOrKeep E active) evts (q, kept @ filter (keepsEvent active) [evt]))"
    if "logged p q" for q
    using that by (intro returns_mono [OF Cons]) (auto intro: logged_trans)
  then show ?case
    unfolding foldM.simps by (intro returns_bind_mono [OF returns_removeOrKeep]) (erule case_prodE, simp)
qed simp

lemma returns_removeResolvedEvents:
  "returns (logged (setEvents (filter (keepsEvent active) (events p)) p)) (removeResolvedEvents E p active)"
  unfolding removeResolvedEvents_def
  by (rule returns_bind_mono [OF returns_removeOrKeep_all]) (auto intro: logged_setEvents)

section \<open>What detection adds\<close>

definition devs :: "plan \<Rightarrow> deviceKey list" where
  "devs p = map devKey (events p)"

lemma set_devs: "set (devs p) = devKey ` set (events p)"
  by (simp add: devs_def)

definition addOne ::
  "(string \<Rightarrow> string list) \<Rightarrow> time \<Rightarrow> deviceKey \<times> deviceNeed \<Rightarrow> plan \<Rightarrow> plan" where
  "addOne dns now kn p =
     (case findEventForDevice p (dkNode (fst kn)) (dkBDF (fst kn)) of
        Some i \<Rightarrow> (case escalateEvent dns now p (events p ! i) (snd kn) of (p', evt') \<Rightarrow> putEvent i evt' p')
      | None \<Rightarrow> if length (events p) \<ge> maxStatusEvents then p
                else addRecoveryEvent dns now p (dkNode (fst kn)) (dkBDF (fst kn)) (snd kn))"

lemma addNewEventsFrom_fold: "fst (addNewEventsFrom dns now active p k) = fold (addOne dns now) active p"
  by (induction dns now active p k rule: addNewEventsFrom.induct)
     (auto simp: addOne_def split: option.splits prod.splits)

lemma addNewEvents_logged: "logged (fold (addOne dns now) active p) (addNewEvents dns now p active)"
  unfolding addNewEventsFrom_fold [where k = 0, symmetric]
  by (simp add: addNewEvents_def split: prod.splits)

lemma findEventForDevice_Some:
  "findEventForDevice p n bdf = Some i \<Longrightarrow> i < length (events p) \<and> devKey (events p ! i) = DeviceKey n bdf"
  by (auto simp: findEventForDevice_def find_Some_iff devKey_def)

lemma findEventForDevice_None:
  "findEventForDevice p n bdf = None \<longleftrightarrow> DeviceKey n bdf \<notin> set (devs p)"
  by (fastforce simp: findEventForDevice_def find_None_iff devs_def devKey_def in_set_conv_nth)

text \<open>The three things detection may do for one tainted device.\<close>

lemma addOne_cases:
  obtains (escalated) i e where "i < length (events p)" "devKey (events p ! i) = fst kn"
      "e = snd (escalateEvent dns now p (events p ! i) (snd kn))"
      "logged (putEvent i e p) (addOne dns now kn p)"
  | (full) "fst kn \<notin> set (devs p)" "length (events p) \<ge> maxStatusEvents" "addOne dns now kn p = p"
  | (added) "fst kn \<notin> set (devs p)" "length (events p) < maxStatusEvents"
      "addOne dns now kn p = addRecoveryEvent dns now p (dkNode (fst kn)) (dkBDF (fst kn)) (snd kn)"
proof (cases "findEventForDevice p (dkNode (fst kn)) (dkBDF (fst kn))")
  case None
  then have "fst kn \<notin> set (devs p)" by (simp add: findEventForDevice_None)
  moreover have "length (events p) \<ge> maxStatusEvents \<or> length (events p) < maxStatusEvents" by linarith
  ultimately show ?thesis using full added None by (fastforce simp: addOne_def)
next
  case (Some i)
  obtain p' e where pe: "escalateEvent dns now p (events p ! i) (snd kn) = (p', e)" by fastforce
  then have "logged p p'" using logged_escalateEvent [of p dns now "events p ! i" "snd kn"] by simp
  then have "logged (putEvent i e p) (putEvent i e p')"
    by (rule logged_putEvent)
  then show ?thesis using escalated [of i e] findEventForDevice_Some [OF Some] Some pe
    by (simp add: addOne_def)
qed

lemma devKey_escalate [simp]: "devKey (snd (escalateEvent dns now p evt need)) = devKey evt"
  using escalateEvent_device [of evt dns now p need] by (simp add: sameDevice_def devKey_def)

lemma devs_addOne:
  "devs (addOne dns now kn p) = (if fst kn \<in> set (devs p) \<or> length (events p) \<ge> maxStatusEvents
     then devs p else devs p @ [fst kn])"
proof (cases rule: addOne_cases [of p kn dns now])
  case (escalated i e)
  then have "devs (addOne dns now kn p) = devs p"
    by (simp add: loggedD devs_def map_update) (metis devKey_escalate list_update_id map_update nth_map length_map)
  moreover have "fst kn \<in> set (devs p)" 
    using escalated by (metis imageI nth_mem set_devs)
  ultimately show ?thesis by simp
next
  case added
  then show ?thesis by (auto simp: devs_def addRecoveryEvent_def devKey_def newEvent_def)
qed auto

lemma addOne_frame:
  "plSpec (addOne dns now kn p) = plSpec p" "plName (addOne dns now kn p) = plName p"
  "plGeneration (addOne dns now kn p) = plGeneration p"
  "length (messages p) \<le> maxStatusMessages \<Longrightarrow> length (messages (addOne dns now kn p)) \<le> maxStatusMessages"
  by (cases rule: addOne_cases [of p kn dns now]; simp add: loggedD addRecoveryEvent_def)+

text \<open>An event as detection writes it: waiting for an approval it does not have yet.\<close>

definition freshEvent :: "(string \<Rightarrow> string list) \<Rightarrow> deviceKey \<times> deviceNeed \<Rightarrow> event \<Rightarrow> bool" where
  "freshEvent dns kn e \<longleftrightarrow>
     evState e = WaitingApproval \<and> devKey e = fst kn \<and> evApprovalID e = ''''
     \<and> evRecoveryType e = \<lparr>rtType = needRT (snd kn), rtSuggestedType = noType\<rparr>
     \<and> evID e = generateEventID dns (dkNode (fst kn)) (dkBDF (fst kn)) (needRT (snd kn))"

lemma freshEvent_escalate:
  "snd (escalateEvent dns now p evt need) = evt \<or>
   freshEvent dns (devKey evt, need) (snd (escalateEvent dns now p evt need))"
  by (simp add: escalateEvent_def Let_def freshEvent_def devKey_def clearImageVerifyHold_def)

lemma addOne_events:
  assumes "e \<in> set (events (addOne dns now kn p))"
  shows "e \<in> set (events p) \<or> freshEvent dns kn e"
proof (cases rule: addOne_cases [of p kn dns now])
  case (escalated i f)
  then have "e \<in> insert f (set (events p))"
    using assms set_update_subset_insert by (fastforce simp: loggedD)
  moreover have "f = events p ! i \<or> freshEvent dns kn f"
    using escalated freshEvent_escalate [of dns now p "events p ! i" "snd kn"] by simp
  ultimately show ?thesis using escalated(1) by auto
next
  case added
  then show ?thesis using assms
    by (auto simp: addRecoveryEvent_def freshEvent_def devKey_def newEvent_def)
qed (use assms in simp)

lemma fold_addOne_events:
  "e \<in> set (events (fold (addOne dns now) active p)) \<Longrightarrow>
   e \<in> set (events p) \<or> (\<exists>kn \<in> set active. freshEvent dns kn e)"
proof (induction active arbitrary: p)
  case (Cons kn active)
  then have "e \<in> set (events (addOne dns now kn p)) \<or> (\<exists>kn \<in> set active. freshEvent dns kn e)" by simp
  then show ?case using addOne_events by fastforce
qed simp

text \<open>The device's event calls for at least the recovery it needs, unless a Job is running.\<close>

definition covers :: "deviceKey \<times> deviceNeed \<Rightarrow> plan \<Rightarrow> bool" where
  "covers kn p \<longleftrightarrow> (\<forall>e \<in> set (events p). devKey e = fst kn \<longrightarrow>
     recoveryTypePriority (needRT (snd kn)) \<le> recoveryTypePriority (rtType (evRecoveryType e))
     \<or> evState e = InProgress)"

lemma freshEvent_covers:
  "freshEvent dns kn e \<Longrightarrow> rtType (evRecoveryType e) = needRT (snd kn)"
  by (simp add: freshEvent_def)

lemma escalate_covers:
  "recoveryTypePriority (needRT need) \<le>
     recoveryTypePriority (rtType (evRecoveryType (snd (escalateEvent dns now p evt need))))
   \<or> evState (snd (escalateEvent dns now p evt need)) = InProgress"
  by (simp add: escalateEvent_def Let_def clearImageVerifyHold_def)

lemma covers_addOne_same:
  assumes "distinct (devs p)" shows "covers kn (addOne dns now kn p)"
proof (cases rule: addOne_cases [of p kn dns now])
  case (escalated i f)
  have uniq: "j = i" if "j < length (events p)" "devKey (events p ! j) = fst kn" for j
    using assms escalated(1,2) that by (auto simp: devs_def distinct_conv_nth) metis
  have ev: "events (addOne dns now kn p) = (events p)[i := f]" using escalated by (simp add: loggedD)
  show ?thesis
    using escalate_covers [of "snd kn" dns now p "events p ! i"] escalated(1,3)
    by (auto simp: covers_def ev in_set_conv_nth nth_list_update_cases) (use uniq in blast)+
next
  case full
  then have "\<forall>e \<in> set (events p). devKey e \<noteq> fst kn" by (metis imageI set_devs)
  with full show ?thesis by (simp add: covers_def)
next
  case added
  then have "\<forall>e \<in> set (events p). devKey e \<noteq> fst kn" by (metis imageI set_devs)
  with added show ?thesis by (simp add: covers_def addRecoveryEvent_def newEvent_def)
qed

lemma covers_addOne_other:
  "fst kn \<noteq> fst kn' \<Longrightarrow> covers kn p \<Longrightarrow> covers kn (addOne dns now kn' p)"
  using addOne_events unfolding covers_def freshEvent_def by metis

lemma distinct_devs_addOne: "distinct (devs p) \<Longrightarrow> distinct (devs (addOne dns now kn p))"
  by (simp add: devs_addOne)

lemma fold_addOne_covers:
  assumes "distinct (devs p)" "distinct (map fst active)" "kn \<in> set active"
  shows "covers kn (fold (addOne dns now) active p)"
  using assms
proof (induction active arbitrary: p)
  case (Cons kn' active)
  have keep: "covers kn q \<Longrightarrow> kn \<notin> set active \<Longrightarrow> fst kn \<notin> fst ` set active \<Longrightarrow>
      covers kn (fold (addOne dns now) active q)" for q
    by (induction active arbitrary: q) (auto intro: covers_addOne_other)
  show ?case
  proof (cases "kn = kn'")
    case True
    then show ?thesis using Cons.prems keep [OF covers_addOne_same [OF Cons.prems(1)]]
      by (auto simp: rev_image_eqI)
  next
    case False
    then show ?thesis using Cons by (auto simp: distinct_devs_addOne)
  qed
qed simp

section \<open>The phase as a whole\<close>

lemma fold_addOne_frame:
  "plSpec (fold (addOne dns now) active p) = plSpec p" "plName (fold (addOne dns now) active p) = plName p"
  "plGeneration (fold (addOne dns now) active p) = plGeneration p"
  "length (messages p) \<le> maxStatusMessages \<Longrightarrow>
     length (messages (fold (addOne dns now) active p)) \<le> maxStatusMessages"
  by (induction active arbitrary: p) (simp_all add: addOne_frame)

lemma fold_addOne_devs:
  "distinct (devs p) \<Longrightarrow> distinct (devs (fold (addOne dns now) active p))"
  "set (devs p) \<subseteq> set (devs (fold (addOne dns now) active p))"
  "set (devs (fold (addOne dns now) active p)) \<subseteq> set (devs p) \<union> fst ` set active"
  "length (events p) \<le> maxStatusEvents \<Longrightarrow> length (events (fold (addOne dns now) active p)) \<le> maxStatusEvents"
proof -
  have len: "length (events p) = length (devs p)" for p by (simp add: devs_def)
  show "distinct (devs p) \<Longrightarrow> distinct (devs (fold (addOne dns now) active p))"
    by (induction active arbitrary: p) (simp_all add: distinct_devs_addOne)
  show "set (devs p) \<subseteq> set (devs (fold (addOne dns now) active p))"
    by (induction active arbitrary: p) (simp, fastforce simp: devs_addOne split: if_splits)
  show "set (devs (fold (addOne dns now) active p)) \<subseteq> set (devs p) \<union> fst ` set active"
    by (induction active arbitrary: p) (simp, fastforce simp: devs_addOne split: if_splits)
  show "length (events p) \<le> maxStatusEvents \<Longrightarrow>
      length (events (fold (addOne dns now) active p)) \<le> maxStatusEvents"
    unfolding len by (induction active arbitrary: p) (simp_all add: devs_addOne len split: if_splits)
qed

lemma fold_addOne_room:
  assumes "distinct (devs p)" and "card (set (devs p) \<union> fst ` set active) \<le> maxStatusEvents"
  shows "set (devs (fold (addOne dns now) active p)) = set (devs p) \<union> fst ` set active"
  using assms
proof (induction active arbitrary: p)
  case (Cons kn active)
  let ?q = "addOne dns now kn p"
  have "set (devs ?q) = insert (fst kn) (set (devs p))"
  proof (cases "fst kn \<in> set (devs p)")
    case False
    have "length (events p) = card (set (devs p))"
      using Cons.prems(1) by (simp add: distinct_card) (simp add: devs_def)
    also have "\<dots> < card (set (devs p) \<union> fst ` set (kn # active))"
      using False by (intro psubset_card_mono) auto
    finally show ?thesis using Cons.prems(2) False by (simp add: devs_addOne)
  qed (auto simp: devs_addOne)
  then show ?case using Cons.IH [of ?q] Cons.prems by (simp add: distinct_devs_addOne)
qed simp

text \<open>
  What detection hands to the next phase, from the slices it listed: the plan with the resolved
  events removed and the tainted devices added.
\<close>

definition detected :: "('w, 'x) recoveryEnv_scheme \<Rightarrow> plan \<Rightarrow> resourceSlice list \<Rightarrow> plan \<Rightarrow> bool" where
  "detected E p slices q \<longleftrightarrow>
     (\<exists>p' now. logged (setEvents (filter (keepsEvent (activeDevices p slices)) (events p)) p) p'
               \<and> logged (fold (addOne (rDNS E) now) (rMapOrder E (activeDevices p slices)) p') q)"

lemma run_syncRecoveryEvents:
  assumes "run_state (syncRecoveryEventsFromSlices E p) w = ((q, err), w')"
  obtains (failed) e w1 where "run_state (cListSlices E) w = (Inl e, w1)" "q = p" "err \<noteq> None"
  | (synced) slices w1 where "run_state (cListSlices E) w = (Inr slices, w1)" "detected E p slices q"
      "err = None"
proof -
  obtain r w1 where l: "run_state (cListSlices E) w = (r, w1)" by fastforce
  show ?thesis
  proof (cases r)
    case (Inl e)
    then show ?thesis using failed assms l by (auto simp: syncRecoveryEventsFromSlices_def)
  next
    case (Inr slices)
    let ?a = "activeDevices p slices"
    obtain p' w2 where rm: "run_state (removeResolvedEvents E p ?a) w1 = (p', w2)" by fastforce
    have "detected E p slices q" "err = None"
      using assms l Inr rm returnsD [OF returns_removeResolvedEvents rm]
        addNewEvents_logged [of "rDNS E" "cClock E w2" "rMapOrder E ?a" p']
      by (auto simp: syncRecoveryEventsFromSlices_def detected_def Let_def)
    then show ?thesis using synced l Inr by blast
  qed
qed

lemma returns_syncRecoveryEvents:
  "returns (\<lambda>(q, err). q = p \<or> (\<exists>slices. detected E p slices q)) (syncRecoveryEventsFromSlices E p)"
  by (rule returnsI) (metis (mono_tags, lifting) case_prodI2 prod.collapse run_syncRecoveryEvents)

section \<open>Detection keeps events well-formed\<close>

lemma wfEvent_escalate: "wfEvent e \<Longrightarrow> wfEvent (snd (escalateEvent dns now p e need))"
proof -
  assume "wfEvent e"
  then have "wfEvent (setEventState now (clearImageVerifyHold (e\<lparr>evID := i, evRecoveryType := rt, evReason := r,
      evApprovalID := '''', evApprovalMatchedAt := None\<rparr>)) WaitingApproval m)" for i rt r m
    by (intro wfEvent_setEventState) (simp_all add: wfEvent_def clearImageVerifyHold_def)
  with \<open>wfEvent e\<close> show ?thesis by (simp add: escalateEvent_def Let_def)
qed

lemma wfEvent_new:
  "validDeviceBDF bdf \<Longrightarrow> wfEvent (setEventState now (newEvent i n bdf need) WaitingApproval '''')"
  by (intro wfEvent_setEventState) (simp_all add: wfEvent_def newEvent_def)

lemma addOne_wf:
  assumes "\<forall>e \<in> set (events p). wfEvent e" "validDeviceBDF (dkBDF (fst kn))"
  shows "\<forall>e \<in> set (events (addOne dns now kn p)). wfEvent e"
proof (cases rule: addOne_cases [of p kn dns now])
  case (escalated i f)
  then have "wfEvent f" using assms(1) wfEvent_escalate by simp
  moreover have "set (events (addOne dns now kn p)) \<subseteq> insert f (set (events p))"
    using escalated(4) set_update_subset_insert by (simp add: loggedD)
  ultimately show ?thesis using assms(1) by blast
next
  case added
  then show ?thesis using assms(1) wfEvent_new [OF assms(2)] by (auto simp: addRecoveryEvent_def)
qed (use assms in simp)

lemma fold_addOne_wf:
  "\<forall>e \<in> set (events p). wfEvent e \<Longrightarrow> \<forall>kn \<in> set active. validDeviceBDF (dkBDF (fst kn)) \<Longrightarrow>
   \<forall>e \<in> set (events (fold (addOne dns now) active p)). wfEvent e"
proof (induction active arbitrary: p)
  case (Cons kn active)
  have "\<forall>e \<in> set (events (addOne dns now kn p)). wfEvent e"
    using Cons.prems by (intro addOne_wf) auto
  from Cons.IH [OF this] show ?case using Cons.prems(2) by simp
qed simp

text \<open>The order in which the map of devices is visited is an order of its entries.\<close>

definition visitsOnce :: "('w, 'x) recoveryEnv_scheme \<Rightarrow> bool" where
  "visitsOnce E \<longleftrightarrow> (\<forall>m. set (rMapOrder E m) = set m \<and> (distinct (map fst m) \<longrightarrow> distinct (map fst (rMapOrder E m))))"

lemma visited_valid:
  "visitsOnce E \<Longrightarrow> \<forall>kn \<in> set (rMapOrder E (activeDevices p slices)). validDeviceBDF (dkBDF (fst kn))"
  by (auto simp: visitsOnce_def intro!: activeDevices_valid)

lemma detected_events:
  assumes "detected E p slices q" "e \<in> set (events q)"
  shows "e \<in> set (events p) \<or> (\<exists>kn \<in> set (rMapOrder E (activeDevices p slices)). freshEvent (rDNS E) kn e)"
proof -
  from assms(1) obtain p' now where
    p': "logged (setEvents (filter (keepsEvent (activeDevices p slices)) (events p)) p) p'"
    and q: "logged (fold (addOne (rDNS E) now) (rMapOrder E (activeDevices p slices)) p') q"
    by (auto simp: detected_def)
  have "e \<in> set (events (fold (addOne (rDNS E) now) (rMapOrder E (activeDevices p slices)) p'))"
    using assms(2) q by (simp add: loggedD)
  then show ?thesis using fold_addOne_events p' by (force simp: loggedD)
qed

lemma detected_bounds:
  assumes "detected E p slices q"
  shows "distinct (devs p) \<Longrightarrow> distinct (devs q)"
    and "length (events p) \<le> maxStatusEvents \<Longrightarrow> length (events q) \<le> maxStatusEvents"
    and "length (messages p) \<le> maxStatusMessages \<Longrightarrow> length (messages q) \<le> maxStatusMessages"
    and "visitsOnce E \<Longrightarrow> \<forall>e \<in> set (events p). wfEvent e \<Longrightarrow> \<forall>e \<in> set (events q). wfEvent e"
    and "plSpec q = plSpec p" "plName q = plName p" "plGeneration q = plGeneration p"
proof -
  let ?a = "rMapOrder E (activeDevices p slices)"
  from assms obtain p' now where
    p': "logged (setEvents (filter (keepsEvent (activeDevices p slices)) (events p)) p) p'"
    and q: "logged (fold (addOne (rDNS E) now) ?a p') q"
    by (auto simp: detected_def)
  have ev: "events q = events (fold (addOne (rDNS E) now) ?a p')"
    and ev': "events p' = filter (keepsEvent (activeDevices p slices)) (events p)"
    using p' q by (simp_all add: loggedD)
  have dv: "devs q = devs (fold (addOne (rDNS E) now) ?a p')" by (simp add: devs_def ev)
  show "distinct (devs p) \<Longrightarrow> distinct (devs q)"
    unfolding dv by (rule fold_addOne_devs(1)) (simp add: devs_def ev' distinct_map_filter)
  show "length (events p) \<le> maxStatusEvents \<Longrightarrow> length (events q) \<le> maxStatusEvents"
    unfolding ev by (rule fold_addOne_devs(4)) (simp add: ev' le_trans [OF length_filter_le])
  show "length (messages p) \<le> maxStatusMessages \<Longrightarrow> length (messages q) \<le> maxStatusMessages"
    using loggedD(8) [OF p'] loggedD(8) [OF q] fold_addOne_frame(4) by simp
  show "visitsOnce E \<Longrightarrow> \<forall>e \<in> set (events p). wfEvent e \<Longrightarrow> \<forall>e \<in> set (events q). wfEvent e"
    unfolding ev by (rule fold_addOne_wf) (auto simp: ev' dest: visited_valid)
  show "plSpec q = plSpec p" "plName q = plName p" "plGeneration q = plGeneration p"
    using p' q by (simp_all add: loggedD fold_addOne_frame)
qed

section \<open>What detection does to a device that has an event\<close>

lemma escalateEvent_running: "evState e = InProgress \<Longrightarrow> snd (escalateEvent dns now p e need) = e"
  by (simp add: escalateEvent_def)

lemma addOne_running:
  assumes "e \<in> set (events p)" "evState e = InProgress"
  shows "e \<in> set (events (addOne dns now kn p))"
proof (cases rule: addOne_cases [of p kn dns now])
  case (escalated i f)
  from assms(1) obtain j where j: "j < length (events p)" "e = events p ! j" by (auto simp: in_set_conv_nth)
  have "(events p)[i := f] ! j = e"
    using j assms(2) escalated(1,3) escalateEvent_running by (cases "j = i") auto
  then show ?thesis using j(1) escalated(4) by (metis length_list_update loggedD(1) nth_mem putEvent_frame(1))
qed (use assms in \<open>simp_all add: addRecoveryEvent_def\<close>)

lemma fold_addOne_running:
  "e \<in> set (events p) \<Longrightarrow> evState e = InProgress \<Longrightarrow> e \<in> set (events (fold (addOne dns now) active p))"
  by (induction active arbitrary: p) (simp_all add: addOne_running)

lemma detected_running:
  assumes "detected E p slices q" "e \<in> set (events p)" "evState e = InProgress"
  shows "e \<in> set (events q)"
proof -
  from assms(1) obtain p' now where
    p': "logged (setEvents (filter (keepsEvent (activeDevices p slices)) (events p)) p) p'"
    and q: "logged (fold (addOne (rDNS E) now) (rMapOrder E (activeDevices p slices)) p') q"
    by (auto simp: detected_def)
  have "e \<in> set (events p')" using p' assms(2,3) by (simp add: loggedD keepsEvent_def)
  then show ?thesis using fold_addOne_running [OF _ assms(3)] q by (simp add: loggedD)
qed

text \<open>The event of the same device for a more severe recovery.\<close>

definition outranks :: "(string \<Rightarrow> string list) \<Rightarrow> event \<Rightarrow> event \<Rightarrow> bool" where
  "outranks dns e g \<longleftrightarrow>
     recoveryTypePriority (rtType (evRecoveryType e)) < recoveryTypePriority (rtType (evRecoveryType g))
     \<and> evID g = generateEventID dns (evNodeName e) (evGPUBDF e) (rtType (evRecoveryType g))"

definition keptOrOutranked :: "(string \<Rightarrow> string list) \<Rightarrow> event \<Rightarrow> plan \<Rightarrow> bool" where
  "keptOrOutranked dns e p \<longleftrightarrow> devKey e \<in> set (devs p)
     \<and> (\<forall>g \<in> set (events p). devKey g = devKey e \<longrightarrow> g = e \<or> outranks dns e g)"

lemma escalate_outranks:
  assumes "g = e \<or> outranks dns e g" "devKey g = devKey e"
  shows "snd (escalateEvent dns now p g need) = e \<or> outranks dns e (snd (escalateEvent dns now p g need))"
proof (cases "snd (escalateEvent dns now p g need) = g")
  case False
  then have "recoveryTypePriority (rtType (evRecoveryType g)) < recoveryTypePriority (needRT need)"
    by (auto simp: escalateEvent_def split: if_splits)
  moreover have "freshEvent dns (devKey g, need) (snd (escalateEvent dns now p g need))"
    using freshEvent_escalate False by blast
  ultimately show ?thesis
    using assms by (auto simp: freshEvent_def outranks_def devKey_def)
qed (use assms in simp)

lemma keptOrOutranked_addOne:
  assumes "keptOrOutranked dns e p" shows "keptOrOutranked dns e (addOne dns now kn p)"
proof -
  have dev: "devKey e \<in> set (devs (addOne dns now kn p))"
    using assms by (simp add: keptOrOutranked_def devs_addOne)
  have "g = e \<or> outranks dns e g" if g: "g \<in> set (events (addOne dns now kn p))" "devKey g = devKey e" for g
  proof (cases rule: addOne_cases [of p kn dns now])
    case (escalated i f)
    then have "g = f \<or> g \<in> set (events p)"
      using g(1) set_update_subset_insert [of "events p" i f] by (auto simp: loggedD)
    moreover have "devKey f = devKey (events p ! i)" using escalated(3) by simp
    ultimately show ?thesis
      using assms g(2) escalated(1,3) escalate_outranks [of "events p ! i" e dns now p "snd kn"]
      unfolding keptOrOutranked_def by (metis nth_mem)
  next
    case added
    then have "g \<in> set (events p) \<or> devKey g = fst kn"
      using g(1) by (auto simp: addRecoveryEvent_def devKey_def newEvent_def)
    then show ?thesis using assms g(2) added(1) unfolding keptOrOutranked_def by metis
  qed (use assms g in \<open>auto simp: keptOrOutranked_def\<close>)
  with dev show ?thesis unfolding keptOrOutranked_def by blast
qed

lemma keptOrOutranked_fold:
  "keptOrOutranked dns e p \<Longrightarrow> keptOrOutranked dns e (fold (addOne dns now) active p)"
  by (induction active arbitrary: p) (simp_all add: keptOrOutranked_addOne)

lemma distinct_devs_eq:
  "distinct (devs p) \<Longrightarrow> e \<in> set (events p) \<Longrightarrow> g \<in> set (events p) \<Longrightarrow> devKey g = devKey e \<Longrightarrow> g = e"
  by (auto simp: devs_def distinct_map inj_on_def)

lemma detected_same_device:
  assumes "detected E p slices q" "visitsOnce E" "distinct (devs p)" "e \<in> set (events p)"
    and "g \<in> set (events q)" "devKey g = devKey e"
  shows "g = e \<or> outranks (rDNS E) e g"
proof -
  let ?a = "activeDevices p slices"
  from assms(1) obtain p' now where p': "logged (setEvents (filter (keepsEvent ?a) (events p)) p) p'"
    and q: "logged (fold (addOne (rDNS E) now) (rMapOrder E ?a) p') q"
    by (auto simp: detected_def)
  have ev: "events p' = filter (keepsEvent ?a) (events p)" using p' by (simp add: loggedD)
  show ?thesis
  proof (cases "keepsEvent ?a e")
    case True
    then have "keptOrOutranked (rDNS E) e p'"
      using assms(4) distinct_devs_eq [OF assms(3,4)] unfolding keptOrOutranked_def set_devs ev by auto
    then have "keptOrOutranked (rDNS E) e (fold (addOne (rDNS E) now) (rMapOrder E ?a) p')"
      by (rule keptOrOutranked_fold)
    moreover have "g \<in> set (events (fold (addOne (rDNS E) now) (rMapOrder E ?a) p'))"
      using assms(5) q by (simp add: loggedD)
    ultimately show ?thesis using assms(6) unfolding keptOrOutranked_def by blast
  next
    case False
    then have "devKey e \<notin> fst ` set (rMapOrder E ?a)"
      using assms(2) by (auto simp: keepsEvent_def stillActive_def visitsOnce_def dest: weak_map_of_SomeI)
    moreover have "devKey e \<notin> set (devs p')"
      using False distinct_devs_eq [OF assms(3,4)] by (auto simp: devs_def ev)
    ultimately have "devKey e \<notin> set (devs q)"
      using fold_addOne_devs(3) [of "rDNS E" now "rMapOrder E ?a" p'] q by (auto simp: devs_def loggedD)
    then show ?thesis using assms(5,6) by (metis imageI set_devs)
  qed
qed

end
