(* ===== verification/RecoveryApprovals.thy ===== *)
theory RecoveryApprovals
  imports RecoveryController
begin

text \<open>
  Approvals: which events an administrator has authorised and what starting one does
  (\<^verbatim>\<open>processApprovals\<close>, \<^verbatim>\<open>findMatchingApproval\<close>, \<^verbatim>\<open>findExplicitApprovalForEvent\<close>,
  \<^verbatim>\<open>applyOverride\<close> and the node label cache of \<^verbatim>\<open>gpurecoveryplan_helpers.go\<close>).
\<close>

section \<open>Node labels\<close>

record nodeLabelCache =
  ncLabels :: "(string \<times> (string \<times> string) list) list"
  ncFailed :: "string list"

definition newNodeLabelCache :: nodeLabelCache where
  "newNodeLabelCache = \<lparr>ncLabels = [], ncFailed = []\<rparr>"

definition nodeLabelGet ::
  "('w, 'x) recoveryEnv_scheme \<Rightarrow> nodeLabelCache \<Rightarrow> string \<Rightarrow>
     ('w, (string \<times> string) list option \<times> nodeLabelCache) io" where
  "nodeLabelGet E c n =
     (case map_of (ncLabels c) n of
        Some l \<Rightarrow> State_Monad.return (Some l, c)
      | None \<Rightarrow>
          if n \<in> set (ncFailed c) then State_Monad.return (None, c)
          else do {
            r \<leftarrow> cGetNode E n;
            State_Monad.return (case r of
              Inl e \<Rightarrow> (None, c\<lparr>ncFailed := n # ncFailed c\<rparr>)
            | Inr nd \<Rightarrow> (Some (nodeLabels nd), c\<lparr>ncLabels := put n (nodeLabels nd) (ncLabels c)\<rparr>))
          })"

definition nodeSelectorMatches ::
  "('w, 'x) recoveryEnv_scheme \<Rightarrow> (string \<times> string) list \<Rightarrow> string \<Rightarrow> nodeLabelCache \<Rightarrow>
     ('w, bool \<times> nodeLabelCache) io" where
  "nodeSelectorMatches E sel n c =
     (if sel = [] then State_Monad.return (True, c)
      else do {
        (l, c') \<leftarrow> nodeLabelGet E c n;
        State_Monad.return (case l of None \<Rightarrow> False | Some labels \<Rightarrow> rLabelsMatch E sel labels, c')
      })"

section \<open>Matching\<close>

fun findMatchingIn ::
  "('w, 'x) recoveryEnv_scheme \<Rightarrow> event \<Rightarrow> approval list \<Rightarrow> nodeLabelCache \<Rightarrow> ('w, approval option) io" where
  "findMatchingIn E evt [] c = State_Monad.return None"
| "findMatchingIn E evt (a # as) c =
     (if apConsumed a then findMatchingIn E evt as c
      else if apEventID a = evID evt then State_Monad.return (Some a)
      else case apSelector a of
             None \<Rightarrow> findMatchingIn E evt as c
           | Some sel \<Rightarrow>
               if selRecoveryType sel \<noteq> noType \<and> selRecoveryType sel \<noteq> rtType (evRecoveryType evt)
               then findMatchingIn E evt as c
               else if selNodeName sel \<noteq> '''' \<and> selNodeName sel \<noteq> evNodeName evt
               then findMatchingIn E evt as c
               else do {
                 (ok, c') \<leftarrow> nodeSelectorMatches E (selNodeSelector sel) (evNodeName evt) c;
                 if ok then State_Monad.return (Some a) else findMatchingIn E evt as c'
               })"

definition findMatchingApproval ::
  "('w, 'x) recoveryEnv_scheme \<Rightarrow> plan \<Rightarrow> event \<Rightarrow> ('w, approval option) io" where
  "findMatchingApproval E p evt =
     (if rtType (evRecoveryType evt) = noType then State_Monad.return None
      else findMatchingIn E evt (approvals p) newNodeLabelCache)"

definition findExplicitApprovalForEvent :: "plan \<Rightarrow> event \<Rightarrow> approval option" where
  "findExplicitApprovalForEvent p evt =
     find (\<lambda>a. apEventID a = evID evt \<and> \<not> apConsumed a) (approvals p)"

definition applyOverride :: "plan \<Rightarrow> event \<Rightarrow> approval \<Rightarrow> plan \<times> event" where
  "applyOverride p evt a =
     (case apOverride a of
        None \<Rightarrow> (p, evt)
      | Some newType \<Rightarrow>
          if IsReflash (evRecoveryType evt) then (p, evt)
          else if newType = Reflash then (p, evt)
          else if rtType (evRecoveryType evt) = newType then (p, evt)
          else let rt = evRecoveryType evt;
                   sug = (if rtSuggestedType rt = noType then rtType rt else rtSuggestedType rt)
               in (appendMessage p (''Event '' @ evID evt @ '': reset type overridden from ''
                     @ rtString sug @ '' to '' @ rtString newType @ '' via approval '' @ apID a),
                   evt\<lparr>evRecoveryType := \<lparr>rtType = newType, rtSuggestedType = sug\<rparr>\<rparr>))"

section \<open>Starting the approved events\<close>

definition reapproveEvent :: "time \<Rightarrow> plan \<Rightarrow> event \<Rightarrow> approval \<Rightarrow> plan \<times> event" where
  "reapproveEvent now p evt a =
     (let evt' = setEventState now evt WaitingApproval (''manually re-approved via approval '' @ apID a
                   @ '' after '' @ natStr (length (evPastJobs evt)) @ '' failed attempt(s)'')
      in (appendMessage p (''Event '' @ evID evt @ '' manually re-approved via approval '' @ apID a),
          evt'\<lparr>evApprovalID := apID a, evApprovalMatchedAt := evLastUpdated evt'\<rparr>))"

definition recordApproval :: "time \<Rightarrow> plan \<Rightarrow> event \<Rightarrow> approval \<Rightarrow> plan \<times> event" where
  "recordApproval now p evt a =
     (if evApprovalID evt \<noteq> apID a
      then (appendMessage p (''Event '' @ evID evt @ '' matched approval '' @ apID a),
            evt\<lparr>evApprovalID := apID a, evApprovalMatchedAt := Some now, evLastUpdated := Some now\<rparr>)
      else (p, evt))"

text \<open>
  The loop carries the plan, the one-shot approvals used (\<^verbatim>\<open>consumedIDs\<close>) and those that
  have an event held back (\<^verbatim>\<open>blockedIDs\<close>). \<open>startApproved\<close> is the rest of the loop body once
  an approval has been found.
\<close>

type_synonym approvalLoop = "plan \<times> string list \<times> string list"

definition finishStart ::
  "nat \<Rightarrow> approval \<Rightarrow> string list \<Rightarrow> string list \<Rightarrow> plan \<Rightarrow> event \<Rightarrow> approvalLoop" where
  "finishStart i a consumed blocked p evt =
     (putEvent i evt p,
      if \<not> apPersistent a \<and> (evState evt = InProgress \<or> evState evt = Draining)
      then List.insert (apID a) consumed else consumed,
      blocked)"

definition launchApproved ::
  "('w, 'x) recoveryEnv_scheme \<Rightarrow> nat \<Rightarrow> approval \<Rightarrow> string list \<Rightarrow> string list \<Rightarrow> plan \<Rightarrow> event \<Rightarrow>
     ('w, approvalLoop) io" where
  "launchApproved E i a consumed blocked p evt =
     (if needsDrain p evt then do {
        now \<leftarrow> getNow E;
        case beginDrain now p evt of
          (p', evt') \<Rightarrow> State_Monad.return (finishStart i a consumed blocked p' evt')
      } else do {
        (p', evt', err) \<leftarrow> createRecoveryJob E p evt;
        now \<leftarrow> getNow E;
        State_Monad.return (case err of
          None \<Rightarrow> finishStart i a consumed blocked p' evt'
        | Some e \<Rightarrow>
            (putEvent i (setEventState now evt' (evState evt')
               (''the recovery Job could not be created: '' @ errText e))
              (appendMessage p' (''Event '' @ evID evt' @ '': failed to create recovery job: '' @ errText e)),
             consumed, blocked))
      })"

definition startApproved ::
  "('w, 'x) recoveryEnv_scheme \<Rightarrow> nat \<Rightarrow> approval \<Rightarrow> string list \<Rightarrow> string list \<Rightarrow> plan \<Rightarrow> event \<Rightarrow>
     ('w, approvalLoop) io" where
  "startApproved E i a consumed blocked p evt = do {
     now \<leftarrow> getNow E;
     case nodeBusyWith (putEvent i evt p) evt of
       Some blocker \<Rightarrow>
         (case blockEvent now p evt blocker of
            (p', evt') \<Rightarrow> State_Monad.return (putEvent i evt' p', consumed, List.insert (apID a) blocked))
     | None \<Rightarrow> do {
         (p', evt', usable) \<leftarrow> ensureImagesUsable E p evt;
         if \<not> usable then State_Monad.return (putEvent i evt' p', consumed, blocked)
         else launchApproved E i a consumed blocked p' evt'
       }
   }"

definition matchAndStart ::
  "('w, 'x) recoveryEnv_scheme \<Rightarrow> nat \<Rightarrow> string list \<Rightarrow> string list \<Rightarrow> plan \<Rightarrow> event \<Rightarrow>
     ('w, approvalLoop) io" where
  "matchAndStart E i consumed blocked p evt = do {
     m \<leftarrow> findMatchingApproval E p evt;
     now \<leftarrow> getNow E;
     case m of
       None \<Rightarrow> State_Monad.return (putEvent i evt p, consumed, blocked)
     | Some a \<Rightarrow>
         (case recordApproval now p evt a of
            (p1, evt1) \<Rightarrow>
              (case applyOverride p1 evt1 a of
                 (p2, evt2) \<Rightarrow> startApproved E i a consumed blocked p2 evt2))
   }"

definition reviveFailed :: "time \<Rightarrow> plan \<Rightarrow> event \<Rightarrow> plan \<times> event" where
  "reviveFailed now p evt =
     (if evState evt = Failed
      then (case findExplicitApprovalForEvent p evt of
              None \<Rightarrow> (p, evt) | Some a \<Rightarrow> reapproveEvent now p evt a)
      else (p, evt))"

definition processEvent ::
  "('w, 'x) recoveryEnv_scheme \<Rightarrow> nat \<Rightarrow> approvalLoop \<Rightarrow> ('w, approvalLoop) io" where
  "processEvent E i st =
     (case st of (p, consumed, blocked) \<Rightarrow> do {
        now \<leftarrow> getNow E;
        case reviveFailed now p (events p ! i) of
          (p', evt) \<Rightarrow>
            if evState evt \<noteq> WaitingApproval \<and> evState evt \<noteq> Blocked \<and> evState evt \<noteq> MissingFirmware
            then State_Monad.return (putEvent i evt p', consumed, blocked)
            else matchAndStart E i consumed blocked p' evt
      })"

definition consumeApprovals :: "plan \<Rightarrow> string list \<Rightarrow> string list \<Rightarrow> plan" where
  "consumeApprovals p consumed blocked =
     fold (\<lambda>ident q. if ident \<in> set blocked then q else setApprovalConsumed q ident) consumed p"

definition processApprovals ::
  "('w, 'x) recoveryEnv_scheme \<Rightarrow> plan \<Rightarrow> ('w, plan) io" where
  "processApprovals E p = do {
     (p', consumed, blocked) \<leftarrow> foldM (processEvent E) [0..<length (events p)] (p, [], []);
     State_Monad.return (consumeApprovals p' consumed blocked)
   }"

section \<open>Which approvals authorise an event\<close>

text \<open>
  An approval authorises an event when it is not spent and either names it or selects it by its type,
  its node and the labels of that node, as the API server may report them.
\<close>

definition mayReturn :: "('w, 'a) io \<Rightarrow> 'a \<Rightarrow> bool" where
  "mayReturn m x \<longleftrightarrow> (\<exists>w. fst (run_state m w) = x)"

lemma returns_mayReturn: "returns (mayReturn m) m"
  by (auto simp: returns_iff mayReturn_def)

definition hasLabels :: "('w, 'x) recoveryEnv_scheme \<Rightarrow> string \<Rightarrow> (string \<times> string) list \<Rightarrow> bool" where
  "hasLabels E n labels \<longleftrightarrow> (\<exists>nd. mayReturn (cGetNode E n) (Inr nd) \<and> nodeLabels nd = labels)"

definition authorises :: "('w, 'x) recoveryEnv_scheme \<Rightarrow> approval \<Rightarrow> event \<Rightarrow> bool" where
  "authorises E a evt \<longleftrightarrow> \<not> apConsumed a \<and>
     (apEventID a = evID evt \<or>
      (\<exists>sel. apSelector a = Some sel
         \<and> (selRecoveryType sel = noType \<or> selRecoveryType sel = rtType (evRecoveryType evt))
         \<and> (selNodeName sel = '''' \<or> selNodeName sel = evNodeName evt)
         \<and> (selNodeSelector sel = []
            \<or> (\<exists>labels. hasLabels E (evNodeName evt) labels \<and> rLabelsMatch E (selNodeSelector sel) labels))))"

definition foundApproval :: "('w, 'x) recoveryEnv_scheme \<Rightarrow> approval list \<Rightarrow> event \<Rightarrow> approval option \<Rightarrow> bool" where
  "foundApproval E as evt m \<longleftrightarrow> (case m of None \<Rightarrow> True | Some a \<Rightarrow> a \<in> set as \<and> authorises E a evt)"

lemma foundApproval_Cons: "foundApproval E as evt m \<Longrightarrow> foundApproval E (a # as) evt m"
  by (auto simp: foundApproval_def split: option.splits)

text \<open>The cache holds labels of the node they are filed under.\<close>

definition cacheOk :: "('w, 'x) recoveryEnv_scheme \<Rightarrow> nodeLabelCache \<Rightarrow> bool" where
  "cacheOk E c \<longleftrightarrow> (\<forall>n labels. map_of (ncLabels c) n = Some labels \<longrightarrow> hasLabels E n labels)"

lemma cacheOk_new: "cacheOk E newNodeLabelCache"
  by (simp add: cacheOk_def newNodeLabelCache_def)

lemma returns_nodeLabelGet:
  assumes "cacheOk E c"
  shows "returns (\<lambda>(l, c'). cacheOk E c' \<and> (\<forall>labels. l = Some labels \<longrightarrow> hasLabels E n labels)) (nodeLabelGet E c n)"
proof (cases "map_of (ncLabels c) n")
  case None
  have "returns (\<lambda>(l, c'). cacheOk E c' \<and> (\<forall>labels. l = Some labels \<longrightarrow> hasLabels E n labels))
      (cGetNode E n \<bind> (\<lambda>r. State_Monad.return (case r of
          Inl e \<Rightarrow> (None, c\<lparr>ncFailed := n # ncFailed c\<rparr>)
        | Inr nd \<Rightarrow> (Some (nodeLabels nd), c\<lparr>ncLabels := put n (nodeLabels nd) (ncLabels c)\<rparr>))))"
    using assms by (intro returns_bind_mono [OF returns_mayReturn])
      (auto simp: cacheOk_def hasLabels_def split: sum.split if_splits)
  then show ?thesis using None assms by (simp add: nodeLabelGet_def)
qed (use assms in \<open>auto simp: nodeLabelGet_def cacheOk_def\<close>)

lemma returns_nodeSelectorMatches:
  assumes "cacheOk E c"
  shows "returns (\<lambda>(ok, c'). cacheOk E c'
    \<and> (ok \<longrightarrow> sel = [] \<or> (\<exists>labels. hasLabels E n labels \<and> rLabelsMatch E sel labels))) (nodeSelectorMatches E sel n c)"
proof (cases "sel = []")
  case False
  show ?thesis
    unfolding nodeSelectorMatches_def if_not_P [OF False]
  proof (rule returns_bind_mono [OF returns_nodeLabelGet [OF assms, of n]])
    fix x assume x: "case x of (l, c') \<Rightarrow> cacheOk E c' \<and> (\<forall>labels. l = Some labels \<longrightarrow> hasLabels E n labels)"
    obtain l c' where "x = (l, c')" by (cases x)
    then show "returns (\<lambda>(ok, c'). cacheOk E c' \<and> (ok \<longrightarrow> sel = [] \<or> (\<exists>labels. hasLabels E n labels \<and> rLabelsMatch E sel labels)))
        (case x of (l, c') \<Rightarrow> State_Monad.return (case l of None \<Rightarrow> False | Some labels \<Rightarrow> rLabelsMatch E sel labels, c'))"
      using x by (cases l) auto
  qed
qed (use assms in \<open>simp add: nodeSelectorMatches_def\<close>)

lemma returns_findMatchingIn: "cacheOk E c \<Longrightarrow> returns (foundApproval E as evt) (findMatchingIn E evt as c)"
proof (induction as arbitrary: c)
  case Nil
  then show ?case by (simp add: foundApproval_def)
next
  case (Cons a as)
  have rest: "returns (foundApproval E (a # as) evt) (findMatchingIn E evt as c')" if "cacheOk E c'" for c'
    using Cons.IH [OF that] by (rule returns_mono) (rule foundApproval_Cons)
  have here: "authorises E a evt \<Longrightarrow> foundApproval E (a # as) evt (Some a)" by (simp add: foundApproval_def)
  show ?case
  proof (cases "apConsumed a \<or> apEventID a = evID evt \<or> apSelector a = None")
    case True
    then show ?thesis using rest [OF Cons.prems] here by (auto simp: authorises_def split: option.splits)
  next
    case False
    then obtain sel where sel: "apSelector a = Some sel" by auto
    show ?thesis
    proof (cases "(selRecoveryType sel = noType \<or> selRecoveryType sel = rtType (evRecoveryType evt))
        \<and> (selNodeName sel = '''' \<or> selNodeName sel = evNodeName evt)")
      case True
      then have "returns (foundApproval E (a # as) evt)
          (case x of (ok, c') \<Rightarrow> if ok then State_Monad.return (Some a) else findMatchingIn E evt as c')"
        if "case x of (ok, c') \<Rightarrow> cacheOk E c' \<and> (ok \<longrightarrow> selNodeSelector sel = []
              \<or> (\<exists>labels. hasLabels E (evNodeName evt) labels \<and> rLabelsMatch E (selNodeSelector sel) labels))" for x
        using that False sel rest by (auto simp: authorises_def intro!: here)
      with True False sel show ?thesis
        by (auto intro!: returns_bind_mono [OF returns_nodeSelectorMatches [OF Cons.prems]])
    qed (use False sel rest [OF Cons.prems] in auto)
  qed
qed

lemma returns_findMatchingApproval:
  "returns (foundApproval E (approvals p) evt) (findMatchingApproval E p evt)"
  by (simp add: findMatchingApproval_def returns_findMatchingIn [OF cacheOk_new]) (simp add: foundApproval_def)

text \<open>The recovery an approval makes of the one an event asks for.\<close>

definition overriddenType :: "approval \<Rightarrow> RecoveryTypeSpec \<Rightarrow> RecoveryTypeSpec" where
  "overriddenType a rt =
     (case apOverride a of
        None \<Rightarrow> rt
      | Some t \<Rightarrow> if IsReflash rt \<or> t = Reflash \<or> rtType rt = t then rt
          else \<lparr>rtType = t, rtSuggestedType = (if rtSuggestedType rt = noType then rtType rt else rtSuggestedType rt)\<rparr>)"

lemma applyOverride_type: "evRecoveryType (snd (applyOverride p e a)) = overriddenType a (evRecoveryType e)"
  by (simp add: applyOverride_def overriddenType_def Let_def split: option.split)

lemma authorises_cong:
  "evID f = evID e \<Longrightarrow> evNodeName f = evNodeName e \<Longrightarrow> evRecoveryType f = evRecoveryType e \<Longrightarrow>
   authorises E a f = authorises E a e"
  by (simp add: authorises_def)

section \<open>What the loop does to one event\<close>

lemma nodeBusyWith_None:
  "nodeBusyWith p evt = None \<longleftrightarrow>
   (\<forall>f \<in> set (events p). evNodeName f = evNodeName evt \<and> inFlight f \<longrightarrow> evID f = evID evt)"
  by (auto simp: nodeBusyWith_def find_None_iff)

text \<open>
  A recovery that starts was authorised by an approval of the plan, and no other recovery was
  running on its node.
\<close>

definition started :: "('w, 'x) recoveryEnv_scheme \<Rightarrow> plan \<Rightarrow> event \<Rightarrow> event \<Rightarrow> bool" where
  "started E p e e' \<longleftrightarrow>
     (\<exists>a \<in> set (approvals p). authorises E a e \<and> evApprovalID e' = apID a
        \<and> evRecoveryType e' = overriddenType a (evRecoveryType e))
     \<and> (\<forall>f \<in> set (events p). evNodeName f = evNodeName e \<and> inFlight f \<longrightarrow> evID f = evID e)"

definition explicitlyApproved :: "approval list \<Rightarrow> event \<Rightarrow> bool" where
  "explicitlyApproved as e \<longleftrightarrow> list_ex (\<lambda>a. apEventID a = evID e \<and> \<not> apConsumed a) as"

definition approvalStep :: "('w, 'x) recoveryEnv_scheme \<Rightarrow> plan \<Rightarrow> event \<Rightarrow> event \<Rightarrow> bool" where
  "approvalStep E p e e' \<longleftrightarrow> carried e e'
     \<and> (evState e \<in> {Draining, InProgress, Succeeded} \<longrightarrow> e' = e)
     \<and> (inFlight e' \<and> \<not> inFlight e \<longrightarrow> started E p e e')
     \<and> (evState e' \<in> {Succeeded, Failed} \<longrightarrow> evState e' = evState e)
     \<and> (evState e = Failed \<longrightarrow> e' = e \<or> explicitlyApproved (approvals p) e)"

text \<open>The loop variables after a round: the plan, the approvals spent and the approvals held.\<close>

definition approvalRound ::
  "('w, 'x) recoveryEnv_scheme \<Rightarrow> nat \<Rightarrow> approvalLoop \<Rightarrow> approvalLoop \<Rightarrow> bool" where
  "approvalRound E i st st' \<longleftrightarrow>
     (case st of (p, consumed, blocked) \<Rightarrow> case st' of (p', consumed', blocked') \<Rightarrow>
        \<exists>e'. logged (putEvent i e' p) p' \<and> approvalStep E p (events p ! i) e'
          \<and> set blocked \<subseteq> set blocked'
          \<and> (consumed' = consumed \<or>
             (\<exists>a \<in> set (approvals p). consumed' = List.insert (apID a) consumed \<and> \<not> apPersistent a
                \<and> \<not> apConsumed a \<and> inFlight e' \<and> evApprovalID e' = apID a)))"

abbreviation startable :: "RecoveryEventState \<Rightarrow> bool" where
  "startable s \<equiv> s \<in> {WaitingApproval, Blocked, MissingFirmware}"

text \<open>An approval has been found for the event at \<open>i\<close> and recorded on it.\<close>

definition approved :: "('w, 'x) recoveryEnv_scheme \<Rightarrow> plan \<Rightarrow> nat \<Rightarrow> approval \<Rightarrow> event \<Rightarrow> bool" where
  "approved E p i a evt \<longleftrightarrow> i < length (events p) \<and> carried (events p ! i) evt \<and> startable (evState evt)
     \<and> (startable (evState (events p ! i))
          \<or> evState (events p ! i) = Failed \<and> explicitlyApproved (approvals p) (events p ! i))
     \<and> a \<in> set (approvals p) \<and> authorises E a (events p ! i) \<and> evApprovalID evt = apID a
     \<and> evRecoveryType evt = overriddenType a (evRecoveryType (events p ! i))"

definition nodeFree :: "plan \<Rightarrow> event \<Rightarrow> bool" where
  "nodeFree p e \<longleftrightarrow>
     (\<forall>f \<in> set (events p). evNodeName f = evNodeName e \<and> inFlight f \<longrightarrow> evID f = evID e)"

lemma nodeFree_busy:
  assumes "approved E p i a evt" "logged p q" "nodeBusyWith (putEvent i evt q) evt = None"
  shows "nodeFree p (events p ! i)"
proof -
  have i: "i < length (events p)" and ev: "evID evt = evID (events p ! i)" "evNodeName evt = evNodeName (events p ! i)"
    using assms(1) carriedD by (auto simp: approved_def)
  have "evID (events p ! j) = evID (events p ! i)"
    if "j < length (events p)" "evNodeName (events p ! j) = evNodeName (events p ! i)" "inFlight (events p ! j)" for j
  proof (cases "j = i")
    case False
    then have "events p ! j \<in> set ((events p)[i := evt])"
      using that(1) by (metis length_list_update nth_list_update_neq nth_mem)
    then show ?thesis using assms(2,3) that ev by (auto simp: nodeBusyWith_None loggedD)
  qed simp
  then show ?thesis by (auto simp: nodeFree_def in_set_conv_nth)
qed

lemma approvalRoundI:
  assumes "approved E p i a evt" "logged p q" "sameWork evt e'" "evState e' \<notin> {Succeeded, Failed}"
    and "inFlight e' \<longrightarrow> nodeFree p (events p ! i)" and "set blocked \<subseteq> set blocked'"
    and "consumed' = consumed \<or> consumed' = List.insert (apID a) consumed \<and> \<not> apPersistent a \<and> inFlight e'"
  shows "approvalRound E i (p, consumed, blocked) (putEvent i e' q, consumed', blocked')"
proof -
  have "started E p (events p ! i) e'" if "inFlight e'"
    using that assms(1,3,5) by (auto simp: started_def approved_def nodeFree_def sameWork_def)
  moreover have "carried (events p ! i) e'"
    using assms(1,3) by (auto simp: approved_def dest: sameWorkD intro: carried_trans)
  ultimately have "approvalStep E p (events p ! i) e'"
    using assms(1,4) by (auto simp: approvalStep_def approved_def)
  moreover have "a \<in> set (approvals p)" "\<not> apConsumed a" "evApprovalID e' = apID a"
    using assms(1,3) by (auto simp: approved_def authorises_def sameWork_def)
  ultimately show ?thesis
    unfolding approvalRound_def prod.case
    by (intro exI [of _ e']) (use assms(2,6,7) logged_putEvent in blast)
qed

lemma finishStart_round:
  assumes "approved E p i a evt" "logged p q" "sameWork evt e'" "evState e' \<notin> {Succeeded, Failed}"
    and "nodeFree p (events p ! i)"
  shows "approvalRound E i (p, consumed, blocked) (finishStart i a consumed blocked q e')"
  unfolding finishStart_def
  by (rule approvalRoundI [OF assms(1-4)]) (use assms(5) in \<open>auto simp: inFlight_def\<close>)

lemma returns_launchApproved:
  assumes "approved E p i a evt" "logged p q" "sameWork evt e'" "startable (evState e')"
    and free: "nodeFree p (events p ! i)"
  shows "returns (approvalRound E i (p, consumed, blocked)) (launchApproved E i a consumed blocked q e')"
proof (cases "needsDrain q e'")
  case True
  have "approvalRound E i (p, consumed, blocked)
      (finishStart i a consumed blocked (fst (beginDrain now q e')) (snd (beginDrain now q e')))" for now
    using assms(3)
    by (intro finishStart_round [OF assms(1) _ _ _ free] logged_trans [OF assms(2) logged_beginDrain])
       (auto intro: sameWork_trans)
  then show ?thesis using True by (auto simp: launchApproved_def case_prod_beta intro!: returns_bind_any)
next
  case False
  have "returns (approvalRound E i (p, consumed, blocked))
      (case x of (p', evt', err) \<Rightarrow> do {
        now \<leftarrow> getNow E;
        State_Monad.return (case err of
          None \<Rightarrow> finishStart i a consumed blocked p' evt'
        | Some e \<Rightarrow> (putEvent i (setEventState now evt' (evState evt') (msg e))
              (appendMessage p' (msg' evt' e)), consumed, blocked)) })"
    if "jobResult q e' x" for x msg msg'
  proof -
    obtain p' evt' err where x: "x = (p', evt', err)" by (cases x) auto
    then have l: "logged p p'" and js: "jobStarted e' evt' err"
      using that assms(2) by (auto simp: jobResult_def intro: logged_trans)
    then have sw: "sameWork evt evt'" and st: "evState evt' \<notin> {Succeeded, Failed}"
      using assms(3,4) by (auto simp: jobStarted_def intro: sameWork_trans)
    have sw': "sameWork evt (setEventState now evt' (evState evt') m)" for now m
      using sw by (rule sameWork_trans) (rule sameWork_setEventState, simp)
    show ?thesis
    proof (cases err)
      case None
      then show ?thesis using x finishStart_round [OF assms(1) l sw st free]
        by (auto intro!: returns_bind_any)
    next
      case (Some e)
      then have "evt' = e'" using js by (simp add: jobStarted_def)
      then show ?thesis using x Some sw' st assms(1,4) logged_appendI [OF l]
        by (auto intro!: returns_bind_any approvalRoundI simp: inFlight_def)
    qed
  qed
  then show ?thesis
    unfolding launchApproved_def if_not_P [OF False] by (intro returns_bind_mono [OF returns_createRecoveryJob])
qed

lemma returns_startApproved:
  assumes "approved E p i a evt" "logged p q"
  shows "returns (approvalRound E i (p, consumed, blocked)) (startApproved E i a consumed blocked q evt)"
  unfolding startApproved_def
proof (rule returns_bind_any, rule returns_case_option)
  fix now b assume "nodeBusyWith (putEvent i evt q) evt = Some b"
  show "returns (approvalRound E i (p, consumed, blocked))
     (case blockEvent now q evt b of
        (p', evt') \<Rightarrow> State_Monad.return (putEvent i evt' p', consumed, List.insert (apID a) blocked))"
    using sameWork_blockEvent [of evt now q b] blockEvent_effect(1) [of now q evt b]
      logged_trans [OF assms(2) logged_blockEvent [of q now evt b]] assms(1)
    by (auto simp: case_prod_beta inFlight_def simp del: blockEvent_effect intro!: approvalRoundI)
next
  assume "nodeBusyWith (putEvent i evt q) evt = None"
  then have free: "nodeFree p (events p ! i)" using nodeFree_busy assms by blast
  have evt: "startable (evState evt)" using assms(1) by (simp add: approved_def)
  show "returns (approvalRound E i (p, consumed, blocked))
     (ensureImagesUsable E q evt \<bind> (\<lambda>(p', evt', usable).
         if \<not> usable then State_Monad.return (putEvent i evt' p', consumed, blocked)
         else launchApproved E i a consumed blocked p' evt'))"
  proof (rule returns_bind_mono [OF returns_ensureImagesUsable], clarify)
    fix p' evt' usable assume r: "imagesResult q evt (p', evt', usable)"
    then have l: "logged p p'" and sw: "sameWork evt evt'" and st: "startable (evState evt')"
      using assms(2) evt by (auto simp: imagesResult_def intro: logged_trans split: if_splits)
    show "returns (approvalRound E i (p, consumed, blocked))
       (if \<not> usable then State_Monad.return (putEvent i evt' p', consumed, blocked)
        else launchApproved E i a consumed blocked p' evt')"
      using returns_launchApproved [OF assms(1) l sw st free] approvalRoundI [OF assms(1) l sw] st
      by (auto simp: inFlight_def)
  qed
qed

lemma reapproveEvent_effect:
  "logged p (fst (reapproveEvent now p e a))" "carried e (snd (reapproveEvent now p e a))"
  "evState (snd (reapproveEvent now p e a)) = WaitingApproval"
  "evRecoveryType (snd (reapproveEvent now p e a)) = evRecoveryType e"
proof -
  have "wfEvent e \<Longrightarrow> wfEvent (setEventState now e WaitingApproval m)" for m
    by (simp add: wfEvent_setEventState)
  then show "carried e (snd (reapproveEvent now p e a))"
    by (simp add: reapproveEvent_def Let_def carried_def sameEvent_def sameDevice_def) (simp add: wfEvent_def)
qed (simp_all add: reapproveEvent_def Let_def)

lemma recordApproval_effect:
  "logged p (fst (recordApproval now p e a))" "carried e (snd (recordApproval now p e a))"
  "evState (snd (recordApproval now p e a)) = evState e"
  "evApprovalID (snd (recordApproval now p e a)) = apID a"
  "evRecoveryType (snd (recordApproval now p e a)) = evRecoveryType e"
  by (simp_all add: recordApproval_def carried_def sameEvent_def sameDevice_def wfEvent_def)

lemma applyOverride_logged: "logged p (fst (applyOverride p e a))"
  by (simp add: applyOverride_def Let_def split: option.split)

lemma applyOverride_cases:
  "snd (applyOverride p e a) = e \<or> (\<exists>rt. snd (applyOverride p e a) = e\<lparr>evRecoveryType := rt\<rparr>)"
  by (auto simp: applyOverride_def Let_def split: option.split)

lemma applyOverride_effect:
  "carried e (snd (applyOverride p e a))" "evState (snd (applyOverride p e a)) = evState e"
  "evApprovalID (snd (applyOverride p e a)) = evApprovalID e"
  using applyOverride_cases [of p e a]
  by (auto simp: carried_def sameEvent_def sameDevice_def wfEvent_def)

lemma approvalRound_skip:
  assumes "i < length (events p)" "logged p q" "carried (events p ! i) e'" "\<not> inFlight e' \<or> e' = events p ! i"
    and "evState (events p ! i) \<in> {Draining, InProgress, Succeeded} \<longrightarrow> e' = events p ! i"
    and "evState e' \<in> {Succeeded, Failed} \<longrightarrow> evState e' = evState (events p ! i)"
    and "evState (events p ! i) = Failed \<longrightarrow> e' = events p ! i \<or> explicitlyApproved (approvals p) (events p ! i)"
  shows "approvalRound E i (p, consumed, blocked) (putEvent i e' q, consumed, blocked)"
proof -
  have "inFlight e' \<and> \<not> inFlight (events p ! i) \<longrightarrow> started E p (events p ! i) e'" using assms(4) by metis
  then have "approvalStep E p (events p ! i) e'" unfolding approvalStep_def using assms(3,5,6,7) by fast
  with logged_putEvent [OF assms(2)] show ?thesis
    unfolding approvalRound_def prod.case by (intro exI [of _ e']) simp
qed

lemma returns_matchAndStart:
  assumes i: "i < length (events p)" and l: "logged p p1" and c: "carried (events p ! i) e1"
    and ty: "evRecoveryType e1 = evRecoveryType (events p ! i)" and st: "startable (evState e1)"
    and st0: "startable (evState (events p ! i))
      \<or> evState (events p ! i) = Failed \<and> explicitlyApproved (approvals p) (events p ! i)"
  shows "returns (approvalRound E i (p, consumed, blocked)) (matchAndStart E i consumed blocked p1 e1)"
  unfolding matchAndStart_def
proof (rule returns_bind_mono [OF returns_findMatchingApproval], rule returns_bind_any, rule returns_case_option)
  have "\<not> inFlight e1" "evState e1 \<notin> {Succeeded, Failed}" using st by (auto simp: inFlight_def)
  then show "returns (approvalRound E i (p, consumed, blocked))
      (State_Monad.return (putEvent i e1 p1, consumed, blocked))"
    using approvalRound_skip [OF i l c, of E consumed blocked] st0 by auto
next
  fix m now a assume m: "foundApproval E (approvals p1) e1 m" "m = Some a"
  let ?r = "recordApproval now p1 e1 a"
  let ?o = "applyOverride (fst ?r) (snd ?r) a"
  have "a \<in> set (approvals p)" "authorises E a (events p ! i)"
    using m l ty carriedD(1,2) [OF c] authorises_cong [of e1 "events p ! i" E a]
    by (simp_all add: foundApproval_def loggedD)
  moreover have "carried (events p ! i) (snd ?o)"
    using c recordApproval_effect(2) applyOverride_effect(1) carried_trans by metis
  ultimately have "approved E p i a (snd ?o)"
    using i st st0 ty by (simp add: approved_def recordApproval_effect applyOverride_effect applyOverride_type)
  moreover have "logged p (fst ?o)"
    using l recordApproval_effect(1) applyOverride_logged logged_trans by metis
  ultimately show "returns (approvalRound E i (p, consumed, blocked))
      (case ?r of (p2, evt2) \<Rightarrow> case applyOverride p2 evt2 a of
         (p3, evt3) \<Rightarrow> startApproved E i a consumed blocked p3 evt3)"
    using returns_startApproved [of E p i a "snd ?o" "fst ?o"] by (simp add: case_prod_beta)
qed

lemma explicit_found: "findExplicitApprovalForEvent p e = Some a \<Longrightarrow> explicitlyApproved (approvals p) e"
  by (auto simp: findExplicitApprovalForEvent_def explicitlyApproved_def find_Some_iff list_ex_iff)

lemma reviveFailed_cases:
  obtains "reviveFailed now p e = (p, e)"
  | a where "evState e = Failed" "explicitlyApproved (approvals p) e"
      "reviveFailed now p e = reapproveEvent now p e a"
  by (cases "evState e = Failed"; cases "findExplicitApprovalForEvent p e") (auto simp: reviveFailed_def explicit_found)

lemma returns_processEvent:
  assumes i: "i < length (events p)"
  shows "returns (approvalRound E i (p, consumed, blocked)) (processEvent E i (p, consumed, blocked))"
  unfolding processEvent_def prod.case
proof (rule returns_bind_any)
  fix now
  let ?e = "events p ! i"
  show "returns (approvalRound E i (p, consumed, blocked))
     (case reviveFailed now p ?e of (p', evt) \<Rightarrow>
        if evState evt \<noteq> WaitingApproval \<and> evState evt \<noteq> Blocked \<and> evState evt \<noteq> MissingFirmware
        then State_Monad.return (putEvent i evt p', consumed, blocked)
        else matchAndStart E i consumed blocked p' evt)"
  proof (cases rule: reviveFailed_cases [of now p ?e])
    case 1
    have "startable (evState ?e) \<Longrightarrow>
        returns (approvalRound E i (p, consumed, blocked)) (matchAndStart E i consumed blocked p ?e)"
      by (rule returns_matchAndStart [OF i logged_refl carried_refl]) simp_all
    moreover have "approvalRound E i (p, consumed, blocked) (putEvent i ?e p, consumed, blocked)"
      by (rule approvalRound_skip [OF i logged_refl carried_refl]) simp_all
    ultimately show ?thesis using 1 by auto
  next
    case (2 a)
    then show ?thesis
      using returns_matchAndStart [OF i, of "fst (reapproveEvent now p ?e a)" "snd (reapproveEvent now p ?e a)"]
      by (simp add: case_prod_beta reapproveEvent_effect)
  qed
qed

section \<open>The phase as a whole\<close>

definition approvalEvent :: "('w, 'x) recoveryEnv_scheme \<Rightarrow> approval list \<Rightarrow> event \<Rightarrow> event \<Rightarrow> bool" where
  "approvalEvent E as e e' \<longleftrightarrow> carried e e'
     \<and> (evState e \<in> {Draining, InProgress, Succeeded} \<longrightarrow> e' = e)
     \<and> (inFlight e' \<and> \<not> inFlight e \<longrightarrow> (\<exists>a \<in> set as. authorises E a e \<and> evApprovalID e' = apID a
            \<and> evRecoveryType e' = overriddenType a (evRecoveryType e)))
     \<and> (evState e' \<in> {Succeeded, Failed} \<longrightarrow> evState e' = evState e)
     \<and> (evState e = Failed \<longrightarrow> e' = e \<or> explicitlyApproved as e)"

lemma approvalStep_event: "approvalStep E p e e' \<Longrightarrow> approvalEvent E (approvals p) e e'"
  unfolding approvalStep_def approvalEvent_def started_def by fast

lemma approvalEvent_carried: "approvalEvent E as e e' \<Longrightarrow> carried e e'"
  unfolding approvalEvent_def by (rule conjunct1)

lemma exclusive_approvalStep:
  assumes "exclusive p" "approvalStep E p (events p ! i) e'" "i < length (events p)"
  shows "exclusive (putEvent i e' p)"
proof -
  have c: "evID e' = evID (events p ! i)" "evNodeName e' = evNodeName (events p ! i)"
    using assms(2) carriedD(1,2) unfolding approvalStep_def by blast+
  have new: "evID f = evID e'" if "inFlight e'" "f \<in> set (events p)" "inFlight f" "evNodeName f = evNodeName e'" for f
  proof (cases "inFlight (events p ! i)")
    case True
    then show ?thesis using that assms(1,3) c nth_mem unfolding exclusive_def by metis
  next
    case False
    then have "started E p (events p ! i) e'" using assms(2) that(1) unfolding approvalStep_def by blast
    then show ?thesis using that c unfolding started_def by metis
  qed
  have "f = e' \<or> f \<in> set (events p)" if "f \<in> set (events (putEvent i e' p))" for f
    using that set_update_subset_insert [of "events p" i e'] by auto
  then show ?thesis using assms(1) new unfolding exclusive_def by metis
qed

text \<open>An approval that was spent is a one-shot approval some recovery in flight was started with.\<close>

definition spentOn :: "plan \<Rightarrow> event list \<Rightarrow> string \<Rightarrow> bool" where
  "spentOn p es ident \<longleftrightarrow>
     (\<exists>a \<in> set (approvals p). apID a = ident \<and> \<not> apPersistent a \<and> \<not> apConsumed a)
     \<and> (\<exists>e \<in> set es. inFlight e \<and> evApprovalID e = ident)"

definition loopInv :: "('w, 'x) recoveryEnv_scheme \<Rightarrow> plan \<Rightarrow> nat \<Rightarrow> approvalLoop \<Rightarrow> bool" where
  "loopInv E p k st \<longleftrightarrow> (case st of (q, consumed, blocked) \<Rightarrow>
     sameMeta p q \<and> approvals q = approvals p \<and> length (events q) = length (events p)
     \<and> (\<forall>j < length (events p). if j < k then approvalEvent E (approvals p) (events p ! j) (events q ! j)
                               else events q ! j = events p ! j)
     \<and> (exclusive p \<longrightarrow> exclusive q)
     \<and> (\<forall>c \<in> set consumed. spentOn p (take k (events q)) c))"

lemma spentOn_keep:
  "spentOn p (take k es) c \<Longrightarrow> k < length es \<Longrightarrow> spentOn p (take (Suc k) (es[k := e])) c"
  by (auto simp: spentOn_def take_Suc_conv_app_nth)

lemma spentOn_new:
  "a \<in> set (approvals p) \<Longrightarrow> \<not> apPersistent a \<Longrightarrow> \<not> apConsumed a \<Longrightarrow> inFlight e \<Longrightarrow> evApprovalID e = apID a \<Longrightarrow>
   k < length es \<Longrightarrow> spentOn p (take (Suc k) (es[k := e])) (apID a)"
  by (auto simp: spentOn_def take_Suc_conv_app_nth)

lemma loopInv_round:
  assumes "loopInv E p k st" "approvalRound E k st st'" "k < length (events p)"
  shows "loopInv E p (Suc k) st'"
proof -
  obtain q c b where st: "st = (q, c, b)" by (cases st) auto
  obtain q' c' b' where st': "st' = (q', c', b')" by (cases st') auto
  from assms(2) obtain e' where l: "logged (putEvent k e' q) q'" and s: "approvalStep E q (events q ! k) e'"
    and c: "c' = c \<or> (\<exists>a \<in> set (approvals q). c' = List.insert (apID a) c \<and> \<not> apPersistent a
                \<and> \<not> apConsumed a \<and> inFlight e' \<and> evApprovalID e' = apID a)"
    unfolding approvalRound_def st st' prod.case by blast
  have I: "sameMeta p q" "approvals q = approvals p" "length (events q) = length (events p)"
    "\<forall>j < length (events p). if j < k then approvalEvent E (approvals p) (events p ! j) (events q ! j)
       else events q ! j = events p ! j"
    "exclusive p \<longrightarrow> exclusive q" "\<forall>c \<in> set c. spentOn p (take k (events q)) c"
    using assms(1) by (simp_all add: loopInv_def st)
  have ev: "events q' = (events q)[k := e']" and ap: "approvals q' = approvals p" using l I by (simp_all add: loggedD)
  have m: "sameMeta p q'" using I(1) l by (blast intro: sameMeta_trans sameMeta_logged sameMeta_update)
  have k: "k < length (events q)" using I(3) assms(3) by simp
  have "events q ! k = events p ! k" using I(4) assms(3) by simp
  then have "approvalEvent E (approvals p) (events p ! k) e'" using approvalStep_event [OF s] I(2) by simp
  then have pt: "\<forall>j < length (events p). if j < Suc k then approvalEvent E (approvals p) (events p ! j) (events q' ! j)
       else events q' ! j = events p ! j"
    using I(3,4) assms(3) by (auto simp: ev nth_list_update_cases less_Suc_eq)
  have ex: "exclusive p \<longrightarrow> exclusive q'"
    using I(5) exclusive_approvalStep [OF _ s k] exclusive_cong [of q' "putEvent k e' q"] ev by simp
  have sp: "spentOn p (take (Suc k) (events q')) i" if "i \<in> set c'" for i
  proof (cases "i \<in> set c")
    case True
    then show ?thesis unfolding ev using I(6) k by (intro spentOn_keep) auto
  next
    case False
    then have "c' \<noteq> c" using that by blast
    then obtain a where a: "a \<in> set (approvals p)" "c' = List.insert (apID a) c" "\<not> apPersistent a"
      "\<not> apConsumed a" "inFlight e'" "evApprovalID e' = apID a" using c I(2) by metis
    then have "i = apID a" using that False by simp
    then show ?thesis unfolding ev using spentOn_new [OF a(1,3-6) k] by simp
  qed
  show ?thesis unfolding loopInv_def st' prod.case using m ap I(3) ev pt ex sp by simp
qed

lemma returns_approvalLoop:
  "returns (loopInv E p (length (events p))) (foldM (processEvent E) [0..<length (events p)] (p, [], []))"
proof (rule returns_foldM_upt [where I = "loopInv E p"])
  fix k st assume k: "k < length (events p)" and I: "loopInv E p k st"
  obtain q c b where st: "st = (q, c, b)" by (cases st) auto
  have "k < length (events q)" using I k by (simp add: st loopInv_def)
  then show "returns (loopInv E p (Suc k)) (processEvent E k st)"
    unfolding st by (rule returns_mono [OF returns_processEvent]) (rule loopInv_round [OF I [unfolded st] _ k])
qed (simp add: loopInv_def)

definition spentApproval :: "plan \<Rightarrow> event list \<Rightarrow> approval \<Rightarrow> approval \<Rightarrow> bool" where
  "spentApproval p es a a' \<longleftrightarrow> a' = a \<or> a' = a\<lparr>apConsumed := True\<rparr> \<and> spentOn p es (apID a)"

definition markedBy :: "string set \<Rightarrow> approval \<Rightarrow> approval \<Rightarrow> bool" where
  "markedBy ids a a' \<longleftrightarrow> a' = a \<or> a' = a\<lparr>apConsumed := True\<rparr> \<and> apID a \<in> ids"

lemma markedBy_refl: "list_all2 (markedBy ids) as as"
  by (rule list_all2_refl) (simp add: markedBy_def)

lemma markFirst_marked: "ident \<in> ids \<Longrightarrow> list_all2 (markedBy ids) as (markFirst ident as)"
  by (induction as) (auto simp: markedBy_def markedBy_refl)

lemma markedBy_trans:
  "list_all2 (markedBy ids) as bs \<Longrightarrow> list_all2 (markedBy ids) bs cs \<Longrightarrow> list_all2 (markedBy ids) as cs"
  by (rule list_all2_trans [of "markedBy ids" "markedBy ids" "markedBy ids"]) (auto simp: markedBy_def)

lemma consumeApprovals_frame:
  "plStatus (consumeApprovals p c b) = plStatus p" "sameMeta p (consumeApprovals p c b)"
  "list_all2 (markedBy (set c - set b)) (approvals p) (approvals (consumeApprovals p c b))"
proof -
  let ?f = "\<lambda>ident q. if ident \<in> set b then q else setApprovalConsumed q ident"
  have m: "sameMeta q (setApprovalConsumed q i)" "plStatus (setApprovalConsumed q i) = plStatus q" for q i
    by (simp_all add: setApprovalConsumed_def)
  have "plStatus (fold ?f c p) = plStatus p \<and> sameMeta p (fold ?f c p)
      \<and> (set c \<subseteq> ids \<longrightarrow> list_all2 (markedBy (ids - set b)) (approvals p) (approvals (fold ?f c p)))" for ids
  proof (induction c arbitrary: p)
    case Nil
    then show ?case by (simp add: markedBy_refl)
  next
    case (Cons i c)
    show ?case
    proof (cases "i \<in> set b")
      case False
      have "list_all2 (markedBy (ids - set b)) (approvals p) (approvals (setApprovalConsumed p i))" if "i \<in> ids"
        using that False by (simp add: setApprovalConsumed_def markFirst_marked)
      then show ?thesis
        using False Cons [of "setApprovalConsumed p i"] m(1) [of p i]
        by (auto intro: markedBy_trans sameMeta_trans simp: m(2))
    qed (use Cons [of p] in simp)
  qed
  from this [of "set c"] show "plStatus (consumeApprovals p c b) = plStatus p" "sameMeta p (consumeApprovals p c b)"
    "list_all2 (markedBy (set c - set b)) (approvals p) (approvals (consumeApprovals p c b))"
    unfolding consumeApprovals_def by simp_all
qed

definition approvalsResult :: "('w, 'x) recoveryEnv_scheme \<Rightarrow> plan \<Rightarrow> plan \<Rightarrow> bool" where
  "approvalsResult E p q \<longleftrightarrow> sameMeta p q
     \<and> list_all2 (approvalEvent E (approvals p)) (events p) (events q)
     \<and> (exclusive p \<longrightarrow> exclusive q)
     \<and> list_all2 (spentApproval p (events q)) (approvals p) (approvals q)"

lemma approvalsResult_consume:
  assumes "loopInv E p (length (events p)) (q, c, b)"
  shows "approvalsResult E p (consumeApprovals q c b)"
proof -
  let ?r = "consumeApprovals q c b"
  have I: "sameMeta p q" "approvals q = approvals p" "list_all2 (approvalEvent E (approvals p)) (events p) (events q)"
    "exclusive p \<longrightarrow> exclusive q" "\<forall>i \<in> set c. spentOn p (events q) i"
    using assms unfolding loopInv_def prod.case list_all2_conv_all_nth by auto
  have ev: "events ?r = events q" by (simp add: consumeApprovals_frame)
  have "list_all2 (spentApproval p (events q)) (approvals p) (approvals ?r)"
    using consumeApprovals_frame(3) [of c b q] I(2,5)
    by (auto elim!: list_all2_mono simp: markedBy_def spentApproval_def)
  then show ?thesis
    unfolding approvalsResult_def ev
    using I sameMeta_trans [OF I(1) consumeApprovals_frame(2)] exclusive_cong [OF ev] by simp
qed

lemma returns_processApprovals: "returns (approvalsResult E p) (processApprovals E p)"
  unfolding processApprovals_def
  by (rule returns_bind_mono [OF returns_approvalLoop]) (clarsimp simp: approvalsResult_consume)

end
