(* ===== verification/RecoveryDrains.thy ===== *)
theory RecoveryDrains
  imports RecoveryController
begin

text \<open>
  Draining a node for a reset and holding it while the reset runs (\<^verbatim>\<open>processDrains\<close>,
  \<^verbatim>\<open>drainNodeForEvent\<close>, \<^verbatim>\<open>claimsHoldingDevice\<close>, \<^verbatim>\<open>claimHeldOnlyByUndrainablePods\<close>,
  \<^verbatim>\<open>devicesForBDF\<close>, \<^verbatim>\<open>reconcileDrainTaints\<close>, \<^verbatim>\<open>releaseAllDrainTaints\<close>,
  \<^verbatim>\<open>untaintNodesExcept\<close>).
\<close>

section \<open>Claims that still reserve the GPU\<close>

definition devicesForBDF ::
  "('w, 'x) recoveryEnv_scheme \<Rightarrow> string \<Rightarrow> string \<Rightarrow> ('w, (string \<times> string) list res) io" where
  "devicesForBDF E node bdf = do {
     r \<leftarrow> cListSlices E;
     State_Monad.return (case r of
       Inl e \<Rightarrow> Inl (wrapErr ''listing ResourceSlices'' e)
     | Inr slices \<Rightarrow>
         Inr (concat (map (\<lambda>sl.
           if sliceNodeName sl \<noteq> Some node then []
           else map (\<lambda>dev. (slicePool sl, devName dev))
                  (filter (\<lambda>dev. deviceAttributeString (devAttributes dev) DeviceAttrBDF = bdf)
                    (sliceDevices sl))) slices)))
   }"

fun heldOnlyBy ::
  "('w, 'x) recoveryEnv_scheme \<Rightarrow> plan \<Rightarrow> resourceClaim \<Rightarrow> consumerRef list \<Rightarrow> string \<Rightarrow>
     ('w, (bool \<times> string) res) io" where
  "heldOnlyBy E p claim [] holder = State_Monad.return (Inr (holder \<noteq> '''', holder))"
| "heldOnlyBy E p claim (c # cs) holder =
     (if consAPIGroup c \<noteq> '''' \<or> consResource c \<noteq> ''pods'' then State_Monad.return (Inr (False, ''''))
      else do {
        r \<leftarrow> cGetPod E (claimNamespace claim) (consName c);
        case r of
          Inl e \<Rightarrow>
            State_Monad.return (if reason e = NotFound then Inr (False, '''')
              else Inl (wrapErr (''failed to get pod '' @ claimNamespace claim @ ''/'' @ consName c
                     @ '' reserving claim '' @ claimName claim) e))
        | Inr pd \<Rightarrow>
            if podUID pd \<noteq> consUID c then State_Monad.return (Inr (False, ''''))
            else (case DrainNeverEvicts pd (rNamespace E) (dsNamespacesToSkip (spDrain (plSpec p))) of
                    (why, never) \<Rightarrow>
                      if \<not> never then State_Monad.return (Inr (False, ''''))
                      else heldOnlyBy E p claim cs
                        (if holder = ''''
                         then ''reserved by pod '' @ podNamespace pd @ ''/'' @ podName pd
                              @ '', which the drain leaves in place ('' @ why @ '')''
                         else holder))
      })"

definition claimHeldOnlyByUndrainablePods ::
  "('w, 'x) recoveryEnv_scheme \<Rightarrow> plan \<Rightarrow> resourceClaim \<Rightarrow> ('w, (bool \<times> string) res) io" where
  "claimHeldOnlyByUndrainablePods E p claim = heldOnlyBy E p claim (claimReservedFor claim) ''''"

fun claimsHolding ::
  "('w, 'x) recoveryEnv_scheme \<Rightarrow> plan \<Rightarrow> (string \<times> string) list \<Rightarrow> resourceClaim list \<Rightarrow>
     ('w, string list res) io" where
  "claimsHolding E p devices [] = State_Monad.return (Inr [])"
| "claimsHolding E p devices (claim # claims) =
     (if claimAllocation claim = None \<or> claimReservedFor claim = [] then claimsHolding E p devices claims
      else if \<not> claimHoldsDevice claim (set devices) then claimsHolding E p devices claims
      else do {
        r \<leftarrow> claimHeldOnlyByUndrainablePods E p claim;
        case r of
          Inl e \<Rightarrow> State_Monad.return (Inl e)
        | Inr (undrainable, holder) \<Rightarrow>
            if undrainable then claimsHolding E p devices claims
            else do {
              rest \<leftarrow> claimsHolding E p devices claims;
              State_Monad.return (map_sum id ((#) (claimNamespace claim @ ''/'' @ claimName claim)) rest)
            }
      })"

definition claimsHoldingDevice ::
  "('w, 'x) recoveryEnv_scheme \<Rightarrow> plan \<Rightarrow> event \<Rightarrow> ('w, string list res) io" where
  "claimsHoldingDevice E p evt = do {
     d \<leftarrow> devicesForBDF E (evNodeName evt) (evGPUBDF evt);
     case d of
       Inl e \<Rightarrow> State_Monad.return (Inl e)
     | Inr devices \<Rightarrow>
         if devices = [] then State_Monad.return (Inr [])
         else do {
           r \<leftarrow> cListClaims E;
           case r of
             Inl e \<Rightarrow> State_Monad.return (Inl (wrapErr ''listing ResourceClaims'' e))
           | Inr claims \<Rightarrow> do {
               h \<leftarrow> claimsHolding E p devices claims;
               State_Monad.return (map_sum id sort h)
             }
         }
   }"

section \<open>One pass of a drain\<close>

text \<open>
  An early error return leaves the event as it was; otherwise the blockers found are recorded on it.
\<close>

definition recordBlockers :: "time \<Rightarrow> event \<Rightarrow> string list \<Rightarrow> string list \<Rightarrow> event" where
  "recordBlockers now evt blocking claims =
     setEventState now
       (evt\<lparr>evPodsBlockingDrain := capStrings blocking maxPodsBlockingDrainReported,
            evClaimsBlockingReset := capStrings claims maxPodsBlockingDrainReported\<rparr>) Draining ''''"

definition drainNodeForEvent ::
  "('w, 'x) recoveryEnv_scheme \<Rightarrow> plan \<Rightarrow> event \<Rightarrow> ('w, event \<times> bool res) io" where
  "drainNodeForEvent E p evt = do {
     t \<leftarrow> EnsureNodeTaint E (evNodeName evt) (recoveryTaint (plName p));
     case t of
       Inl e \<Rightarrow> State_Monad.return (evt, Inl e)
     | Inr _ \<Rightarrow> do {
         b \<leftarrow> PodsBlockingDrain E (evNodeName evt) (rNamespace E) (dsNamespacesToSkip (spDrain (plSpec p)));
         case b of
           Inl e \<Rightarrow> State_Monad.return (evt, Inl e)
         | Inr (toEvict, toAwait) \<Rightarrow> do {
             _ \<leftarrow> EvictPods E toEvict;
             let blocking = sort (map (\<lambda>pd. podNamespace pd @ ''/'' @ podName pd) (toEvict @ toAwait));
             c \<leftarrow> claimsHoldingDevice E p evt;
             now \<leftarrow> getNow E;
             State_Monad.return (case c of
               Inl e \<Rightarrow> (evt, Inl e)
             | Inr claims \<Rightarrow>
                 (recordBlockers now evt blocking claims, Inr (blocking = [] \<and> claims = [])))
           }
       }
   }"

text \<open>
  The body of \<^verbatim>\<open>processDrains\<close> for an event that is draining: what stalled the pass, if
  anything did, and then the deadline.
\<close>

definition drainStall ::
  "('w, 'x) recoveryEnv_scheme \<Rightarrow> plan \<Rightarrow> event \<Rightarrow> bool res \<Rightarrow> ('w, plan \<times> event \<times> string) io" where
  "drainStall E p evt r =
     (case r of
        Inl e \<Rightarrow> do {
          now \<leftarrow> getNow E;
          let stall = ''the drain of node '' @ evNodeName evt @ '' is not progressing: '' @ errText e;
          State_Monad.return
            (appendMessage p (''Event '' @ evID evt @ '': drain of node '' @ evNodeName evt
               @ '' failed: '' @ errText e),
             setEventState now evt Draining stall, stall)
        }
      | Inr ready \<Rightarrow>
          if \<not> ready
          then State_Monad.return (p, evt,
                 drainBlockerDetail (evPodsBlockingDrain evt) (evClaimsBlockingReset evt))
          else do {
            (p', evt', err) \<leftarrow> createRecoveryJob E p evt;
            now \<leftarrow> getNow E;
            State_Monad.return (case err of
              None \<Rightarrow> (p', evt', '''')
            | Some e \<Rightarrow>
                (let stall = ''node '' @ evNodeName evt' @ '' is drained but the recovery Job could not be created: ''
                               @ errText e
                 in (appendMessage p' (''Event '' @ evID evt' @ '': failed to create recovery job: '' @ errText e),
                     setEventState now evt' Draining stall, stall)))
          })"

definition drainDeadline :: "time \<Rightarrow> plan \<Rightarrow> event \<Rightarrow> string \<Rightarrow> plan \<times> event" where
  "drainDeadline now p evt stall =
     (if stall = '''' then (p, evt)
      else case drainDeadlineExceeded now p evt of
             (evt', late) \<Rightarrow> if late then failDrain now p evt' stall else (p, evt'))"

definition drainEvent ::
  "('w, 'x) recoveryEnv_scheme \<Rightarrow> nat \<Rightarrow> plan \<Rightarrow> ('w, plan) io" where
  "drainEvent E i p =
     (if evState (events p ! i) \<noteq> Draining then State_Monad.return p
      else do {
        (evt, r) \<leftarrow> drainNodeForEvent E p (events p ! i);
        (p', evt', stall) \<leftarrow> drainStall E p evt r;
        now \<leftarrow> getNow E;
        case drainDeadline now p' evt' stall of
          (p'', evt'') \<Rightarrow> State_Monad.return (putEvent i evt'' p'')
      })"

definition processDrains :: "('w, 'x) recoveryEnv_scheme \<Rightarrow> plan \<Rightarrow> ('w, plan) io" where
  "processDrains E p = foldM (drainEvent E) [0..<length (events p)] p"

section \<open>Holding and releasing nodes\<close>

definition wantsTaint :: "plan \<Rightarrow> event \<Rightarrow> bool" where
  "wantsTaint p evt \<longleftrightarrow>
     evState evt = Draining \<or> evState evt = InProgress \<or> evState evt = Blocked \<and> needsDrain p evt"

definition untaintOne ::
  "('w, 'x) recoveryEnv_scheme \<Rightarrow> taint \<Rightarrow> string set \<Rightarrow> string \<Rightarrow> plan \<Rightarrow> ('w, plan) io" where
  "untaintOne E t keep n p =
     (if n \<in> keep then State_Monad.return p
      else do {
        r \<leftarrow> RemoveNodeTaint E n t;
        State_Monad.return (case r of
          Inl e \<Rightarrow> appendMessage p (''Failed to remove drain taint from node '' @ n @ '': '' @ errText e)
        | Inr _ \<Rightarrow> p)
      })"

definition untaintNodesExcept ::
  "('w, 'x) recoveryEnv_scheme \<Rightarrow> plan \<Rightarrow> string set \<Rightarrow> ('w, plan) io" where
  "untaintNodesExcept E p keep = do {
     r \<leftarrow> NodesWithTaint E (recoveryTaint (plName p));
     case r of
       Inl e \<Rightarrow> State_Monad.return p
     | Inr tainted \<Rightarrow> foldM (untaintOne E (recoveryTaint (plName p)) keep) tainted p
   }"

definition reconcileDrainTaints :: "('w, 'x) recoveryEnv_scheme \<Rightarrow> plan \<Rightarrow> ('w, plan) io" where
  "reconcileDrainTaints E p =
     untaintNodesExcept E p (set (map evNodeName (filter (wantsTaint p) (events p))))"

definition releaseAllDrainTaints :: "('w, 'x) recoveryEnv_scheme \<Rightarrow> plan \<Rightarrow> ('w, plan) io" where
  "releaseAllDrainTaints E p = untaintNodesExcept E p {}"

section \<open>What a pass does to a draining event\<close>

lemma sameWork_recordBlockers: "sameWork e (recordBlockers now e blocking claims)"
proof -
  let ?f = "e\<lparr>evPodsBlockingDrain := capStrings blocking maxPodsBlockingDrainReported,
            evClaimsBlockingReset := capStrings claims maxPodsBlockingDrainReported\<rparr>"
  have "wfEvent e \<Longrightarrow> wfEvent ?f" by (simp add: wfEvent_def length_capStrings)
  then have "wfEvent e \<Longrightarrow> wfEvent (setEventState now ?f Draining '''')" by (simp add: wfEvent_setEventState)
  then show ?thesis
    by (simp add: recordBlockers_def sameWork_def carried_def sameEvent_def sameDevice_def)
qed

text \<open>A pass that may proceed leaves no blocker recorded on the event.\<close>

definition drainPass :: "event \<Rightarrow> event \<times> bool res \<Rightarrow> bool" where
  "drainPass e x \<longleftrightarrow> (case x of (e', r) \<Rightarrow>
     sameWork e e' \<and> (evState e = Draining \<longrightarrow> evState e' = Draining)
     \<and> (r = Inr True \<longrightarrow> evPodsBlockingDrain e' = [] \<and> evClaimsBlockingReset e' = []))"

lemma drainPass_keep: "drainPass e (e, Inl err)"
  by (simp add: drainPass_def)

lemma drainPass_record: "drainPass e (recordBlockers now e bs cs, Inr (bs = [] \<and> cs = []))"
  using sameWork_recordBlockers [of e now bs cs] by (simp add: drainPass_def recordBlockers_def capStrings_def)

lemma returns_drainNodeForEvent: "returns (drainPass e) (drainNodeForEvent E p e)"
  unfolding drainNodeForEvent_def
proof (intro returns_bind_any returns_case_sum returns_case_prod)
  fix b :: "(pod list \<times> pod list) res" and x :: "pod list \<times> pod list" and toEvict toAwait
  show "returns (drainPass e) (do {
      let blocking = sort (map (\<lambda>pd. podNamespace pd @ ''/'' @ podName pd) (toEvict @ toAwait));
      c \<leftarrow> claimsHoldingDevice E p e;
      now \<leftarrow> getNow E;
      State_Monad.return (case c of
        Inl err \<Rightarrow> (e, Inl err)
      | Inr claims \<Rightarrow> (recordBlockers now e blocking claims, Inr (blocking = [] \<and> claims = []))) })"
    unfolding Let_def
    by (intro returns_bind_any) (simp add: drainPass_keep drainPass_record split: sum.split)
qed (simp_all add: drainPass_keep)

definition drainStep :: "event \<Rightarrow> event \<Rightarrow> bool" where
  "drainStep e e' \<longleftrightarrow> carried e e' \<and> evApprovalID e' = evApprovalID e
     \<and> evRecoveryType e' = evRecoveryType e \<and> (evState e \<noteq> Draining \<longrightarrow> e' = e)
     \<and> (evState e = Draining \<longrightarrow> evState e' \<in> {Draining, InProgress, Failed}
          \<or> evState e' = MissingFirmware \<and> IsReflash (evRecoveryType e))"

definition stalled :: "plan \<Rightarrow> event \<Rightarrow> plan \<times> event \<times> string \<Rightarrow> bool" where
  "stalled p e x \<longleftrightarrow> (case x of (p', e', stall) \<Rightarrow> logged p p' \<and> sameWork e e'
     \<and> (evState e' \<in> {Draining, InProgress} \<or> evState e' = MissingFirmware \<and> IsReflash (evRecoveryType e))
     \<and> (evState e' \<noteq> Draining \<longrightarrow> stall = ''''))"

lemma stalledI: "logged p p' \<Longrightarrow> sameWork e f \<Longrightarrow> stalled p e (p', setEventState now f Draining m, s)"
  by (auto simp: stalled_def intro: sameWork_trans sameWork_setEventState)

lemma returns_drainStall:
  assumes "evState e = Draining" shows "returns (stalled p e) (drainStall E p e r)"
  unfolding drainStall_def
proof (intro returns_case_sum returns_if)
  show "returns (stalled p e) (getNow E \<bind> (\<lambda>now.
      let stall = ''the drain of node '' @ evNodeName e @ '' is not progressing: '' @ errText err
      in State_Monad.return (appendMessage p (''Event '' @ evID e @ '': drain of node '' @ evNodeName e
           @ '' failed: '' @ errText err), setEventState now e Draining stall, stall)))" for err
    unfolding Let_def by (rule returns_bind_any) (simp add: stalledI del: append.simps)
next
  show "returns (stalled p e) (State_Monad.return (p, e, m))" for m
    using assms by (simp add: stalled_def)
next
  have "returns (stalled p e) (case x of (p', evt', err) \<Rightarrow> do {
            now \<leftarrow> getNow E;
            State_Monad.return (case err of
              None \<Rightarrow> (p', evt', '''')
            | Some e \<Rightarrow>
                (let stall = msg evt' e
                 in (appendMessage p' (msg' evt' e), setEventState now evt' Draining stall, stall))) })"
    if "jobResult p e x" for x msg msg'
  proof -
    obtain p' evt' err where x: "x = (p', evt', err)" by (cases x) auto
    then have l: "logged p p'" and js: "jobStarted e evt' err" using that by (auto simp: jobResult_def)
    then have "stalled p e (p', evt', '''')" using assms by (auto simp: stalled_def jobStarted_def)
    moreover have "stalled p e (appendMessage p' m, setEventState now evt' Draining s, s)" for m now s
      using js by (intro stalledI logged_appendI l) (simp add: jobStarted_def)
    ultimately show ?thesis by (auto simp: x Let_def intro!: returns_bind_any split: option.split)
  qed
  then show "returns (stalled p e) (createRecoveryJob E p e \<bind> (\<lambda>(p', evt', err). do {
            now \<leftarrow> getNow E;
            State_Monad.return (case err of
              None \<Rightarrow> (p', evt', '''')
            | Some e \<Rightarrow>
                (let stall = ''node '' @ evNodeName evt' @ '' is drained but the recovery Job could not be created: ''
                               @ errText e
                 in (appendMessage p' (''Event '' @ evID evt' @ '': failed to create recovery job: '' @ errText e),
                     setEventState now evt' Draining stall, stall))) }))"
    by (rule returns_bind_mono [OF returns_createRecoveryJob])
qed

lemma drainDeadlineExceeded_carried: "carried e (fst (drainDeadlineExceeded now p e))"
  by (simp add: drainDeadlineExceeded_def carried_def sameEvent_def sameDevice_def wfEvent_def split: option.split)

lemma failDrain_carried: "carried e (snd (failDrain now p e c))"
proof -
  have "wfEvent e \<Longrightarrow> wfEvent (e\<lparr>evDrainStartedAt := None\<rparr>)" by (simp add: wfEvent_def)
  then have "wfEvent e \<Longrightarrow> wfEvent (snd (failDrain now p e c))"
    by (simp add: failDrain_def Let_def wfEvent_setEventState)
  then show ?thesis by (simp add: carried_def)
qed

lemma drainDeadline_effect:
  "logged p (fst (drainDeadline now p e s))" "carried e (snd (drainDeadline now p e s))"
  "s = '''' \<Longrightarrow> snd (drainDeadline now p e s) = e"
  "evState (snd (drainDeadline now p e s)) \<in> {evState e, Failed}"
  "evApprovalID (snd (drainDeadline now p e s)) = evApprovalID e"
  "evRecoveryType (snd (drainDeadline now p e s)) = evRecoveryType e"
proof -
  obtain e' late where d: "drainDeadlineExceeded now p e = (e', late)" by fastforce
  then have c: "carried e e'" and st: "evState e' = evState e"
    using drainDeadlineExceeded_carried [of e now p] drainDeadlineExceeded_frame(1) [of now p e] by simp_all
  show "carried e (snd (drainDeadline now p e s))"
    using d carried_trans [OF c failDrain_carried] c by (simp add: drainDeadline_def)
  show "logged p (fst (drainDeadline now p e s))" by (simp add: drainDeadline_def d)
  show "s = '''' \<Longrightarrow> snd (drainDeadline now p e s) = e" by (simp add: drainDeadline_def)
  show "evState (snd (drainDeadline now p e s)) \<in> {evState e, Failed}" by (simp add: drainDeadline_def d st)
  show "evApprovalID (snd (drainDeadline now p e s)) = evApprovalID e"
    "evRecoveryType (snd (drainDeadline now p e s)) = evRecoveryType e"
    by (simp_all add: drainDeadline_def drainDeadlineExceeded_def failDrain_def Let_def split: option.split)
qed

lemma drainStep_deadline:
  assumes "sameWork e f" "evState e = Draining" "stalled p f (q, g, s)"
  shows "drainStep e (snd (drainDeadline now q g s))"
proof -
  have g: "sameWork f g" "evState g \<in> {Draining, InProgress} \<or> evState g = MissingFirmware \<and> IsReflash (evRecoveryType f)"
    "evState g \<noteq> Draining \<Longrightarrow> s = ''''"
    using assms(3) by (auto simp: stalled_def)
  have "carried e (snd (drainDeadline now q g s))"
    using assms(1) g(1) drainDeadline_effect(2) by (meson carried_trans sameWorkD(1))
  then show ?thesis
    using assms(1,2) g drainDeadline_effect(3) [of s now q g] drainDeadline_effect(4-6) [of now q g s] sameWorkD(2,3)
    by (cases "evState g = Draining") (auto simp: drainStep_def)
qed

lemma returns_drainEvent:
  assumes i: "i < length (events p)" shows "returns (eventRound drainStep i p) (drainEvent E i p)"
proof (cases "evState (events p ! i) = Draining")
  case False
  have "logged (putEvent i (events p ! i) p) p" by (simp add: putEvent_same [OF i])
  then show ?thesis
    using False by (auto simp: drainEvent_def eventRound_def drainStep_def intro!: exI [of _ "events p ! i"])
next
  case True
  have fin: "eventRound drainStep i p (putEvent i (snd (drainDeadline now q g s)) (fst (drainDeadline now q g s)))"
    if "sameWork (events p ! i) f" "stalled p f (q, g, s)" for f q g s now
  proof -
    have "logged p (fst (drainDeadline now q g s))"
      using that(2) drainDeadline_effect(1) by (auto simp: stalled_def intro: logged_trans)
    then show ?thesis using drainStep_deadline [OF that(1) True that(2)] logged_putEvent
      unfolding eventRound_def by blast
  qed
  have "returns (eventRound drainStep i p)
      (drainStall E p f r \<bind> (\<lambda>(q, g, s). getNow E \<bind> (\<lambda>now. case drainDeadline now q g s of
          (p'', evt'') \<Rightarrow> State_Monad.return (putEvent i evt'' p''))))"
    if "drainPass (events p ! i) (f, r)" for f r
  proof (rule returns_bind_mono [OF returns_drainStall])
    show "evState f = Draining" using that True by (simp add: drainPass_def)
    fix x assume "stalled p f x"
    moreover obtain q g s where "x = (q, g, s)" by (cases x) auto
    moreover have "sameWork (events p ! i) f" using that by (simp add: drainPass_def)
    ultimately show "returns (eventRound drainStep i p) (case x of (q, g, s) \<Rightarrow>
        getNow E \<bind> (\<lambda>now. case drainDeadline now q g s of
          (p'', evt'') \<Rightarrow> State_Monad.return (putEvent i evt'' p'')))"
      using fin by (auto simp: case_prod_beta intro!: returns_bind_any)
  qed
  with True show ?thesis
    unfolding drainEvent_def by (auto intro!: returns_bind_mono [OF returns_drainNodeForEvent])
qed

lemma returns_processDrains: "returns (phaseResult drainStep p) (processDrains E p)"
  unfolding processDrains_def by (rule returns_eventLoop) (rule returns_drainEvent)

lemma drainStep_inFlight: "drainStep e e' \<Longrightarrow> carried e e' \<and> (inFlight e' \<longrightarrow> inFlight e)"
  by (cases "evState e = Draining") (auto simp: drainStep_def inFlight_def)

section \<open>Releasing taints only adds messages\<close>

lemma returns_untaintNodesExcept: "returns (logged p) (untaintNodesExcept E p keep)"
  unfolding untaintNodesExcept_def
proof (intro returns_bind_any returns_case_sum returns_foldM)
  show "returns (logged p) (untaintOne E t keep n q)" if "logged p q" for t n q
    unfolding untaintOne_def using that
    by (auto intro!: returns_bind_any logged_appendI split: sum.split)
qed simp_all

section \<open>Whose taints are released\<close>

text \<open>
  On a client that keeps Nodes as the API documents, releasing removes at most this plan's taint,
  only from nodes that are not to be kept, and adds none.
\<close>

definition released ::
  "('w \<Rightarrow> string \<Rightarrow> node option) \<Rightarrow> taint \<Rightarrow> string set \<Rightarrow> 'w \<Rightarrow> 'w \<Rightarrow> bool" where
  "released nodeOf t keep w w' \<longleftrightarrow>
     (\<forall>n u. carriesTaint nodeOf w' n u \<longrightarrow> carriesTaint nodeOf w n u)
     \<and> (\<forall>n u. n \<in> keep \<or> \<not> taintsEqual t u \<longrightarrow> carriesTaint nodeOf w' n u = carriesTaint nodeOf w n u)"

lemma released_refl: "nodeOf w' = nodeOf w \<Longrightarrow> released nodeOf t keep w w'"
  by (simp add: released_def carriesTaint_def)

lemma released_trans:
  "released nodeOf t keep w w1 \<Longrightarrow> released nodeOf t keep w1 w2 \<Longrightarrow> released nodeOf t keep w w2"
  by (simp add: released_def)

locale recovery_nodes = node_store E nodeOf
  for E :: "('w, 'x) recoveryEnv_scheme" and nodeOf :: "'w \<Rightarrow> string \<Rightarrow> node option"
begin

lemma released_untaintOne:
  assumes "run_state (untaintOne E t keep n p) w = (q, w')"
  shows "released nodeOf t keep w w'"
proof (cases "n \<in> keep")
  case True
  then show ?thesis using assms by (simp add: untaintOne_def released_refl)
next
  case False
  obtain r w1 where r: "run_state (RemoveNodeTaint E n t) w = (r, w1)" by fastforce
  then have "w1 = w'" using assms False by (simp add: untaintOne_def)
  note r = r [unfolded this]
  show ?thesis
  proof (cases r)
    case (Inl e)
    show ?thesis by (rule released_refl) (rule remove_err [OF r [unfolded Inl]])
  next
    case (Inr b)
    have "carriesTaint nodeOf w' m u \<longleftrightarrow> \<not> (m = n \<and> taintsEqual t u) \<and> carriesTaint nodeOf w m u" for m u
      using remove_ok r Inr by blast
    then show ?thesis using False by (auto simp: released_def)
  qed
qed

lemma released_loop:
  "run_state (foldM (untaintOne E t keep) ns p) w = (q, w') \<Longrightarrow> released nodeOf t keep w w'"
proof (induction ns arbitrary: p w)
  case Nil
  then show ?case by (simp add: released_refl)
next
  case (Cons n ns)
  obtain p1 w1 where "run_state (untaintOne E t keep n p) w = (p1, w1)" by fastforce
  with Cons.prems Cons.IH [of p1 w1] show ?case
    by (auto intro: released_trans released_untaintOne)
qed

lemma released_untaintNodesExcept:
  assumes "run_state (untaintNodesExcept E p keep) w = (q, w')"
  shows "released nodeOf (recoveryTaint (plName p)) keep w w'"
proof -
  obtain r w1 where l: "run_state (NodesWithTaint E (recoveryTaint (plName p))) w = (r, w1)" by fastforce
  show ?thesis
  proof (cases r)
    case (Inl e)
    then show ?thesis using assms l tainted_err [of "recoveryTaint (plName p)" w e w1]
      by (auto simp: untaintNodesExcept_def intro: released_refl)
  next
    case (Inr ns)
    then have "run_state (foldM (untaintOne E (recoveryTaint (plName p)) keep) ns p) w1 = (q, w')"
      using assms l by (simp add: untaintNodesExcept_def)
    then show ?thesis using released_loop tainted_ok(1) [OF l [unfolded Inr]] released_refl released_trans by metis
  qed
qed

end

text \<open>When the calls succeed as well, no node outside the kept ones carries the plan's taint.\<close>

locale recovery_nodes_reliable = reliable_nodes E nodeOf
  for E :: "('w, 'x) recoveryEnv_scheme" and nodeOf :: "'w \<Rightarrow> string \<Rightarrow> node option"

sublocale recovery_nodes_reliable \<subseteq> recovery_nodes E nodeOf
  by unfold_locales

context recovery_nodes_reliable
begin

lemma untaintOne_gone:
  assumes "run_state (untaintOne E t keep n p) w = (q, w')" "n \<notin> keep" "taintsEqual t u"
  shows "\<not> carriesTaint nodeOf w' n u"
proof -
  obtain r w1 where r: "run_state (RemoveNodeTaint E n t) w = (r, w1)" by fastforce
  then have "w1 = w'" using assms by (simp add: untaintOne_def)
  note r = r [unfolded this]
  show ?thesis
  proof (cases "nodeOf w n")
    case None
    then have "\<not> carriesTaint nodeOf w n u" by (simp add: carriesTaint_def)
    then show ?thesis using released_untaintOne [OF assms(1)] unfolding released_def by blast
  next
    case (Some nd)
    then obtain b w2 where "run_state (RemoveNodeTaint E n t) w = (Inr b, w2)" using remove_succeeds by blast
    then have "r = Inr b" using r by simp
    then show ?thesis using remove_ok r assms(3) by blast
  qed
qed

lemma untaint_loop_gone:
  assumes "run_state (foldM (untaintOne E t keep) ns p) w = (q, w')" "n \<in> set ns" "n \<notin> keep" "taintsEqual t u"
  shows "\<not> carriesTaint nodeOf w' n u"
  using assms(1,2)
proof (induction ns arbitrary: p w)
  case (Cons m ns)
  obtain p1 w1 where one: "run_state (untaintOne E t keep m p) w = (p1, w1)" by fastforce
  with Cons.prems have rest: "run_state (foldM (untaintOne E t keep) ns p1) w1 = (q, w')" by simp
  show ?case
  proof (cases "n \<in> set ns")
    case True
    then show ?thesis using Cons.IH [OF rest] by blast
  next
    case False
    then have "\<not> carriesTaint nodeOf w1 n u" using Cons.prems one untaintOne_gone assms(3,4) by auto
    then show ?thesis using released_loop [OF rest] unfolding released_def by blast
  qed
qed simp

lemma untaintNodesExcept_gone:
  assumes "run_state (untaintNodesExcept E p keep) w = (q, w')" "n \<notin> keep"
    and "taintsEqual (recoveryTaint (plName p)) u"
  shows "\<not> carriesTaint nodeOf w' n u"
proof -
  let ?t = "recoveryTaint (plName p)"
  obtain nds w1 where "run_state (cListNodes E []) w = (Inr nds, w1)" using list_succeeds by blast
  then obtain ns where l: "run_state (NodesWithTaint E ?t) w = (Inr ns, w1)"
    by (simp add: NodesWithTaint_def)
  then have loop: "run_state (foldM (untaintOne E ?t keep) ns p) w1 = (q, w')"
    using assms(1) by (simp add: untaintNodesExcept_def)
  show ?thesis
  proof (cases "n \<in> set ns")
    case True
    then show ?thesis using untaint_loop_gone [OF loop] assms(2,3) by blast
  next
    case False
    then have "\<not> carriesTaint nodeOf w n ?t" using tainted_ok(2) [OF l] by blast
    then have "\<not> carriesTaint nodeOf w n u"
      using assms(3) by (auto simp: carriesTaint_def hasTaint_iff taintsEqual_def split: option.splits)
    then show ?thesis using released_untaintNodesExcept [OF assms(1)] unfolding released_def by blast
  qed
qed

end

end
