(* ===== verification/RecoveryReconcile.thy ===== *)
theory RecoveryReconcile
  imports RecoveryDetection RecoveryApprovals RecoveryDrains
begin

text \<open>
  The rest of the recovery controller and its main loop: the outcomes of the Jobs
  (\<^verbatim>\<open>syncJobStatuses\<close>), the finalizer, writing the plan back (\<^verbatim>\<open>persistPlan\<close>) and
  \<^verbatim>\<open>Reconcile\<close>, which runs the phases in order.
\<close>

section \<open>Job outcomes\<close>

text \<open>
  A failed \<^verbatim>\<open>Get\<close> leaves the zero Job behind, so the deadline then is the plan's.
\<close>

definition jobOutcome :: "time \<Rightarrow> plan \<Rightarrow> event \<Rightarrow> job res \<Rightarrow> plan \<times> event" where
  "jobOutcome now p evt r =
     (let job = (case r of Inl _ \<Rightarrow> emptyJob | Inr j \<Rightarrow> j);
          deadline = jobDeadlineSeconds p evt job
      in case r of
           Inl e \<Rightarrow>
             if reason e = NotFound
             then (if \<not> jobVerdictOverdue now deadline (evLastUpdated evt) then (p, evt)
                   else failEventJob now p evt (''recovery Job '' @ evJobName evt
                          @ '' no longer exists and never reported a verdict''))
             else (p, evt)
         | Inr _ \<Rightarrow>
             (case jobTerminalCondition job of
                Some verdict \<Rightarrow> applyJobVerdict now p evt verdict
              | None \<Rightarrow>
                  if jobVerdictOverdue now deadline (jobStartedAt job)
                  then failEventJob now p evt (''recovery Job '' @ evJobName evt
                         @ '' reported no verdict within its '' @ itoa (sint deadline) @ ''s deadline'')
                  else (p, evt)))"

definition syncJob :: "('w, 'x) recoveryEnv_scheme \<Rightarrow> nat \<Rightarrow> plan \<Rightarrow> ('w, plan) io" where
  "syncJob E i p =
     (let evt = events p ! i
      in if evState evt \<noteq> InProgress \<or> evJobName evt = '''' then State_Monad.return p
         else do {
           r \<leftarrow> cGetJob E (rNamespace E) (evJobName evt);
           now \<leftarrow> getNow E;
           case jobOutcome now p evt r of (p', evt') \<Rightarrow> State_Monad.return (putEvent i evt' p')
         })"

definition syncJobStatuses :: "('w, 'x) recoveryEnv_scheme \<Rightarrow> plan \<Rightarrow> ('w, plan) io" where
  "syncJobStatuses E p = foldM (syncJob E) [0..<length (events p)] p"

section \<open>Finalizer\<close>

definition runningRecoveryJobs ::
  "('w, 'x) recoveryEnv_scheme \<Rightarrow> plan \<Rightarrow> ('w, string list res) io" where
  "runningRecoveryJobs E p = do {
     r \<leftarrow> cListJobs E (rNamespace E) (recoveryJobLabelPlan, plName p);
     State_Monad.return (map_sum id
       (\<lambda>js. map jobName (filter (\<lambda>j. \<not> jobDeleting j \<and> \<not> jobIsTerminal j) js)) r)
   }"

definition removeFinalizer :: "plan \<Rightarrow> plan" where
  "removeFinalizer p = p\<lparr>plFinalizers := filter (\<lambda>f. f \<noteq> recoveryPlanFinalizer) (plFinalizers p)\<rparr>"

definition addFinalizer :: "plan \<Rightarrow> plan" where
  "addFinalizer p = p\<lparr>plFinalizers := plFinalizers p @ [recoveryPlanFinalizer]\<rparr>"

text \<open>\<^verbatim>\<open>Update\<close> decodes the server's answer into the object it was given.\<close>

definition updatePlanObject ::
  "('w, 'x) recoveryEnv_scheme \<Rightarrow> plan \<Rightarrow> string \<Rightarrow> ('w, plan \<times> bool \<times> go_error option) io" where
  "updatePlanObject E p what = do {
     r \<leftarrow> rUpdatePlan E p;
     State_Monad.return (case r of
       Inl e \<Rightarrow> (p, True, Some (wrapErr what e))
     | Inr p' \<Rightarrow> (p', True, None))
   }"

definition tearDown ::
  "('w, 'x) recoveryEnv_scheme \<Rightarrow> plan \<Rightarrow> ('w, plan \<times> bool \<times> go_error option) io" where
  "tearDown E p = do {
     _ \<leftarrow> deleteAllJobs E p;
     p' \<leftarrow> releaseAllDrainTaints E p;
     _ \<leftarrow> (if rOpenShift E then cleanupSCCQuadruple E recoveryResourcePart (rNamespace E) (plName p')
          else State_Monad.return ());
     updatePlanObject E (removeFinalizer p') ''removing finalizer''
   }"

definition handleFinalizer ::
  "('w, 'x) recoveryEnv_scheme \<Rightarrow> plan \<Rightarrow> ('w, plan \<times> bool \<times> go_error option) io" where
  "handleFinalizer E p =
     (if plDeleting p then do {
        r \<leftarrow> runningRecoveryJobs E p;
        case r of
          Inl e \<Rightarrow> State_Monad.return (p, True, Some (wrapErr ''listing recovery jobs during deletion'' e))
        | Inr running \<Rightarrow>
            if running \<noteq> []
            then State_Monad.return
                   (appendMessage p (''Deletion waiting for '' @ natStr (length running)
                      @ '' active recovery Job(s): '' @ joinStr '', '' running), True,
                    Some (Err RequeueRequested (''waiting for '' @ natStr (length running)
                      @ '' active recovery job(s)'')))
            else tearDown E p
      }
      else if recoveryPlanFinalizer \<notin> set (plFinalizers p)
      then updatePlanObject E (addFinalizer p) ''adding finalizer''
      else State_Monad.return (p, False, None))"

section \<open>Writing the plan back\<close>

definition writeStatus ::
  "('w, 'x) recoveryEnv_scheme \<Rightarrow> string \<Rightarrow> GPURecoveryPlanStatus \<Rightarrow> ('w, go_error option) io" where
  "writeStatus E key want = do {
     r \<leftarrow> rGetPlan E key;
     case r of
       Inl e \<Rightarrow> State_Monad.return (Some e)
     | Inr cur \<Rightarrow> do {
         u \<leftarrow> rUpdatePlanStatus E (cur\<lparr>plStatus := want\<rparr>);
         State_Monad.return (case u of Inl e \<Rightarrow> Some e | Inr _ \<Rightarrow> None)
       }
   }"

definition writeApprovals ::
  "('w, 'x) recoveryEnv_scheme \<Rightarrow> string \<Rightarrow> approvalChanges \<Rightarrow> ('w, go_error option) io" where
  "writeApprovals E key ch = do {
     r \<leftarrow> rGetPlan E key;
     case r of
       Inl e \<Rightarrow> State_Monad.return (Some e)
     | Inr cur \<Rightarrow>
         (case applyChanges ch cur of
            (cur', changed) \<Rightarrow>
              if \<not> changed then State_Monad.return None
              else do {
                u \<leftarrow> rUpdatePlan E cur';
                State_Monad.return (case u of Inl e \<Rightarrow> Some e | Inr _ \<Rightarrow> None)
              })
   }"

definition persistPlan ::
  "('w, 'x) recoveryEnv_scheme \<Rightarrow> string \<Rightarrow> plan \<Rightarrow> plan \<Rightarrow> ('w, go_error option) io" where
  "persistPlan E key orig p =
     (let statusChanged = (plStatus orig \<noteq> plStatus p);
          ch = diffApprovals orig p
      in if \<not> statusChanged \<and> changesEmpty ch then State_Monad.return None
         else do {
           firstErr \<leftarrow> (if statusChanged
             then do {
               e \<leftarrow> rRetryOnConflict E (writeStatus E key (plStatus p));
               State_Monad.return (map_option (wrapErr ''updating status'') e)
             }
             else State_Monad.return None);
           if changesEmpty ch then State_Monad.return firstErr
           else do {
             e \<leftarrow> rRetryOnConflict E (writeApprovals E key ch);
             State_Monad.return (case firstErr of
               Some f \<Rightarrow> Some f | None \<Rightarrow> map_option (wrapErr ''updating spec'') e)
           }
         })"

section \<open>Reconcile\<close>

text \<open>
  \<open>Inr None\<close> is an empty result, \<open>Inr (Some d)\<close> asks to be called again after \<open>d\<close>.
  \<open>reconcilePlan\<close> is the body between reading the plan and the deferred write; it returns the plan
  as the phases left it.
\<close>

type_synonym result = "int option"

definition finishPass :: "('w, 'x) recoveryEnv_scheme \<Rightarrow> plan \<Rightarrow> ('w, plan \<times> result res) io" where
  "finishPass E p = do {
     p' \<leftarrow> reconcileDrainTaints E (pruneConsumedApprovals p);
     let p'' = updatePlanState p';
     State_Monad.return (p'', Inr (if hasActiveJobs p'' then Some (rRequeueDelay E) else None))
   }"

definition runPhases :: "('w, 'x) recoveryEnv_scheme \<Rightarrow> plan \<Rightarrow> ('w, plan \<times> result res) io" where
  "runPhases E p = do {
     p1 \<leftarrow> processApprovals E p;
     p2 \<leftarrow> processDrains E p1;
     p3 \<leftarrow> syncJobStatuses E p2;
     finishPass E p3
   }"

definition detectThenRun :: "('w, 'x) recoveryEnv_scheme \<Rightarrow> plan \<Rightarrow> ('w, plan \<times> result res) io" where
  "detectThenRun E p = do {
     (p', err) \<leftarrow> syncRecoveryEventsFromSlices E p;
     case err of
       Some e \<Rightarrow> State_Monad.return (p', Inl (wrapErr ''syncRecoveryEventsFromSlices'' e))
     | None \<Rightarrow> do {
         os \<leftarrow> (if rOpenShift E
               then ensureSCCQuadruple E ''recovery'' recoveryResourcePart buildRecoverySCC (rNamespace E) (plName p')
               else State_Monad.return None);
         case os of
           Some e \<Rightarrow>
             State_Monad.return
               (appendMessage p' (''Failed to ensure OpenShift SCC resources: '' @ errText e),
                Inl (wrapErr ''ensureOpenShiftResources'' e))
         | None \<Rightarrow> runPhases E p'
       }
   }"

definition reconcilePlan :: "('w, 'x) recoveryEnv_scheme \<Rightarrow> plan \<Rightarrow> ('w, plan \<times> result res) io" where
  "reconcilePlan E p = do {
     (p', stop, err) \<leftarrow> handleFinalizer E p;
     case err of
       Some e \<Rightarrow>
         State_Monad.return (p', if reason e = RequeueRequested then Inr (Some (rRequeueDelay E)) else Inl e)
     | None \<Rightarrow> if stop then State_Monad.return (p', Inr None) else detectThenRun E p'
   }"

definition Reconcile :: "('w, 'x) recoveryEnv_scheme \<Rightarrow> string \<Rightarrow> ('w, result res) io" where
  "Reconcile E key = do {
     r \<leftarrow> rGetPlan E key;
     case r of
       Inl e \<Rightarrow> State_Monad.return (if reason e = NotFound then Inr None else Inl e)
     | Inr orig \<Rightarrow> do {
         (p, res) \<leftarrow> reconcilePlan E orig;
         e \<leftarrow> persistPlan E key orig p;
         State_Monad.return (case res of
           Inl err \<Rightarrow> Inl err
         | Inr ok \<Rightarrow> (case e of Some err \<Rightarrow> Inl err | None \<Rightarrow> Inr ok))
       }
   }"

section \<open>What the Job phase does to an event\<close>

definition jobStep :: "event \<Rightarrow> event \<Rightarrow> bool" where
  "jobStep e e' \<longleftrightarrow> carried e e' \<and> evApprovalID e' = evApprovalID e \<and> evRecoveryType e' = evRecoveryType e
     \<and> (e' = e \<or> evState e = InProgress \<and> evState e' \<in> {Succeeded, Failed}
          \<and> evJobName e' = '''' \<and> evPastJobs e' = evPastJobs e @ [evJobName e])"

lemma wfEvent_archive: "wfEvent e \<Longrightarrow> st \<noteq> InProgress \<Longrightarrow>
   wfEvent (setEventState now (e\<lparr>evPastJobs := js, evJobName := ''''\<rparr>) st m)"
  using length_stateMessage [of now "e\<lparr>evPastJobs := js, evJobName := ''''\<rparr>" st m] by (simp add: wfEvent_def)

lemma jobStep_failEventJob: "evState e = InProgress \<Longrightarrow> jobStep e (snd (failEventJob now p e d))"
  using failEventJob_effect(2) [of e now p d]
  by (simp add: jobStep_def carried_def) (simp add: failEventJob_def Let_def wfEvent_archive)

lemma jobStep_applyJobVerdict: "evState e = InProgress \<Longrightarrow> jobStep e (snd (applyJobVerdict now p e c))"
proof (cases "condType c = ''Complete''")
  case True
  then show "evState e = InProgress \<Longrightarrow> ?thesis"
    using applyJobVerdict_effect(2) [of e now p c]
    by (simp add: jobStep_def carried_def) (simp add: applyJobVerdict_def wfEvent_archive)
next
  case False
  then show "evState e = InProgress \<Longrightarrow> ?thesis"
    using jobStep_failEventJob by (simp add: applyJobVerdict_def)
qed

lemma jobStep_refl [simp]: "jobStep e e"
  by (simp add: jobStep_def)

lemma jobOutcome_effect:
  "logged p (fst (jobOutcome now p e r))"
  "evState e = InProgress \<Longrightarrow> jobStep e (snd (jobOutcome now p e r))"
  by (simp_all add: jobOutcome_def Let_def jobStep_failEventJob jobStep_applyJobVerdict
      split: sum.split option.split)

lemma returns_syncJob:
  assumes i: "i < length (events p)" shows "returns (eventRound jobStep i p) (syncJob E i p)"
proof -
  let ?e = "events p ! i"
  have "logged (putEvent i ?e p) p" by (simp add: putEvent_same [OF i])
  then have skip: "eventRound jobStep i p p" unfolding eventRound_def by (intro exI [of _ ?e]) simp
  have "eventRound jobStep i p (putEvent i (snd (jobOutcome now p ?e r)) (fst (jobOutcome now p ?e r)))"
    if "evState ?e = InProgress" for now r
    using jobOutcome_effect [where e = ?e and r = r and now = now] that logged_putEvent
    unfolding eventRound_def by blast
  then show ?thesis
    using skip by (auto simp: syncJob_def Let_def case_prod_beta intro!: returns_bind_any)
qed

lemma returns_syncJobStatuses: "returns (phaseResult jobStep p) (syncJobStatuses E p)"
  unfolding syncJobStatuses_def by (rule returns_eventLoop) (rule returns_syncJob)

lemma jobStep_inFlight: "jobStep e e' \<Longrightarrow> carried e e' \<and> (inFlight e' \<longrightarrow> inFlight e)"
  by (auto simp: jobStep_def inFlight_def)

section \<open>The phases after detection\<close>

definition settledStep :: "event \<Rightarrow> event \<Rightarrow> bool" where
  "settledStep e e' \<longleftrightarrow> carried e e' \<and> evApprovalID e' = evApprovalID e
     \<and> evRecoveryType e' = evRecoveryType e \<and> (inFlight e' \<longrightarrow> inFlight e)
     \<and> (\<not> inFlight e \<longrightarrow> e' = e)
     \<and> (evState e = InProgress \<longrightarrow> evState e' \<in> {InProgress, Succeeded, Failed})"

definition keptApproval :: "event list \<Rightarrow> approval \<Rightarrow> bool" where
  "keptApproval es a \<longleftrightarrow>
     \<not> (apConsumed a \<and> \<not> apPersistent a \<and> apID a \<notin> set (filter (\<lambda>i. i \<noteq> '''') (map evApprovalID es)))"

definition runResult :: "('w, 'x) recoveryEnv_scheme \<Rightarrow> plan \<Rightarrow> plan \<Rightarrow> bool" where
  "runResult E p q \<longleftrightarrow> sameMeta p q \<and> (exclusive p \<longrightarrow> exclusive q)
     \<and> (\<exists>es mid. list_all2 (approvalEvent E (approvals p)) (events p) es
          \<and> list_all2 settledStep es (events q)
          \<and> list_all2 (spentApproval p es) (approvals p) mid
          \<and> approvals q = filter (keptApproval (events q)) mid)"

lemma settledStep_carried: "settledStep e f \<Longrightarrow> carried e f"
  by (simp add: settledStep_def)

lemma settledStep_inFlight: "settledStep e f \<Longrightarrow> inFlight f \<Longrightarrow> inFlight e"
  by (simp add: settledStep_def)

lemma settledStep_trans:
  assumes "settledStep e f" "settledStep f g" shows "settledStep e g"
proof -
  have "evState f = InProgress \<or> g = f" if "evState e = InProgress"
    using that assms unfolding settledStep_def inFlight_def by force
  then have "evState e = InProgress \<longrightarrow> evState g \<in> {InProgress, Succeeded, Failed}"
    using assms unfolding settledStep_def by metis
  moreover have "carried e g" using assms carried_trans unfolding settledStep_def by blast
  ultimately show ?thesis using assms unfolding settledStep_def by metis
qed

lemma settled_steps: "drainStep e f \<Longrightarrow> settledStep e f" "jobStep e f \<Longrightarrow> settledStep e f"
proof -
  show "drainStep e f \<Longrightarrow> settledStep e f"
    using drainStep_inFlight [of e f] unfolding settledStep_def drainStep_def inFlight_def by force
  show "jobStep e f \<Longrightarrow> settledStep e f"
    using jobStep_inFlight [of e f] unfolding settledStep_def jobStep_def inFlight_def by force
qed

lemma exclusive_settled:
  "exclusive p \<Longrightarrow> list_all2 settledStep (events p) (events q) \<Longrightarrow> exclusive q"
  by (rule exclusive_list_all2 [where R = settledStep]) (simp_all add: settledStep_def)

lemma approvals_prune: "approvals (pruneConsumedApprovals p) = filter (keptApproval (events p)) (approvals p)"
  by (auto simp: pruneConsumedApprovals_def Let_def keptApproval_def intro: filter_cong)

lemma prune_frame [simp]: "plStatus (pruneConsumedApprovals p) = plStatus p"
  "sameMeta p (pruneConsumedApprovals p)"
  by (simp_all add: pruneConsumedApprovals_def Let_def)

lemma updatePlanState_frame [simp]: "events (updatePlanState p) = events p"
  "messages (updatePlanState p) = messages p" "plSpec (updatePlanState p) = plSpec p"
  "sameMeta p (updatePlanState p)"
  by (simp_all add: updatePlanState_def)

definition finished :: "plan \<Rightarrow> plan \<Rightarrow> bool" where
  "finished p q \<longleftrightarrow> sameMeta p q \<and> events q = events p
     \<and> approvals q = filter (keptApproval (events p)) (approvals p)"

lemma returns_finishPass: "returns (\<lambda>(q, r). finished p q) (finishPass E p)"
  unfolding finishPass_def reconcileDrainTaints_def Let_def
proof (rule returns_bind_mono [OF returns_untaintNodesExcept])
  fix q assume l: "logged (pruneConsumedApprovals p) q"
  have "sameMeta p (updatePlanState q)"
    using l by (blast intro: sameMeta_trans prune_frame(2) sameMeta_logged updatePlanState_frame(4))
  then show "returns (\<lambda>(q, r). finished p q) (State_Monad.return (updatePlanState q,
      Inr (if hasActiveJobs (updatePlanState q) then Some (rRequeueDelay E) else None)))"
    using l by (simp add: finished_def loggedD approvals_prune)
qed

lemma runResultI:
  assumes a: "approvalsResult E p p1" and d: "phaseResult drainStep p1 p2" and j: "phaseResult jobStep p2 p3"
    and f: "finished p3 q"
  shows "runResult E p q"
proof -
  have "list_all2 drainStep (events p1) (events p2)" "list_all2 jobStep (events p2) (events p3)"
    using d j by (simp_all add: phaseResult_def)
  then have "list_all2 settledStep (events p1) (events p2)" "list_all2 settledStep (events p2) (events p3)"
    by (auto elim!: list_all2_mono settled_steps)
  then have set: "list_all2 settledStep (events p1) (events q)"
    using list_all2_trans [of settledStep settledStep settledStep, OF settledStep_trans] f
    by (simp add: finished_def)
  have "sameMeta p p1" "sameMeta p1 p2" "sameMeta p2 p3" "sameMeta p3 q"
    using a d j f by (simp_all add: approvalsResult_def phaseResult_def finished_def)
  then have "sameMeta p q" by (blast intro: sameMeta_trans)
  moreover have "exclusive p \<longrightarrow> exclusive q"
    using a set exclusive_settled by (auto simp: approvalsResult_def)
  moreover have "approvals q = filter (keptApproval (events q)) (approvals p1)"
    using d j f by (simp add: phaseResult_def finished_def)
  ultimately show ?thesis using a set unfolding runResult_def approvalsResult_def by blast
qed

lemma returns_runPhases: "returns (\<lambda>(q, r). runResult E p q) (runPhases E p)"
  unfolding runPhases_def
  by (rule returns_bind_mono [OF returns_processApprovals], rule returns_bind_mono [OF returns_processDrains],
      rule returns_bind_mono [OF returns_syncJobStatuses], rule returns_mono [OF returns_finishPass])
     (auto intro: runResultI)

section \<open>The whole pass\<close>

text \<open>
  What a pass may have done to the plan it read: detection may not have run, may have been the last
  phase, or may have been followed by the others.
\<close>

definition detectResult :: "('w, 'x) recoveryEnv_scheme \<Rightarrow> plan \<Rightarrow> plan \<Rightarrow> bool" where
  "detectResult E p q \<longleftrightarrow> q = p \<or> (\<exists>slices. detected E p slices q)"

definition passResult :: "('w, 'x) recoveryEnv_scheme \<Rightarrow> plan \<Rightarrow> plan \<Rightarrow> bool" where
  "passResult E p q \<longleftrightarrow> (\<exists>p1. detectResult E p p1 \<and> (logged p1 q \<or> runResult E p1 q))"

lemma returns_detectThenRun: "returns (\<lambda>(q, r). passResult E p q) (detectThenRun E p)"
  unfolding detectThenRun_def
proof (rule returns_bind_mono [OF returns_syncRecoveryEvents])
  fix x :: "plan \<times> go_error option"
  obtain p1 err where x: "x = (p1, err)" by fastforce
  assume "case x of (q, err) \<Rightarrow> q = p \<or> (\<exists>slices. detected E p slices q)"
  then have d: "detectResult E p p1" by (simp add: x detectResult_def)
  then have run: "returns (\<lambda>(q, r). passResult E p q) (runPhases E p1)"
    by (intro returns_mono [OF returns_runPhases]) (auto simp: passResult_def)
  have msg: "passResult E p (appendMessage p1 m)" and same: "passResult E p p1" for m
    using d logged_appendMessage logged_refl unfolding passResult_def by blast+
  have "returns (\<lambda>(q, r). passResult E p q) (case os of
           Some e \<Rightarrow> State_Monad.return (appendMessage p1 (m e), Inl (wrapErr t e))
         | None \<Rightarrow> runPhases E p1)" for os m t
    using run msg by (cases os) simp_all
  then show "returns (\<lambda>(q, r). passResult E p q) (case x of (p', err) \<Rightarrow> case err of
      Some e \<Rightarrow> State_Monad.return (p', Inl (wrapErr ''syncRecoveryEventsFromSlices'' e))
     | None \<Rightarrow> do {
         os \<leftarrow> (if rOpenShift E
               then ensureSCCQuadruple E ''recovery'' recoveryResourcePart buildRecoverySCC (rNamespace E) (plName p')
               else State_Monad.return None);
         case os of
           Some e \<Rightarrow>
             State_Monad.return
               (appendMessage p' (''Failed to ensure OpenShift SCC resources: '' @ errText e),
                Inl (wrapErr ''ensureOpenShiftResources'' e))
         | None \<Rightarrow> runPhases E p'
       })"
    unfolding x prod.case
    by (cases err) (simp_all only: option.case returns_return prod.case same returns_bind_any)
qed

section \<open>The invariant of a plan's status\<close>

definition planInv :: "plan \<Rightarrow> bool" where
  "planInv p \<longleftrightarrow> exclusive p \<and> (\<forall>e \<in> set (events p). wfEvent e) \<and> distinct (devs p)
     \<and> length (events p) \<le> maxStatusEvents \<and> length (messages p) \<le> maxStatusMessages"

lemma planInv_logged: "planInv p \<Longrightarrow> logged p q \<Longrightarrow> planInv q"
  using exclusive_cong [of q p] by (simp add: planInv_def loggedD devs_def)

lemma freshEvent_not_inFlight: "freshEvent dns kn e \<Longrightarrow> \<not> inFlight e"
  by (simp add: freshEvent_def inFlight_def)

lemma planInv_detected:
  assumes "visitsOnce E" "planInv p" "detected E p slices q" shows "planInv q"
proof -
  have "exclusive q"
  proof (rule exclusive_shrink [of p])
    show "exclusive p" using assms(2) by (simp add: planInv_def)
    show "\<exists>e \<in> set (events p). inFlight e \<and> evID f = evID e \<and> evNodeName f = evNodeName e"
      if "f \<in> set (events q)" "inFlight f" for f
      using that detected_events [OF assms(3)] freshEvent_not_inFlight by blast
  qed
  then show ?thesis using assms(1,2) detected_bounds [OF assms(3)] by (simp add: planInv_def)
qed

lemma devKey_carried: "carried e f \<Longrightarrow> devKey f = devKey e"
  by (simp add: devKey_def carriedD)

lemma carried_list:
  assumes "list_all2 R xs ys" "\<And>e f. R e f \<Longrightarrow> carried e f"
  shows "map devKey ys = map devKey xs" "\<forall>e \<in> set xs. wfEvent e \<Longrightarrow> \<forall>f \<in> set ys. wfEvent f"
proof -
  have c: "length ys = length xs" "\<And>i. i < length xs \<Longrightarrow> carried (xs ! i) (ys ! i)"
    using assms by (auto simp: list_all2_conv_all_nth)
  then show "map devKey ys = map devKey xs" by (auto simp: list_eq_iff_nth_eq devKey_carried)
  show "\<forall>e \<in> set xs. wfEvent e \<Longrightarrow> \<forall>f \<in> set ys. wfEvent f"
  proof
    fix f assume wf: "\<forall>e \<in> set xs. wfEvent e" and "f \<in> set ys"
    then obtain i where "i < length xs" "f = ys ! i" using c(1) by (auto simp: in_set_conv_nth)
    then show "wfEvent f" using wf c(2) carriedD(4) nth_mem by blast
  qed
qed

lemma planInv_runResult:
  assumes "planInv p" "runResult E p q" shows "planInv q"
proof -
  from assms(2) obtain es where a: "list_all2 (approvalEvent E (approvals p)) (events p) es"
    and s: "list_all2 settledStep es (events q)" and m: "sameMeta p q" and x: "exclusive p \<longrightarrow> exclusive q"
    unfolding runResult_def by (elim conjE exE) (rule that)
  have "map devKey es = devs p" unfolding devs_def
    by (rule carried_list(1) [OF a]) (rule approvalEvent_carried)
  then have "devs q = devs p" 
    using carried_list(1) [OF s] settledStep_carried by (simp add: devs_def)
  moreover have "\<forall>e \<in> set (events p). wfEvent e" using assms(1) by (simp add: planInv_def)
  then have "\<forall>e \<in> set es. wfEvent e" by (rule carried_list(2) [OF a, rotated]) (rule approvalEvent_carried)
  then have "\<forall>e \<in> set (events q). wfEvent e" 
    by (rule carried_list(2) [OF s, rotated]) (rule settledStep_carried)
  moreover have "length (events q) = length (events p)" using a s by (simp add: list_all2_lengthD)
  ultimately show ?thesis using assms(1) x m by (simp add: planInv_def sameMeta_def)
qed

lemma planInv_passResult:
  assumes "visitsOnce E" "planInv p" "passResult E p q" shows "planInv q"
  using assms planInv_detected planInv_logged planInv_runResult
  unfolding passResult_def detectResult_def by metis

section \<open>What a client promises about plans\<close>

text \<open>
  A plan is updated only if nobody has changed it since it was read, so the answer to a successful
  \<^verbatim>\<open>Update\<close> carries the events of the plan that was sent, and a log within the cap if that of the
  plan sent was.
\<close>

definition answered :: "plan \<Rightarrow> plan \<Rightarrow> bool" where
  "answered p q \<longleftrightarrow> events q = events p
     \<and> (length (messages p) \<le> maxStatusMessages \<longrightarrow> length (messages q) \<le> maxStatusMessages)"

lemma answered_trans: "answered p q \<Longrightarrow> answered q r \<Longrightarrow> answered p r"
  by (simp add: answered_def)

lemma answered_logged: "logged p q \<Longrightarrow> answered p q"
  by (simp add: answered_def loggedD)

lemma answered_finalizers [simp]: "answered p p" "answered p (removeFinalizer p)" "answered p (addFinalizer p)"
  by (simp_all add: answered_def removeFinalizer_def addFinalizer_def)

lemma planInv_answered: "planInv p \<Longrightarrow> answered p q \<Longrightarrow> planInv q"
  using exclusive_cong [of q p] by (simp add: planInv_def answered_def devs_def)

definition finalizing :: "plan \<Rightarrow> plan \<times> bool \<times> go_error option \<Rightarrow> bool" where
  "finalizing p x \<longleftrightarrow> (case x of (q, stop, err) \<Rightarrow> answered p q \<and> (err = None \<and> \<not> stop \<longrightarrow> q = p))"

locale plan_store =
  fixes E :: "('w, 'x) recoveryEnv_scheme"
  assumes update_keeps: "returns (\<lambda>r. \<forall>q. r = Inr q \<longrightarrow> answered p q) (rUpdatePlan E p)"
begin

lemma returns_updatePlanObject:
  "answered p0 p \<Longrightarrow> returns (finalizing p0) (updatePlanObject E p what)"
  unfolding updatePlanObject_def
  by (rule returns_bind_mono [OF update_keeps])
     (auto simp: finalizing_def intro: answered_trans split: sum.split)

lemma returns_tearDown: "returns (finalizing p) (tearDown E p)"
  unfolding tearDown_def releaseAllDrainTaints_def
proof (rule returns_bind_any, rule returns_bind_mono [OF returns_untaintNodesExcept], rule returns_bind_any)
  fix q assume "logged p q"
  then have "answered p (removeFinalizer q)" by (blast intro: answered_trans answered_logged answered_finalizers)
  then show "returns (finalizing p) (updatePlanObject E (removeFinalizer q) ''removing finalizer'')"
    by (rule returns_updatePlanObject)
qed

lemma returns_handleFinalizer: "returns (finalizing p) (handleFinalizer E p)"
proof (cases "plDeleting p")
  case True
  have "returns (finalizing p) (case r of
          Inl e \<Rightarrow> State_Monad.return (p, True, Some (f e))
        | Inr running \<Rightarrow>
            if running \<noteq> [] then State_Monad.return (appendMessage p (m running), True, Some (g running))
            else tearDown E p)" for r :: "string list res" and f m g
    by (intro returns_case_sum returns_if)
       (simp_all add: returns_tearDown, simp_all add: finalizing_def answered_logged)
  with True show ?thesis unfolding handleFinalizer_def if_P [OF True] by (intro returns_bind_any)
next
  case False
  have "returns (finalizing p) (updatePlanObject E (addFinalizer p) ''adding finalizer'')"
    by (rule returns_updatePlanObject) simp
  with False show ?thesis by (simp add: handleFinalizer_def) (simp add: finalizing_def)
qed

lemma returns_reconcilePlan:
  "returns (\<lambda>(q, r). answered p q \<or> passResult E p q) (reconcilePlan E p)"
  unfolding reconcilePlan_def
proof (rule returns_bind_mono [OF returns_handleFinalizer])
  fix x assume f: "finalizing p x"
  obtain q stop err where x: "x = (q, stop, err)" by (cases x) auto
  have a: "answered p q" and q: "err = None \<Longrightarrow> \<not> stop \<Longrightarrow> q = p" using f by (auto simp: x finalizing_def)
  have "returns (\<lambda>(q, r). answered p q \<or> passResult E p q) (detectThenRun E p)"
    by (rule returns_mono [OF returns_detectThenRun]) auto
  then show "returns (\<lambda>(q, r). answered p q \<or> passResult E p q) (case x of (p', stop, err) \<Rightarrow> case err of
       Some e \<Rightarrow>
         State_Monad.return (p', if reason e = RequeueRequested then Inr (Some (rRequeueDelay E)) else Inl e)
     | None \<Rightarrow> if stop then State_Monad.return (p', Inr None) else detectThenRun E p')"
    unfolding x prod.case using a q by (cases err) simp_all
qed

lemma reconcilePlan_inv:
  assumes "visitsOnce E" "planInv p" "run_state (reconcilePlan E p) w = ((q, r), w')"
  shows "planInv q"
  using returnsD [OF returns_reconcilePlan assms(3)] planInv_answered [OF assms(2)]
    planInv_passResult [OF assms(1,2)] by auto

end

end
