(* ===== verification/RecoveryMem.thy ===== *)
theory RecoveryMem
  imports RecoveryReconcile
begin

text \<open>
  The in-memory API server of theory Cluster extended to an environment of the recovery controller,
  with one plan. It satisfies the laws of the locales \<open>plan_store\<close> and
  \<open>recovery_nodes_reliable\<close>, and the concrete runs of the development execute on it.
\<close>

section \<open>The environment\<close>

record planMem = mem +
  mPlan :: "plan option"

definition memContainer :: "string \<Rightarrow> container" where
  "memContainer n = \<lparr>cntName = n, cntImage = '''', cntPullPolicy = '''', cntArgs = [], cntLimits = []\<rparr>"

definition memEnv :: "planMem recoveryEnv" where
  "memEnv =
     \<lparr>cClock = cClock memClient, cGetNode = cGetNode memClient, cUpdateNode = cUpdateNode memClient,
      cListNodes = cListNodes memClient, cListPodsOnNode = cListPodsOnNode memClient,
      cGetPod = cGetPod memClient, cEvict = cEvict memClient, cGetClaim = cGetClaim memClient,
      cGetClaimTemplate = cGetClaimTemplate memClient, cListSlices = cListSlices memClient,
      cListClaims = cListClaims memClient, cGetJob = cGetJob memClient, cCreateJob = cCreateJob memClient,
      cDeleteJob = cDeleteJob memClient, cListJobs = cListJobs memClient,
      cListJobPods = cListJobPods memClient,
      oGetSCC = (\<lambda>n. State_Monad.return (Inl (notFound n))),
      oCreateSCC = (\<lambda>s. State_Monad.return None), oUpdateSCC = (\<lambda>s. State_Monad.return None),
      oGetServiceAccount = (\<lambda>ns n. State_Monad.return (Inl (notFound n))),
      oCreateServiceAccount = (\<lambda>ns n. State_Monad.return None),
      oCreateOrPatchRole = (\<lambda>r. State_Monad.return None),
      oCreateOrPatchBinding = (\<lambda>b. State_Monad.return None),
      oDelete = (\<lambda>k ns n. State_Monad.return None),
      rNamespace = ''gpu'', rSecretName = '''', rRequeueDelay = 30, rOpenShift = False,
      rDNS = (\<lambda>s. []), rLabelsMatch = (\<lambda>sel labels. set sel \<subseteq> set labels), rMapOrder = (\<lambda>m. m),
      rVerifyImage = (\<lambda>r. State_Monad.return None),
      rResetJobTemplate = emptyJob\<lparr>jobContainers := [memContainer ''resetter'']\<rparr>,
      rReflashJobTemplate = emptyJob\<lparr>jobInitContainers := [memContainer ''fw-copy''],
        jobContainers := [memContainer ''updater'']\<rparr>,
      rSetControllerReference = (\<lambda>p j. Inr (j\<lparr>jobOwner := Some (plName p)\<rparr>)),
      rGetPlan = (\<lambda>n. observe (\<lambda>m. case mPlan m of
         None \<Rightarrow> Inl (notFound n) | Some p \<Rightarrow> if plName p = n then Inr p else Inl (notFound n))),
      rUpdatePlan = (\<lambda>p. State (\<lambda>m. (Inr p, m\<lparr>mPlan := Some p\<rparr>))),
      rUpdatePlanStatus = (\<lambda>p. State (\<lambda>m. (Inr p, m\<lparr>mPlan := map_option (\<lambda>q. q\<lparr>plStatus := plStatus p\<rparr>) (mPlan m)\<rparr>))),
      rListPlans = observe (\<lambda>m. Inr (case mPlan m of None \<Rightarrow> [] | Some p \<Rightarrow> [p])),
      rRetryOnConflict = (\<lambda>f. f)\<rparr>"

interpretation memPlans: plan_store memEnv
  by unfold_locales (simp add: memEnv_def returns_iff)

interpretation memHold: recovery_nodes_reliable memEnv memNode
proof -
  have eqs: "cGetNode memEnv = cGetNode memClient" "cUpdateNode memEnv = cUpdateNode memClient"
    "cListNodes memEnv = cListNodes memClient"
    by (simp_all add: memEnv_def)
  have "reliable_nodes (memClient :: planMem client) memNode" by (rule memNodes.reliable_nodes_axioms)
  then show "recovery_nodes_reliable memEnv memNode"
    unfolding recovery_nodes_reliable_def reliable_nodes_def reliable_nodes_axioms_def node_store_def eqs .
qed

lemma memEnv_visitsOnce: "visitsOnce memEnv"
  by (simp add: visitsOnce_def memEnv_def)

section \<open>A cluster with one wedged GPU\<close>

definition memNode1 :: node where
  "memNode1 = \<lparr>nodeName = ''n1'', nodeLabels = [(''gpu'', ''yes'')], nodeTaints = [], nodeDeleting = False,
     nodeConditions = []\<rparr>"

definition gpuDevice :: "string \<Rightarrow> string \<Rightarrow> string list \<Rightarrow> device" where
  "gpuDevice n bdf ts = \<lparr>devName = n, devAttributes = [(DeviceAttrDeviceID, Some ''0xe20b''),
     (DeviceAttrBDF, Some bdf)], devTaints = ts\<rparr>"

definition gpuSlice :: "string \<Rightarrow> device list \<Rightarrow> resourceSlice" where
  "gpuSlice n ds = \<lparr>sliceName = n @ ''-gpu'', sliceDriver = GPUDeviceClass, sliceNodeName = Some n,
     slicePool = n, sliceDevices = ds\<rparr>"

definition approvalFor :: "string \<Rightarrow> string \<Rightarrow> approval" where
  "approvalFor i evt = \<lparr>apID = i, apEventID = evt, apSelector = None, apOverride = None,
     apPersistent = False, apConsumed = False, apComment = ''''\<rparr>"

definition approvalForAll :: "string \<Rightarrow> bool \<Rightarrow> approval" where
  "approvalForAll i pers = \<lparr>apID = i, apEventID = '''',
     apSelector = Some \<lparr>selRecoveryType = noType, selNodeName = '''', selNodeSelector = []\<rparr>,
     apOverride = None, apPersistent = pers, apConsumed = False, apComment = ''''\<rparr>"

definition planSpec :: "approval list \<Rightarrow> GPURecoveryPlanSpec" where
  "planSpec as = \<lparr>spDeviceID = ''0xe20b'', spSubDeviceID = '''', spSubVendorID = '''', spApprovals = as,
     spXpuSmi = \<lparr>xsImage = ''xpu'', xsPullPolicy = '''', xsInsecureSkipTLSVerify = False\<rparr>,
     spDefaultResetType = SBR, spFirmware = None, spTolerations = [],
     spDrain = \<lparr>dsEnable = Some False, dsTimeoutSeconds = 300, dsNamespacesToSkip = []\<rparr>,
     spTimeouts = \<lparr>tmResetSeconds = 300, tmReflashSeconds = 600\<rparr>, spSkipImageVerification = True\<rparr>"

definition newPlan :: "approval list \<Rightarrow> event list \<Rightarrow> plan" where
  "newPlan as es = \<lparr>plName = ''plan'', plGeneration = 1, plDeleting = False,
     plFinalizers = [recoveryPlanFinalizer], plSpec = planSpec as,
     plStatus = \<lparr>stState = PlanStateUnset, stMessages = [], stEvents = es\<rparr>\<rparr>"

definition memCluster :: "resourceSlice list \<Rightarrow> plan \<Rightarrow> planMem" where
  "memCluster slices p = \<lparr>mClock = 1000, mNodes = [memNode1], mPods = [], mPDB = (\<lambda>p. False), mClaims = [],
     mTemplates = [], mSlices = slices, mJobs = [], mPlan = Some p\<rparr>"

definition wedgedSlice :: resourceSlice where
  "wedgedSlice = gpuSlice ''n1'' [gpuDevice ''d0'' ''0000:03:00.0'' [DeviceTaintKeyReset]]"

text \<open>An event of that GPU, in a given state.\<close>

definition wedgedEvent :: "RecoveryEventState \<Rightarrow> event" where
  "wedgedEvent s = (newEvent ''evt-n1-sbr-0000-03-00-0'' ''n1'' ''0000:03:00.0''
     \<lparr>needRT = SBR, needReason = reasonWedged\<rparr>)\<lparr>evState := s\<rparr>"

end
