(* ===== verification/RecoveryWebhook.thy ===== *)
theory RecoveryWebhook
  imports RecoveryTypes Drain
begin

text \<open>
  The admission webhooks of GPURecoveryPlan (\<^verbatim>\<open>api/v1alpha1/gpurecoveryplan_webhook.go\<close>): the
  defaulter that gives every approval an ID, and the validator. Every rejection of the source is a
  constructor of \<open>planError\<close>. The image reference parser, the label selector validator and the
  DNS-1123 label check belong to other modules and are the fields of \<open>webhookLib\<close>; random bytes are
  drawn from the world.
\<close>

record 'w webhookLib =
  wRandRead :: "('w, 8 word list res) io"
  wParseReference :: "string \<Rightarrow> go_error option"
  wValidSelector :: "(string \<times> string) list \<Rightarrow> go_error option"
  wDNS1123Label :: "string \<Rightarrow> string list"

datatype planError =
    NilPlan
  | ApprovalIDFailed go_error
  | NoUniqueApprovalID
  | DeviceIDRequired
  | DeviceIDPattern string
  | DefaultResetTypeRequired
  | DefaultResetTypeNotReset RecoveryType
  | SubDeviceIDPattern string
  | SubVendorIDPattern string
  | DuplicateApprovalID nat string
  | EventIDAndSelector nat
  | EventIDOrSelectorMissing nat
  | PersistentWithoutSelector nat
  | InvalidNodeSelector nat go_error
  | InvalidNamespace nat string "string list"
  | DuplicateNamespace nat string
  | XpuSmiImageRequired
  | XpuSmiImageInvalid string go_error
  | FirmwareSourceMissing
  | FirmwareImageNameEmpty
  | FirmwareImageInvalid string go_error
  | VolumeNameEmpty
  | FirmwareFileEmpty
  | FirmwareFilePath string
  | FirmwareFileChars string
  | FirmwareImmutable

section \<open>Defaulting\<close>

definition approvalPrefix :: string where "approvalPrefix = ''app-''"

fun generateApprovalIDTries ::
  "('w, 'x) webhookLib_scheme \<Rightarrow> nat \<Rightarrow> string set \<Rightarrow> ('w, planError + string) io" where
  "generateApprovalIDTries L 0 present = State_Monad.return (Inl NoUniqueApprovalID)"
| "generateApprovalIDTries L (Suc tries) present = do {
     r \<leftarrow> wRandRead L;
     case r of
       Inl e \<Rightarrow> State_Monad.return (Inl (ApprovalIDFailed e))
     | Inr b \<Rightarrow>
         (let ident = approvalPrefix @ hexEncode b
          in if ident \<in> present then generateApprovalIDTries L tries present
             else State_Monad.return (Inr ident))
   }"

definition generateApprovalID ::
  "('w, 'x) webhookLib_scheme \<Rightarrow> string set \<Rightarrow> ('w, planError + string) io" where
  "generateApprovalID L present = generateApprovalIDTries L 10 present"

fun fillApprovalIDs ::
  "('w, 'x) webhookLib_scheme \<Rightarrow> approval list \<Rightarrow> string set \<Rightarrow> ('w, planError + approval list) io" where
  "fillApprovalIDs L [] present = State_Monad.return (Inr [])"
| "fillApprovalIDs L (a # as) present =
     (if apID a \<noteq> '''' then do {
        rest \<leftarrow> fillApprovalIDs L as present;
        State_Monad.return (map_sum id (\<lambda>bs. a # bs) rest)
      }
      else do {
        r \<leftarrow> generateApprovalID L present;
        case r of
          Inl e \<Rightarrow> State_Monad.return (Inl e)
        | Inr ident \<Rightarrow> do {
            rest \<leftarrow> fillApprovalIDs L as (insert ident present);
            State_Monad.return (map_sum id (\<lambda>bs. a\<lparr>apID := ident\<rparr> # bs) rest)
          }
      })"

definition DefaultPlan ::
  "('w, 'x) webhookLib_scheme \<Rightarrow> plan option \<Rightarrow> ('w, planError + plan) io" where
  "DefaultPlan L po =
     (case po of
        None \<Rightarrow> State_Monad.return (Inl NilPlan)
      | Some p \<Rightarrow> do {
          r \<leftarrow> fillApprovalIDs L (approvals p) (set (filter (\<lambda>i. i \<noteq> '''') (map apID (approvals p))));
          State_Monad.return (map_sum id (\<lambda>as.
            let q = setApprovals as p; sp = plSpec q; xs = spXpuSmi sp
            in if xsPullPolicy xs = ''''
               then q\<lparr>plSpec := sp\<lparr>spXpuSmi := xs\<lparr>xsPullPolicy := ''IfNotPresent''\<rparr>\<rparr>\<rparr> else q) r)
        })"

section \<open>Validation\<close>

definition pciIDPattern :: "string \<Rightarrow> bool" where
  "pciIDPattern = matchClasses
     [(\<lambda>c. c = CHR ''0''), (\<lambda>c. c = CHR ''x''), isLowerHexChar, isLowerHexChar, isLowerHexChar, isLowerHexChar]"

definition fileNameFirst :: "char \<Rightarrow> bool" where
  "fileNameFirst c \<longleftrightarrow> isLowerChar c \<or> isUpperChar c \<or> isDigitChar c \<or> c = CHR ''_''"

definition fileNameRest :: "char \<Rightarrow> bool" where
  "fileNameRest c \<longleftrightarrow> fileNameFirst c \<or> c = CHR ''.'' \<or> c = CHR ''-''"

definition firmwareFileNamePattern :: "string \<Rightarrow> bool" where
  "firmwareFileNamePattern s =
     (case s of [] \<Rightarrow> False | c # cs \<Rightarrow> fileNameFirst c \<and> list_all fileNameRest cs)"

fun validateApprovalsFrom ::
  "('w, 'x) webhookLib_scheme \<Rightarrow> nat \<Rightarrow> string set \<Rightarrow> approval list \<Rightarrow> planError option" where
  "validateApprovalsFrom L i seen [] = None"
| "validateApprovalsFrom L i seen (a # as) =
     (if apID a \<noteq> '''' \<and> apID a \<in> seen then Some (DuplicateApprovalID i (apID a))
      else let seen' = (if apID a \<noteq> '''' then insert (apID a) seen else seen);
               hasEventID = (apEventID a \<noteq> ''''); hasSelector = (apSelector a \<noteq> None)
      in if hasEventID \<and> hasSelector then Some (EventIDAndSelector i)
         else if \<not> hasEventID \<and> \<not> hasSelector then Some (EventIDOrSelectorMissing i)
         else if apPersistent a \<and> \<not> hasSelector then Some (PersistentWithoutSelector i)
         else case apSelector a of
           Some s \<Rightarrow>
             (if selNodeSelector s \<noteq> []
              then case wValidSelector L (selNodeSelector s) of
                     Some e \<Rightarrow> Some (InvalidNodeSelector i e)
                   | None \<Rightarrow> validateApprovalsFrom L (Suc i) seen' as
              else validateApprovalsFrom L (Suc i) seen' as)
         | None \<Rightarrow> validateApprovalsFrom L (Suc i) seen' as)"

definition validateApprovals ::
  "('w, 'x) webhookLib_scheme \<Rightarrow> approval list \<Rightarrow> planError option" where
  "validateApprovals L as = validateApprovalsFrom L 0 {} as"

fun validateNamespacesFrom ::
  "('w, 'x) webhookLib_scheme \<Rightarrow> nat \<Rightarrow> string set \<Rightarrow> string list \<Rightarrow> planError option" where
  "validateNamespacesFrom L i seen [] = None"
| "validateNamespacesFrom L i seen (ns # nss) =
     (if wDNS1123Label L ns \<noteq> [] then Some (InvalidNamespace i ns (wDNS1123Label L ns))
      else if ns \<in> seen then Some (DuplicateNamespace i ns)
      else validateNamespacesFrom L (Suc i) (insert ns seen) nss)"

definition validateDrain :: "('w, 'x) webhookLib_scheme \<Rightarrow> DrainSpec \<Rightarrow> planError option" where
  "validateDrain L d = validateNamespacesFrom L 0 {} (dsNamespacesToSkip d)"

definition validateFirmware :: "('w, 'x) webhookLib_scheme \<Rightarrow> FirmwareSpec \<Rightarrow> planError option" where
  "validateFirmware L fw =
     (if fsContainerSource (fwSource fw) = None \<and> fsVolumeSource (fwSource fw) = None
      then Some FirmwareSourceMissing
      else let inContainer =
             (case fsContainerSource (fwSource fw) of
                None \<Rightarrow> None
              | Some cs \<Rightarrow>
                  if csName cs = '''' then Some FirmwareImageNameEmpty
                  else map_option (FirmwareImageInvalid (csName cs)) (wParseReference L (csName cs)))
      in case inContainer of
           Some e \<Rightarrow> Some e
         | None \<Rightarrow>
             if fsVolumeSource (fwSource fw) = Some '''' then Some VolumeNameEmpty
             else if fwFile fw = '''' then Some FirmwareFileEmpty
             else if filepathBase (fwFile fw) \<noteq> fwFile fw then Some (FirmwareFilePath (fwFile fw))
             else if \<not> firmwareFileNamePattern (fwFile fw) then Some (FirmwareFileChars (fwFile fw))
             else None)"

definition validateRecoveryPlanSpec ::
  "('w, 'x) webhookLib_scheme \<Rightarrow> GPURecoveryPlanSpec \<Rightarrow> planError option" where
  "validateRecoveryPlanSpec L sp =
     (if spDeviceID sp = '''' then Some DeviceIDRequired
      else if \<not> pciIDPattern (spDeviceID sp) then Some (DeviceIDPattern (spDeviceID sp))
      else if spDefaultResetType sp = noType then Some DefaultResetTypeRequired
      else if spDefaultResetType sp \<noteq> Slot \<and> spDefaultResetType sp \<noteq> AMC
              \<and> spDefaultResetType sp \<noteq> SBR
      then Some (DefaultResetTypeNotReset (spDefaultResetType sp))
      else if spSubDeviceID sp \<noteq> '''' \<and> \<not> pciIDPattern (spSubDeviceID sp)
      then Some (SubDeviceIDPattern (spSubDeviceID sp))
      else if spSubVendorID sp \<noteq> '''' \<and> \<not> pciIDPattern (spSubVendorID sp)
      then Some (SubVendorIDPattern (spSubVendorID sp))
      else case validateApprovals L (spApprovals sp) of Some e \<Rightarrow> Some e | None \<Rightarrow>
        (case validateDrain L (spDrain sp) of Some e \<Rightarrow> Some e | None \<Rightarrow>
          (if xsImage (spXpuSmi sp) = '''' then Some XpuSmiImageRequired
           else case wParseReference L (xsImage (spXpuSmi sp)) of
             Some e \<Rightarrow> Some (XpuSmiImageInvalid (xsImage (spXpuSmi sp)) e)
           | None \<Rightarrow>
               (case spFirmware sp of None \<Rightarrow> None | Some fw \<Rightarrow> validateFirmware L fw))))"

definition firmwareUpdateActive :: "plan \<Rightarrow> bool" where
  "firmwareUpdateActive p \<longleftrightarrow>
     list_ex (\<lambda>evt. IsReflash (evRecoveryType evt) \<and> (evState evt = InProgress \<or> evState evt = Blocked))
       (events p)"

definition ValidateCreate :: "('w, 'x) webhookLib_scheme \<Rightarrow> plan option \<Rightarrow> planError option" where
  "ValidateCreate L po =
     (case po of None \<Rightarrow> Some NilPlan | Some p \<Rightarrow> validateRecoveryPlanSpec L (plSpec p))"

definition ValidateUpdate ::
  "('w, 'x) webhookLib_scheme \<Rightarrow> plan option \<Rightarrow> plan option \<Rightarrow> planError option" where
  "ValidateUpdate L oldPlan newPlan =
     (case (oldPlan, newPlan) of
        (Some old, Some new) \<Rightarrow>
          (case (if \<not> plDeleting new then validateRecoveryPlanSpec L (plSpec new) else None) of
             Some e \<Rightarrow> Some e
           | None \<Rightarrow>
               if firmwareUpdateActive old \<and> spFirmware (plSpec old) \<noteq> spFirmware (plSpec new)
               then Some FirmwareImmutable else None)
      | _ \<Rightarrow> Some NilPlan)"

definition ValidateDelete :: "plan option \<Rightarrow> planError option" where
  "ValidateDelete po = (case po of None \<Rightarrow> Some NilPlan | Some _ \<Rightarrow> None)"

section \<open>What an accepted plan satisfies\<close>

definition wfApproval :: "approval \<Rightarrow> bool" where
  "wfApproval a \<longleftrightarrow> (apEventID a \<noteq> '''') \<noteq> (apSelector a \<noteq> None) \<and> (apPersistent a \<longrightarrow> apSelector a \<noteq> None)"

definition safeFirmwareFile :: "string \<Rightarrow> bool" where
  "safeFirmwareFile s \<longleftrightarrow>
     s \<noteq> [] \<and> list_all fileNameRest s \<and> hd s \<noteq> CHR ''.'' \<and> hd s \<noteq> CHR ''-''"

lemma validateApprovalsFrom_None:
  "validateApprovalsFrom L i seen as = None \<Longrightarrow>
     list_all wfApproval as
     \<and> distinct (filter (\<lambda>x. x \<noteq> '''') (map apID as))
     \<and> set (filter (\<lambda>x. x \<noteq> '''') (map apID as)) \<inter> seen = {}"
proof (induction as arbitrary: i seen)
  case (Cons a as)
  let ?seen = "if apID a \<noteq> '''' then insert (apID a) seen else seen"
  from Cons.prems have rec: "validateApprovalsFrom L (Suc i) ?seen as = None"
    and wf: "wfApproval a" and fresh: "apID a \<noteq> '''' \<Longrightarrow> apID a \<notin> seen"
    by (auto simp: Let_def wfApproval_def split: if_splits option.splits)
  from Cons.IH [OF rec] wf fresh show ?case by (auto split: if_splits)
qed simp

lemma validateNamespacesFrom_None:
  "validateNamespacesFrom L i seen nss = None \<Longrightarrow>
     distinct nss \<and> set nss \<inter> seen = {} \<and> (\<forall>ns \<in> set nss. wDNS1123Label L ns = [])"
  by (induction L i seen nss rule: validateNamespacesFrom.induct) (auto split: if_splits)

lemma firmwareFileNamePattern_safe: "firmwareFileNamePattern s \<Longrightarrow> safeFirmwareFile s"
  by (cases s)
    (auto simp: firmwareFileNamePattern_def safeFirmwareFile_def fileNameRest_def fileNameFirst_def
       isLowerChar_def isUpperChar_def isDigitChar_def)

lemma validateFirmware_None:
  "validateFirmware L fw = None \<Longrightarrow> safeFirmwareFile (fwFile fw)
     \<and> (fsContainerSource (fwSource fw) \<noteq> None \<or> fsVolumeSource (fwSource fw) \<noteq> None)"
  by (auto simp: validateFirmware_def Let_def firmwareFileNamePattern_safe split: if_splits option.splits)

end
