(* ===== verification/RecoverySystem.thy ===== *)
theory RecoverySystem
  imports RecoveryMem RecoveryWebhook
begin

text \<open>
  Properties of the recovery controller as a whole: what holds of every status it can reach, and
  what one pass may do to the plan it read, whatever the API server answers in between.
\<close>

section \<open>Reachable statuses\<close>

text \<open>
  The statuses a plan can have: that of a new plan, and what a pass makes of a plan with such a
  status. Between passes anybody may change the spec and the cluster may do anything: the spec of
  the plan read, the world it is read in and every answer of the client are arbitrary.
\<close>

definition emptyStatus :: GPURecoveryPlanStatus where
  "emptyStatus = \<lparr>stState = PlanStateUnset, stMessages = [], stEvents = []\<rparr>"

inductive reachable :: "('w, 'x) recoveryEnv_scheme \<Rightarrow> GPURecoveryPlanStatus \<Rightarrow> bool"
  for E :: "('w, 'x) recoveryEnv_scheme" where
  fresh: "reachable E emptyStatus"
| pass: "reachable E (plStatus p) \<Longrightarrow> run_state (reconcilePlan E p) w = ((q, res), w') \<Longrightarrow>
    reachable E (plStatus q)"

lemma planInv_status: "plStatus p = plStatus q \<Longrightarrow> planInv p = planInv q"
  using exclusive_cong [of p q] by (simp add: planInv_def devs_def)

lemma reachable_planInv:
  assumes "plan_store E" "visitsOnce E" "reachable E st"
  shows "plStatus p = st \<Longrightarrow> planInv p"
  using assms(3)
proof (induction arbitrary: p)
  case fresh
  then show ?case by (simp add: planInv_def exclusive_def devs_def emptyStatus_def)
next
  case (pass p' w q res w')
  then have "planInv p'" by blast
  then have "planInv q" using plan_store.reconcilePlan_inv [OF assms(1,2) _ pass.hyps(2)] by blast
  then show ?case using planInv_status pass.prems by blast
qed

lemma reachable_inv:
  assumes "plan_store E" "visitsOnce E" "reachable E st"
  obtains p where "plStatus p = st" "planInv p"
proof -
  let ?p = "(undefined :: plan)\<lparr>plStatus := st\<rparr>"
  have "plStatus ?p = st" by simp
  with reachable_planInv [OF assms this] show ?thesis using that by blast
qed

text \<open>A node with two wedged GPUs, an approval for both, and the status after one pass.\<close>

definition twoWedged :: resourceSlice where
  "twoWedged = gpuSlice ''n1'' [gpuDevice ''d0'' ''0000:03:00.0'' [DeviceTaintKeyReset],
     gpuDevice ''d1'' ''0000:04:00.0'' [DeviceTaintKeyReset]]"

definition firstPass :: "(plan \<times> result res) \<times> planMem" where
  "firstPass = run_state (reconcilePlan memEnv (newPlan [approvalForAll ''a1'' False] []))
     (memCluster [twoWedged] (newPlan [] []))"

definition firstStatus :: GPURecoveryPlanStatus where
  "firstStatus = plStatus (fst (fst firstPass))"

lemma firstStatus_reachable: "reachable memEnv firstStatus"
proof -
  have "reachable memEnv (plStatus (newPlan [approvalForAll ''a1'' False] []))"
    using reachable.fresh [of memEnv] by (simp add: newPlan_def emptyStatus_def)
  moreover have "run_state (reconcilePlan memEnv (newPlan [approvalForAll ''a1'' False] []))
     (memCluster [twoWedged] (newPlan [] [])) = ((fst (fst firstPass), snd (fst firstPass)), snd firstPass)"
    by (simp add: firstPass_def)
  ultimately show ?thesis unfolding firstStatus_def by (rule reachable.pass)
qed

lemma firstStatus_events: "map (\<lambda>e. (evID e, evNodeName e, evState e)) (stEvents firstStatus) =
   [(''evt-n1-sbr-0000-03-00-0'', ''n1'', InProgress), (''evt-n1-sbr-0000-04-00-0'', ''n1'', Blocked)]"
  by code_simp

section \<open>Well-formed statuses\<close>

text \<open>
  C2. In every status the controller can reach, each event's device is a PCI address, an event in
  progress names its Job, no device has two events, and the caps hold: at most 1000 events, 50
  messages, 200 bytes of state message and 11 entries in each list of blockers.
\<close>

theorem reachable_wellformed:
  assumes "plan_store E" "visitsOnce E" "reachable E st"
  shows "(\<forall>e \<in> set (stEvents st). validDeviceBDF (evGPUBDF e) \<and> (evState e = InProgress \<longrightarrow> evJobName e \<noteq> '''')
            \<and> length (evStateMessage e) \<le> 200
            \<and> length (evPodsBlockingDrain e) \<le> 11 \<and> length (evClaimsBlockingReset e) \<le> 11)
         \<and> distinct (map devKey (stEvents st)) \<and> length (stEvents st) \<le> 1000 \<and> length (stMessages st) \<le> 50"
proof -
  obtain p where p: "plStatus p = st" "planInv p" using reachable_inv [OF assms] .
  have "validDeviceBDF (evGPUBDF e) \<and> (evState e = InProgress \<longrightarrow> evJobName e \<noteq> '''')
      \<and> length (evStateMessage e) \<le> 200
      \<and> length (evPodsBlockingDrain e) \<le> 11 \<and> length (evClaimsBlockingReset e) \<le> 11" if "wfEvent e" for e
    using that by (simp add: wfEvent_def maxStateMessageLen_def maxPodsBlockingDrainReported_def)
  moreover have "\<forall>e \<in> set (stEvents st). wfEvent e" "distinct (map devKey (stEvents st))"
    "length (stEvents st) \<le> 1000" "length (stMessages st) \<le> 50"
    using p by (simp_all add: planInv_def devs_def maxStatusEvents_def maxStatusMessages_def)
  ultimately show ?thesis by blast
qed

theorem reachable_wellformed_witness:
  "length (stEvents firstStatus) = 2 \<and> list_all (\<lambda>e. validDeviceBDF (evGPUBDF e)) (stEvents firstStatus)"
proof -
  have "length (map (\<lambda>e. (evID e, evNodeName e, evState e)) (stEvents firstStatus)) = 2"
    unfolding firstStatus_events by simp
  then show ?thesis
    using reachable_wellformed [OF memPlans.plan_store_axioms memEnv_visitsOnce firstStatus_reachable]
    unfolding length_map list_all_iff by blast
qed

end
