(* ===== verification/RecoveryIdentity.thy ===== *)
theory RecoveryIdentity
  imports RecoveryNames RecoveryWebhook
begin

text \<open>
  What the names of events and Jobs and the command lines of the Jobs promise: valid and bounded
  names, when two devices share an event ID, and that nothing a plan or a device reports can add a
  word or a shell metacharacter to a command.
\<close>

section \<open>Segments of PCI addresses\<close>

lemma matchClasses_iff: "matchClasses ps s \<longleftrightarrow> list_all2 (\<lambda>p c. p c) ps s"
  by (induction ps s rule: matchClasses.induct) auto

definition bdfClasses :: "(char \<Rightarrow> bool) list" where
  "bdfClasses = [isHexChar, isHexChar, isHexChar, isHexChar, (\<lambda>c. c = CHR '':''), isHexChar, isHexChar,
     (\<lambda>c. c = CHR '':''), isHexChar, isHexChar, (\<lambda>c. c = CHR ''.''), (\<lambda>c. c \<in> set ''01234567'')]"

lemma validDeviceBDF_classes: "validDeviceBDF bdf \<longleftrightarrow> list_all2 (\<lambda>p c. p c) bdfClasses bdf"
  unfolding validDeviceBDF_def bdfClasses_def matchClasses_iff ..

lemma octal_hex: "c \<in> set ''01234567'' \<Longrightarrow> isHexChar c"
proof -
  have "list_all isHexChar ''01234567''" by code_simp
  then show "c \<in> set ''01234567'' \<Longrightarrow> isHexChar c" unfolding list_all_iff by blast
qed

lemma validDeviceBDF_ends:
  assumes "validDeviceBDF bdf"
  shows "bdf \<noteq> []" "isHexChar (hd bdf)" "isHexChar (last bdf)"
proof -
  have len: "length bdf = 12" by (rule validDeviceBDF_length [OF assms])
  then show ne: "bdf \<noteq> []" by auto
  have cl: "(bdfClasses ! i) (bdf ! i)" if "i < 12" for i
    using assms that len unfolding validDeviceBDF_classes by (auto dest: list_all2_nthD2)
  show "isHexChar (hd bdf)" using cl [of 0] ne by (simp add: hd_conv_nth bdfClasses_def)
  show "isHexChar (last bdf)"
    using cl [of 11] ne len octal_hex [of "bdf ! 11"] unfolding last_conv_nth [OF ne] bdfClasses_def by simp
qed

text \<open>What \<^verbatim>\<open>sanitizeSegment\<close> makes of one ASCII character.\<close>

definition idChar :: "char \<Rightarrow> char" where
  "idChar c = (if segmentRuneOk (lowerRune (of_char c)) then char_of (lowerRune (of_char c)) else CHR ''-'')"

lemma trimOf_id:
  assumes "s \<noteq> []" "\<not> p (hd s)" "\<not> p (last s)"
  shows "trimOf p s = s"
proof -
  have "dropWhile p s = s" using assms(1,2) by (cases s) auto
  moreover have "dropWhile p (rev s) = rev s" using assms(1,3) by (cases s rule: rev_cases) auto
  ultimately show ?thesis by (simp add: trimOf_def trimLeftOf_def trimRightOf_def)
qed

lemma hexChar_cases:
  assumes "isHexChar c"
  shows "(of_char c :: nat) < 0x80" "isLowerHexChar (idChar c)" "(of_char (idChar c) :: nat) = lowerRune (of_char c)"
proof -
  have "list_all (\<lambda>c. (of_char c :: nat) < 0x80 \<and> isLowerHexChar (idChar c)
      \<and> (of_char (idChar c) :: nat) = lowerRune (of_char c)) ''0123456789abcdefABCDEF''"
    by code_simp
  then show "(of_char c :: nat) < 0x80" "isLowerHexChar (idChar c)" "(of_char (idChar c) :: nat) = lowerRune (of_char c)"
    using assms unfolding isHexChar_def list_all_iff by blast+
qed

lemma lowerHex_no_dash: "isLowerHexChar c \<Longrightarrow> c \<noteq> CHR ''-''"
  by (auto simp: isLowerHexChar_def)

lemma sanitize_bdf:
  assumes "validDeviceBDF bdf"
  shows "sanitizeSegment bdf = map idChar bdf"
proof -
  have asc: "\<forall>c \<in> set bdf. (of_char c :: nat) < 0x80"
    using validDeviceBDF_chars [OF assms] by (auto simp: list_all_iff bdfChar_def dest: hexChar_cases)
  have "idChar (hd bdf) \<noteq> CHR ''-''" "idChar (last bdf) \<noteq> CHR ''-''"
    using validDeviceBDF_ends [OF assms] hexChar_cases(2) lowerHex_no_dash by blast+
  then have "trimOf (\<lambda>c. c = CHR ''-'') (map idChar bdf) = map idChar bdf"
    using validDeviceBDF_ends [OF assms] by (intro trimOf_id) (auto simp: hd_map last_map)
  then show ?thesis unfolding sanitizeSegment_def rangeString_ascii [OF asc] map_map comp_def idChar_def .
qed

text \<open>PCI addresses that differ at most in the case of their hexadecimal digits.\<close>

definition sameAddress :: "string \<Rightarrow> string \<Rightarrow> bool" where
  "sameAddress a b \<longleftrightarrow> map (\<lambda>c. lowerRune (of_char c)) a = map (\<lambda>c. lowerRune (of_char c)) b"

lemma idChar_eq_hex:
  "isHexChar c \<Longrightarrow> isHexChar d \<Longrightarrow> idChar c = idChar d \<longleftrightarrow> lowerRune (of_char c) = lowerRune (of_char d)"
  by (metis hexChar_cases(3) of_char_eq_iff)

lemma classes_map_eq:
  assumes "list_all2 (\<lambda>p c. p c) ps a" "list_all2 (\<lambda>p c. p c) ps b"
    and "\<And>p c d. p \<in> set ps \<Longrightarrow> p c \<Longrightarrow> p d \<Longrightarrow> f c = f d \<longleftrightarrow> g c = g d"
  shows "map f a = map f b \<longleftrightarrow> map g a = map g b"
  using assms
proof (induction ps a arbitrary: b rule: list_all2_induct)
  case (Cons p ps c a)
  then obtain d b' where b: "b = d # b'" "p d" "list_all2 (\<lambda>p c. p c) ps b'" by (auto simp: list_all2_Cons1)
  have "f c = f d \<longleftrightarrow> g c = g d" using Cons.prems(2) [of p c d] Cons.hyps(1) b(2) by simp
  moreover have "map f a = map f b' \<longleftrightarrow> map g a = map g b'"   proof (rule Cons.IH [OF b(3)])
    fix q x y assume "q \<in> set ps" "q x" "q y"
    then show "f x = f y \<longleftrightarrow> g x = g y" using Cons.prems(2) [of q x y] by simp
  qed
  ultimately show ?case by (simp add: b(1))
qed simp

lemma sanitize_bdf_eq:
  assumes "validDeviceBDF a" "validDeviceBDF b"
  shows "sanitizeSegment a = sanitizeSegment b \<longleftrightarrow> sameAddress a b"
proof -
  have "idChar c = idChar d \<longleftrightarrow> lowerRune (of_char c) = lowerRune (of_char d)"
    if "p \<in> set bdfClasses" "p c" "p d" for p c d
  proof -
    from that(1) consider "p = isHexChar" | "p = (\<lambda>c. c = CHR '':'')" | "p = (\<lambda>c. c = CHR ''.'')"
      | "p = (\<lambda>c. c \<in> set ''01234567'')"
      unfolding bdfClasses_def by auto
    then show ?thesis
    proof cases
      case 1
      then show ?thesis using that(2,3) idChar_eq_hex by blast
    next
      case 4
      then show ?thesis using that(2,3) idChar_eq_hex octal_hex by meson
    qed (use that(2,3) in simp_all)
  qed
  then show ?thesis
    unfolding sanitize_bdf [OF assms(1)] sanitize_bdf [OF assms(2)] sameAddress_def
    by (rule classes_map_eq [OF assms [unfolded validDeviceBDF_classes]])
qed

section \<open>Event IDs and Job names\<close>

definition recoveryTypes :: "RecoveryType set" where
  "recoveryTypes = {SBR, Slot, AMC, Reflash}"

text \<open>
  What the code relies on of \<^verbatim>\<open>validation.IsDNS1123Subdomain\<close>: a name of at most 253 lower-case
  letters, digits and dashes that does not begin or end with a dash is a valid subdomain.
\<close>

definition acceptsSlugs :: "(string \<Rightarrow> string list) \<Rightarrow> bool" where
  "acceptsSlugs dns \<longleftrightarrow> (\<forall>s. slug s \<and> length s \<le> 253 \<longrightarrow> dns s = [])"

definition plainEventID :: "string \<Rightarrow> string \<Rightarrow> RecoveryType \<Rightarrow> string" where
  "plainEventID n bdf rt = ''evt-'' @ nodeSegment n @ ''-'' @ rtString rt @ ''-'' @ sanitizeSegment bdf"

lemma slugChar_lits: "slugChar (CHR ''-'')" "list_all slugChar ''evt-''" "list_all slugChar ''recovery-''"
  by code_simp+

lemma slug_plainEventID:
  assumes "validDeviceBDF bdf" "rt \<in> recoveryTypes"
  shows "slug (plainEventID n bdf rt)" "length (plainEventID n bdf rt) \<le> 51"
proof -
  have ne: "sanitizeSegment bdf \<noteq> []" using sanitize_bdf validDeviceBDF_ends(1) assms(1) by simp
  have rt: "list_all slugChar (rtString rt)" "length (rtString rt) \<le> 7"
    using rtString_closed assms(2) unfolding recoveryTypes_def by blast+
  show "slug (plainEventID n bdf rt)"
    using ne sanitizeSegment_ends [OF ne] slugChar_lits rt(1) nodeSegment_chars sanitizeSegment_chars
    by (simp add: slug_def plainEventID_def)
  have "length (sanitizeSegment bdf) \<le> 12"
    using length_sanitizeSegment [of bdf] validDeviceBDF_length [OF assms(1)] by simp
  then show "length (plainEventID n bdf rt) \<le> 51"
    using length_nodeSegment [of n] rt(2) by (simp add: plainEventID_def)
qed

lemma slug_hashedEventID:
  assumes "rt \<in> recoveryTypes"
  shows "slug (''evt-'' @ rtString rt @ ''-'' @ hashSegment s)" "length (''evt-'' @ rtString rt @ ''-'' @ hashSegment s) \<le> 51"
proof -
  have rt: "list_all slugChar (rtString rt)" "length (rtString rt) \<le> 7"
    using rtString_closed assms unfolding recoveryTypes_def by blast+
  show "slug (''evt-'' @ rtString rt @ ''-'' @ hashSegment s)"
    using rt(1) slugChar_lits hashSegment_chars hashSegment_last hashSegment_nonempty by (simp add: slug_def)
  show "length (''evt-'' @ rtString rt @ ''-'' @ hashSegment s) \<le> 51" using rt(2) by simp
qed

lemma idBudget_51: "idBudget = 51"
  by (simp add: idBudget_def maxRecoveryNameLen_def)

lemma slug_generateEventID:
  assumes "validDeviceBDF bdf" "rt \<in> recoveryTypes"
  shows "slug (generateEventID dns n bdf rt)" "length (generateEventID dns n bdf rt) \<le> 51"
  using slug_plainEventID [OF assms] slug_hashedEventID [OF assms(2)]
  unfolding generateEventID_def plainEventID_def Let_def by auto

lemma generateEventID_plain:
  assumes "acceptsSlugs dns" "validDeviceBDF bdf" "rt \<in> recoveryTypes"
  shows "generateEventID dns n bdf rt = plainEventID n bdf rt"
proof -
  note s = slug_plainEventID [OF assms(2,3), of n]
  then have "dns (plainEventID n bdf rt) = []" using assms(1) by (simp add: acceptsSlugs_def)
  then show ?thesis using s(2) by (simp add: generateEventID_def plainEventID_def idBudget_51)
qed

lemma digit_slugChar: "48 \<le> (of_char c :: nat) \<Longrightarrow> (of_char c :: nat) \<le> 57 \<Longrightarrow> slugChar c \<and> c \<noteq> CHR ''-''"
  using slugChar_rune [of "of_char c"] by (auto simp: segmentRuneOk_def)

lemma natStr_slug: "list_all slugChar (natStr n)" "last (natStr n) \<noteq> CHR ''-''"
proof -
  have "\<forall>c \<in> set (natStr n). slugChar c \<and> c \<noteq> CHR ''-''" using natStr_digits digit_slugChar by blast
  then show "list_all slugChar (natStr n)" "last (natStr n) \<noteq> CHR ''-''"
    using last_in_set [OF natStr_nonempty] by (auto simp: list_all_iff)
qed

text \<open>
  For every device and every recovery type the API admits, the event ID is a valid DNS-1123
  label of at most 51 bytes, and the name of each of the first hundred Jobs for it is one of at
  most 63 bytes, so that it is also a valid label value. When the names pass Kubernetes' own check
  the Job's name spells the event ID and the attempt.
\<close>

theorem names_fit_labels:
  assumes "validDeviceBDF bdf" "rt \<in> recoveryTypes" "attempt < 100"
  shows "slug (generateEventID dns n bdf rt) \<and> length (generateEventID dns n bdf rt) \<le> 51
    \<and> slug (recoveryJobName dns (generateEventID dns n bdf rt) attempt)
    \<and> length (recoveryJobName dns (generateEventID dns n bdf rt) attempt) \<le> 63
    \<and> (acceptsSlugs dns \<longrightarrow>
         recoveryJobName dns (generateEventID dns n bdf rt) attempt
           = ''recovery-'' @ generateEventID dns n bdf rt @ ''-'' @ natStr attempt)"
proof -
  define i where "i = generateEventID dns n bdf rt"
  have i: "slug i" "length i \<le> 51" using slug_generateEventID [OF assms(1,2)] by (simp_all add: i_def)
  have num: "length (natStr attempt) \<le> 2" using length_natStr [of attempt 2] assms(3) by simp
  let ?full = "''recovery-'' @ i @ ''-'' @ natStr attempt" and ?short = "''recovery-'' @ hashSegment i @ ''-'' @ natStr attempt"
  have full: "slug ?full" "length ?full \<le> 63"
    using i num natStr_slug [of attempt] natStr_nonempty [of attempt] slugChar_lits by (simp_all add: slug_def)
  have short: "slug ?short" "length ?short \<le> 63"
    using num natStr_slug [of attempt] natStr_nonempty [of attempt] slugChar_lits hashSegment_chars
    by (simp_all add: slug_def)
  have name: "recoveryJobName dns i attempt = (if dns ?full = [] then ?full else ?short)"
    using full(2) by (simp add: recoveryJobName_def maxRecoveryNameLen_def)
  have plain: "acceptsSlugs dns \<longrightarrow> dns ?full = []" using full unfolding acceptsSlugs_def by auto
  show ?thesis unfolding i_def [symmetric] name using i full short plain by (auto split: if_splits)
qed

theorem names_fit_labels_witness:
  "slug (recoveryJobName (\<lambda>s. []) (generateEventID (\<lambda>s. []) ''worker-1'' ''0000:03:00.0'' SBR) 7)"
proof -
  have "validDeviceBDF ''0000:03:00.0''" by code_simp
  then show ?thesis
    using names_fit_labels [of "''0000:03:00.0''" SBR 7 "\<lambda>s. []" "''worker-1''"] by (simp add: recoveryTypes_def)
qed

section \<open>When two devices share an event ID\<close>

lemma split_at_last_dash:
  assumes "xs @ CHR ''-'' # a = ys @ CHR ''-'' # b" "CHR ''-'' \<notin> set a" "CHR ''-'' \<notin> set b"
  shows "xs = ys \<and> a = b"
proof -
  have tw: "takeWhile (\<lambda>c. c \<noteq> CHR ''-'') (rev (zs @ CHR ''-'' # s)) = rev s" if "CHR ''-'' \<notin> set s" for zs s
  proof -
    have "takeWhile (\<lambda>c. c \<noteq> CHR ''-'') (rev s) = rev s" using that by (auto simp: takeWhile_eq_all_conv)
    then show ?thesis by (simp add: takeWhile_tail)
  qed
  have "rev a = rev b" using tw [OF assms(2), of xs] tw [OF assms(3), of ys] assms(1) by simp
  then show ?thesis using assms(1) by simp
qed

lemma rtString_inj:
  assumes "rt \<in> recoveryTypes" "rt' \<in> recoveryTypes"
  shows "rtString rt = rtString rt' \<longleftrightarrow> rt = rt'" "CHR ''-'' \<notin> set (rtString rt)"
  using assms by (auto simp: recoveryTypes_def rtString_def)

text \<open>
  C17. Event IDs identify a device and a recovery type up to what they leave out: the IDs of two
  devices are equal exactly when the recovery types agree, the addresses agree up to the case of
  their hexadecimal digits, and the node names have the same segment.
\<close>

theorem eventID_identifies:
  assumes "acceptsSlugs dns" "validDeviceBDF bdf" "validDeviceBDF bdf'" "rt \<in> recoveryTypes" "rt' \<in> recoveryTypes"
  shows "generateEventID dns n bdf rt = generateEventID dns n' bdf' rt'
     \<longleftrightarrow> nodeSegment n = nodeSegment n' \<and> rt = rt' \<and> sameAddress bdf bdf'"
proof -
  let ?s = "sanitizeSegment bdf" and ?s' = "sanitizeSegment bdf'"
  have len: "length ?s = length ?s'"
    using assms(2,3) by (simp add: sanitize_bdf validDeviceBDF_length)
  have "plainEventID n bdf rt = plainEventID n' bdf' rt'
      \<longleftrightarrow> nodeSegment n @ CHR ''-'' # rtString rt = nodeSegment n' @ CHR ''-'' # rtString rt' \<and> ?s = ?s'"
    using append_eq_append_conv [of "nodeSegment n @ CHR ''-'' # rtString rt" "nodeSegment n' @ CHR ''-'' # rtString rt'"
        "CHR ''-'' # ?s" "CHR ''-'' # ?s'"] len
    by (simp add: plainEventID_def)
  also have "\<dots> \<longleftrightarrow> nodeSegment n = nodeSegment n' \<and> rt = rt' \<and> ?s = ?s'"
    using split_at_last_dash rtString_inj [OF assms(4,5)] rtString_inj(2) [OF assms(5,4)] by blast
  finally show ?thesis
    using sanitize_bdf_eq [OF assms(2,3)] generateEventID_plain [OF assms(1,2,4)] generateEventID_plain [OF assms(1,3,5)]
    by simp
qed

theorem eventID_identifies_witness:
  "generateEventID (\<lambda>s. []) ''worker.1'' ''0000:3a:00.0'' SBR = generateEventID (\<lambda>s. []) ''worker-1'' ''0000:3A:00.0'' SBR"
proof -
  have v: "validDeviceBDF ''0000:3a:00.0''" "validDeviceBDF ''0000:3A:00.0''" by code_simp+
  have "nodeSegment ''worker.1'' = nodeSegment ''worker-1'' \<and> sameAddress ''0000:3a:00.0'' ''0000:3A:00.0''"
    by code_simp
  then show ?thesis
    using eventID_identifies [OF _ v, of "\<lambda>s. []" SBR SBR] by (simp add: acceptsSlugs_def recoveryTypes_def)
qed

section \<open>Command lines\<close>

text \<open>
  The Job templates hand the command line to a shell. \<open>plainChar\<close> holds of the characters a shell
  takes literally in a word; \<open>shellWords\<close> splits at blanks.
\<close>

definition plainChar :: "char \<Rightarrow> bool" where
  "plainChar c \<longleftrightarrow> isLowerChar c \<or> isUpperChar c \<or> isDigitChar c \<or> c \<in> set ''-_./:''"

fun shellWordsFrom :: "string \<Rightarrow> string \<Rightarrow> string list" where
  "shellWordsFrom acc [] = [rev acc]"
| "shellWordsFrom acc (c # s) = (if c = CHR '' '' then rev acc # shellWordsFrom [] s else shellWordsFrom (c # acc) s)"

definition shellWords :: "string \<Rightarrow> string list" where
  "shellWords s = shellWordsFrom [] s"

lemma shellWordsFrom_word [simp]:
  "CHR '' '' \<notin> set a \<Longrightarrow> shellWordsFrom acc (a @ s) = shellWordsFrom (rev a @ acc) s"
  by (induction a arbitrary: acc) auto

lemma plain_not_blank: "list_all plainChar s \<Longrightarrow> CHR '' '' \<notin> set s"
  by (auto simp: list_all_iff plainChar_def isLowerChar_def isUpperChar_def isDigitChar_def)

lemma bdfChar_plain: "bdfChar c \<Longrightarrow> plainChar c"
proof -
  have "list_all plainChar ''0123456789abcdefABCDEF:.''" by code_simp
  then show "bdfChar c \<Longrightarrow> plainChar c" by (auto simp: bdfChar_def isHexChar_def list_all_iff)
qed

lemma fileNameRest_plain: "fileNameRest c \<Longrightarrow> plainChar c"
  by (auto simp: fileNameRest_def fileNameFirst_def plainChar_def)

lemma plain_bdf: "validDeviceBDF bdf \<Longrightarrow> list_all plainChar bdf"
  using validDeviceBDF_chars bdfChar_plain by (auto simp: list_all_iff)

lemma accepted_firmware:
  assumes "ValidateCreate L (Some p) = None" "spFirmware (plSpec p) = Some fw"
  shows "safeFirmwareFile (fwFile fw)"
proof -
  have "validateFirmware L fw = None"
    using assms by (auto simp: ValidateCreate_def validateRecoveryPlanSpec_def split: if_splits option.splits)
  then show ?thesis using validateFirmware_None by blast
qed

text \<open>
  C18. The command a reset or reflash Job hands to its shell, for a device with a well-formed
  address and the firmware file of a plan the webhook accepted, consists of exactly the words the
  code means to write: the address and the file are one word each, and no character of the command
  is special to the shell.
\<close>

theorem commands_are_words:
  assumes "validDeviceBDF bdf" "ValidateCreate L (Some p) = None" "spFirmware (plSpec p) = Some fw"
  shows "shellWords (buildResetCommand bdf SBR) = [''xpu-smi'', ''config'', ''-d'', bdf, ''--reset'']
    \<and> shellWords (buildResetCommand bdf Slot)
        = [''xpu-smi'', ''config'', ''-d'', bdf, ''--coldreset'', ''--force-reset-gpus'']
    \<and> shellWords (buildResetCommand bdf AMC) = [''xpu-smi'', ''amc'', ''--gpureset'', ''-d'', bdf, ''-y'']
    \<and> shellWords (buildFDOFlashCommand bdf (fwFile fw))
        = [''xpu-smi'', ''updatefw'', ''-d'', bdf, ''-t'', ''FDO'', ''-f'', ''/update/'' @ fwFile fw, ''-y'', ''--force'']
    \<and> list_all (list_all plainChar) (shellWords (buildFDOFlashCommand bdf (fwFile fw)))
    \<and> list_all (list_all plainChar) (shellWords (buildResetCommand bdf rt))"
proof -
  have bdf: "list_all plainChar bdf" "CHR '' '' \<notin> set bdf"
    using plain_bdf [OF assms(1)] plain_not_blank by blast+
  have upd: "list_all plainChar ''/update/''" by code_simp
  have "list_all plainChar (fwFile fw)"
    using accepted_firmware [OF assms(2,3)] fileNameRest_plain by (auto simp: safeFirmwareFile_def list_all_iff)
  then have fl: "list_all plainChar (''/update/'' @ fwFile fw)" "CHR '' '' \<notin> set (fwFile fw)"
    using plain_not_blank upd by auto
  have reset: "shellWords (buildResetCommand bdf SBR) = [''xpu-smi'', ''config'', ''-d'', bdf, ''--reset'']"
    "shellWords (buildResetCommand bdf Slot)
        = [''xpu-smi'', ''config'', ''-d'', bdf, ''--coldreset'', ''--force-reset-gpus'']"
    "shellWords (buildResetCommand bdf AMC) = [''xpu-smi'', ''amc'', ''--gpureset'', ''-d'', bdf, ''-y'']"
    "shellWords (buildResetCommand bdf Reflash) = [[]]" "shellWords (buildResetCommand bdf (OtherType s)) = [[]]" for s
    using bdf(2) by (simp_all add: buildResetCommand_def shellWords_def)
  have flash: "shellWords (buildFDOFlashCommand bdf (fwFile fw))
      = [''xpu-smi'', ''updatefw'', ''-d'', bdf, ''-t'', ''FDO'', ''-f'', ''/update/'' @ fwFile fw, ''-y'', ''--force'']"
    using bdf(2) fl(2) by (simp add: buildFDOFlashCommand_def reflashStagingDir_def shellWords_def)
  have lits: "list_all (list_all plainChar) [''xpu-smi'', ''config'', ''-d'', ''--reset'', ''--coldreset'',
      ''--force-reset-gpus'', ''amc'', ''--gpureset'', ''-y'', ''updatefw'', ''-t'', ''FDO'', ''-f'', ''--force'']"
    by code_simp
  have "list_all (list_all plainChar) (shellWords (buildResetCommand bdf rt))"
    using lits bdf(1) by (cases rt) (simp_all only: reset list.pred_inject simp_thms)
  moreover have "list_all (list_all plainChar) (shellWords (buildFDOFlashCommand bdf (fwFile fw)))"
    using lits bdf(1) fl(1) unfolding flash by (simp only: list.pred_inject simp_thms)
  ultimately show ?thesis using reset flash by blast
qed

text \<open>A plan the webhook accepts when every reference parses and every label is valid.\<close>

definition lenientLib :: "unit webhookLib" where
  "lenientLib = \<lparr>wRandRead = State_Monad.return (Inr []), wParseReference = (\<lambda>s. None), wValidSelector = (\<lambda>s. None),
     wDNS1123Label = (\<lambda>s. [])\<rparr>"

definition reflashPlan :: plan where
  "reflashPlan = \<lparr>plName = ''plan'', plGeneration = 1, plDeleting = False, plFinalizers = [],
     plSpec = \<lparr>spDeviceID = ''0xe20b'', spSubDeviceID = '''', spSubVendorID = '''', spApprovals = [],
       spXpuSmi = \<lparr>xsImage = ''xpu'', xsPullPolicy = '''', xsInsecureSkipTLSVerify = False\<rparr>,
       spDefaultResetType = SBR,
       spFirmware = Some \<lparr>fwSource = \<lparr>fsContainerSource = Some \<lparr>csName = ''fw'', csInsecureSkipTLSVerify = False\<rparr>,
         fsVolumeSource = None\<rparr>, fwFile = ''bmg_fw-1.2.bin''\<rparr>,
       spTolerations = [], spDrain = \<lparr>dsEnable = None, dsTimeoutSeconds = 300, dsNamespacesToSkip = []\<rparr>,
       spTimeouts = \<lparr>tmResetSeconds = 300, tmReflashSeconds = 600\<rparr>, spSkipImageVerification = True\<rparr>,
     plStatus = \<lparr>stState = PlanStateUnset, stMessages = [], stEvents = []\<rparr>\<rparr>"

lemma reflashPlan_accepted: "ValidateCreate lenientLib (Some reflashPlan) = None"
  by code_simp

theorem commands_are_words_witness:
  "length (shellWords (buildFDOFlashCommand ''0000:03:00.0'' ''bmg_fw-1.2.bin'')) = 10"
proof -
  have "validDeviceBDF ''0000:03:00.0''" by code_simp
  moreover obtain fw where "spFirmware (plSpec reflashPlan) = Some fw" "fwFile fw = ''bmg_fw-1.2.bin''"
    by (simp add: reflashPlan_def)
  ultimately show ?thesis
    using commands_are_words [OF _ reflashPlan_accepted, of "''0000:03:00.0''" fw SBR] by simp
qed

end
