(* ===== verification/RecoveryPass.thy ===== *)
theory RecoveryPass
  imports RecoverySystem RecoveryIdentity
begin

text \<open>
  What one pass of the recovery controller may do to the events and approvals of the plan it read,
  and that no node ever has two recoveries in flight.
\<close>

section \<open>Where an event of the result comes from\<close>

lemma detectResult_events:
  assumes "detectResult E p q" "e \<in> set (events q)"
  shows "e \<in> set (events p) \<or> (\<exists>kn. freshEvent (rDNS E) kn e)"
  using assms detected_events unfolding detectResult_def by blast

lemma detectResult_spec: "detectResult E p q \<Longrightarrow> plSpec q = plSpec p"
  using detected_bounds(5) unfolding detectResult_def by blast

lemma list_all2_back:
  assumes "list_all2 R xs ys" "y \<in> set ys" obtains x where "x \<in> set xs" "R x y"
  using assms by (metis in_set_conv_nth list_all2_conv_all_nth)

lemma list_all2_forth:
  assumes "list_all2 R xs ys" "x \<in> set xs" obtains y where "y \<in> set ys" "R x y"
  using assms by (metis in_set_conv_nth list_all2_conv_all_nth)

text \<open>The phases after detection, for one event.\<close>

definition phasesStep :: "('w, 'x) recoveryEnv_scheme \<Rightarrow> approval list \<Rightarrow> event \<Rightarrow> event \<Rightarrow> bool" where
  "phasesStep E as e f \<longleftrightarrow> f = e \<or> (\<exists>g. approvalEvent E as e g \<and> settledStep g f)"

lemma passResult_back:
  assumes "passResult E p q" "f \<in> set (events q)"
  obtains p1 e where "detectResult E p p1" "e \<in> set (events p1)" "phasesStep E (approvals p) e f"
proof -
  from assms(1) obtain p1 where d: "detectResult E p p1" and r: "logged p1 q \<or> runResult E p1 q"
    by (auto simp: passResult_def)
  show ?thesis
  proof (cases "logged p1 q")
    case True
    then show ?thesis using that [OF d, of f] assms(2) by (simp add: loggedD phasesStep_def)
  next
    case False
    with r obtain es where a: "list_all2 (approvalEvent E (approvals p1)) (events p1) es"
      and s: "list_all2 settledStep es (events q)"
      unfolding runResult_def by (elim disjE conjE exE) blast+
    obtain g where g: "g \<in> set es" "settledStep g f" using list_all2_back [OF s assms(2)] .
    obtain e where e: "e \<in> set (events p1)" "approvalEvent E (approvals p1) e g" using list_all2_back [OF a g(1)] .
    have "approvals p1 = approvals p" using detectResult_spec [OF d] by simp
    then show ?thesis using that [OF d e(1)] e(2) g(2) unfolding phasesStep_def by metis
  qed
qed

lemma passResult_forth:
  assumes "passResult E p q"
  obtains p1 where "detectResult E p p1" and "\<And>e. e \<in> set (events p1) \<Longrightarrow>
     \<exists>f \<in> set (events q). phasesStep E (approvals p) e f"
proof -
  from assms(1) obtain p1 where d: "detectResult E p p1" and r: "logged p1 q \<or> runResult E p1 q"
    by (auto simp: passResult_def)
  have ap: "approvals p1 = approvals p" using detectResult_spec [OF d] by simp
  have "\<exists>f \<in> set (events q). phasesStep E (approvals p) e f" if mem: "e \<in> set (events p1)" for e
  proof (cases "logged p1 q")
    case True
    then show ?thesis using mem by (auto simp: loggedD phasesStep_def)
  next
    case False
    with r obtain es where a: "list_all2 (approvalEvent E (approvals p1)) (events p1) es"
      and s: "list_all2 settledStep es (events q)"
      unfolding runResult_def by (elim disjE conjE exE) blast+
    obtain g where g: "g \<in> set es" "approvalEvent E (approvals p1) e g" using list_all2_forth [OF a mem] .
    obtain f where "f \<in> set (events q)" "settledStep g f" using list_all2_forth [OF s g(1)] .
    then show ?thesis using g(2) ap unfolding phasesStep_def by metis
  qed
  then show ?thesis using that d by blast
qed

lemma phasesStep_carried: "phasesStep E as e f \<Longrightarrow> carried e f"
  unfolding phasesStep_def using carried_trans approvalEvent_carried settledStep_carried carried_refl by metis

section \<open>One recovery per node\<close>

text \<open>The recovery types a scan can ask for: a default the code does not know counts as none.\<close>

definition askedTypes :: "RecoveryType set" where
  "askedTypes = insert noType recoveryTypes"

lemma set_put: "set (put k v m) \<subseteq> insert (k, v) (set m)"
  by (induction k v m rule: put.induct) auto

lemma higherPriorityNeed_asked:
  "needRT a \<in> askedTypes \<Longrightarrow> needRT (higherPriorityNeed a b) \<in> askedTypes"
  by (cases "needRT b")
     (auto simp: higherPriorityNeed_def askedTypes_def recoveryTypes_def recoveryTypePriority_def split: RecoveryType.splits)

lemma scanPair_asked:
  assumes "\<forall>kn \<in> set m. needRT (snd kn) \<in> askedTypes"
  shows "\<forall>kn \<in> set (scanPair p kt m). needRT (snd kn) \<in> askedTypes"
proof -
  have "needRT (needOf m k) \<in> askedTypes" for k
  proof (cases "map_of m k")
    case (Some n)
    then show ?thesis using assms map_of_SomeD [OF Some] by (force simp: needOf_def)
  qed (simp add: needOf_def emptyNeed_def askedTypes_def)
  then have "needRT (higherPriorityNeed (needOf m k) n) \<in> askedTypes" for k n
    by (rule higherPriorityNeed_asked)
  then have "needRT (snd kn) \<in> askedTypes" if "kn \<in> set (put k (higherPriorityNeed (needOf m k) n) m)" for k n kn
    using assms subsetD [OF set_put that] by auto
  then show ?thesis
    using assms unfolding scanPair_def scanTaint_def by (auto split: option.split)
qed

lemma activeDevices_asked: "\<forall>kn \<in> set (activeDevices p slices). needRT (snd kn) \<in> askedTypes"
proof -
  have "\<forall>kn \<in> set (fold (scanPair p) kts m). needRT (snd kn) \<in> askedTypes"
    if "\<forall>kn \<in> set m. needRT (snd kn) \<in> askedTypes" for kts m
    using that
  proof (induction kts arbitrary: m)
    case (Cons kt kts)
    show ?case using Cons.IH [OF scanPair_asked [OF Cons.prems]] by simp
  qed simp
  from this [of "[]"] show ?thesis unfolding activeDevices_pairs by simp
qed

text \<open>Every event carries the ID of its device, for a type that was asked for.\<close>

definition namedEvent :: "(string \<Rightarrow> string list) \<Rightarrow> event \<Rightarrow> bool" where
  "namedEvent dns e \<longleftrightarrow> (\<exists>rt \<in> askedTypes. evID e = generateEventID dns (evNodeName e) (evGPUBDF e) rt)"

lemma namedEvent_fresh: "freshEvent dns kn e \<Longrightarrow> needRT (snd kn) \<in> askedTypes \<Longrightarrow> namedEvent dns e"
  by (cases kn; cases "fst kn") (auto simp: namedEvent_def freshEvent_def devKey_def)

lemma namedEvent_same: "namedEvent dns e \<Longrightarrow> sameEvent e f \<Longrightarrow> namedEvent dns f"
  by (simp add: namedEvent_def sameEvent_def sameDevice_def)

lemma detectResult_named:
  assumes "detectResult E p q" "visitsOnce E" "\<forall>e \<in> set (events p). namedEvent (rDNS E) e" "e \<in> set (events q)"
  shows "namedEvent (rDNS E) e"
proof (cases "q = p")
  case False
  then obtain slices where "detected E p slices q" using assms(1) by (auto simp: detectResult_def)
  then show ?thesis
    using detected_events [OF _ assms(4)] assms(2,3) activeDevices_asked namedEvent_fresh
    unfolding visitsOnce_def by metis
qed (use assms in simp)

lemma reachable_named:
  assumes "plan_store E" "visitsOnce E" "reachable E st"
  shows "\<forall>e \<in> set (stEvents st). namedEvent (rDNS E) e"
  using assms(3)
proof (induction rule: reachable.induct)
  case fresh
  then show ?case by (simp add: emptyStatus_def)
next
  case (pass p w q res w')
  from returnsD [OF plan_store.returns_reconcilePlan [OF assms(1)] pass.hyps(2)]
  consider "answered p q" | "passResult E p q" by auto
  then show ?case
  proof cases
    case 1
    then show ?thesis using pass.IH by (simp add: answered_def)
  next
    case 2
    show ?thesis
    proof
      fix f assume "f \<in> set (events q)"
      then obtain p1 e where d: "detectResult E p p1" "e \<in> set (events p1)" "phasesStep E (approvals p) e f"
        using passResult_back [OF 2] by metis
      then show "namedEvent (rDNS E) f"
        using namedEvent_same detectResult_named [OF d(1) assms(2) pass.IH d(2)] phasesStep_carried [OF d(3)]
        unfolding carried_def by blast
    qed
  qed
qed

lemma generateEventID_asked:
  assumes "acceptsSlugs dns" "validDeviceBDF bdf" "rt \<in> askedTypes"
  shows "generateEventID dns n bdf rt = plainEventID n bdf rt"
proof (cases "rt = noType")
  case True
  have "slug (plainEventID n bdf noType)" "length (plainEventID n bdf noType) \<le> 51"
    using slug_plainEventID [OF assms(2), of SBR n] slugChar_lits
    by (auto simp: recoveryTypes_def slug_def plainEventID_def rtString_def)
  then show ?thesis using True assms(1)
    by (simp add: acceptsSlugs_def generateEventID_def plainEventID_def idBudget_51)
qed (use assms generateEventID_plain in \<open>auto simp: askedTypes_def\<close>)

lemma named_same_node:
  assumes "acceptsSlugs dns" "namedEvent dns e" "namedEvent dns f" "validDeviceBDF (evGPUBDF e)" "validDeviceBDF (evGPUBDF f)"
    and "evNodeName e = evNodeName f" "evID e = evID f"
  shows "sameAddress (evGPUBDF e) (evGPUBDF f)"
proof -
  obtain rt rt' where "plainEventID (evNodeName f) (evGPUBDF e) rt = plainEventID (evNodeName f) (evGPUBDF f) rt'"
    using assms generateEventID_asked [OF assms(1,4)] generateEventID_asked [OF assms(1,5)] unfolding namedEvent_def by metis
  then have "rtString rt @ ''-'' @ sanitizeSegment (evGPUBDF e) = rtString rt' @ ''-'' @ sanitizeSegment (evGPUBDF f)"
    by (simp add: plainEventID_def)
  moreover have "length (sanitizeSegment (evGPUBDF e)) = length (sanitizeSegment (evGPUBDF f))"
    using assms(4,5) by (simp add: sanitize_bdf validDeviceBDF_length)
  ultimately have "sanitizeSegment (evGPUBDF e) = sanitizeSegment (evGPUBDF f)"
    using append_eq_append_conv [of "rtString rt @ ''-''" "rtString rt' @ ''-''"] by simp
  then show ?thesis using sanitize_bdf_eq [OF assms(4,5)] by simp
qed

text \<open>
  C1. In every status the controller can reach, two recoveries that are draining or running a Job on
  the same node carry the same ID and are for addresses that differ at most in the case of their
  hexadecimal digits; written alike, they are one and the same event. This holds whatever approvals
  are given, whatever the API server answers and whenever passes are cut short. Addresses that
  differ in case only are told apart by the events and not by their IDs, so that a node whose
  slices publish both may run both.
\<close>

theorem one_recovery_per_node:
  assumes "plan_store E" "visitsOnce E" "acceptsSlugs (rDNS E)" "reachable E st"
    and "e \<in> set (stEvents st)" "f \<in> set (stEvents st)"
    and "inFlight e" "inFlight f" "evNodeName e = evNodeName f"
  shows "evID e = evID f \<and> sameAddress (evGPUBDF e) (evGPUBDF f) \<and> (evGPUBDF e = evGPUBDF f \<longrightarrow> e = f)"
proof -
  obtain p where p: "plStatus p = st" "planInv p" using reachable_inv [OF assms(1,2,4)] .
  then have i: "evID e = evID f" using exclusiveD [of p e f] assms(5-9) by (simp add: planInv_def)
  have "validDeviceBDF (evGPUBDF e)" "validDeviceBDF (evGPUBDF f)" using p assms(5,6) by (auto simp: planInv_def wfEvent_def)
  then have "sameAddress (evGPUBDF e) (evGPUBDF f)"
    using named_same_node [OF assms(3) _ _ _ _ assms(9) i] reachable_named [OF assms(1,2,4)] assms(5,6) by blast
  moreover have "e = f" if "evGPUBDF e = evGPUBDF f"
    using distinct_devs_eq [of p f e] p assms(5,6,9) that by (simp add: planInv_def devKey_def)
  ultimately show ?thesis using i by blast
qed

theorem one_recovery_per_node_witness:
  "inFlight (hd (stEvents firstStatus))
   \<and> list_all (\<lambda>f. sameAddress (evGPUBDF (hd (stEvents firstStatus))) (evGPUBDF f))
       (filter (\<lambda>f. inFlight f \<and> evNodeName (hd (stEvents firstStatus)) = evNodeName f) (stEvents firstStatus))"
proof -
  obtain e1 e2 where ev: "stEvents firstStatus = [e1, e2]" and "evState e1 = InProgress"
    using firstStatus_events by (auto simp: map_eq_Cons_conv)
  then have e1: "hd (stEvents firstStatus) \<in> set (stEvents firstStatus)" "inFlight (hd (stEvents firstStatus))"
    by (simp_all add: inFlight_def)
  have dns: "acceptsSlugs (rDNS memEnv)" by (simp add: acceptsSlugs_def memEnv_def)
  show ?thesis
    unfolding list_all_iff set_filter
    using e1(2) one_recovery_per_node [OF memPlans.plan_store_axioms memEnv_visitsOnce dns firstStatus_reachable e1(1) _ e1(2)]
    by blast
qed

section \<open>Nothing starts without an approval\<close>

lemma phasesStep_started:
  assumes "phasesStep E as e f" "inFlight f" "\<not> inFlight e"
  shows "\<exists>a \<in> set as. authorises E a e \<and> evApprovalID f = apID a \<and> evRecoveryType f = overriddenType a (evRecoveryType e)"
  using assms unfolding phasesStep_def approvalEvent_def settledStep_def by metis

text \<open>
  C3. An event that drains or runs a Job after a pass either already did so before it, or an
  unspent approval in the spec of the plan read authorises it: one that names the event, or whose
  selector matches the recovery the event asked for, its node, and labels the API server reports of
  that node. The event records that approval, and the recovery it runs is the one it asked for or
  the one the approval puts in its place.
\<close>

theorem recovery_needs_approval:
  assumes "plan_store E" "run_state (reconcilePlan E p) w = ((q, res), w')"
    and "f \<in> set (events q)" "inFlight f"
  shows "(\<exists>e \<in> set (events p). inFlight e \<and> sameEvent e f)
       \<or> (\<exists>a \<in> set (approvals p). \<exists>e. authorises E a e \<and> sameEvent e f \<and> evApprovalID f = apID a
            \<and> evRecoveryType f = overriddenType a (evRecoveryType e))"
proof -
  from returnsD [OF plan_store.returns_reconcilePlan [OF assms(1)] assms(2)]
  consider "answered p q" | "passResult E p q" by auto
  then show ?thesis
  proof cases
    case 1
    then show ?thesis using assms(3,4) by (auto simp: answered_def)
  next
    case 2
    obtain p1 e where d: "detectResult E p p1" "e \<in> set (events p1)" "phasesStep E (approvals p) e f"
      using passResult_back [OF 2 assms(3)] .
    have same: "sameEvent e f" using phasesStep_carried [OF d(3)] by (simp add: carried_def)
    show ?thesis
    proof (cases "inFlight e")
      case True
      then have "e \<in> set (events p)" using detectResult_events [OF d(1,2)] freshEvent_not_inFlight by blast
      then show ?thesis using True same by blast
    next
      case False
      then show ?thesis using phasesStep_started [OF d(3) assms(4)] same by blast
    qed
  qed
qed

theorem recovery_needs_approval_witness:
  "inFlight (hd (stEvents firstStatus)) \<and> evApprovalID (hd (stEvents firstStatus)) = ''a1''"
proof -
  let ?p = "newPlan [approvalForAll ''a1'' False] []"
  have run: "run_state (reconcilePlan memEnv ?p) (memCluster [twoWedged] (newPlan [] []))
      = ((fst (fst firstPass), snd (fst firstPass)), snd firstPass)"
    by (simp add: firstPass_def)
  obtain e1 e2 where "stEvents firstStatus = [e1, e2]" and "evState e1 = InProgress"
    using firstStatus_events by (auto simp: map_eq_Cons_conv)
  then have e1: "hd (stEvents firstStatus) \<in> set (events (fst (fst firstPass)))" "inFlight (hd (stEvents firstStatus))"
    by (simp_all add: inFlight_def firstStatus_def)
  from recovery_needs_approval [OF memPlans.plan_store_axioms run e1] e1(2) show ?thesis
    by (auto simp: newPlan_def planSpec_def approvalForAll_def)
qed

section \<open>Two runs on the in-memory API server\<close>

definition firstPlan :: plan where
  "firstPlan = fst (fst firstPass)"

definition secondPass :: "plan \<Rightarrow> (plan \<times> result res) \<times> planMem" where
  "secondPass p = run_state (reconcilePlan memEnv p) (memCluster [twoWedged] (newPlan [] []))"

lemma secondPass_run:
  "run_state (reconcilePlan memEnv p) (memCluster [twoWedged] (newPlan [] [])) = ((fst (fst (secondPass p)), snd (fst (secondPass p))), snd (secondPass p))"
  by (simp add: secondPass_def)

lemma firstPlan_events: "map (\<lambda>e. (evID e, evNodeName e, evState e)) (events firstPlan) =
   [(''evt-n1-sbr-0000-03-00-0'', ''n1'', InProgress), (''evt-n1-sbr-0000-04-00-0'', ''n1'', Blocked)]"
  using firstStatus_events by (simp add: firstPlan_def firstStatus_def)

section \<open>What becomes of the events a plan has\<close>

lemma reconcilePlan_cases:
  assumes "plan_store E" "run_state (reconcilePlan E p) w = ((q, res), w')"
  obtains (answered) "answered p q" | (passed) "passResult E p q"
  using returnsD [OF plan_store.returns_reconcilePlan [OF assms(1)] assms(2)] by auto

lemma phasesStep_running:
  assumes "phasesStep E as e f" "evState e = InProgress"
  shows "evState f \<in> {InProgress, Succeeded, Failed}"
proof (cases "f = e")
  case False
  then obtain g where g: "approvalEvent E as e g" "settledStep g f" using assms(1) unfolding phasesStep_def by blast
  have "g = e" using g(1) assms(2) unfolding approvalEvent_def by blast
  then show ?thesis using g(2) assms(2) unfolding settledStep_def by blast
qed (use assms in simp)

text \<open>
  C4. A recovery whose Job is running is never dropped, renamed, moved to another device or sent
  back to wait: after a pass the same event is still there, in progress, succeeded or failed.
\<close>

theorem running_recovery_kept:
  assumes "plan_store E" "run_state (reconcilePlan E p) w = ((q, res), w')"
    and "e \<in> set (events p)" "evState e = InProgress"
  shows "\<exists>f. f \<in> set (events q) \<and> sameEvent e f \<and> evState f \<in> {InProgress, Succeeded, Failed}"
proof (cases rule: reconcilePlan_cases [OF assms(1,2)])
  case 1
  then show ?thesis using assms(3,4) by (auto simp: answered_def)
next
  case 2
  obtain p1 where d: "detectResult E p p1"
    and f: "\<And>e. e \<in> set (events p1) \<Longrightarrow> \<exists>f \<in> set (events q). phasesStep E (approvals p) e f"
    using passResult_forth [OF 2] by blast
  have "e \<in> set (events p1)" using d detected_running assms(3,4) unfolding detectResult_def by blast
  then obtain f where "f \<in> set (events q)" "phasesStep E (approvals p) e f" using f by blast
  then show ?thesis using phasesStep_running [OF _ assms(4)] phasesStep_carried unfolding carried_def by blast
qed

theorem running_recovery_kept_witness:
  "evState (hd (events firstPlan)) = InProgress
   \<and> (\<exists>f. f \<in> set (events (fst (fst (secondPass firstPlan)))) \<and> sameEvent (hd (events firstPlan)) f
        \<and> evState f \<in> {InProgress, Succeeded, Failed})"
proof -
  have "hd (events firstPlan) \<in> set (events firstPlan)" and st: "evState (hd (events firstPlan)) = InProgress"
    using firstPlan_events by (auto simp: map_eq_Cons_conv)
  then show ?thesis
    using st running_recovery_kept [OF memPlans.plan_store_axioms secondPass_run, of "hd (events firstPlan)" firstPlan]
    by blast
qed





section \<open>What becomes of the approvals\<close>

definition livePlan :: "plan \<Rightarrow> bool" where
  "livePlan p \<longleftrightarrow> \<not> plDeleting p \<and> recoveryPlanFinalizer \<in> set (plFinalizers p)"

lemma livePlan_pass:
  assumes "livePlan p" "run_state (reconcilePlan E p) w = ((q, res), w')"
  shows "passResult E p q"
proof -
  have "reconcilePlan E p = detectThenRun E p"
    using assms(1) by (simp add: reconcilePlan_def handleFinalizer_def livePlan_def)
  then show ?thesis using returnsD [OF returns_detectThenRun, of E p w] assms(2) by fastforce
qed

lemma spent_one:
  assumes "spentOn p es (apID a)" "distinct (map apID (approvals p))" "a \<in> set (approvals p)"
  shows "\<not> apPersistent a \<and> \<not> apConsumed a \<and> (\<exists>e \<in> set es. evApprovalID e = apID a)"
  using assms unfolding spentOn_def by (metis (no_types, lifting) distinct_map inj_onD)

lemma settled_approvalIDs:
  "list_all2 settledStep es fs \<Longrightarrow> map evApprovalID fs = map evApprovalID es"
  by (induction rule: list_all2_induct) (simp_all add: settledStep_def)

text \<open>What a pass may do to one approval of the plan.\<close>

definition approvalFate :: "approval \<Rightarrow> plan \<Rightarrow> bool" where
  "approvalFate a q \<longleftrightarrow>
     a \<in> set (approvals q)
     \<or> \<not> apPersistent a \<and> \<not> apConsumed a \<and> a\<lparr>apConsumed := True\<rparr> \<in> set (approvals q)
         \<and> apID a \<in> set (map evApprovalID (events q))
     \<or> \<not> apPersistent a \<and> apConsumed a \<and> apID a \<notin> set (map evApprovalID (events q))"

lemma approvalFate_run:
  assumes "runResult E p q" "distinct (map apID (approvals p))" "a \<in> set (approvals p)" "apID a \<noteq> ''''"
  shows "approvalFate a q"
proof -
  obtain es mid where s: "list_all2 settledStep es (events q)"
    and m: "list_all2 (spentApproval p es) (approvals p) mid"
    and k: "approvals q = filter (keptApproval (events q)) mid"
    using assms(1) unfolding runResult_def by (elim conjE exE) (rule that)
  obtain a' where a': "a' \<in> set mid" "spentApproval p es a a'" using list_all2_forth [OF m assms(3)] .
  have ids: "set (map evApprovalID (events q)) = set (map evApprovalID es)" using settled_approvalIDs [OF s] by metis
  have kept: "b \<in> set (approvals q)" if "b \<in> set mid" "apID b = apID a"
    "apPersistent b \<or> \<not> apConsumed b \<or> apID a \<in> set (map evApprovalID (events q))" for b
    using that assms(4) by (auto simp: k keptApproval_def)
  show ?thesis
  proof (cases "a' = a")
    case True
    then show ?thesis using kept [of a] a'(1) unfolding approvalFate_def by blast
  next
    case False
    then have a'': "a' = a\<lparr>apConsumed := True\<rparr>" and sp: "spentOn p es (apID a)"
      using a'(2) unfolding spentApproval_def by blast+
    have one: "\<not> apPersistent a" "\<not> apConsumed a" "apID a \<in> set (map evApprovalID (events q))"
      using spent_one [OF sp assms(2,3)] unfolding ids by (auto simp: image_iff dest: sym)
    then have "a' \<in> set (approvals q)" using kept [of a'] a'(1) a'' by simp
    then show ?thesis using one a'' unfolding approvalFate_def by blast
  qed
qed

text \<open>
  C6. A pass over a live plan loses no approval: a standing approval stays as it is; a one-shot
  approval stays unspent or is marked spent, and the latter only when some event of the plan
  records it; a spent one is dropped only when no event records it any more.
\<close>

theorem approvals_survive:
  assumes "livePlan p" "distinct (map apID (approvals p))"
    and "run_state (reconcilePlan E p) w = ((q, res), w')" "a \<in> set (approvals p)" "apID a \<noteq> ''''"
  shows "a \<in> set (approvals q)
       \<or> \<not> apPersistent a \<and> \<not> apConsumed a \<and> a\<lparr>apConsumed := True\<rparr> \<in> set (approvals q)
           \<and> apID a \<in> set (map evApprovalID (events q))
       \<or> \<not> apPersistent a \<and> apConsumed a \<and> apID a \<notin> set (map evApprovalID (events q))"
proof -
  obtain p1 where d: "detectResult E p p1" and r: "logged p1 q \<or> runResult E p1 q"
    using livePlan_pass [OF assms(1,3)] unfolding passResult_def by blast
  have ap: "approvals p1 = approvals p" using detectResult_spec [OF d] by simp
  have "approvalFate a q"
  proof (cases "logged p1 q")
    case True
    then show ?thesis using assms(4) ap by (simp add: approvalFate_def loggedD)
  next
    case False
    then show ?thesis using r approvalFate_run [of E p1 q a] assms(2,4,5) ap by simp
  qed
  then show ?thesis unfolding approvalFate_def .
qed

theorem approvals_survive_witness:
  "approvalFor ''a9'' ''none'' \<in> set (approvals (fst (fst (secondPass (newPlan [approvalFor ''a9'' ''none''] [])))))"
proof -
  let ?p = "newPlan [approvalFor ''a9'' ''none''] []" and ?a = "approvalFor ''a9'' ''none''"
  have live: "livePlan ?p" by code_simp
  have dist: "distinct (map apID (approvals ?p))" by code_simp
  have mem: "?a \<in> set (approvals ?p)" "apID ?a \<noteq> ''''" by code_simp+
  have "apID ?a \<notin> set (map evApprovalID (events (fst (fst (secondPass ?p)))))" "\<not> apConsumed ?a" by code_simp+
  with approvals_survive [OF live dist secondPass_run mem] show ?thesis by blast
qed

end
