(* ===== verification/RecoveryPersist.thy ===== *)
theory RecoveryPersist
  imports RecoveryPass
begin

text \<open>
  Writing a pass back: \<^verbatim>\<open>diffApprovals\<close> and \<^verbatim>\<open>apply\<close> carry what a pass did to the approvals over
  to the plan as it is stored now, the deadlines the controller computes in 64-bit nanoseconds
  are the ones the plan asks for, and a plan being deleted is not let go before its Jobs have ended.
\<close>

section \<open>Merging approvals\<close>

definition spentOrSame :: "approval \<Rightarrow> approval \<Rightarrow> bool" where
  "spentOrSame a b \<longleftrightarrow> b = a \<or> b = a\<lparr>apConsumed := True\<rparr>"

lemma spentOrSame_id: "spentOrSame a b \<Longrightarrow> apID b = apID a"
  by (auto simp: spentOrSame_def)

lemma spent_ids: "list_all2 spentOrSame as bs \<Longrightarrow> map apID bs = map apID as"
  by (induction rule: list_all2_induct) (auto simp: spentOrSame_id)

lemma wasConsumed_distinct:
  assumes "distinct (map apID as)" "a \<in> set as"
  shows "wasConsumed as (apID a) = apConsumed a"
proof -
  let ?m = "map (\<lambda>a. (apID a, apConsumed a)) as"
  have d: "distinct (map fst (rev ?m))" using assms(1) by (simp add: comp_def rev_map [symmetric])
  have "(apID a, apConsumed a) \<in> set (rev ?m)" using assms(2) by auto
  then have "map_of (rev ?m) (apID a) = Some (apConsumed a)" using d by simp
  then show ?thesis by (simp add: wasConsumed_def)
qed

lemma filter_map_pointwise:
  "list_all2 (\<lambda>a b. (P a \<longleftrightarrow> K b) \<and> (K b \<longrightarrow> f a = b)) as bs \<Longrightarrow> map f (filter P as) = filter K bs"
  by (induction rule: list_all2_induct) auto

lemma diff_apply:
  assumes d: "distinct (map apID (approvals orig))" and s: "list_all2 spentOrSame (approvals orig) mid"
    and p: "approvals p = filter K mid"
  shows "approvals (fst (applyChanges (diffApprovals orig p) orig)) = approvals p"
proof -
  let ?ch = "diffApprovals orig p"
  have inj: "inj_on apID (set mid)" using d spent_ids [OF s] by (metis distinct_map)
  have point: "(apID a \<notin> chRemoved ?ch \<longleftrightarrow> K b) \<and> (K b \<longrightarrow> applyToApproval ?ch a = b)"
    if mem: "a \<in> set (approvals orig)" "b \<in> set mid" and ab: "spentOrSame a b" for a b
  proof -
    have ident: "apID b = apID a" by (rule spentOrSame_id [OF ab])
    have one: "c = b" if "c \<in> set mid" "apID c = apID a" for c
      using inj_onD [OF inj, of c b] that mem(2) ident by simp
    have "apID a \<in> set (map apID (approvals p)) \<longleftrightarrow> (\<exists>c. c \<in> set mid \<and> K c \<and> apID c = apID a)"
      unfolding p set_map set_filter image_iff Bex_def mem_Collect_eq by metis
    also have "\<dots> \<longleftrightarrow> K b" using one mem(2) ident by metis
    finally have "apID a \<in> set (map apID (approvals p)) \<longleftrightarrow> K b" .
    then have rem: "apID a \<notin> chRemoved ?ch \<longleftrightarrow> K b" using mem(1) by (auto simp: diffApprovals_def)
    have "apID a \<in> chConsumed ?ch \<longleftrightarrow>
        (\<exists>c \<in> set (filter K mid). apConsumed c \<and> \<not> wasConsumed (approvals orig) (apID c) \<and> apID c = apID a)"
      unfolding diffApprovals_def p approvalChanges.select_convs set_map set_filter image_iff Bex_def mem_Collect_eq
      by metis
    also have "\<dots> \<longleftrightarrow> K b \<and> apConsumed b \<and> \<not> apConsumed a"
    proof
      assume "\<exists>c \<in> set (filter K mid). apConsumed c \<and> \<not> wasConsumed (approvals orig) (apID c) \<and> apID c = apID a"
      then obtain c where c: "c \<in> set mid" "K c" "apConsumed c" "\<not> wasConsumed (approvals orig) (apID c)" "apID c = apID a"
        unfolding set_filter by blast
      then show "K b \<and> apConsumed b \<and> \<not> apConsumed a"
        using one [OF c(1,5)] wasConsumed_distinct [OF d mem(1)] by simp
    next
      assume "K b \<and> apConsumed b \<and> \<not> apConsumed a"
      then show "\<exists>c \<in> set (filter K mid). apConsumed c \<and> \<not> wasConsumed (approvals orig) (apID c) \<and> apID c = apID a"
        using mem(2) ident wasConsumed_distinct [OF d mem(1)] by (intro bexI [of _ b]) simp_all
    qed
    finally have con: "apID a \<in> chConsumed ?ch \<longleftrightarrow> K b \<and> apConsumed b \<and> \<not> apConsumed a" .
    have "K b \<longrightarrow> applyToApproval ?ch a = b"
      using con ab by (auto simp: applyToApproval_def spentOrSame_def)
    then show ?thesis using rem by blast
  qed
  have "list_all2 (\<lambda>a b. (apID a \<notin> chRemoved ?ch \<longleftrightarrow> K b) \<and> (K b \<longrightarrow> applyToApproval ?ch a = b)) (approvals orig) mid"
    using s point unfolding list_all2_conv_all_nth by simp
  then show ?thesis using filter_map_pointwise by (simp add: applyChanges_def p)
qed

lemma diff_ids:
  assumes s: "list_all2 spentOrSame (approvals orig) mid" and p: "approvals p = filter K mid"
  shows "chRemoved (diffApprovals orig p) \<union> chConsumed (diffApprovals orig p) \<subseteq> set (map apID (approvals orig))"
proof -
  have "set (map apID mid) = set (map apID (approvals orig))" using spent_ids [OF s] by metis
  then show ?thesis by (auto simp: diffApprovals_def p)
qed

lemma apply_foreign:
  assumes "chRemoved ch \<union> chConsumed ch \<subseteq> ids"
  shows "filter (\<lambda>a. apID a \<notin> ids) (approvals (fst (applyChanges ch cur))) = filter (\<lambda>a. apID a \<notin> ids) (approvals cur)"
proof -
  have "filter (\<lambda>a. apID a \<notin> ids) (map (applyToApproval ch) (filter (\<lambda>a. apID a \<notin> chRemoved ch) as))
      = filter (\<lambda>a. apID a \<notin> ids) as" for as
    using assms by (induction as) (auto simp: applyToApproval_def)
  then show ?thesis by (simp add: applyChanges_def)
qed

lemma applyToApproval_id [simp]: "apID (applyToApproval ch a) = apID a"
  by (simp add: applyToApproval_def)

lemma applyToApproval_idem [simp]: "applyToApproval ch (applyToApproval ch a) = applyToApproval ch a"
  by (simp add: applyToApproval_def)

lemma apply_again: "applyChanges ch (fst (applyChanges ch cur)) = (fst (applyChanges ch cur), False)"
proof -
  let ?as = "map (applyToApproval ch) (filter (\<lambda>a. apID a \<notin> chRemoved ch) (approvals cur))"
  have "map (applyToApproval ch) (filter (\<lambda>a. apID a \<notin> chRemoved ch) ?as) = ?as"
    by (simp add: filter_map comp_def)
  moreover have "\<not> list_ex (\<lambda>a. apID a \<in> chRemoved ch \<or> apID a \<in> chConsumed ch \<and> \<not> apConsumed a) ?as"
    by (auto simp: list_ex_iff applyToApproval_def)
  ultimately show ?thesis by (simp add: applyChanges_def setApprovals_def)
qed

lemma pass_approvals:
  assumes "passResult E p q"
  obtains mid K where "list_all2 spentOrSame (approvals p) mid" "approvals q = filter K mid"
proof -
  obtain p1 where d: "detectResult E p p1" and r: "logged p1 q \<or> runResult E p1 q"
    using assms unfolding passResult_def by blast
  have ap: "approvals p1 = approvals p" using detectResult_spec [OF d] by simp
  show ?thesis
  proof (cases "logged p1 q")
    case True
    then have "approvals q = filter (\<lambda>_. True) (approvals p)" using ap by (simp add: loggedD)
    moreover have "list_all2 spentOrSame (approvals p) (approvals p)"
      by (simp add: list_all2_refl spentOrSame_def)
    ultimately show ?thesis using that by blast
  next
    case False
    then obtain es mid where m: "list_all2 (spentApproval p1 es) (approvals p1) mid"
      and k: "approvals q = filter (keptApproval (events q)) mid"
      using r unfolding runResult_def by (elim disjE conjE exE) blast+
    have "list_all2 spentOrSame (approvals p) mid"
      using m unfolding ap by (rule list_all2_mono) (auto simp: spentApproval_def spentOrSame_def)
    then show ?thesis using that k by blast
  qed
qed

text \<open>
  C11. What a pass did to the approvals survives the write: the recorded changes, applied to the plan
  the pass read, give the approvals the pass left; applied to a plan that was edited in the
  meantime, they touch no approval the pass did not read; and applying them again, as a retry after
  a conflict does, changes nothing and asks for no write.
\<close>

theorem approval_changes_merge:
  assumes "livePlan p" "distinct (map apID (approvals p))" "run_state (reconcilePlan E p) w = ((q, res), w')"
  shows "approvals (fst (applyChanges (diffApprovals p q) p)) = approvals q
    \<and> filter (\<lambda>a. apID a \<notin> set (map apID (approvals p))) (approvals (fst (applyChanges (diffApprovals p q) cur)))
        = filter (\<lambda>a. apID a \<notin> set (map apID (approvals p))) (approvals cur)
    \<and> applyChanges (diffApprovals p q) (fst (applyChanges (diffApprovals p q) cur))
        = (fst (applyChanges (diffApprovals p q) cur), False)"
proof -
  obtain mid K where m: "list_all2 spentOrSame (approvals p) mid" "approvals q = filter K mid"
    using pass_approvals [OF livePlan_pass [OF assms(1,3)]] by blast
  show ?thesis
    using diff_apply [OF assms(2) m] apply_foreign [OF diff_ids [OF m]] apply_again by blast
qed

theorem approval_changes_merge_witness:
  "approvals (fst (applyChanges (diffApprovals (newPlan [approvalFor ''a9'' ''none''] [])
       (fst (fst (secondPass (newPlan [approvalFor ''a9'' ''none''] []))))) (newPlan [approvalFor ''a9'' ''none''] [])))
     = approvals (fst (fst (secondPass (newPlan [approvalFor ''a9'' ''none''] []))))"
proof -
  let ?p = "newPlan [approvalFor ''a9'' ''none''] []"
  have live: "livePlan ?p" "distinct (map apID (approvals ?p))"
    by (simp_all add: livePlan_def newPlan_def planSpec_def)
  show ?thesis using approval_changes_merge [OF live secondPass_run] by blast
qed

section \<open>Deadlines\<close>

lemma since_exceeds: "- (2 ^ 63) \<le> b \<Longrightarrow> b < 2 ^ 63 - 1 \<Longrightarrow> sint (timeSince now t) > b \<longleftrightarrow> now - t > b"
  unfolding sint_timeSince by auto

lemma sint_second_product:
  fixes d :: int64
  assumes "0 \<le> sint d" "sint d \<le> 2 ^ 31" "0 \<le> g" "g < 2 ^ 60"
  shows "sint (d * second + word_of_int g) = sint d * 1000000000 + g"
proof -
  have "d * second + word_of_int g = (word_of_int (sint d * 1000000000 + g) :: int64)"
    by (simp add: second_def)
  moreover have "- (2 ^ 63) \<le> sint d * 1000000000 + g" "sint d * 1000000000 + g < 2 ^ 63" using assms by auto
  ultimately show ?thesis using sint_int64_of_int by presburger
qed

definition secondsOr :: "int \<Rightarrow> int32 \<Rightarrow> int" where
  "secondsOr d x = (if 0 < sint x then sint x else d)"

lemma sint_scast_int32: "sint (scast (x :: int32) :: int64) = sint x"
proof -
  have "- (2 ^ 63) \<le> sint x" "sint x < 2 ^ 63" using sint_int32_bounds [of x] by auto
  then have "sint (word_of_int (sint x) :: int64) = sint x" by (rule sint_int64_of_int)
  then show ?thesis by simp
qed

lemma sint_recoveryJobTimeout:
  "sint (recoveryJobTimeout p evt) =
     (if IsReflash (evRecoveryType evt) then secondsOr 600 (tmReflashSeconds (spTimeouts (plSpec p)))
      else secondsOr 300 (tmResetSeconds (spTimeouts (plSpec p))))"
  by (simp add: recoveryJobTimeout_def Let_def secondsOr_def sint_scast_int32
      defaultReflashJobTimeout_def defaultResetJobTimeout_def)

lemma secondsOr_range: "0 < d \<Longrightarrow> d \<le> 2 ^ 31 \<Longrightarrow> 0 < secondsOr d x \<and> secondsOr d x \<le> 2 ^ 31"
  using sint_int32_bounds [of x] by (auto simp: secondsOr_def)

lemma recoveryJobTimeout_range: "0 < sint (recoveryJobTimeout p evt)" "sint (recoveryJobTimeout p evt) \<le> 2 ^ 31"
  using secondsOr_range [of 600] secondsOr_range [of 300] unfolding sint_recoveryJobTimeout by simp_all

lemma sint_drainTimeout:
  "sint (drainTimeout p) = secondsOr 300 (dsTimeoutSeconds (spDrain (plSpec p))) * 1000000000"
  using sint_seconds [of 0 "dsTimeoutSeconds (spDrain (plSpec p))"]
  by (simp add: drainTimeout_def Let_def secondsOr_def defaultDrainTimeout_def second_def)

text \<open>
  The deadlines the controller computes in 64-bit nanoseconds never wrap around: for every plan
  and every two instants, a drain is late exactly when it has lasted longer than the plan's timeout,
  and the verdict of a Job with the plan's deadline is overdue exactly when that deadline and a
  minute of grace have passed, in unbounded arithmetic; unset and negative timeouts mean the
  defaults.
\<close>

theorem deadlines_exact:
  "(snd (drainDeadlineExceeded now p (evt\<lparr>evDrainStartedAt := Some t\<rparr>)) \<longleftrightarrow>
      now - t > secondsOr 300 (dsTimeoutSeconds (spDrain (plSpec p))) * 1000000000)
   \<and> (jobVerdictOverdue now (recoveryJobTimeout p evt) (Some t) \<longleftrightarrow>
      now - t > ((if IsReflash (evRecoveryType evt) then secondsOr 600 (tmReflashSeconds (spTimeouts (plSpec p)))
                  else secondsOr 300 (tmResetSeconds (spTimeouts (plSpec p)))) + 60) * 1000000000)"
proof -
  let ?d = "recoveryJobTimeout p evt"
  have grace: "recoveryJobVerdictGrace = word_of_int 60000000000"
    by (simp add: recoveryJobVerdictGrace_def second_def)
  have "sint (?d * second + recoveryJobVerdictGrace) = (sint ?d + 60) * 1000000000"
    unfolding grace using sint_second_product [of ?d 60000000000] recoveryJobTimeout_range [of p evt]
    by (simp add: algebra_simps)
  moreover have "- (2 ^ 63) \<le> (sint ?d + 60) * 1000000000" "(sint ?d + 60) * 1000000000 < 2 ^ 63 - 1"
    using recoveryJobTimeout_range [of p evt] by simp_all
  ultimately have job: "jobVerdictOverdue now ?d (Some t) \<longleftrightarrow> now - t > (sint ?d + 60) * 1000000000"
    using since_exceeds by (simp add: jobVerdictOverdue_def)
  let ?s = "secondsOr 300 (dsTimeoutSeconds (spDrain (plSpec p)))"
  have "- (2 ^ 63) \<le> ?s * 1000000000" "?s * 1000000000 < 2 ^ 63 - 1"
    using secondsOr_range [of 300 "dsTimeoutSeconds (spDrain (plSpec p))"] by simp_all
  then have "snd (drainDeadlineExceeded now p (evt\<lparr>evDrainStartedAt := Some t\<rparr>)) \<longleftrightarrow> now - t > ?s * 1000000000"
    using since_exceeds by (simp add: drainDeadlineExceeded_def sint_drainTimeout)
  then show ?thesis using job unfolding sint_recoveryJobTimeout by (rule conjI)
qed

section \<open>When a plan may go away\<close>

text \<open>
  An observation \<open>f\<close> of the cluster that reading a plan, listing Jobs and writing a plan's status
  leave alone: the status endpoint writes nothing but the status, so \<open>f\<close> may show nodes, pods, Jobs
  and the spec and finalizers of the stored plans. A retried write leaves alone what one write does.
\<close>

locale status_writes =
  fixes E :: "('w, 'x) recoveryEnv_scheme" and f :: "'w \<Rightarrow> 'b"
  assumes get_keeps: "keeps f (rGetPlan E key)"
    and jobs_keep: "keeps f (cListJobs E ns l)"
    and status_keeps: "keeps f (rUpdatePlanStatus E p)"
    and retry_keeps: "keeps f m \<Longrightarrow> keeps f (rRetryOnConflict E m)"
begin

lemma keeps_writeStatus: "keeps f (writeStatus E key st)"
  unfolding writeStatus_def by (auto intro!: keeps_bind get_keeps status_keeps keeps_return split: sum.split)

lemma keeps_persistPlan: "changesEmpty (diffApprovals orig p) \<Longrightarrow> keeps f (persistPlan E key orig p)"
  unfolding persistPlan_def Let_def by (auto intro!: keeps_bind retry_keeps keeps_writeStatus keeps_return)

end

definition planView ::
  "planMem \<Rightarrow> node list \<times> pod list \<times> job list \<times> resourceSlice list \<times> (string list \<times> GPURecoveryPlanSpec) option" where
  "planView m = (mNodes m, mPods m, mJobs m, mSlices m, map_option (\<lambda>p. (plFinalizers p, plSpec p)) (mPlan m))"

interpretation memStatus: status_writes memEnv planView
  by unfold_locales
     (auto simp: memEnv_def memClient_def keeps_def planView_def option.map_comp comp_def)

lemma diff_same_spec:
  assumes "distinct (map apID (approvals p))" "plSpec q = plSpec p"
  shows "changesEmpty (diffApprovals p q)"
  using assms wasConsumed_distinct [OF assms(1)] by (auto simp: changesEmpty_def diffApprovals_def)

text \<open>What a pass over a plan being deleted does before its Jobs are known to have ended.\<close>

lemma deletion_stops:
  assumes "plDeleting p" "run_state (cListJobs E (rNamespace E) (recoveryJobLabelPlan, plName p)) w = (listed, w1)"
    and "\<not> (\<exists>js. listed = Inr js \<and> (\<forall>j \<in> set js. jobDeleting j \<or> jobIsTerminal j))"
  obtains q res where "run_state (reconcilePlan E p) w = ((q, res), w1)" "plSpec q = plSpec p"
    "res \<in> insert (Inr (Some (rRequeueDelay E))) (range Inl)"
proof (cases listed)
  case (Inl e)
  have l: "run_state (runningRecoveryJobs E p) w = (Inl e, w1)"
    using assms(2) Inl by (simp add: runningRecoveryJobs_def)
  show thesis
    using that [of p] assms(1) l by (simp add: reconcilePlan_def handleFinalizer_def)
next
  case (Inr js)
  let ?run = "map jobName (filter (\<lambda>j. \<not> jobDeleting j \<and> \<not> jobIsTerminal j) js)"
  have l: "run_state (runningRecoveryJobs E p) w = (Inr ?run, w1)"
    using assms(2) Inr by (simp add: runningRecoveryJobs_def)
  have ne: "?run \<noteq> []" using assms(3) Inr by (auto simp: filter_empty_conv)
  show thesis
    using that [of "appendMessage p m" for m] assms(1) l ne by (simp add: reconcilePlan_def handleFinalizer_def)
qed

text \<open>
  C13. A plan that is being deleted waits for its recovery Jobs. Take a whole call of the reconciler,
  its deferred write included, for such a plan: unless this call's listing of the plan's Jobs shows
  every one of them terminating or finished, the call changes nothing in the cluster but the plan's
  status, so that nodes, pods and Jobs are untouched and the stored plan keeps its finalizer and its
  spec, and the call either fails or asks to be called again. The plan's approvals carry distinct
  IDs, as admission sees to.
\<close>

theorem deletion_waits_for_jobs:
  assumes "status_writes E f"
    and "run_state (rGetPlan E key) w = (Inr p, w0)" "plDeleting p" "distinct (map apID (approvals p))"
    and "run_state (cListJobs E (rNamespace E) (recoveryJobLabelPlan, plName p)) w0 = (listed, w1)"
    and "run_state (Reconcile E key) w = (r, w')"
  shows "(f w' = f w \<and> r \<in> insert (Inr (Some (rRequeueDelay E))) (range Inl))
       \<or> (\<exists>js. listed = Inr js \<and> (\<forall>j \<in> set js. jobDeleting j \<or> jobIsTerminal j))"
proof (rule disjCI)
  assume "\<not> (\<exists>js. listed = Inr js \<and> (\<forall>j \<in> set js. jobDeleting j \<or> jobIsTerminal j))"
  then obtain q res where q: "run_state (reconcilePlan E p) w0 = ((q, res), w1)" "plSpec q = plSpec p"
    "res \<in> insert (Inr (Some (rRequeueDelay E))) (range Inl)" by (rule deletion_stops [OF assms(3,5)])
  obtain e w2 where e: "run_state (persistPlan E key p q) w1 = (e, w2)" by fastforce
  have "f w2 = f w1"
    using status_writes.keeps_persistPlan [OF assms(1) diff_same_spec [OF assms(4) q(2)]] e by (rule keepsD)
  also have "f w1 = f w0" using status_writes.jobs_keep [OF assms(1)] assms(5) by (rule keepsD)
  also have "f w0 = f w" using status_writes.get_keeps [OF assms(1)] assms(2) by (rule keepsD)
  finally show "f w' = f w \<and> r \<in> insert (Inr (Some (rRequeueDelay E))) (range Inl)"
    using assms(2,6) q(1,3) e by (auto simp: Reconcile_def split: option.splits)
qed

definition runningJob :: job where
  "runningJob = emptyJob\<lparr>jobName := ''recovery-1'', jobNamespace := ''gpu'', jobLabels := [(recoveryJobLabelPlan, ''plan'')]\<rparr>"

definition deletingCluster :: planMem where
  "deletingCluster = (memCluster [] ((newPlan [] [])\<lparr>plDeleting := True\<rparr>))\<lparr>mJobs := [runningJob]\<rparr>"

theorem deletion_waits_for_jobs_witness:
  "map_option plFinalizers (mPlan (snd (run_state (Reconcile memEnv ''plan'') deletingCluster))) = Some [recoveryPlanFinalizer]"
proof -
  let ?p = "(newPlan [] [])\<lparr>plDeleting := True\<rparr>"
  have g: "run_state (rGetPlan memEnv ''plan'') deletingCluster = (Inr ?p, deletingCluster)"
    by (simp add: memEnv_def deletingCluster_def memCluster_def newPlan_def)
  have l: "run_state (cListJobs memEnv (rNamespace memEnv) (recoveryJobLabelPlan, plName ?p)) deletingCluster
      = (Inr [runningJob], deletingCluster)"
    by (simp add: memEnv_def memClient_def newPlan_def deletingCluster_def runningJob_def emptyJob_def)
  have d: "plDeleting ?p" "distinct (map apID (approvals ?p))" by (simp_all add: newPlan_def planSpec_def)
  have j: "\<not> jobDeleting runningJob" "\<not> jobIsTerminal runningJob"
    by (simp_all add: runningJob_def emptyJob_def jobIsTerminal_def jobTerminalCondition_def)
  obtain r w' where run: "run_state (Reconcile memEnv ''plan'') deletingCluster = (r, w')" by fastforce
  have "planView w' = planView deletingCluster"
    using deletion_waits_for_jobs [OF memStatus.status_writes_axioms g d l run] j by auto
  then show ?thesis
    unfolding run by (cases "mPlan w'") (auto simp: planView_def deletingCluster_def memCluster_def newPlan_def)
qed

end
