(* ===== verification/RecoveryMirror.thy ===== *)
theory RecoveryMirror
  imports RecoveryPass
begin

text \<open>
  What detection promises: the single pass over the slices finds, for every device, the most severe
  recovery its taints call for, and \<^verbatim>\<open>status.events\<close> mirrors the tainted devices.
\<close>

text \<open>
  C12. One pass over all slices computes, for each device, what the declarative reading of the taints
  says: a reflash if any of its taints asks for one, otherwise the plan's reset if any taint asks
  for that, and nothing for devices of another model, with a malformed address or without such a
  taint; each device is recorded once.
\<close>

theorem scan_finds_needs:
  assumes "resetDefaultOk p"
  shows "map_of (activeDevices p slices) = neededRecovery p (publishedTaints p slices)
    \<and> distinct (map fst (activeDevices p slices))
    \<and> list_all (\<lambda>k. validDeviceBDF (dkBDF k)) (map fst (activeDevices p slices))"
proof -
  have "\<forall>kn \<in> set (activeDevices p slices). validDeviceBDF (dkBDF (fst kn))" using activeDevices_valid by blast
  then show ?thesis
    using map_of_activeDevices [OF assms] distinct_activeDevices by (simp add: list_all_iff)
qed

theorem scan_finds_needs_witness:
  "map_of (activeDevices (newPlan [] []) [wedgedSlice]) (DeviceKey ''n1'' ''0000:03:00.0'')
     = Some \<lparr>needRT = SBR, needReason = reasonWedged\<rparr>"
proof -
  have ok: "resetDefaultOk (newPlan [] [])" by (simp add: resetDefaultOk_def newPlan_def planSpec_def)
  have "neededRecovery (newPlan [] []) (publishedTaints (newPlan [] []) [wedgedSlice]) (DeviceKey ''n1'' ''0000:03:00.0'')
      = Some \<lparr>needRT = SBR, needReason = reasonWedged\<rparr>"
    by code_simp
  then show ?thesis using scan_finds_needs [OF ok, of "[wedgedSlice]"] by simp
qed

section \<open>The mirror\<close>

text \<open>The devices whose published taints call for a recovery.\<close>

definition taintedDevices :: "plan \<Rightarrow> resourceSlice list \<Rightarrow> deviceKey set" where
  "taintedDevices p slices = {k. neededRecovery p (publishedTaints p slices) k \<noteq> None}"

lemma taintedDevices_active:
  assumes "resetDefaultOk p" shows "taintedDevices p slices = fst ` set (activeDevices p slices)"
  unfolding taintedDevices_def map_of_activeDevices [OF assms, symmetric] map_of_eq_None_iff by auto

lemma kept_devices:
  "devKey ` set (filter (keepsEvent active) es) \<union> fst ` set active
     = fst ` set active \<union> devKey ` {e \<in> set es. evState e = InProgress}"
  by (auto simp: keepsEvent_def stillActive_def map_of_eq_None_iff)

lemma detected_devices:
  assumes "detected E p slices q" "visitsOnce E" "distinct (devs p)"
    and "card (fst ` set (activeDevices p slices) \<union> devKey ` {e \<in> set (events p). evState e = InProgress}) \<le> maxStatusEvents"
  shows "devKey ` set (events q)
    = fst ` set (activeDevices p slices) \<union> devKey ` {e \<in> set (events p). evState e = InProgress}"
    and "kn \<in> set (activeDevices p slices) \<Longrightarrow> covers kn q"
proof -
  let ?a = "activeDevices p slices"
  from assms(1) obtain p' now where p': "logged (setEvents (filter (keepsEvent ?a) (events p)) p) p'"
    and q: "logged (fold (addOne (rDNS E) now) (rMapOrder E ?a) p') q"
    by (auto simp: detected_def)
  let ?f = "fold (addOne (rDNS E) now) (rMapOrder E ?a) p'"
  have ord: "set (rMapOrder E ?a) = set ?a" "distinct (map fst (rMapOrder E ?a))"
    using assms(2) distinct_activeDevices [of p slices] unfolding visitsOnce_def by blast+
  have ev': "events p' = filter (keepsEvent ?a) (events p)" using p' by (simp add: loggedD)
  have d: "distinct (devs p')" using assms(3) by (simp add: devs_def ev' distinct_map_filter)
  have un: "set (devs p') \<union> fst ` set (rMapOrder E ?a)
      = fst ` set ?a \<union> devKey ` {e \<in> set (events p). evState e = InProgress}"
    unfolding set_devs ev' ord(1) by (rule kept_devices)
  have "set (devs ?f) = set (devs p') \<union> fst ` set (rMapOrder E ?a)"
    by (rule fold_addOne_room [OF d]) (use un assms(4) in simp)
  then show "devKey ` set (events q) = fst ` set ?a \<union> devKey ` {e \<in> set (events p). evState e = InProgress}"
    unfolding un using q by (simp add: set_devs loggedD)
  assume "kn \<in> set ?a"
  then have "covers kn ?f" using fold_addOne_covers [OF d ord(2)] ord(1) by blast
  then show "covers kn q" using q by (simp add: covers_def loggedD)
qed

text \<open>
  C7. After detection the devices in \<^verbatim>\<open>status.events\<close> are exactly the devices whose published taints
  call for a recovery together with those whose recovery Job is still running, as long as they fit
  the cap of 1000; and each event asks for a recovery at least as severe as its device needs, unless
  its Job is already running.
\<close>

theorem events_mirror_taints:
  assumes "visitsOnce E" "resetDefaultOk p" "distinct (map devKey (events p))"
    and "run_state (cListSlices E) w = (Inr slices, w1)"
    and "run_state (syncRecoveryEventsFromSlices E p) w = ((q, err), w')"
    and "card (taintedDevices p slices \<union> devKey ` {e \<in> set (events p). evState e = InProgress}) \<le> 1000"
  shows "err = None
    \<and> devKey ` set (events q) = taintedDevices p slices \<union> devKey ` {e \<in> set (events p). evState e = InProgress}
    \<and> (\<forall>e \<in> set (events q). \<forall>need. neededRecovery p (publishedTaints p slices) (devKey e) = Some need \<longrightarrow>
          recoveryTypePriority (needRT need) \<le> recoveryTypePriority (rtType (evRecoveryType e))
          \<or> evState e = InProgress)"
proof -
  from assms(5) have det: "detected E p slices q" and err: "err = None"
    by (cases rule: run_syncRecoveryEvents; use assms(4) in auto)+
  have room: "card (fst ` set (activeDevices p slices) \<union> devKey ` {e \<in> set (events p). evState e = InProgress}) \<le> maxStatusEvents"
    using assms(6) unfolding taintedDevices_active [OF assms(2)] by (simp add: maxStatusEvents_def)
  note dd = detected_devices [OF det assms(1) _ room] 
  have "recoveryTypePriority (needRT need) \<le> recoveryTypePriority (rtType (evRecoveryType e)) \<or> evState e = InProgress"
    if "e \<in> set (events q)" "neededRecovery p (publishedTaints p slices) (devKey e) = Some need" for e need
  proof -
    have "(devKey e, need) \<in> set (activeDevices p slices)"
      using that(2) map_of_SomeD unfolding map_of_activeDevices [OF assms(2), symmetric] by fast
    then have "covers (devKey e, need) q" using dd(2) assms(3) by (simp add: devs_def)
    then show ?thesis using that(1) by (simp add: covers_def)
  qed
  then show ?thesis
    using err dd(1) assms(3) unfolding taintedDevices_active [OF assms(2)] devs_def by blast
qed

definition syncRun :: "(plan \<times> go_error option) \<times> planMem" where
  "syncRun = run_state (syncRecoveryEventsFromSlices memEnv (newPlan [] [])) (memCluster [wedgedSlice] (newPlan [] []))"

theorem events_mirror_taints_witness:
  "devKey ` set (events (fst (fst syncRun))) = taintedDevices (newPlan [] []) [wedgedSlice]"
proof -
  let ?p = "newPlan [] []" and ?w = "memCluster [wedgedSlice] (newPlan [] [])"
  have ok: "resetDefaultOk ?p" by (simp add: resetDefaultOk_def newPlan_def planSpec_def)
  have none: "events ?p = []" by (simp add: newPlan_def)
  then have d: "distinct (map devKey (events ?p))" by simp
  have l: "run_state (cListSlices memEnv) ?w = (Inr [wedgedSlice], ?w)"
    by (simp add: memEnv_def memClient_def memCluster_def)
  have run: "run_state (syncRecoveryEventsFromSlices memEnv ?p) ?w = ((fst (fst syncRun), snd (fst syncRun)), snd syncRun)"
    by (simp add: syncRun_def)
  have "length (activeDevices ?p [wedgedSlice]) = 1" by code_simp
  then have "card (taintedDevices ?p [wedgedSlice]) \<le> 1"
    using card_length [of "map fst (activeDevices ?p [wedgedSlice])"] by (simp add: taintedDevices_active [OF ok])
  then have "card (taintedDevices ?p [wedgedSlice] \<union> devKey ` {e \<in> set (events ?p). evState e = InProgress}) \<le> 1000"
    by (simp add: none)
  from events_mirror_taints [OF memEnv_visitsOnce ok d l run this] show ?thesis by (simp add: none)
qed

end
