(* ===== verification/DrainGuarantees.thy ===== *)
theory DrainGuarantees
  imports Drain
begin

text \<open>
  What the drain primitives promise their callers: the taint operations implement set insertion and
  deletion on the taints of the cluster, the two lists of \<^verbatim>\<open>PodsBlockingDrain\<close> are exactly the pods
  a drain must remove, and an eviction pass reports exactly the refusals that waiting cannot cure.
\<close>

section \<open>Taints as a set of owners' marks\<close>

text \<open>A taint without its timestamp, and the taints of all Nodes.\<close>

definition taintMark :: "taint \<Rightarrow> string \<times> string \<times> string" where
  "taintMark t = (taintKey t, taintValue t, taintEffect t)"

definition clusterTaints :: "('w \<Rightarrow> string \<Rightarrow> node option) \<Rightarrow> 'w \<Rightarrow> (string \<times> string \<times> string \<times> string) set" where
  "clusterTaints nodeOf w = {(n, taintMark t) |n t. carriesTaint nodeOf w n t}"

lemma taintMark_eq: "taintMark t = taintMark u \<longleftrightarrow> taintsEqual t u"
  by (auto simp: taintMark_def taintsEqual_def)

lemma carriesTaint_cong: "taintsEqual t u \<Longrightarrow> carriesTaint nodeOf w n t = carriesTaint nodeOf w n u"
  by (auto simp: carriesTaint_def hasTaint_iff taintsEqual_def split: option.splits)

lemma clusterTaints_iff: "(n, taintMark t) \<in> clusterTaints nodeOf w \<longleftrightarrow> carriesTaint nodeOf w n t"
  using nt.same_refl by (auto simp: clusterTaints_def taintMark_eq dest: carriesTaint_cong)

lemma taintMark_surj: "\<exists>t. taintMark t = m"
  by (cases m) (metis taintMark_def taint.select_convs(1-3))

lemma clusterTaints_eqI:
  assumes "\<And>m u. carriesTaint nodeOf w' m u \<longleftrightarrow> (m, taintMark u) \<in> S"
  shows "clusterTaints nodeOf w' = S"
proof (rule set_eqI)
  fix x :: "string \<times> string \<times> string \<times> string" obtain m u where "x = (m, taintMark u)" using taintMark_surj by (metis prod.exhaust)
  then show "x \<in> clusterTaints nodeOf w' \<longleftrightarrow> x \<in> S" by (simp add: clusterTaints_iff assms)
qed

lemma clusterTaints_frame: "nodeOf w' = nodeOf w \<Longrightarrow> clusterTaints nodeOf w' = clusterTaints nodeOf w"
  by (simp add: clusterTaints_def carriesTaint_def)

context node_store
begin

lemma ensure_changed:
  "run_state (EnsureNodeTaint C n t) w = (Inr b, w') \<Longrightarrow> b \<longleftrightarrow> \<not> carriesTaint nodeOf w n t"
  by (auto simp: EnsureNodeTaint_def carriesTaint_def split: prod.splits sum.splits if_splits option.splits dest!: get_ok)

lemma remove_changed:
  "run_state (RemoveNodeTaint C n t) w = (Inr b, w') \<Longrightarrow> b \<longleftrightarrow> carriesTaint nodeOf w n t"
  by (auto simp: RemoveNodeTaint_def carriesTaint_def split: prod.splits sum.splits if_splits option.splits dest!: get_ok)

lemma ensure_refines:
  assumes "run_state (EnsureNodeTaint C n t) w = (r, w')"
  shows "case r of Inl _ \<Rightarrow> clusterTaints nodeOf w' = clusterTaints nodeOf w
    | Inr b \<Rightarrow> clusterTaints nodeOf w' = insert (n, taintMark t) (clusterTaints nodeOf w)
        \<and> b = ((n, taintMark t) \<notin> clusterTaints nodeOf w)"
proof (cases r)
  case (Inl e)
  then show ?thesis using clusterTaints_frame [OF ensure_err] assms by simp
next
  case (Inr b)
  then have "clusterTaints nodeOf w' = insert (n, taintMark t) (clusterTaints nodeOf w)"
    using ensure_ok [of n t w b w'] assms
    by (intro clusterTaints_eqI) (auto simp: clusterTaints_iff taintMark_eq taintsEqual_sym)
  then show ?thesis using Inr ensure_changed [of n t w b w'] assms by (simp add: clusterTaints_iff)
qed

lemma remove_refines:
  assumes "run_state (RemoveNodeTaint C n t) w = (r, w')"
  shows "case r of Inl _ \<Rightarrow> clusterTaints nodeOf w' = clusterTaints nodeOf w
    | Inr b \<Rightarrow> clusterTaints nodeOf w' = clusterTaints nodeOf w - {(n, taintMark t)}
        \<and> b = ((n, taintMark t) \<in> clusterTaints nodeOf w)"
proof (cases r)
  case (Inl e)
  then show ?thesis using clusterTaints_frame [OF remove_err] assms by simp
next
  case (Inr b)
  then have "clusterTaints nodeOf w' = clusterTaints nodeOf w - {(n, taintMark t)}"
    using remove_ok [of n t w b w'] assms
    by (intro clusterTaints_eqI) (auto simp: clusterTaints_iff taintMark_eq taintsEqual_sym)
  then show ?thesis using Inr remove_changed [of n t w b w'] assms by (simp add: clusterTaints_iff)
qed

end

text \<open>
  On every client that stores Nodes the way the API documents, tainting and untainting a node
  are insertion and deletion on the set of all taints in the cluster: no other owner's taint and no
  other node is touched, a failing call changes no taint, and the boolean says whether the set
  changed.
\<close>

theorem taint_operations_refine_sets:
  assumes "node_store C nodeOf"
    and "run_state (EnsureNodeTaint C n t) w = (r, w1)" "run_state (RemoveNodeTaint C n t) w = (s, w2)"
  shows "(case r of Inl _ \<Rightarrow> clusterTaints nodeOf w1 = clusterTaints nodeOf w
          | Inr b \<Rightarrow> clusterTaints nodeOf w1 = insert (n, taintMark t) (clusterTaints nodeOf w)
              \<and> b = ((n, taintMark t) \<notin> clusterTaints nodeOf w))
       \<and> (case s of Inl _ \<Rightarrow> clusterTaints nodeOf w2 = clusterTaints nodeOf w
          | Inr b \<Rightarrow> clusterTaints nodeOf w2 = clusterTaints nodeOf w - {(n, taintMark t)}
              \<and> b = ((n, taintMark t) \<in> clusterTaints nodeOf w))"
  using node_store.ensure_refines [OF assms(1,2)] node_store.remove_refines [OF assms(1,3)] by (rule conjI)

text \<open>A cluster of one untainted node with two pods on it.\<close>

definition plainPod :: "string \<Rightarrow> string \<Rightarrow> pod" where
  "plainPod ns n = \<lparr>podName = n, podNamespace = ns, podUID = n, podNodeName = ''n1'', podLabels = [],
     podAnnotations = [], podOwnerKinds = [''ReplicaSet''], podPhase = ''Running'', podDeleting = False,
     podContainers = [], podClaims = []\<rparr>"

definition oneNode :: mem where
  "oneNode = \<lparr>mClock = 0, mNodes = [\<lparr>nodeName = ''n1'', nodeLabels = [], nodeTaints = [], nodeDeleting = False,
     nodeConditions = []\<rparr>], mPods = [plainPod ''app'' ''a'', plainPod ''gpu'' ''b''], mPDB = (\<lambda>p. False),
     mClaims = [], mTemplates = [], mSlices = [], mJobs = []\<rparr>"

definition noGPUTaint :: taint where
  "noGPUTaint = \<lparr>taintKey = ''k'', taintValue = ''v'', taintEffect = ''NoSchedule'', taintTimeAdded = None\<rparr>"

theorem taint_operations_refine_sets_witness:
  "clusterTaints memNode (snd (run_state (EnsureNodeTaint memClient ''n1'' noGPUTaint) oneNode))
     = insert (''n1'', ''k'', ''v'', ''NoSchedule'') (clusterTaints memNode oneNode)"
proof -
  have mark: "taintMark noGPUTaint = (''k'', ''v'', ''NoSchedule'')" by (simp add: taintMark_def noGPUTaint_def)
  have "fst (run_state (EnsureNodeTaint memClient ''n1'' noGPUTaint) oneNode) = Inr True"
    by (simp add: EnsureNodeTaint_def memClient_def memUpdateNode_def oneNode_def findRes_def hasTaint_def)
  then show ?thesis
    using taint_operations_refine_sets [OF memNodes.node_store_axioms surjective_pairing surjective_pairing,
        of "''n1''" noGPUTaint oneNode]
    unfolding mark by simp
qed

section \<open>Which pods a drain removes\<close>

text \<open>A pod a full-node drain leaves alone.\<close>

definition drainExempt :: "string \<Rightarrow> string list \<Rightarrow> pod \<Rightarrow> bool" where
  "drainExempt operatorNamespace skipNamespaces p \<longleftrightarrow>
     podNamespace p = operatorNamespace \<or> podNamespace p \<in> set skipNamespaces
     \<or> mirrorPodAnnotation \<in> set (podAnnotations p) \<or> ''DaemonSet'' \<in> set (podOwnerKinds p)
     \<or> podPhase p = ''Succeeded'' \<or> podPhase p = ''Failed''"

lemma never_evicts_iff:
  "snd (DrainNeverEvicts p ons skip) \<longleftrightarrow> podNamespace p = ons \<or> podNamespace p \<in> set skip
     \<or> mirrorPodAnnotation \<in> set (podAnnotations p) \<or> ''DaemonSet'' \<in> set (podOwnerKinds p)"
  by (simp add: DrainNeverEvicts_def list_ex_iff)

lemma classify_iff:
  "fst (classifyPodForDrain p ons skip) =
     (if drainExempt ons skip p then drainIgnore else if podDeleting p then drainAwait else drainEvict)"
  using never_evicts_iff [of p ons skip]
  by (auto simp: classifyPodForDrain_def drainExempt_def split: prod.splits bool.splits)

text \<open>
  The pods \<^verbatim>\<open>PodsBlockingDrain\<close> reports are exactly the pods listed on the node that are not
  exempt, those already terminating apart from those to evict, in the order of the listing; it fails
  exactly when the listing fails. In particular the operator's own pods, DaemonSet and static pods,
  pods of skipped namespaces and finished pods are never evicted.
\<close>

theorem drain_targets:
  "run_state (PodsBlockingDrain C n ons skip) w =
     (case run_state (cListPodsOnNode C n) w of
        (Inl e, w') \<Rightarrow> (Inl (wrapErr (''failed to list pods on node '' @ n) e), w')
      | (Inr ps, w') \<Rightarrow>
          (Inr (filter (\<lambda>p. \<not> drainExempt ons skip p \<and> \<not> podDeleting p) ps,
                filter (\<lambda>p. \<not> drainExempt ons skip p \<and> podDeleting p) ps), w'))"
proof -
  have "(\<lambda>p. fst (classifyPodForDrain p ons skip) = drainEvict) = (\<lambda>p. \<not> drainExempt ons skip p \<and> \<not> podDeleting p)"
    "(\<lambda>p. fst (classifyPodForDrain p ons skip) = drainAwait) = (\<lambda>p. \<not> drainExempt ons skip p \<and> podDeleting p)"
    by (auto simp: classify_iff fun_eq_iff)
  moreover obtain r w' where "run_state (cListPodsOnNode C n) w = (r, w')" by fastforce
  ultimately show ?thesis by (cases r) (simp_all add: PodsBlockingDrain_def podsOnNode_def)
qed

section \<open>Evicting\<close>

text \<open>A refusal that is not an error: the pod is gone, or a disruption budget asks to wait.\<close>

definition curable :: "go_error option \<Rightarrow> bool" where
  "curable r = (case r of None \<Rightarrow> True | Some e \<Rightarrow> reason e = NotFound \<or> reason e = TooManyRequests)"

definition samePod :: "pod \<Rightarrow> pod \<Rightarrow> bool" where
  "samePod p x \<longleftrightarrow> podName x = podName p \<and> podNamespace x = podNamespace p"

lemma fst_evictAll:
  assumes "\<And>p w. fst (run_state (cEvict C p) w) = reply p"
  shows "fst (run_state (evictAll C ps) w) = [] \<longleftrightarrow> (\<forall>p \<in> set ps. podDeleting p \<or> curable (reply p))"
proof (induction ps arbitrary: w)
  case (Cons p ps)
  show ?case
  proof (cases "podDeleting p")
    case False
    obtain r w1 where e: "run_state (cEvict C p) w = (r, w1)" by fastforce
    then have r: "r = reply p" using assms [of p w] by simp
    obtain es w2 where rest: "run_state (evictAll C ps) w1 = (es, w2)" by fastforce
    then have "es = [] \<longleftrightarrow> (\<forall>p \<in> set ps. podDeleting p \<or> curable (reply p))" using Cons.IH [of w1] by simp
    then show ?thesis using False e rest r by (auto simp: evictPod_def curable_def split: option.splits)
  qed (simp add: Cons.IH)
qed simp

text \<open>
  \<^verbatim>\<open>EvictPods\<close> reports an error exactly when the eviction of some pod that is not already
  terminating is refused for a reason other than \<open>NotFound\<close> and \<open>TooManyRequests\<close>; pods that are
  gone or held by a disruption budget are left to the next pass.
\<close>

theorem evict_reports_incurable:
  assumes "\<And>p w. fst (run_state (cEvict C p) w) = reply p"
  shows "fst (run_state (EvictPods C ps) w) = None \<longleftrightarrow> list_all (\<lambda>p. podDeleting p \<or> curable (reply p)) ps"
proof -
  have "fst (run_state (EvictPods C ps) w) = joinErrs (fst (run_state (evictAll C ps) w))"
    by (simp add: EvictPods_def split: prod.splits)
  then show ?thesis using fst_evictAll [OF assms, of ps w] by (simp add: joinErrs_def list_all_iff)
qed

text \<open>A client that refuses the eviction of pods in \<^verbatim>\<open>kube-system\<close>.\<close>

definition guardedClient :: "mem client" where
  "guardedClient = memClient\<lparr>cEvict := (\<lambda>p. State_Monad.return
     (if podNamespace p = ''kube-system'' then Some (newErr ''forbidden'')
      else if podNamespace p = ''db'' then Some (Err TooManyRequests ''budget'') else None))\<rparr>"

theorem evict_reports_incurable_witness:
  "fst (run_state (EvictPods guardedClient [plainPod ''app'' ''a'', plainPod ''db'' ''b'']) oneNode) = None
   \<and> fst (run_state (EvictPods guardedClient [plainPod ''app'' ''a'', plainPod ''kube-system'' ''c'']) oneNode) \<noteq> None"
proof -
  define reply where "reply p = (if podNamespace p = ''kube-system'' then Some (newErr ''forbidden'')
      else if podNamespace p = ''db'' then Some (Err TooManyRequests ''budget'') else None)" for p :: pod
  have "fst (run_state (cEvict guardedClient p) w) = reply p" for p w
    by (simp add: guardedClient_def reply_def)
  note ev = evict_reports_incurable [of guardedClient reply, OF this]
  show ?thesis unfolding ev by (simp add: reply_def plainPod_def curable_def newErr_def)
qed

lemma run_evictPod_mem:
  "run_state (evictPod memClient p) m =
     (if mPDB m p then (Some (wrapErr (''failed to evict pod '' @ podNamespace p @ ''/'' @ podName p)
                          (Err TooManyRequests ''disruption budget'')), m)
      else (None, m\<lparr>mPods := map (\<lambda>x. if samePod p x then x\<lparr>podDeleting := True\<rparr> else x) (mPods m)\<rparr>))"
  by (simp add: evictPod_def memClient_def memEvict_def samePod_def)

definition evicted :: "(pod \<Rightarrow> bool) \<Rightarrow> pod list \<Rightarrow> pod \<Rightarrow> bool" where
  "evicted pdb ps x \<longleftrightarrow> list_ex (\<lambda>p. samePod p x \<and> \<not> podDeleting p \<and> \<not> pdb p) ps"

lemma evicted_deleting: "evicted pdb ps (x\<lparr>podDeleting := b\<rparr>) = evicted pdb ps x"
  by (simp add: evicted_def samePod_def)

lemma run_evictAll_mem:
  "run_state (evictAll memClient ps) m =
     ([], m\<lparr>mPods := map (\<lambda>x. if evicted (mPDB m) ps x then x\<lparr>podDeleting := True\<rparr> else x) (mPods m)\<rparr>)"
proof (induction ps arbitrary: m)
  case Nil
  then show ?case by (simp add: evicted_def map_idI)
next
  case (Cons p ps)
  then show ?case
    by (auto simp: run_evictPod_mem evicted_deleting) (auto simp: evicted_def)
qed

text \<open>
  On an API server where nothing else interferes, one eviction pass over a list of pods marks
  exactly those pods for deletion that are on the list, not yet terminating and not protected by a
  disruption budget, and reports no error.
\<close>

theorem evict_marks_pods:
  "run_state (EvictPods memClient ps) m =
     (None, m\<lparr>mPods := map (\<lambda>x. if list_ex (\<lambda>p. samePod p x \<and> \<not> podDeleting p \<and> \<not> mPDB m p) ps
                             then x\<lparr>podDeleting := True\<rparr> else x) (mPods m)\<rparr>)"
  by (simp add: EvictPods_def run_evictAll_mem joinErrs_def evicted_def)

end
