(* ===== verification/RecoveryHolds.thy ===== *)
theory RecoveryHolds
  imports RecoveryMem DrainGuarantees
begin

text \<open>
  How the recovery controller holds nodes: which taints a pass may release, when a node counts as
  drained, and that the controller comes back while work is under way.
\<close>

section \<open>Taints\<close>

text \<open>
  C9. Releasing the nodes of finished recoveries never frees a node that is still wanted: the nodes
  of events that are draining, running a Job or held back before a drain keep every taint they had,
  taints of other plans and other owners stay everywhere, and no taint is added.
\<close>

theorem wanted_nodes_stay_held:
  assumes "recovery_nodes E nodeOf" "run_state (reconcileDrainTaints E p) w = (q, w')"
  shows "clusterTaints nodeOf w' \<subseteq> clusterTaints nodeOf w
    \<and> {x \<in> clusterTaints nodeOf w. snd x \<noteq> taintMark (recoveryTaint (plName p))
          \<or> fst x \<in> evNodeName ` {e \<in> set (events p). wantsTaint p e}} \<subseteq> clusterTaints nodeOf w'"
proof -
  let ?keep = "set (map evNodeName (filter (wantsTaint p) (events p)))"
  have r: "released nodeOf (recoveryTaint (plName p)) ?keep w w'"
    using recovery_nodes.released_untaintNodesExcept [OF assms(1)] assms(2) by (simp add: reconcileDrainTaints_def)
  have keep: "?keep = evNodeName ` {e \<in> set (events p). wantsTaint p e}" by auto
  show ?thesis
  proof (intro conjI subsetI)
    fix x assume "x \<in> clusterTaints nodeOf w'"
    then obtain n t where "x = (n, taintMark t)" "carriesTaint nodeOf w' n t" by (auto simp: clusterTaints_def)
    then show "x \<in> clusterTaints nodeOf w" using r by (simp add: clusterTaints_iff released_def)
  next
    fix x assume x: "x \<in> {x \<in> clusterTaints nodeOf w. snd x \<noteq> taintMark (recoveryTaint (plName p))
          \<or> fst x \<in> evNodeName ` {e \<in> set (events p). wantsTaint p e}}"
    then obtain n t where nt: "x = (n, taintMark t)" "carriesTaint nodeOf w n t" by (auto simp: clusterTaints_def)
    then have "n \<in> ?keep \<or> \<not> taintsEqual (recoveryTaint (plName p)) t"
      using x unfolding keep by (auto simp: taintMark_eq taintsEqual_sym)
    then have "carriesTaint nodeOf w' n t" using r nt(2) unfolding released_def by blast
    then show "x \<in> clusterTaints nodeOf w'" by (simp add: nt(1) clusterTaints_iff)
  qed
qed

definition heldCluster :: planMem where
  "heldCluster = (memCluster [] (newPlan [] []))\<lparr>mNodes := [memNode1\<lparr>nodeTaints := [recoveryTaint ''plan'']\<rparr>]\<rparr>"

lemma heldCluster_tainted: "(''n1'', taintMark (recoveryTaint ''plan'')) \<in> clusterTaints memNode heldCluster"
  unfolding clusterTaints_iff by code_simp

theorem wanted_nodes_stay_held_witness:
  "(''n1'', taintMark (recoveryTaint ''plan''))
     \<in> clusterTaints memNode (snd (run_state (reconcileDrainTaints memEnv (newPlan [] [wedgedEvent InProgress])) heldCluster))"
proof -
  let ?p = "newPlan [] [wedgedEvent InProgress]"
  have "wedgedEvent InProgress \<in> {e \<in> set (events ?p). wantsTaint ?p e}" "evNodeName (wedgedEvent InProgress) = ''n1''"
    by (simp_all add: newPlan_def wantsTaint_def) (simp_all add: wedgedEvent_def newEvent_def)
  then have "''n1'' \<in> evNodeName ` {e \<in> set (events ?p). wantsTaint ?p e}" by (metis imageI)
  then have "(''n1'', taintMark (recoveryTaint ''plan'')) \<in> {x \<in> clusterTaints memNode heldCluster.
      snd x \<noteq> taintMark (recoveryTaint (plName ?p)) \<or> fst x \<in> evNodeName ` {e \<in> set (events ?p). wantsTaint ?p e}}"
    using heldCluster_tainted by simp
  then show ?thesis
    using wanted_nodes_stay_held [OF memHold.recovery_nodes_axioms surjective_pairing, of ?p heldCluster] by blast
qed

text \<open>
  C10. When the calls on Nodes succeed, a pass ends with the plan's taint on no node without an
  event that wants it, so no node is kept out of service after its last recovery.
\<close>

theorem unwanted_nodes_released:
  assumes "recovery_nodes_reliable E nodeOf" "run_state (reconcileDrainTaints E p) w = (q, w')"
    and "(n, taintMark (recoveryTaint (plName p))) \<in> clusterTaints nodeOf w'"
  shows "\<exists>e \<in> set (events p). wantsTaint p e \<and> evNodeName e = n"
proof (rule ccontr)
  assume "\<not> ?thesis"
  then have "n \<notin> set (map evNodeName (filter (wantsTaint p) (events p)))" by auto
  then show False
    using recovery_nodes_reliable.untaintNodesExcept_gone [OF assms(1) assms(2) [unfolded reconcileDrainTaints_def] _ nt.same_refl]
      assms(3) by (simp add: clusterTaints_iff)
qed

theorem unwanted_nodes_released_witness:
  "(''n1'', taintMark (recoveryTaint ''plan''))
     \<notin> clusterTaints memNode (snd (run_state (reconcileDrainTaints memEnv (newPlan [] [wedgedEvent Succeeded])) heldCluster))"
proof
  let ?p = "newPlan [] [wedgedEvent Succeeded]"
  assume "(''n1'', taintMark (recoveryTaint ''plan''))
     \<in> clusterTaints memNode (snd (run_state (reconcileDrainTaints memEnv ?p) heldCluster))"
  moreover have "plName ?p = ''plan''" by (simp add: newPlan_def)
  ultimately obtain e where "e \<in> set (events ?p)" "wantsTaint ?p e"
    using unwanted_nodes_released [OF memHold.recovery_nodes_reliable_axioms surjective_pairing, of "''n1''" ?p heldCluster]
    by metis
  then show False by (simp add: newPlan_def wedgedEvent_def newEvent_def wantsTaint_def)
qed

section \<open>When a node counts as drained\<close>

lemma sort_empty_iff: "sort xs = [] \<longleftrightarrow> xs = []"
  by (metis length_sort length_0_conv)

text \<open>
  C8. A reset starts only on a drained node: a drain pass reports ready only if it put the taint on
  the node first and then saw, in one listing of the node's pods, none but pods exempt from the
  drain, and found no ResourceClaim holding the device for a pod that can be moved; the event then
  carries no recorded blocker.
\<close>

theorem ready_means_drained:
  assumes "run_state (drainNodeForEvent E p e) w = ((e', Inr True), w')"
  shows "\<exists>b w1 ps w2 w3 w4.
      run_state (EnsureNodeTaint E (evNodeName e) (recoveryTaint (plName p))) w = (Inr b, w1)
    \<and> run_state (cListPodsOnNode E (evNodeName e)) w1 = (Inr ps, w2)
    \<and> list_all (drainExempt (rNamespace E) (dsNamespacesToSkip (spDrain (plSpec p)))) ps
    \<and> run_state (claimsHoldingDevice E p e) w3 = (Inr [], w4)
    \<and> evPodsBlockingDrain e' = [] \<and> evClaimsBlockingReset e' = []"
proof -
  let ?skip = "dsNamespacesToSkip (spDrain (plSpec p))"
  obtain t w1 where t: "run_state (EnsureNodeTaint E (evNodeName e) (recoveryTaint (plName p))) w = (t, w1)" by fastforce
  obtain b where b: "t = Inr b" using assms t by (cases t) (auto simp: drainNodeForEvent_def)
  obtain r w2 where l: "run_state (cListPodsOnNode E (evNodeName e)) w1 = (r, w2)" by fastforce
  note bl = drain_targets [of E "evNodeName e" "rNamespace E" ?skip w1, unfolded l prod.case]
  obtain ps where ps: "r = Inr ps" using assms t b bl by (cases r) (auto simp: drainNodeForEvent_def)
  define ev aw where "ev = filter (\<lambda>p. \<not> drainExempt (rNamespace E) ?skip p \<and> \<not> podDeleting p) ps"
    and "aw = filter (\<lambda>p. \<not> drainExempt (rNamespace E) ?skip p \<and> podDeleting p) ps"
  have bl': "run_state (PodsBlockingDrain E (evNodeName e) (rNamespace E) ?skip) w1 = (Inr (ev, aw), w2)"
    using bl ps by (simp add: ev_def aw_def)
  obtain x w3 where x: "run_state (EvictPods E ev) w2 = (x, w3)" by fastforce
  obtain c w4 where c: "run_state (claimsHoldingDevice E p e) w3 = (c, w4)" by fastforce
  obtain claims where cl: "c = Inr claims" "ev @ aw = []" "claims = []"
    using assms t b bl' x c by (cases c) (auto simp: drainNodeForEvent_def Let_def sort_empty_iff)
  have "list_all (drainExempt (rNamespace E) ?skip) ps"
    using cl(2) by (auto simp: ev_def aw_def filter_empty_conv list_all_iff)
  moreover have "evPodsBlockingDrain e' = [] \<and> evClaimsBlockingReset e' = []"
    using returnsD [OF returns_drainNodeForEvent assms] by (simp add: drainPass_def)
  ultimately show ?thesis using t b l ps c cl by blast
qed

definition drainRun :: "(event \<times> bool res) \<times> planMem" where
  "drainRun = run_state (drainNodeForEvent memEnv (newPlan [] []) (wedgedEvent Draining))
     (memCluster [wedgedSlice] (newPlan [] []))"

theorem ready_means_drained_witness:
  "snd (fst drainRun) = Inr True \<and> evPodsBlockingDrain (fst (fst drainRun)) = []
     \<and> evClaimsBlockingReset (fst (fst drainRun)) = []"
proof -
  have ok: "snd (fst drainRun) = Inr True" by code_simp
  then have run: "run_state (drainNodeForEvent memEnv (newPlan [] []) (wedgedEvent Draining))
     (memCluster [wedgedSlice] (newPlan [] [])) = ((fst (fst drainRun), Inr True), snd drainRun)"
    unfolding drainRun_def by (metis prod.collapse)
  show ?thesis using ready_means_drained [OF run] ok by blast
qed

section \<open>Coming back\<close>

lemma finishPass_state:
  assumes "run_state (finishPass E p) w = ((q, res), w')"
  shows "res = Inr (if hasActiveJobs q then Some (rRequeueDelay E) else None)"
    "stState (plStatus q) = (if list_ex (eventStuck q) (events q) then PlanStateError
       else if list_ex (eventActive q) (events q) then PlanStateActive else PlanStateIdle)"
proof -
  obtain p1 w1 where run: "run_state (reconcileDrainTaints E (pruneConsumedApprovals p)) w = (p1, w1)" by fastforce
  then have q: "q = updatePlanState p1" "res = Inr (if hasActiveJobs q then Some (rRequeueDelay E) else None)"
    using assms by (auto simp: finishPass_def Let_def)
  have same: "eventStuck q e = eventStuck p1 e" "eventActive q e = eventActive p1 e" for e
    by (simp_all add: q(1) updatePlanState_def eventStuck_def eventActive_def heldForImage_def)
  show "res = Inr (if hasActiveJobs q then Some (rRequeueDelay E) else None)" by (rule q(2))
  have "events q = events p1" by (simp add: q(1) updatePlanState_def)
  then show "stState (plStatus q) = (if list_ex (eventStuck q) (events q) then PlanStateError
       else if list_ex (eventActive q) (events q) then PlanStateActive else PlanStateIdle)"
    unfolding same by (simp add: q(1) updatePlanState_def)
qed

text \<open>
  C14. When the phases of a pass have run, the controller asks to be called again exactly when some
  event drains, runs a Job or is held back, and the plan's state says what is needed: an error when
  some event failed, lacks firmware or is held by an unusable image, active when some event moves or
  waits for approval, idle otherwise.
\<close>

theorem pass_comes_back:
  assumes "run_state (runPhases E p) w = ((q, res), w')"
  shows "res = Inr (if list_ex (\<lambda>e. evState e \<in> {Draining, InProgress, Blocked}) (events q)
                   then Some (rRequeueDelay E) else None)
    \<and> (stState (plStatus q) = PlanStateError \<longleftrightarrow> list_ex (\<lambda>e. evState e \<in> {MissingFirmware, Failed}
          \<or> evState e = WaitingApproval \<and> heldForImage q e) (events q))
    \<and> (stState (plStatus q) = PlanStateIdle \<longleftrightarrow> list_all (\<lambda>e. evState e = Succeeded) (events q))"
proof -
  obtain p3 w3 where fin: "run_state (finishPass E p3) w3 = ((q, res), w')"
    using assms by (auto simp: runPhases_def split: prod.splits)
  note st = finishPass_state [OF fin]
  have "hasActiveJobs q \<longleftrightarrow> list_ex (\<lambda>e. evState e \<in> {Draining, InProgress, Blocked}) (events q)"
    by (auto simp: hasActiveJobs_def list_ex_iff)
  moreover have settled: "evState e = Succeeded \<longleftrightarrow> \<not> eventStuck q e \<and> \<not> eventActive q e" for e
    by (cases "evState e") (simp_all add: eventStuck_def eventActive_def)
  have "list_all (\<lambda>e. evState e = Succeeded) (events q)
      \<longleftrightarrow> \<not> list_ex (eventStuck q) (events q) \<and> \<not> list_ex (eventActive q) (events q)"
    unfolding list_all_iff list_ex_iff using settled by blast
  ultimately show ?thesis using st by (simp add: eventStuck_def [abs_def])
qed

definition phasesRun :: "(plan \<times> result res) \<times> planMem" where
  "phasesRun = run_state (runPhases memEnv (newPlan [] [wedgedEvent Blocked])) (memCluster [wedgedSlice] (newPlan [] []))"

theorem pass_comes_back_witness: "snd (fst phasesRun) = Inr (Some 30)"
proof -
  have run: "run_state (runPhases memEnv (newPlan [] [wedgedEvent Blocked])) (memCluster [wedgedSlice] (newPlan [] []))
      = ((fst (fst phasesRun), snd (fst phasesRun)), snd phasesRun)"
    by (simp add: phasesRun_def)
  have "map evState (events (fst (fst phasesRun))) = [Blocked]" by code_simp
  then have "list_ex (\<lambda>e. evState e \<in> {Draining, InProgress, Blocked}) (events (fst (fst phasesRun)))"
    by (auto simp: map_eq_Cons_conv)
  moreover have "rRequeueDelay memEnv = 30" by (simp add: memEnv_def)
  ultimately show ?thesis using pass_comes_back [OF run] by simp
qed

end
