(* ===== verification/RecoveryAdmission.thy ===== *)
theory RecoveryAdmission
  imports RecoveryIdentity
begin

text \<open>
  What the admission webhooks of GPURecoveryPlan promise: the validator accepts exactly the specs of
  a declarative description, an update cannot change the firmware under a running reflash, and the
  defaulter gives every approval an ID of its own.
\<close>

section \<open>Validation\<close>

definition acceptableApproval :: "('w, 'x) webhookLib_scheme \<Rightarrow> approval \<Rightarrow> bool" where
  "acceptableApproval L a \<longleftrightarrow> wfApproval a
     \<and> (\<forall>s. apSelector a = Some s \<longrightarrow> selNodeSelector s = [] \<or> wValidSelector L (selNodeSelector s) = None)"

definition acceptableFirmware :: "('w, 'x) webhookLib_scheme \<Rightarrow> FirmwareSpec \<Rightarrow> bool" where
  "acceptableFirmware L fw \<longleftrightarrow>
     (fsContainerSource (fwSource fw) \<noteq> None \<or> fsVolumeSource (fwSource fw) \<noteq> None)
     \<and> (\<forall>cs. fsContainerSource (fwSource fw) = Some cs \<longrightarrow> csName cs \<noteq> '''' \<and> wParseReference L (csName cs) = None)
     \<and> fsVolumeSource (fwSource fw) \<noteq> Some ''''
     \<and> filepathBase (fwFile fw) = fwFile fw \<and> firmwareFileNamePattern (fwFile fw)"

definition acceptable :: "('w, 'x) webhookLib_scheme \<Rightarrow> GPURecoveryPlanSpec \<Rightarrow> bool" where
  "acceptable L sp \<longleftrightarrow>
     pciIDPattern (spDeviceID sp) \<and> spDefaultResetType sp \<in> {SBR, Slot, AMC}
     \<and> (spSubDeviceID sp = '''' \<or> pciIDPattern (spSubDeviceID sp))
     \<and> (spSubVendorID sp = '''' \<or> pciIDPattern (spSubVendorID sp))
     \<and> (\<forall>a \<in> set (spApprovals sp). acceptableApproval L a)
     \<and> distinct (filter (\<lambda>x. x \<noteq> '''') (map apID (spApprovals sp)))
     \<and> distinct (dsNamespacesToSkip (spDrain sp))
     \<and> (\<forall>ns \<in> set (dsNamespacesToSkip (spDrain sp)). wDNS1123Label L ns = [])
     \<and> xsImage (spXpuSmi sp) \<noteq> '''' \<and> wParseReference L (xsImage (spXpuSmi sp)) = None
     \<and> (\<forall>fw. spFirmware sp = Some fw \<longrightarrow> acceptableFirmware L fw)"

lemma validateApprovalsFrom_iff:
  "validateApprovalsFrom L i seen as = None \<longleftrightarrow>
     (\<forall>a \<in> set as. acceptableApproval L a)
     \<and> distinct (filter (\<lambda>x. x \<noteq> '''') (map apID as))
     \<and> set (filter (\<lambda>x. x \<noteq> '''') (map apID as)) \<inter> seen = {}"
proof (induction as arbitrary: i seen)
  case (Cons a as)
  let ?seen = "if apID a \<noteq> '''' then insert (apID a) seen else seen"
  have "validateApprovalsFrom L i seen (a # as) = None \<longleftrightarrow>
      acceptableApproval L a \<and> (apID a \<noteq> '''' \<longrightarrow> apID a \<notin> seen) \<and> validateApprovalsFrom L (Suc i) ?seen as = None"
    by (auto simp: Let_def acceptableApproval_def wfApproval_def split: if_splits option.splits)
  also have "\<dots> \<longleftrightarrow> (\<forall>b \<in> set (a # as). acceptableApproval L b)
     \<and> distinct (filter (\<lambda>x. x \<noteq> '''') (map apID (a # as)))
     \<and> set (filter (\<lambda>x. x \<noteq> '''') (map apID (a # as))) \<inter> seen = {}"
    unfolding Cons.IH by (cases "apID a = ''''") auto
  finally show ?case .
qed simp

lemma validateNamespacesFrom_iff:
  "validateNamespacesFrom L i seen nss = None \<longleftrightarrow>
     distinct nss \<and> set nss \<inter> seen = {} \<and> (\<forall>ns \<in> set nss. wDNS1123Label L ns = [])"
  by (induction L i seen nss rule: validateNamespacesFrom.induct) auto

lemma validateFirmware_iff: "validateFirmware L fw = None \<longleftrightarrow> acceptableFirmware L fw"
proof -
  have "firmwareFileNamePattern (fwFile fw) \<Longrightarrow> fwFile fw \<noteq> ''''" by (auto simp: firmwareFileNamePattern_def)
  then show ?thesis
    by (auto simp: validateFirmware_def acceptableFirmware_def Let_def split: option.splits)
qed

lemma no_error:
  "(if b then Some e else y) = None \<longleftrightarrow> \<not> b \<and> y = None"
  "(case x of Some e' \<Rightarrow> Some (f e') | None \<Rightarrow> y) = None \<longleftrightarrow> x = None \<and> y = None"
  "(case z of None \<Rightarrow> None | Some v \<Rightarrow> g v) = None \<longleftrightarrow> (\<forall>v. z = Some v \<longrightarrow> g v = None)"
  by (auto split: option.splits)

lemma validateRecoveryPlanSpec_iff: "validateRecoveryPlanSpec L sp = None \<longleftrightarrow> acceptable L sp"
proof -
  have ne: "\<not> pciIDPattern ''''" by (simp add: pciIDPattern_def)
  have rt: "\<not> rt = noType \<and> \<not> (rt \<noteq> Slot \<and> rt \<noteq> AMC \<and> rt \<noteq> SBR) \<longleftrightarrow> rt \<in> {SBR, Slot, AMC}" for rt by auto
  show ?thesis
    unfolding validateRecoveryPlanSpec_def acceptable_def no_error validateApprovals_def validateDrain_def
      validateApprovalsFrom_iff validateNamespacesFrom_iff validateFirmware_iff rt [symmetric]
      Int_empty_right simp_thms conj_assoc de_Morgan_conj not_not
    by (intro iffI; elim conjE; intro conjI; (assumption | use ne in force))
qed

text \<open>
  C19. The validator accepts a new plan exactly when its spec is acceptable: PCI IDs in the form the
  drivers report, a default reset that is a reset, approvals that name an event or carry a valid
  selector but not both, whose IDs do not repeat, namespaces that are distinct valid labels, an
  image that parses, and firmware from a named source whose file is a plain file name.
\<close>

theorem create_accepts_iff: "ValidateCreate L po = None \<longleftrightarrow> (\<exists>p. po = Some p \<and> acceptable L (plSpec p))"
  by (simp add: ValidateCreate_def validateRecoveryPlanSpec_iff split: option.splits)

text \<open>
  An update is accepted exactly when the new spec is acceptable or the plan is being deleted,
  so that its finalizer can always be removed, and the firmware stays the same while a reflash of
  the old plan is running or held back.
\<close>

theorem update_keeps_firmware:
  "ValidateUpdate L (Some old) (Some new) = None \<longleftrightarrow>
     (plDeleting new \<or> acceptable L (plSpec new))
     \<and> (firmwareUpdateActive old \<longrightarrow> spFirmware (plSpec new) = spFirmware (plSpec old))"
proof -
  have "(if \<not> plDeleting new then validateRecoveryPlanSpec L (plSpec new) else None) = None
      \<longleftrightarrow> plDeleting new \<or> acceptable L (plSpec new)"
    by (simp add: validateRecoveryPlanSpec_iff)
  then show ?thesis unfolding ValidateUpdate_def prod.case option.case no_error by auto
qed

theorem update_keeps_firmware_witness:
  "ValidateUpdate lenientLib (Some reflashPlan) (Some (reflashPlan\<lparr>plDeleting := True\<rparr>)) = None"
  unfolding update_keeps_firmware by simp

section \<open>Defaulting\<close>

text \<open>The approval \<open>b\<close> is \<open>a\<close>, with an ID outside \<open>present\<close> if it had none.\<close>

definition filledFrom :: "string set \<Rightarrow> approval \<Rightarrow> approval \<Rightarrow> bool" where
  "filledFrom present a b \<longleftrightarrow>
     (if apID a \<noteq> '''' then b = a else b = a\<lparr>apID := apID b\<rparr> \<and> apID b \<noteq> '''' \<and> apID b \<notin> present)"

abbreviation givenIDs :: "approval list \<Rightarrow> string list" where
  "givenIDs as \<equiv> filter (\<lambda>x. x \<noteq> '''') (map apID as)"

text \<open>The IDs of the approvals of \<open>bs\<close> that stand where those of \<open>as\<close> had none.\<close>

definition newIDs :: "approval list \<Rightarrow> approval list \<Rightarrow> string list" where
  "newIDs as bs = map (\<lambda>(a, b). apID b) (filter (\<lambda>(a, b). apID a = '''') (zip as bs))"

lemma newIDs_Cons [simp]:
  "newIDs [] bs = []" "newIDs (a # as) (b # bs) = (if apID a = '''' then [apID b] else []) @ newIDs as bs"
  by (simp_all add: newIDs_def)

definition filled :: "approval list \<Rightarrow> string set \<Rightarrow> approval list \<Rightarrow> bool" where
  "filled as present bs \<longleftrightarrow> list_all2 (filledFrom present) as bs \<and> distinct (newIDs as bs)
     \<and> (distinct (givenIDs as) \<and> set (givenIDs as) \<subseteq> present \<longrightarrow> distinct (map apID bs))"

lemma returns_generateApprovalIDTries:
  "returns (\<lambda>r. \<forall>i. r = Inr i \<longrightarrow> i \<noteq> '''' \<and> i \<notin> present) (generateApprovalIDTries L n present)"
proof (induction n)
  case (Suc n)
  then show ?case
    by (auto simp: Let_def approvalPrefix_def intro!: returns_bind_any returns_case_sum)
qed simp

lemma filledFrom_mono: "filledFrom (insert x present) a b \<Longrightarrow> filledFrom present a b"
  by (auto simp: filledFrom_def split: if_splits)

lemma filledFrom_ids:
  assumes "list_all2 (filledFrom present) as bs" "i \<in> set (map apID bs)"
  shows "i \<in> set (givenIDs as) \<or> i \<notin> present"
  using assms by (induction rule: list_all2_induct) (auto simp: filledFrom_def split: if_splits)

lemma filledFrom_new: "list_all2 (filledFrom present) as bs \<Longrightarrow> set (newIDs as bs) \<inter> present = {}"
  by (induction rule: list_all2_induct) (auto simp: filledFrom_def)

lemma filled_given: "filled as present bs \<Longrightarrow> apID a \<noteq> '''' \<Longrightarrow> filled (a # as) present (a # bs)"
  using filledFrom_ids [of present as bs "apID a"] by (auto simp: filled_def filledFrom_def)

lemma filled_new:
  assumes "filled as (insert i present) bs" "apID a = ''''" "i \<noteq> ''''" "i \<notin> present"
  shows "filled (a # as) present (a\<lparr>apID := i\<rparr> # bs)"
proof -
  have all: "list_all2 (filledFrom present) as bs"
    using assms(1) filledFrom_mono list_all2_mono unfolding filled_def by blast
  have "i \<notin> set (map apID bs)" if "set (givenIDs as) \<subseteq> present"
    using filledFrom_ids [of "insert i present" as bs i] assms(1,4) that by (auto simp: filled_def)
  moreover have "i \<notin> set (newIDs as bs)"
    using filledFrom_new [of "insert i present" as bs] assms(1) by (auto simp: filled_def)
  ultimately show ?thesis using assms all by (auto simp: filled_def filledFrom_def)
qed

lemma returns_fillApprovalIDs:
  "returns (\<lambda>r. \<forall>bs. r = Inr bs \<longrightarrow> filled as present bs) (fillApprovalIDs L as present)"
proof (induction as arbitrary: present)
  case (Cons a as)
  have step: "returns (\<lambda>r. \<forall>bs. r = Inr bs \<longrightarrow> filled (a # as) present bs)
      (State_Monad.bind (fillApprovalIDs L as present') (\<lambda>rest. State_Monad.return (map_sum id (\<lambda>bs. b # bs) rest)))"
    if "\<And>bs. filled as present' bs \<Longrightarrow> filled (a # as) present (b # bs)" for b present'
    using that by (auto intro!: returns_bind_mono [OF Cons.IH] simp: map_sum_def split: sum.splits)
  show ?case
  proof (cases "apID a = ''''")
    case True
    then show ?thesis
      by (auto simp: generateApprovalID_def intro!: returns_bind_mono [OF returns_generateApprovalIDTries]
          returns_case_sum step filled_new)
  qed (simp add: step filled_given)
qed (simp add: filled_def)

lemma filledFrom_keeps: "filledFrom present a b \<Longrightarrow> b\<lparr>apID := ''''\<rparr> = a\<lparr>apID := ''''\<rparr> \<and> apID a \<in> {'''', apID b}"
  by (cases a; cases b) (auto simp: filledFrom_def split: if_splits)

lemma filledFrom_nonempty: "list_all2 (filledFrom present) as bs \<Longrightarrow> '''' \<notin> set (map apID bs)"
  by (induction rule: list_all2_induct) (auto simp: filledFrom_def split: if_splits)

lemma fillApprovalIDs_full:
  "'''' \<notin> set (map apID as) \<Longrightarrow> fillApprovalIDs L as present = State_Monad.return (Inr as)"
  by (induction as arbitrary: present) (auto simp: eq_commute)

lemma run_DefaultPlan:
  assumes "run_state (DefaultPlan L (Some p)) w = (Inr q, w')"
  obtains as where "filled (approvals p) (set (givenIDs (approvals p))) as"
    and "approvals q = as" and "setApprovals [] q = setApprovals []
      (p\<lparr>plSpec := (plSpec p)\<lparr>spXpuSmi := (spXpuSmi (plSpec p))\<lparr>xsPullPolicy := xsPullPolicy (spXpuSmi (plSpec q))\<rparr>\<rparr>\<rparr>)"
    and "xsPullPolicy (spXpuSmi (plSpec q)) = (if xsPullPolicy (spXpuSmi (plSpec p)) = '''' then ''IfNotPresent''
      else xsPullPolicy (spXpuSmi (plSpec p)))"
proof -
  let ?m = "fillApprovalIDs L (approvals p) (set (givenIDs (approvals p)))"
  obtain r w1 where run: "run_state ?m w = (r, w1)" by fastforce
  with assms obtain as where r: "r = Inr as"
    and q: "q = (let q = setApprovals as p; sp = plSpec q; xs = spXpuSmi sp
            in if xsPullPolicy xs = ''''
               then q\<lparr>plSpec := sp\<lparr>spXpuSmi := xs\<lparr>xsPullPolicy := ''IfNotPresent''\<rparr>\<rparr>\<rparr> else q)"
    by (cases r) (auto simp: DefaultPlan_def)
  have fl: "filled (approvals p) (set (givenIDs (approvals p))) as"
    using returnsD [OF returns_fillApprovalIDs run] r by blast
  show ?thesis
    by (rule that [OF fl]) (simp_all add: q Let_def setApprovals_def)
qed

text \<open>
  C20. When the defaulter succeeds, every approval has an ID: the approvals that came with one are
  as they were, and the others differ from what they were by an ID that no other approval generated
  or came with, so that all IDs are distinct when the given ones are. Of the rest of the plan
  nothing changes, but that an empty pull policy of the xpu-smi image becomes IfNotPresent. Running
  the defaulter again on the result changes nothing.
\<close>

theorem defaulted_plan:
  assumes "run_state (DefaultPlan L (Some p)) w = (Inr q, w')"
  shows "'''' \<notin> set (map apID (approvals q))
    \<and> list_all2 (\<lambda>a b. b\<lparr>apID := ''''\<rparr> = a\<lparr>apID := ''''\<rparr> \<and> apID a \<in> {'''', apID b}) (approvals p) (approvals q)
    \<and> distinct (newIDs (approvals p) (approvals q))
    \<and> set (newIDs (approvals p) (approvals q)) \<inter> set (givenIDs (approvals p)) = {}
    \<and> (distinct (givenIDs (approvals p)) \<longrightarrow> distinct (map apID (approvals q)))
    \<and> setApprovals [] q = setApprovals [] (p\<lparr>plSpec := (plSpec p)\<lparr>spXpuSmi :=
        (if xsPullPolicy (spXpuSmi (plSpec p)) = '''' then (spXpuSmi (plSpec p))\<lparr>xsPullPolicy := ''IfNotPresent''\<rparr>
         else spXpuSmi (plSpec p))\<rparr>\<rparr>)
    \<and> run_state (DefaultPlan L (Some q)) w2 = (Inr q, w2)"
proof (rule run_DefaultPlan [OF assms], intro conjI)
  fix as
  assume fl: "filled (approvals p) (set (givenIDs (approvals p))) as" and q: "approvals q = as"
    and sp: "setApprovals [] q = setApprovals []
      (p\<lparr>plSpec := (plSpec p)\<lparr>spXpuSmi := (spXpuSmi (plSpec p))\<lparr>xsPullPolicy := xsPullPolicy (spXpuSmi (plSpec q))\<rparr>\<rparr>\<rparr>)"
    and pol: "xsPullPolicy (spXpuSmi (plSpec q)) = (if xsPullPolicy (spXpuSmi (plSpec p)) = '''' then ''IfNotPresent''
      else xsPullPolicy (spXpuSmi (plSpec p)))"
  have all: "list_all2 (filledFrom (set (givenIDs (approvals p)))) (approvals p) (approvals q)"
    using fl unfolding filled_def q by blast
  show ids: "'''' \<notin> set (map apID (approvals q))" by (rule filledFrom_nonempty [OF all])
  show "list_all2 (\<lambda>a b. b\<lparr>apID := ''''\<rparr> = a\<lparr>apID := ''''\<rparr> \<and> apID a \<in> {'''', apID b}) (approvals p) (approvals q)"
    by (rule list_all2_mono [OF all]) (rule filledFrom_keeps)
  show "distinct (newIDs (approvals p) (approvals q))" using fl unfolding filled_def q by blast
  show "set (newIDs (approvals p) (approvals q)) \<inter> set (givenIDs (approvals p)) = {}" by (rule filledFrom_new [OF all])
  show "distinct (givenIDs (approvals p)) \<longrightarrow> distinct (map apID (approvals q))"
    using fl unfolding filled_def q by blast
  show "setApprovals [] q = setApprovals [] (p\<lparr>plSpec := (plSpec p)\<lparr>spXpuSmi :=
      (if xsPullPolicy (spXpuSmi (plSpec p)) = '''' then (spXpuSmi (plSpec p))\<lparr>xsPullPolicy := ''IfNotPresent''\<rparr>
       else spXpuSmi (plSpec p))\<rparr>\<rparr>)"
    using sp unfolding pol by (cases "xsPullPolicy (spXpuSmi (plSpec p)) = ''''") simp_all
  show "run_state (DefaultPlan L (Some q)) w2 = (Inr q, w2)"
    using pol unfolding DefaultPlan_def option.case fillApprovalIDs_full [OF ids]
    by (simp add: Let_def setApprovals_def)
qed

text \<open>
  A source of random bytes that counts, and a plan with two approvals without an ID; the first
  number drawn is already the ID of a third.
\<close>

definition countingLib :: "nat webhookLib" where
  "countingLib = \<lparr>wRandRead = State (\<lambda>n. (Inr [of_nat n], Suc n)), wParseReference = (\<lambda>s. None),
     wValidSelector = (\<lambda>l. None), wDNS1123Label = (\<lambda>s. [])\<rparr>"

definition approvalNamed :: "string \<Rightarrow> string \<Rightarrow> approval" where
  "approvalNamed i evt = \<lparr>apID = i, apEventID = evt, apSelector = None, apOverride = None,
     apPersistent = False, apConsumed = False, apComment = ''''\<rparr>"

definition approvedPlan :: "string \<Rightarrow> string \<Rightarrow> plan" where
  "approvedPlan i j = setApprovals [approvalNamed i ''e1'', approvalNamed ''app-05'' ''e2'', approvalNamed j ''e3''] reflashPlan"

theorem defaulted_plan_witness:
  "\<exists>q. run_state (DefaultPlan countingLib (Some (approvedPlan '''' ''''))) 5 = (Inr q, 8)
     \<and> map apID (approvals q) = [''app-06'', ''app-05'', ''app-07''] \<and> distinct (map apID (approvals q))
     \<and> run_state (DefaultPlan countingLib (Some q)) 5 = (Inr q, 5)"
proof -
  let ?p = "approvedPlan '''' ''''"
  let ?q = "(approvedPlan ''app-06'' ''app-07'')\<lparr>plSpec := (plSpec (approvedPlan ''app-06'' ''app-07''))\<lparr>spXpuSmi :=
     (spXpuSmi (plSpec reflashPlan))\<lparr>xsPullPolicy := ''IfNotPresent''\<rparr>\<rparr>\<rparr>"
  have hex: "hexEncode [5] = ''05''" "hexEncode [6] = ''06''" "hexEncode [7] = ''07''"
    by (simp_all add: hexEncode_def hexByte_def hexDigit_def)
  have tries: "(10::nat) = Suc (Suc 8)" by simp
  have gen: "run_state (generateApprovalID countingLib {''app-05''}) 5 = (Inr ''app-06'', 7)"
    "run_state (generateApprovalID countingLib {''app-06'', ''app-05''}) 7 = (Inr ''app-07'', 8)"
    unfolding generateApprovalID_def tries generateApprovalIDTries.simps
    by (simp_all add: countingLib_def hex approvalPrefix_def)
  have run: "run_state (DefaultPlan countingLib (Some ?p)) 5 = (Inr ?q, 8)"
    by (simp add: DefaultPlan_def approvedPlan_def setApprovals_def approvalNamed_def gen reflashPlan_def)
  have given: "distinct (givenIDs (approvals ?p))" by (simp add: approvedPlan_def setApprovals_def approvalNamed_def)
  have ids: "map apID (approvals ?q) = [''app-06'', ''app-05'', ''app-07'']"
    by (simp add: approvedPlan_def setApprovals_def approvalNamed_def)
  have "distinct (givenIDs (approvals ?p)) \<longrightarrow> distinct (map apID (approvals ?q))"
    using defaulted_plan [OF run, of 5] by (elim conjE)
  then have dist: "distinct (map apID (approvals ?q))" using given by (rule mp)
  have again: "run_state (DefaultPlan countingLib (Some ?q)) 5 = (Inr ?q, 5)"
    using defaulted_plan [OF run, of 5] by (elim conjE)
  show ?thesis by (intro exI conjI) (rule run ids dist again)+
qed

end
