(* ===== verification/FirmwareUpdate.thy ===== *)
theory FirmwareUpdate
  imports RecoveryWebhook
begin

text \<open>
  The GPUFirmwareUpdate custom resource and its admission webhook
  (\<^verbatim>\<open>api/v1alpha1/gpufirmwareupdate_types.go\<close>, \<^verbatim>\<open>gpufirmwareupdate_webhook.go\<close>). The file name and
  PCI ID patterns are those of the recovery plan's webhook, whose regular expressions are the same.
\<close>

section \<open>Types\<close>

text \<open>The state is a Go string; the values the controller uses are the constants below.\<close>

datatype fwState = StNotStarted | StDraining | StUpdating | StError | StCleanup | StComplete
  | StErrorCleanup | StCanaryDone | StOther string

definition fwStateString :: "fwState \<Rightarrow> string" where
  "fwStateString s = (case s of StNotStarted \<Rightarrow> '''' | StDraining \<Rightarrow> ''draining'' | StUpdating \<Rightarrow> ''updating''
     | StError \<Rightarrow> ''error'' | StCleanup \<Rightarrow> ''cleanup'' | StComplete \<Rightarrow> ''completed''
     | StErrorCleanup \<Rightarrow> ''error_cleanup'' | StCanaryDone \<Rightarrow> ''canary_done'' | StOther t \<Rightarrow> t)"

record GPUFirmwareFile =
  ffType :: string
  ffFileName :: string
  ffChecksum :: string

record GPUFirmwareContent =
  gcContainerImage :: string
  gcFiles :: "GPUFirmwareFile list"

text \<open>
  \<^verbatim>\<open>NodeSelector\<close> is optional: \<open>None\<close> is a nil map, \<open>Some m\<close> the map with the entries \<open>m\<close> in the
  order of their keys.
\<close>

record GPUFirmwareUpdateSpec =
  usContent :: GPUFirmwareContent
  usUpdateMethod :: string
  usUpdaterImage :: string
  usImagePullSecret :: string
  usPCIDeviceID :: string
  usUpdateTaint :: string
  usTolerations :: "toleration list"
  usNodeSelector :: "(string \<times> string) list option"
  usInsecureSkipTLSVerify :: bool
  usHoldAfterCanary :: bool

record GPUFirmwareUpdateSubsetStatus =
  niAll :: "string list"
  niPending :: "string list"
  niDraining :: "string list"
  niUpdating :: "string list"
  niCompleted :: "string list"
  niError :: "string list"
  niJobs :: "string list"

record GPUFirmwareUpdateStatus =
  ustState :: fwState
  ustMessages :: "string list"
  ustNodeInfos :: GPUFirmwareUpdateSubsetStatus

record GPUFirmwareUpdate =
  fuName :: string
  fuDeleting :: bool
  fuFinalizers :: "string list"
  fuSpec :: GPUFirmwareUpdateSpec
  fuStatus :: GPUFirmwareUpdateStatus

type_synonym fwUpdate = GPUFirmwareUpdate
type_synonym nodeInfos = GPUFirmwareUpdateSubsetStatus

abbreviation fuState :: "fwUpdate \<Rightarrow> fwState" where
  "fuState fu \<equiv> ustState (fuStatus fu)"

abbreviation nodeInfosOf :: "fwUpdate \<Rightarrow> nodeInfos" where
  "nodeInfosOf fu \<equiv> ustNodeInfos (fuStatus fu)"

definition setFuState :: "fwState \<Rightarrow> fwUpdate \<Rightarrow> fwUpdate" where
  "setFuState s fu = fu\<lparr>fuStatus := (fuStatus fu)\<lparr>ustState := s\<rparr>\<rparr>"

definition addFuMessage :: "string \<Rightarrow> fwUpdate \<Rightarrow> fwUpdate" where
  "addFuMessage m fu = fu\<lparr>fuStatus := (fuStatus fu)\<lparr>ustMessages := ustMessages (fuStatus fu) @ [m]\<rparr>\<rparr>"

definition onNodeInfos :: "(nodeInfos \<Rightarrow> nodeInfos) \<Rightarrow> fwUpdate \<Rightarrow> fwUpdate" where
  "onNodeInfos f fu = fu\<lparr>fuStatus := (fuStatus fu)\<lparr>ustNodeInfos := f (ustNodeInfos (fuStatus fu))\<rparr>\<rparr>"

lemma setFuState_frame [simp, frame_simps]:
  "fuState (setFuState s fu) = s" "nodeInfosOf (setFuState s fu) = nodeInfosOf fu"
  "fuSpec (setFuState s fu) = fuSpec fu" "fuName (setFuState s fu) = fuName fu"
  "fuDeleting (setFuState s fu) = fuDeleting fu" "fuFinalizers (setFuState s fu) = fuFinalizers fu"
  by (simp_all add: setFuState_def)

lemma addFuMessage_frame [simp, frame_simps]:
  "fuState (addFuMessage m fu) = fuState fu" "nodeInfosOf (addFuMessage m fu) = nodeInfosOf fu"
  "fuSpec (addFuMessage m fu) = fuSpec fu" "fuName (addFuMessage m fu) = fuName fu"
  "fuDeleting (addFuMessage m fu) = fuDeleting fu" "fuFinalizers (addFuMessage m fu) = fuFinalizers fu"
  by (simp_all add: addFuMessage_def)

lemma onNodeInfos_frame [simp, frame_simps]:
  "fuState (onNodeInfos f fu) = fuState fu" "nodeInfosOf (onNodeInfos f fu) = f (nodeInfosOf fu)"
  "fuSpec (onNodeInfos f fu) = fuSpec fu" "fuName (onNodeInfos f fu) = fuName fu"
  "fuDeleting (onNodeInfos f fu) = fuDeleting fu" "fuFinalizers (onNodeInfos f fu) = fuFinalizers fu"
  by (simp_all add: onNodeInfos_def)

section \<open>Webhook\<close>

datatype fwError =
    DuplicateFirmwareFile string
  | FirmwareFileHasPath string
  | FirmwareFileNameInvalid string
  | ChecksumUnsupported string string
  | ChecksumLength string string
  | ChecksumNeedsDigest string
  | PCIDeviceIDInvalid string
  | ImageEmpty
  | ImageInvalid string go_error
  | FieldImmutable string fwState

fun duplicateFile :: "string set \<Rightarrow> GPUFirmwareFile list \<Rightarrow> fwError option" where
  "duplicateFile seen [] = None"
| "duplicateFile seen (f # fs) =
     (if ffFileName f \<in> seen then Some (DuplicateFirmwareFile (ffFileName f))
      else duplicateFile (insert (ffFileName f) seen) fs)"

definition validateFile :: "GPUFirmwareFile \<Rightarrow> fwError option" where
  "validateFile f =
     (if filepathBase (ffFileName f) \<noteq> ffFileName f then Some (FirmwareFileHasPath (ffFileName f))
      else if \<not> firmwareFileNamePattern (ffFileName f) then Some (FirmwareFileNameInvalid (ffFileName f))
      else if ffChecksum f = '''' then None
      else if \<not> hasPrefix (ffChecksum f) ''sha256:''
      then Some (ChecksumUnsupported (ffFileName f) (ffChecksum f))
      else if length (ffChecksum f) \<noteq> length ''sha256:'' + 64
      then Some (ChecksumLength (ffFileName f) (ffChecksum f))
      else None)"

fun validateFiles :: "GPUFirmwareFile list \<Rightarrow> bool \<Rightarrow> fwError + bool" where
  "validateFiles [] hasChecksum = Inr hasChecksum"
| "validateFiles (f # fs) hasChecksum =
     (case validateFile f of Some e \<Rightarrow> Inl e
      | None \<Rightarrow> validateFiles fs (hasChecksum \<or> ffChecksum f \<noteq> ''''))"

definition validateImage :: "('w, 'x) webhookLib_scheme \<Rightarrow> string \<Rightarrow> fwError option" where
  "validateImage L img =
     (if img = '''' then Some ImageEmpty else map_option (ImageInvalid img) (wParseReference L img))"

definition validateInputs :: "('w, 'x) webhookLib_scheme \<Rightarrow> GPUFirmwareUpdateSpec \<Rightarrow> fwError option" where
  "validateInputs L sp =
     (case duplicateFile {} (gcFiles (usContent sp)) of Some e \<Rightarrow> Some e | None \<Rightarrow>
        (case validateFiles (gcFiles (usContent sp)) False of Inl e \<Rightarrow> Some e | Inr hasChecksum \<Rightarrow>
           if hasChecksum \<and> \<not> containsStr (gcContainerImage (usContent sp)) ''@sha256:''
           then Some (ChecksumNeedsDigest (gcContainerImage (usContent sp)))
           else if \<not> pciIDPattern (usPCIDeviceID sp) then Some (PCIDeviceIDInvalid (usPCIDeviceID sp))
           else (case validateImage L (usUpdaterImage sp) of Some e \<Rightarrow> Some e
                 | None \<Rightarrow> validateImage L (gcContainerImage (usContent sp)))))"

definition inProgressStates :: "fwState set" where
  "inProgressStates = {StDraining, StUpdating, StCanaryDone, StCleanup, StErrorCleanup}"

definition immutableFields :: "fwUpdate \<Rightarrow> fwUpdate \<Rightarrow> (string \<times> bool) list" where
  "immutableFields old new =
     [(''spec.updateMethod'', usUpdateMethod (fuSpec old) = usUpdateMethod (fuSpec new)),
      (''spec.nodeSelector'', usNodeSelector (fuSpec old) = usNodeSelector (fuSpec new)),
      (''spec.updaterImage'', usUpdaterImage (fuSpec old) = usUpdaterImage (fuSpec new)),
      (''spec.pciDeviceID'', usPCIDeviceID (fuSpec old) = usPCIDeviceID (fuSpec new)),
      (''spec.content'', usContent (fuSpec old) = usContent (fuSpec new)),
      (''spec.updateTaint'', usUpdateTaint (fuSpec old) = usUpdateTaint (fuSpec new))]"

definition ValidateCreate :: "('w, 'x) webhookLib_scheme \<Rightarrow> fwUpdate \<Rightarrow> fwError option" where
  "ValidateCreate L fu = validateInputs L (fuSpec fu)"

definition ValidateUpdate :: "('w, 'x) webhookLib_scheme \<Rightarrow> fwUpdate \<Rightarrow> fwUpdate \<Rightarrow> fwError option" where
  "ValidateUpdate L old new =
     (case (if \<not> fuDeleting new then validateInputs L (fuSpec new) else None) of
        Some e \<Rightarrow> Some e
      | None \<Rightarrow>
          if fuState old \<notin> inProgressStates then None
          else map_option (\<lambda>(name, _). FieldImmutable name (fuState old))
                 (find (\<lambda>(_, same). \<not> same) (immutableFields old new)))"

definition ValidateDelete :: "fwUpdate \<Rightarrow> fwError option" where
  "ValidateDelete fu = None"

end
