(* ===== verification/FirmwareController.thy ===== *)
theory FirmwareController
  imports FirmwareUpdate RecoveryController
begin

text \<open>
  The GPUFirmwareUpdate reconciler (\<^verbatim>\<open>gpufirmwareupdate_controller.go\<close>), a state machine whose
  state is stored in the object's status: one definition per method. \<open>fwEnv\<close> extends the client by
  the reconciler's configuration and by code of other modules: the registry check, the log
  retriever, the owner reference helper and the Job template decoded from embedded YAML. A handler
  returns the object as it is in memory when it returns, and its result: \<open>Inr (Some d)\<close> asks to be
  called again after \<open>d\<close> seconds. Log lines are left out.
\<close>

section \<open>Environment\<close>

record 'w fwEnv = "'w osClient" +
  fwNamespace :: string
  fwOpenShift :: bool
  fwVerifyImage :: "imageVerifyRequest \<Rightarrow> ('w, go_error option) io"
  fwRetrieveLogs :: "pod \<Rightarrow> string \<Rightarrow> ('w, string list res) io"
  fwJobTemplate :: job
  fwSetControllerReference :: "fwUpdate \<Rightarrow> job \<Rightarrow> job res"
  fwGet :: "string \<Rightarrow> ('w, fwUpdate res) io"
  fwUpdateObject :: "fwUpdate \<Rightarrow> ('w, fwUpdate res) io"
  fwUpdateStatus :: "fwUpdate \<Rightarrow> ('w, fwUpdate res) io"

type_synonym fwResult = "int option"

definition canaryUpdate :: string where "canaryUpdate = ''canary''"
definition directUpdate :: string where "directUpdate = ''direct''"
definition completedTag :: string where "completedTag = ''##COMPLETED##''"
definition maxUpdateJobNameLen :: nat where "maxUpdateJobNameLen = 63"
definition jobNameHashLen :: nat where "jobNameHashLen = 8"
definition gpuFwUpdateFinalizer :: string where
  "gpuFwUpdateFinalizer = ''gpufirmwareupdate.intel.com/finalizer''"

definition supportedFwTypes :: "string list" where
  "supportedFwTypes = [''GFX'', ''GFX_DATA'', ''GFX_CODE_DATA'', ''GFX_PSCBIN'', ''AMC'', ''FAN_TABLE'',
     ''VR_CONFIG'', ''OPROM_CODE'', ''OPROM_DATA'']"

definition taintFor :: "fwUpdate \<Rightarrow> taint" where
  "taintFor fu = \<lparr>taintKey = usUpdateTaint (fuSpec fu), taintValue = '''', taintEffect = ''NoSchedule'',
     taintTimeAdded = None\<rparr>"

section \<open>Checks\<close>

text \<open>
  A pod the API server stores has a container, so \<^verbatim>\<open>Containers[0]\<close> does not panic; the model answers
  with an error there.
\<close>

definition checkJobCompletionFromLogs :: "('w, 'x) fwEnv_scheme \<Rightarrow> job \<Rightarrow> ('w, bool res) io" where
  "checkJobCompletionFromLogs E j = do {
     r \<leftarrow> cListJobPods E (jobNamespace j) (jobName j);
     case r of
       Inl e \<Rightarrow> State_Monad.return (Inl (newErr (''failed to list pods for job '' @ jobName j @ '': '' @ errText e)))
     | Inr [] \<Rightarrow> State_Monad.return (Inr False)
     | Inr (pd # _) \<Rightarrow>
         (case podContainers pd of
            [] \<Rightarrow> State_Monad.return (Inl (newErr ''index out of range''))
          | c # _ \<Rightarrow> do {
              l \<leftarrow> fwRetrieveLogs E pd (cntName c);
              State_Monad.return (case l of
                Inl e \<Rightarrow> Inl (newErr (''failed to retrieve logs '' @ errText e))
              | Inr logs \<Rightarrow> Inr (list_ex (\<lambda>line. containsStr line completedTag) logs))
            })
   }"

definition verifyGivenParameters :: "fwUpdate \<Rightarrow> go_error option" where
  "verifyGivenParameters fu =
     (if usUpdaterImage (fuSpec fu) = '''' then Some (newErr ''updater image must be specified'')
      else if gcContainerImage (usContent (fuSpec fu)) = ''''
      then Some (newErr ''content container image must be specified'')
      else map_option (\<lambda>fw. newErr (''unsupported firmware type '' @ ffType fw))
             (find (\<lambda>fw. ffType fw \<notin> set supportedFwTypes) (gcFiles (usContent (fuSpec fu)))))"

definition verifyContentImage :: "('w, 'x) fwEnv_scheme \<Rightarrow> fwUpdate \<Rightarrow> ('w, go_error option) io" where
  "verifyContentImage E fu =
     fwVerifyImage E
       \<lparr>ivImage = gcContainerImage (usContent (fuSpec fu)), ivPullSecret = usImagePullSecret (fuSpec fu),
        ivInsecureSkipTLSVerify = usInsecureSkipTLSVerify (fuSpec fu),
        ivFiles = map (\<lambda>fw. (''/fwupdate/'' @ ffFileName fw, ffChecksum fw)) (gcFiles (usContent (fuSpec fu)))\<rparr>"

section \<open>Selecting, tainting and draining nodes\<close>

fun taintAndDrain ::
  "('w, 'x) fwEnv_scheme \<Rightarrow> taint \<Rightarrow> string list \<Rightarrow> string list \<Rightarrow> go_error option \<Rightarrow>
     ('w, string list \<times> go_error option) io" where
  "taintAndDrain E t [] draining lastErr = State_Monad.return (draining, lastErr)"
| "taintAndDrain E t (n # ns) draining lastErr = do {
     a \<leftarrow> EnsureNodeTaint E n t;
     case a of
       Inl e \<Rightarrow> State_Monad.return (draining, Some e)
     | Inr _ \<Rightarrow> do {
         g \<leftarrow> GPUPodsOnNode E n;
         case g of
           Inl e \<Rightarrow>
             taintAndDrain E t ns draining (Some (wrapErr (''failed to get GPU pods for node '' @ n) e))
         | Inr toEvict \<Rightarrow> do {
             v \<leftarrow> EvictPods E toEvict;
             taintAndDrain E t ns (if toEvict \<noteq> [] then draining @ [n] else draining)
               (case v of None \<Rightarrow> lastErr
                | Some e \<Rightarrow> Some (wrapErr (''failed to evict GPU pods from node '' @ n) e))
           }
       }
   }"

definition taintAndDrainNodes ::
  "('w, 'x) fwEnv_scheme \<Rightarrow> fwUpdate \<Rightarrow> string list \<Rightarrow> ('w, string list \<times> go_error option) io" where
  "taintAndDrainNodes E fu ns = taintAndDrain E (taintFor fu) ns [] None"

definition nodeNotReady :: "node \<Rightarrow> bool" where
  "nodeNotReady nd \<longleftrightarrow> list_ex (\<lambda>c. fst c = ''Ready'' \<and> snd c \<noteq> ''True'') (nodeConditions nd)"

definition selectNodesToUpdate ::
  "('w, 'x) fwEnv_scheme \<Rightarrow> fwUpdate \<Rightarrow> string \<Rightarrow> ('w, string list) io" where
  "selectNodesToUpdate E fu updateMethod = do {
     r \<leftarrow> cListNodes E (case usNodeSelector (fuSpec fu) of None \<Rightarrow> [] | Some sel \<Rightarrow> sel);
     State_Monad.return (case r of
       Inl _ \<Rightarrow> []
     | Inr nds \<Rightarrow>
         (let ok = map nodeName (filter (\<lambda>nd. \<not> nodeDeleting nd \<and> \<not> nodeNotReady nd) nds)
          in if updateMethod = canaryUpdate then take 1 ok else ok))
   }"

definition selectNodesTaintAndDrain ::
  "('w, 'x) fwEnv_scheme \<Rightarrow> fwUpdate \<Rightarrow> ('w, fwUpdate \<times> string list \<times> go_error option) io" where
  "selectNodesTaintAndDrain E fu = do {
     candidates \<leftarrow> selectNodesToUpdate E fu directUpdate;
     let canary = (usUpdateMethod (fuSpec fu) = canaryUpdate \<and> candidates \<noteq> []);
     let firstBatch = (if canary then take 1 candidates else candidates);
     let fu1 = (if canary then onNodeInfos (niPending_update (\<lambda>_. drop 1 candidates)) fu else fu);
     let fu2 = onNodeInfos (niAll_update (\<lambda>_. firstBatch)) fu1;
     (draining, lastErr) \<leftarrow> taintAndDrainNodes E fu2 firstBatch;
     State_Monad.return (onNodeInfos (niDraining_update (\<lambda>_. draining)) fu2, firstBatch, lastErr)
   }"

section \<open>beginUpdate\<close>

text \<open>
  \<^verbatim>\<open>Status().Update\<close> decodes the server's answer into the object. \<open>stopWith\<close> records an error state
  and a message, and returns the error of the write if there is one, the given error otherwise.
\<close>

definition stopWith ::
  "('w, 'x) fwEnv_scheme \<Rightarrow> fwState \<Rightarrow> string \<Rightarrow> go_error \<Rightarrow> fwUpdate \<Rightarrow> ('w, fwUpdate \<times> fwResult res) io" where
  "stopWith E s msg e fu = do {
     u \<leftarrow> fwUpdateStatus E (addFuMessage msg (setFuState s fu));
     State_Monad.return (case u of
       Inl e' \<Rightarrow> (addFuMessage msg (setFuState s fu), Inl e')
     | Inr fu' \<Rightarrow> (fu', Inl e))
   }"

definition addFuFinalizer :: "fwUpdate \<Rightarrow> fwUpdate" where
  "addFuFinalizer fu = (if gpuFwUpdateFinalizer \<in> set (fuFinalizers fu) then fu
     else fu\<lparr>fuFinalizers := fuFinalizers fu @ [gpuFwUpdateFinalizer]\<rparr>)"

definition startDraining ::
  "('w, 'x) fwEnv_scheme \<Rightarrow> string list \<Rightarrow> fwUpdate \<Rightarrow> ('w, fwUpdate \<times> fwResult res) io" where
  "startDraining E selected fu = do {
     let fu1 = addFuMessage ''Nodes selected, tainted and draining initiated''
                 (onNodeInfos (niAll_update (\<lambda>_. selected)) (setFuState StDraining fu));
     u \<leftarrow> fwUpdateStatus E fu1;
     case u of
       Inl e \<Rightarrow> State_Monad.return (fu1, Inl e)
     | Inr fu2 \<Rightarrow> do {
         v \<leftarrow> fwUpdateObject E (addFuFinalizer fu2);
         State_Monad.return (case v of Inl e \<Rightarrow> (addFuFinalizer fu2, Inl e) | Inr fu3 \<Rightarrow> (fu3, Inr (Some 5)))
       }
   }"

definition beginUpdate :: "('w, 'x) fwEnv_scheme \<Rightarrow> fwUpdate \<Rightarrow> ('w, fwUpdate \<times> fwResult res) io" where
  "beginUpdate E fu =
     (case verifyGivenParameters fu of
        Some e \<Rightarrow> stopWith E StError (''invalid parameters: '' @ errText e) e fu
      | None \<Rightarrow> do {
          os \<leftarrow> (if fwOpenShift E
                then ensureSCCQuadruple E ''FW update'' gpuFwUpdateResourcePart buildFWUpdateSCC (fwNamespace E) (fuName fu)
                else State_Monad.return None);
          case os of
            Some e \<Rightarrow> stopWith E StError (''failed to ensure OpenShift SCC resources: '' @ errText e) e fu
          | None \<Rightarrow> do {
              v \<leftarrow> verifyContentImage E fu;
              case v of
                Some e \<Rightarrow> stopWith E StError (''content image verification failed: '' @ errText e) e fu
              | None \<Rightarrow> do {
                  (fu', selected, err) \<leftarrow> selectNodesTaintAndDrain E fu;
                  case err of
                    Some e \<Rightarrow> stopWith E StError (''unable to select nodes, taint or drain: '' @ errText e) e fu'
                  | None \<Rightarrow>
                      if selected = []
                      then stopWith E StError ''No suitable nodes found for update''
                             (newErr ''no suitable nodes found for update'') fu'
                      else startDraining E selected fu'
                }
            }
        })"

section \<open>checkForNodeDrainStatus\<close>

fun stillDraining ::
  "('w, 'x) fwEnv_scheme \<Rightarrow> string list \<Rightarrow> string list \<Rightarrow> ('w, string list \<times> go_error option) io" where
  "stillDraining E [] remaining = State_Monad.return (remaining, None)"
| "stillDraining E (n # ns) remaining = do {
     r \<leftarrow> GPUPodsOnNode E n;
     case r of
       Inl e \<Rightarrow> State_Monad.return (remaining, Some e)
     | Inr pods \<Rightarrow>
         if pods = [] then stillDraining E ns remaining
         else do {
           v \<leftarrow> EvictPods E pods;
           case v of
             Some e \<Rightarrow>
               State_Monad.return (remaining @ [n], Some (wrapErr (''failed to evict GPU pods from node '' @ n) e))
           | None \<Rightarrow> stillDraining E ns (remaining @ [n])
         }
   }"

text \<open>A failing status write is only logged: the object stays as it is in memory.\<close>

definition writeLogged :: "('w, 'x) fwEnv_scheme \<Rightarrow> fwUpdate \<Rightarrow> ('w, fwUpdate) io" where
  "writeLogged E fu = do {
     u \<leftarrow> fwUpdateStatus E fu;
     State_Monad.return (case u of Inl _ \<Rightarrow> fu | Inr fu' \<Rightarrow> fu')
   }"

definition checkForNodeDrainStatus ::
  "('w, 'x) fwEnv_scheme \<Rightarrow> fwUpdate \<Rightarrow> ('w, fwUpdate \<times> fwResult res) io" where
  "checkForNodeDrainStatus E fu = do {
     (remaining, lastErr) \<leftarrow> stillDraining E (niDraining (nodeInfosOf fu)) [];
     case lastErr of
       Some e \<Rightarrow> do {
         fu' \<leftarrow> writeLogged E (addFuMessage (''unable to check drain status: '' @ errText e) (setFuState StError fu));
         State_Monad.return (fu', Inl e)
       }
     | None \<Rightarrow> do {
         let fu1 = onNodeInfos (niDraining_update (\<lambda>_. remaining)) fu;
         let fu2 = (if remaining = []
                    then addFuMessage ''All nodes drained, proceeding to update'' (setFuState StUpdating fu1) else fu1);
         fu' \<leftarrow> writeLogged E fu2;
         State_Monad.return (fu', Inr (Some (if remaining = [] then 1 else 5)))
       }
   }"

section \<open>Update Jobs\<close>

definition updateJobName :: "string \<Rightarrow> string \<Rightarrow> string" where
  "updateJobName fuN node =
     (let name = fuN @ ''-fwupdate-'' @ node
      in if length name \<le> maxUpdateJobNameLen then name
         else trimRightOf (\<lambda>c. c = CHR ''-'' \<or> c = CHR ''.'') (take (maxUpdateJobNameLen - jobNameHashLen - 1) name)
                @ ''-'' @ take jobNameHashLen (hexSum name))"

definition quoted :: "string \<Rightarrow> string" where
  "quoted s = [CHR 0x22] @ s @ [CHR 0x22]"

definition updateCommands :: "string \<Rightarrow> fwUpdate \<Rightarrow> string list" where
  "updateCommands node fu =
     [''echo '' @ quoted (''Starting firmware update process on node '' @ node)]
     @ concat (map (\<lambda>fw.
         let fwfile = ''/update/'' @ ffFileName fw
         in [''echo '' @ quoted (''Updating '' @ ffType fw @ '' firmware with file '' @ fwfile),
             ''sh /update/update.sh '' @ quoted (usPCIDeviceID (fuSpec fu)) @ '' '' @ quoted (ffType fw)
               @ '' '' @ quoted fwfile]) (gcFiles (usContent (fuSpec fu))))
     @ [''echo '' @ quoted (''Firmware update process '' @ completedTag)]"

text \<open>\<^verbatim>\<open>xs[0]\<close> of the template's containers; the embedded template has one of each.\<close>

definition onFirst :: "('a \<Rightarrow> 'a) \<Rightarrow> 'a list \<Rightarrow> 'a list" where
  "onFirst f xs = (case xs of [] \<Rightarrow> [] | x # ys \<Rightarrow> f x # ys)"

definition createUpdateJobObjForNode :: "('w, 'x) fwEnv_scheme \<Rightarrow> string \<Rightarrow> fwUpdate \<Rightarrow> job" where
  "createUpdateJobObjForNode E node fu =
     (fwJobTemplate E)\<lparr>
       jobNamespace := fwNamespace E,
       jobLabels := [(''gpufirmwareupdate'', fuName fu), (''node'', node)],
       jobName := updateJobName (fuName fu) node,
       jobPullSecrets := (if usImagePullSecret (fuSpec fu) \<noteq> '''' then [usImagePullSecret (fuSpec fu)]
                          else jobPullSecrets (fwJobTemplate E)),
       jobTolerations := \<lparr>tolKey = usUpdateTaint (fuSpec fu), tolOperator = '''', tolValue = '''',
                           tolEffect = ''NoSchedule''\<rparr> # usTolerations (fuSpec fu),
       jobNodeSelector := [(''kubernetes.io/hostname'', node)],
       jobBackoffLimit := Some 0, jobCompletions := Some 1,
       jobServiceAccount := (if fwOpenShift E
                             then snd (snd (snd (BuildOpenShiftNames (fuName fu) gpuFwUpdateResourcePart)))
                             else jobServiceAccount (fwJobTemplate E)),
       jobInitContainers := onFirst (\<lambda>c. c\<lparr>cntImage := gcContainerImage (usContent (fuSpec fu))\<rparr>)
                              (jobInitContainers (fwJobTemplate E)),
       jobContainers := onFirst (\<lambda>c. c\<lparr>cntImage := usUpdaterImage (fuSpec fu),
                                        cntArgs := [joinStr '' && '' (updateCommands node fu)]\<rparr>)
                          (jobContainers (fwJobTemplate E))\<rparr>"

text \<open>
  The loop of \<^verbatim>\<open>startUpdateJobs\<close>: the object with the warnings collected so far, the names of the
  Jobs created, and the node and error that stopped it.
\<close>

fun createJobs ::
  "('w, 'x) fwEnv_scheme \<Rightarrow> string list \<Rightarrow> fwUpdate \<Rightarrow> string list \<Rightarrow>
     ('w, fwUpdate \<times> string list \<times> (string \<times> go_error) option) io" where
  "createJobs E [] fu jobs = State_Monad.return (fu, jobs, None)"
| "createJobs E (n # ns) fu jobs =
     (if n \<in> set (niCompleted (nodeInfosOf fu)) then createJobs E ns fu jobs
      else case (case fwSetControllerReference E fu (createUpdateJobObjForNode E n fu) of
                   Inl e \<Rightarrow> (addFuMessage (''Failed to set controller reference for job ''
                               @ jobName (createUpdateJobObjForNode E n fu) @ '': '' @ errText e) fu,
                             createUpdateJobObjForNode E n fu)
                 | Inr j \<Rightarrow> (fu, j)) of
        (fu', j) \<Rightarrow> do {
          c \<leftarrow> cCreateJob E j;
          case ignoreAlreadyExists c of
            Some e \<Rightarrow> State_Monad.return (fu', jobs, Some (n, e))
          | None \<Rightarrow> createJobs E ns fu' (jobs @ [jobName j])
        })"

definition startUpdateJobs ::
  "('w, 'x) fwEnv_scheme \<Rightarrow> fwUpdate \<Rightarrow> ('w, fwUpdate \<times> go_error option) io" where
  "startUpdateJobs E fu = do {
     (fu1, jobs, stop) \<leftarrow> createJobs E (niAll (nodeInfosOf fu)) fu [];
     case stop of
       Some (n, e) \<Rightarrow> do {
         (fu2, r) \<leftarrow> stopWith E StErrorCleanup
           (''unable to create update Job for node '' @ n @ '': '' @ errText e) e fu1;
         State_Monad.return (fu2, case r of Inl e' \<Rightarrow> Some e' | Inr _ \<Rightarrow> None)
       }
     | None \<Rightarrow>
         State_Monad.return
           (onNodeInfos (\<lambda>ni. ni\<lparr>niUpdating := filter (\<lambda>n. n \<notin> set (niCompleted ni)) (niAll ni),
                                niJobs := niJobs ni @ jobs\<rparr>) fu1, None)
   }"

text \<open>What the listing says of the Jobs: nodes remaining, updated and failed.\<close>

record jobTally =
  tyRemaining :: "string list"
  tyUpdated :: "string list"
  tyFailed :: "string list"

definition tallyJob ::
  "('w, 'x) fwEnv_scheme \<Rightarrow> job \<Rightarrow> fwUpdate \<times> jobTally \<Rightarrow> ('w, fwUpdate \<times> jobTally) io" where
  "tallyJob E j st =
     (case st of (fu, ty) \<Rightarrow>
        (case map_of (jobLabels j) ''node'' of
          None \<Rightarrow> State_Monad.return (addFuMessage (''Job with no node label found: '' @ jobName j) fu, ty)
        | Some n \<Rightarrow>
            if n \<in> set (niCompleted (nodeInfosOf fu)) then State_Monad.return (fu, ty)
            else if jobSucceeded j > 0 then do {
              r \<leftarrow> checkJobCompletionFromLogs E j;
              let fu' = (case r of Inl e \<Rightarrow> addFuMessage (''Error checking job '' @ jobName j @ '': '' @ errText e) fu
                         | Inr _ \<Rightarrow> fu);
              State_Monad.return (fu',
                (if r = Inr True then ty\<lparr>tyUpdated := tyUpdated ty @ [n]\<rparr> else ty\<lparr>tyFailed := tyFailed ty @ [n]\<rparr>))
            }
            else if jobFailed j > 0 then State_Monad.return (fu, ty\<lparr>tyFailed := tyFailed ty @ [n]\<rparr>)
            else State_Monad.return (fu, ty\<lparr>tyRemaining := tyRemaining ty @ [n]\<rparr>)))"

definition noTally :: jobTally where
  "noTally = \<lparr>tyRemaining = [], tyUpdated = [], tyFailed = []\<rparr>"

definition recordTally :: "jobTally \<Rightarrow> nodeInfos \<Rightarrow> nodeInfos" where
  "recordTally ty ni = ni\<lparr>niError := tyFailed ty, niUpdating := tyRemaining ty,
     niCompleted := niCompleted ni @ tyUpdated ty\<rparr>"

definition afterUpdates :: "fwUpdate \<Rightarrow> fwUpdate" where
  "afterUpdates fu =
     (if niError (nodeInfosOf fu) \<noteq> []
      then addFuMessage (''Firmware update completed with errors on '' @ natStr (length (niError (nodeInfosOf fu)))
             @ '' nodes'') (setFuState StErrorCleanup fu)
      else if usUpdateMethod (fuSpec fu) = canaryUpdate \<and> niPending (nodeInfosOf fu) \<noteq> []
      then addFuMessage ''Canary update succeeded, proceeding to full rollout'' (setFuState StCanaryDone fu)
      else addFuMessage ''Firmware update completed on all nodes'' (setFuState StCleanup fu))"

definition continueUpdateJobs ::
  "('w, 'x) fwEnv_scheme \<Rightarrow> fwUpdate \<Rightarrow> ('w, fwUpdate \<times> bool res) io" where
  "continueUpdateJobs E fu = do {
     r \<leftarrow> cListJobs E (fwNamespace E) (''gpufirmwareupdate'', fuName fu);
     case r of
       Inl e \<Rightarrow>
         State_Monad.return (addFuMessage (''unable to list update Jobs: '' @ errText e)
                               (setFuState StErrorCleanup fu), Inl e)
     | Inr js \<Rightarrow> do {
         (fu1, ty) \<leftarrow> foldM (tallyJob E) js (fu, noTally);
         let fu2 = onNodeInfos (recordTally ty) fu1;
         State_Monad.return (if tyRemaining ty \<noteq> [] then (fu2, Inr False) else (afterUpdates fu2, Inr True))
       }
   }"

definition startOrContinueUpdate ::
  "('w, 'x) fwEnv_scheme \<Rightarrow> fwUpdate \<Rightarrow> ('w, fwUpdate \<times> fwResult res) io" where
  "startOrContinueUpdate E fu =
     (if niUpdating (nodeInfosOf fu) = [] then do {
        (fu1, err) \<leftarrow> startUpdateJobs E fu;
        case err of
          Some e \<Rightarrow> State_Monad.return (fu1, Inl e)
        | None \<Rightarrow> do { fu2 \<leftarrow> writeLogged E fu1; State_Monad.return (fu2, Inr (Some 5)) }
      }
      else do {
        (fu1, ok) \<leftarrow> continueUpdateJobs E fu;
        case ok of
          Inl e \<Rightarrow> State_Monad.return (fu1, Inl e)
        | Inr False \<Rightarrow> State_Monad.return (fu1, Inr (Some 5))
        | Inr True \<Rightarrow> do { fu2 \<leftarrow> writeLogged E fu1; State_Monad.return (fu2, Inr (Some 1)) }
      })"

section \<open>handleCanaryDone\<close>

definition writeOrFail ::
  "('w, 'x) fwEnv_scheme \<Rightarrow> fwUpdate \<Rightarrow> fwResult \<Rightarrow> ('w, fwUpdate \<times> fwResult res) io" where
  "writeOrFail E fu res = do {
     u \<leftarrow> fwUpdateStatus E fu;
     State_Monad.return (case u of Inl e \<Rightarrow> (fu, Inl e) | Inr fu' \<Rightarrow> (fu', Inr res))
   }"

definition rollOut :: "('w, 'x) fwEnv_scheme \<Rightarrow> string list \<Rightarrow> fwUpdate \<Rightarrow> ('w, fwUpdate \<times> fwResult res) io" where
  "rollOut E remaining fu = do {
     let fu1 = onNodeInfos (\<lambda>ni. ni\<lparr>niAll := niAll ni @ remaining\<rparr>)
                 (addFuMessage (''Canary succeeded, starting full rollout on '' @ natStr (length remaining)
                    @ '' remaining nodes'') fu);
     (draining, err) \<leftarrow> taintAndDrainNodes E fu1 remaining;
     case err of
       Some e \<Rightarrow> do {
         fu2 \<leftarrow> writeLogged E (addFuMessage (''failed to taint/drain nodes for full rollout: '' @ errText e)
                               (setFuState StError fu1));
         State_Monad.return (fu2, Inl e)
       }
     | None \<Rightarrow>
         writeOrFail E (setFuState StDraining (onNodeInfos (niDraining_update (\<lambda>_. draining)) fu1)) (Some 5)
   }"

definition handleCanaryDone ::
  "('w, 'x) fwEnv_scheme \<Rightarrow> fwUpdate \<Rightarrow> ('w, fwUpdate \<times> fwResult res) io" where
  "handleCanaryDone E fu =
     (if usHoldAfterCanary (fuSpec fu) then State_Monad.return (fu, Inr (Some 10))
      else let remaining = niPending (nodeInfosOf fu);
               fu1 = onNodeInfos (niPending_update (\<lambda>_. [])) fu
      in if remaining = []
         then writeOrFail E (addFuMessage ''Canary was the only node, proceeding to cleanup'' (setFuState StCleanup fu1)) (Some 1)
         else rollOut E remaining fu1)"

section \<open>Cleaning up\<close>

definition untaintNode ::
  "('w, 'x) fwEnv_scheme \<Rightarrow> taint \<Rightarrow> string \<Rightarrow> fwUpdate \<times> go_error option \<Rightarrow> ('w, fwUpdate \<times> go_error option) io" where
  "untaintNode E t n st =
     (case st of (fu, lastErr) \<Rightarrow> do {
        r \<leftarrow> RemoveNodeTaint E n t;
        State_Monad.return (case r of
          Inl e \<Rightarrow> (fu, Some e)
        | Inr True \<Rightarrow> (fu, lastErr)
        | Inr False \<Rightarrow> (addFuMessage (''Node '' @ n @ '' lost taint '' @ taintKey t @ '', skipping'') fu, lastErr))
      })"

definition untaintNodesAndFinalize ::
  "('w, 'x) fwEnv_scheme \<Rightarrow> fwUpdate \<Rightarrow> bool \<Rightarrow> ('w, fwUpdate \<times> fwResult res) io" where
  "untaintNodesAndFinalize E fu withError = do {
     (fu1, lastErr) \<leftarrow> foldM (untaintNode E (taintFor fu)) (niAll (nodeInfosOf fu)) (fu, None);
     writeOrFail E (setFuState (if lastErr \<noteq> None \<or> withError then StError else StComplete) fu1) None
   }"

fun deleteJobs :: "('w, 'x) fwEnv_scheme \<Rightarrow> string list \<Rightarrow> ('w, go_error option) io" where
  "deleteJobs E [] = State_Monad.return None"
| "deleteJobs E (n # ns) = do {
     r \<leftarrow> cDeleteJob E (emptyJob\<lparr>jobName := n, jobNamespace := fwNamespace E\<rparr>);
     case r of
       Some e \<Rightarrow> if reason e = NotFound then deleteJobs E ns else State_Monad.return (Some e)
     | None \<Rightarrow> deleteJobs E ns
   }"

definition finalCleanup ::
  "('w, 'x) fwEnv_scheme \<Rightarrow> fwUpdate \<Rightarrow> ('w, fwUpdate \<times> fwResult res) io" where
  "finalCleanup E fu =
     (if \<not> fuDeleting fu then State_Monad.return (fu, Inr None)
      else do {
        d \<leftarrow> deleteJobs E (niJobs (nodeInfosOf fu));
        case d of
          Some e \<Rightarrow> State_Monad.return (fu, Inl e)
        | None \<Rightarrow> do {
            _ \<leftarrow> (if fwOpenShift E then cleanupSCCQuadruple E gpuFwUpdateResourcePart (fwNamespace E) (fuName fu)
                 else State_Monad.return ());
            if gpuFwUpdateFinalizer \<notin> set (fuFinalizers fu) then State_Monad.return (fu, Inr None)
            else do {
              let fu1 = fu\<lparr>fuFinalizers := filter (\<lambda>f. f \<noteq> gpuFwUpdateFinalizer) (fuFinalizers fu)\<rparr>;
              u \<leftarrow> fwUpdateObject E fu1;
              State_Monad.return (case u of Inl e \<Rightarrow> (fu1, Inl e) | Inr fu2 \<Rightarrow> (fu2, Inr None))
            }
          }
      })"

section \<open>Reconcile\<close>

text \<open>An unknown state ends the process (\<^verbatim>\<open>klog.Fatalf\<close>); the model answers with an error.\<close>

definition updateStep :: "('w, 'x) fwEnv_scheme \<Rightarrow> fwUpdate \<Rightarrow> ('w, fwUpdate \<times> fwResult res) io" where
  "updateStep E fu =
     (if fuDeleting fu \<and> fuState fu \<in> {StCanaryDone, StNotStarted, StDraining}
      then untaintNodesAndFinalize E fu True
      else case fuState fu of
        StNotStarted \<Rightarrow> beginUpdate E fu
      | StDraining \<Rightarrow> checkForNodeDrainStatus E fu
      | StUpdating \<Rightarrow> startOrContinueUpdate E fu
      | StCanaryDone \<Rightarrow> handleCanaryDone E fu
      | StCleanup \<Rightarrow> untaintNodesAndFinalize E fu False
      | StErrorCleanup \<Rightarrow> untaintNodesAndFinalize E fu True
      | StComplete \<Rightarrow> finalCleanup E fu
      | StError \<Rightarrow> finalCleanup E fu
      | StOther s \<Rightarrow> State_Monad.return (fu, Inl (newErr (''GPUFirmwareUpdate '' @ fuName fu @ '' in unknown state '' @ s))))"

definition ReconcileUpdate :: "('w, 'x) fwEnv_scheme \<Rightarrow> string \<Rightarrow> ('w, fwResult res) io" where
  "ReconcileUpdate E key = do {
     r \<leftarrow> fwGet E key;
     case r of
       Inl e \<Rightarrow> State_Monad.return (if reason e = NotFound then Inr None else Inl e)
     | Inr fu \<Rightarrow> do { (_, res) \<leftarrow> updateStep E fu; State_Monad.return res }
   }"

end
