(* ===== verification/FirmwareMachine.thy ===== *)
theory FirmwareMachine
  imports FirmwareController
begin

text \<open>
  The firmware update as a state machine: which states may follow which, that no update changes
  state more than a fixed number of times, and that no node it selected is forgotten. What the
  controller relies on of the API server is the locale \<open>fw_store\<close>.
\<close>

section \<open>The machine\<close>

definition nextStates :: "bool \<Rightarrow> fwState \<Rightarrow> fwState set" where
  "nextStates deleting s =
     (if deleting \<and> s \<in> {StCanaryDone, StNotStarted, StDraining} then {StError}
      else case s of
        StNotStarted \<Rightarrow> {StDraining, StError}
      | StDraining \<Rightarrow> {StDraining, StUpdating, StError}
      | StUpdating \<Rightarrow> {StUpdating, StCanaryDone, StCleanup, StErrorCleanup}
      | StCanaryDone \<Rightarrow> {StCanaryDone, StDraining, StCleanup, StError}
      | StCleanup \<Rightarrow> {StComplete, StError}
      | StErrorCleanup \<Rightarrow> {StError}
      | StComplete \<Rightarrow> {StComplete} | StError \<Rightarrow> {StError} | StOther t \<Rightarrow> {StOther t})"

text \<open>How many changes of state an update has left at most.\<close>

definition stateRank :: "fwState \<Rightarrow> nat" where
  "stateRank s = (case s of StNotStarted \<Rightarrow> 8 | StDraining \<Rightarrow> 4 | StUpdating \<Rightarrow> 3 | StCanaryDone \<Rightarrow> 2
     | StCleanup \<Rightarrow> 1 | StErrorCleanup \<Rightarrow> 1 | StComplete \<Rightarrow> 0 | StError \<Rightarrow> 0 | StOther _ \<Rightarrow> 0)"

definition changesLeft :: "fwUpdate \<Rightarrow> nat" where
  "changesLeft fu = stateRank (fuState fu)
     + (if niPending (nodeInfosOf fu) \<noteq> [] \<and> fuState fu \<notin> {StNotStarted, StCleanup, StErrorCleanup, StComplete, StError}
        then 3 else 0)"

definition selectedNodes :: "fwUpdate \<Rightarrow> string set" where
  "selectedNodes fu = set (niAll (nodeInfosOf fu)) \<union> set (niPending (nodeInfosOf fu))"

definition stepOk :: "fwUpdate \<Rightarrow> fwUpdate \<Rightarrow> bool" where
  "stepOk fu fu' \<longleftrightarrow> fuState fu' \<in> nextStates (fuDeleting fu) (fuState fu)
     \<and> (if fuState fu' = fuState fu then changesLeft fu' \<le> changesLeft fu else changesLeft fu' < changesLeft fu)
     \<and> (fuState fu \<noteq> StNotStarted \<or> fuDeleting fu \<longrightarrow> selectedNodes fu' = selectedNodes fu
          \<and> set (niAll (nodeInfosOf fu)) \<subseteq> set (niAll (nodeInfosOf fu')))
     \<and> fuSpec fu' = fuSpec fu \<and> fuName fu' = fuName fu"

text \<open>The server answers a write with the object it was given, up to metadata it manages itself.\<close>

definition sameObject :: "fwUpdate \<Rightarrow> fwUpdate \<Rightarrow> bool" where
  "sameObject fu f \<longleftrightarrow> fuStatus f = fuStatus fu \<and> fuSpec f = fuSpec fu \<and> fuName f = fuName fu"

lemma sameObject_refl [simp]: "sameObject fu fu"
  by (simp add: sameObject_def)

lemma changesLeft_status: "fuStatus f' = fuStatus f \<Longrightarrow> changesLeft f' = changesLeft f"
  by (simp add: changesLeft_def)

lemma stepOk_cong: "sameObject f f' \<Longrightarrow> stepOk fu f \<Longrightarrow> stepOk fu f'"
  using changesLeft_status [of f' f] by (simp add: stepOk_def sameObject_def selectedNodes_def)

lemma stepOk_finalizer: "stepOk fu0 f \<Longrightarrow> stepOk fu0 (addFuFinalizer f)"
  by (rule stepOk_cong) (simp_all add: sameObject_def addFuFinalizer_def)

locale fw_store =
  fixes E :: "('w, 'x) fwEnv_scheme"
  assumes status_answer: "returns (\<lambda>r. \<forall>f. r = Inr f \<longrightarrow> sameObject fu f) (fwUpdateStatus E fu)"
    and object_answer: "returns (\<lambda>r. \<forall>f. r = Inr f \<longrightarrow> sameObject fu f) (fwUpdateObject E fu)"
begin

lemma returns_writeLogged: "stepOk fu0 fu \<Longrightarrow> returns (stepOk fu0) (writeLogged E fu)"
  unfolding writeLogged_def
  by (rule returns_bind_mono [OF status_answer]) (auto split: sum.split intro: stepOk_cong)

lemma returns_writeOrFail: "stepOk fu0 fu \<Longrightarrow> returns (\<lambda>(f, _). stepOk fu0 f) (writeOrFail E fu res)"
  unfolding writeOrFail_def
  by (rule returns_bind_mono [OF status_answer]) (auto split: sum.split intro: stepOk_cong)

lemma returns_stopWith:
  "stepOk fu0 (addFuMessage msg (setFuState s fu)) \<Longrightarrow> returns (\<lambda>(f, _). stepOk fu0 f) (stopWith E s msg e fu)"
  unfolding stopWith_def
  by (rule returns_bind_mono [OF status_answer]) (auto split: sum.split intro: stepOk_cong)

lemma returns_logged_write:
  "stepOk fu0 fu \<Longrightarrow>
   returns (\<lambda>(f, _). stepOk fu0 f) (writeLogged E fu \<bind> (\<lambda>f. State_Monad.return (f, res)))"
  by (rule returns_bind_mono [OF returns_writeLogged]) simp_all

end

lemmas machine_simps = stepOk_def nextStates_def changesLeft_def stateRank_def selectedNodes_def

context fw_store
begin

lemma returns_startDraining:
  assumes "fuState fu0 = StNotStarted" "\<not> fuDeleting fu0" "fuSpec fu = fuSpec fu0" "fuName fu = fuName fu0"
  shows "returns (\<lambda>(f, _). stepOk fu0 f) (startDraining E sel fu)"
proof -
  have "stepOk fu0 (addFuMessage ''Nodes selected, tainted and draining initiated''
      (onNodeInfos (niAll_update (\<lambda>_. sel)) (setFuState StDraining fu)))"
    using assms by (simp add: machine_simps)
  then show ?thesis
    unfolding startDraining_def Let_def
    by (auto intro!: returns_bind_mono [OF status_answer] returns_case_sum returns_bind_mono [OF object_answer]
        split: sum.split) (meson stepOk_cong stepOk_finalizer)+
qed

lemma returns_selectNodes:
  "returns (\<lambda>(f, _). fuState f = fuState fu \<and> fuSpec f = fuSpec fu \<and> fuName f = fuName fu)
     (selectNodesTaintAndDrain E fu)"
  unfolding selectNodesTaintAndDrain_def Let_def
  by (auto intro!: returns_bind_any)

lemma returns_beginUpdate:
  assumes "fuState fu = StNotStarted" "\<not> fuDeleting fu"
  shows "returns (\<lambda>(f, _). stepOk fu f) (beginUpdate E fu)"
proof -
  have stop: "returns (\<lambda>(f, _). stepOk fu f) (stopWith E StError msg e f)"
    if "fuSpec f = fuSpec fu" "fuName f = fuName fu" for msg e f
    by (rule returns_stopWith) (use assms that in \<open>simp add: machine_simps\<close>)
  show ?thesis
    unfolding beginUpdate_def
    by (auto intro!: returns_case_option returns_bind_any returns_bind_mono [OF returns_selectNodes] stop
        returns_startDraining [OF assms] split: option.split)
qed

lemma returns_checkForNodeDrainStatus:
  assumes "fuState fu = StDraining" "\<not> fuDeleting fu"
  shows "returns (\<lambda>(f, _). stepOk fu f) (checkForNodeDrainStatus E fu)"
  unfolding checkForNodeDrainStatus_def Let_def
  by (auto intro!: returns_bind_any returns_case_option returns_logged_write)
     (use assms in \<open>auto simp: machine_simps\<close>)

lemma returns_createJobs:
  "returns (\<lambda>(f, _). fuState f = fuState fu \<and> nodeInfosOf f = nodeInfosOf fu \<and> fuSpec f = fuSpec fu
      \<and> fuName f = fuName fu) (createJobs E ns fu jobs)"
proof (induction ns arbitrary: fu jobs)
  case (Cons n ns)
  have rec: "returns (\<lambda>(f, _). fuState f = fuState fu \<and> nodeInfosOf f = nodeInfosOf fu \<and> fuSpec f = fuSpec fu
      \<and> fuName f = fuName fu) (createJobs E ns fu' jobs')"
    if "fuState fu' = fuState fu" "nodeInfosOf fu' = nodeInfosOf fu" "fuSpec fu' = fuSpec fu" "fuName fu' = fuName fu"
    for fu' jobs'
    using Cons.IH [of fu' jobs'] that by simp
  show ?case
    by (auto intro!: returns_bind_any returns_case_option rec split: sum.split)
qed simp

lemma returns_startUpdateJobs:
  assumes "fuState fu = StUpdating"
  shows "returns (\<lambda>(f, _). stepOk fu f) (startUpdateJobs E fu)"
proof -
  have fail: "stepOk fu (addFuMessage m (setFuState StErrorCleanup f))"
    if "nodeInfosOf f = nodeInfosOf fu" "fuSpec f = fuSpec fu" "fuName f = fuName fu" for f m
    using that assms by (simp add: machine_simps)
  show ?thesis
    unfolding startUpdateJobs_def
    by (auto intro!: returns_bind_mono [OF returns_createJobs] returns_case_option
        returns_bind_mono [OF returns_stopWith] fail)
       (use assms in \<open>simp add: machine_simps\<close>)
qed

lemma returns_tallyJobs:
  "returns (\<lambda>(f, _). fuState f = fuState fu \<and> nodeInfosOf f = nodeInfosOf fu \<and> fuSpec f = fuSpec fu
      \<and> fuName f = fuName fu) (foldM (tallyJob E) js (fu, ty))"
  by (rule returns_foldM)
     (auto simp: tallyJob_def Let_def intro!: returns_bind_any returns_intros split: sum.split option.split)

lemma returns_continueUpdateJobs:
  assumes "fuState fu = StUpdating"
  shows "returns (\<lambda>(f, _). stepOk fu f) (continueUpdateJobs E fu)"
  unfolding continueUpdateJobs_def Let_def
  by (auto intro!: returns_bind_any returns_case_sum returns_bind_mono [OF returns_tallyJobs])
     (use assms in \<open>auto simp: machine_simps afterUpdates_def recordTally_def\<close>)

lemma returns_startOrContinueUpdate:
  assumes "fuState fu = StUpdating"
  shows "returns (\<lambda>(f, _). stepOk fu f) (startOrContinueUpdate E fu)"
  unfolding startOrContinueUpdate_def
  by (auto intro!: returns_bind_mono [OF returns_startUpdateJobs [OF assms]]
      returns_bind_mono [OF returns_continueUpdateJobs [OF assms]] returns_logged_write
      split: option.split sum.split bool.split)

lemma returns_handleCanaryDone:
  assumes "fuState fu = StCanaryDone" "\<not> fuDeleting fu"
  shows "returns (\<lambda>(f, _). stepOk fu f) (handleCanaryDone E fu)"
  unfolding handleCanaryDone_def rollOut_def Let_def
  by (auto intro!: returns_writeOrFail returns_bind_any returns_case_option returns_logged_write)
     (use assms in \<open>auto simp: machine_simps\<close>)

lemma returns_untaintLoop:
  "returns (\<lambda>(f, _). nodeInfosOf f = nodeInfosOf fu \<and> fuSpec f = fuSpec fu \<and> fuName f = fuName fu)
     (foldM (untaintNode E t) ns (fu, err))"
  by (rule returns_foldM)
     (auto simp: untaintNode_def intro!: returns_bind_any split: sum.split bool.split)

lemma returns_untaintNodesAndFinalize:
  assumes "fuState fu \<in> {StCleanup, StErrorCleanup} \<or> fuDeleting fu \<and> fuState fu \<in> {StCanaryDone, StNotStarted, StDraining}"
    and "fuState fu = StCleanup \<or> withError"
  shows "returns (\<lambda>(f, _). stepOk fu f) (untaintNodesAndFinalize E fu withError)"
  unfolding untaintNodesAndFinalize_def
  by (auto intro!: returns_bind_mono [OF returns_untaintLoop] returns_writeOrFail)
     (use assms in \<open>auto simp: machine_simps split: if_splits\<close>)

lemma returns_finalCleanup:
  assumes "fuState fu \<in> {StComplete, StError}"
  shows "returns (\<lambda>(f, _). stepOk fu f) (finalCleanup E fu)"
proof -
  have keep: "stepOk fu f" if "sameObject fu f" for f
    by (rule stepOk_cong [OF that]) (use assms in \<open>auto simp: machine_simps\<close>)
  have fin: "sameObject fu (fu\<lparr>fuFinalizers := fs\<rparr>)" for fs by (simp add: sameObject_def)
  show ?thesis
    unfolding finalCleanup_def Let_def
    by (auto intro!: returns_bind_any returns_case_option returns_if keep fin returns_bind_mono [OF object_answer]
        split: sum.split) (simp_all add: sameObject_def)
qed

lemma returns_updateStep: "returns (\<lambda>(f, _). stepOk fu f) (updateStep E fu)"
proof (cases "fuDeleting fu \<and> fuState fu \<in> {StCanaryDone, StNotStarted, StDraining}")
  case True
  then show ?thesis unfolding updateStep_def by (auto intro!: returns_untaintNodesAndFinalize)
next
  case False
  then show ?thesis
    unfolding updateStep_def
    by (cases "fuState fu")
       (auto intro!: returns_beginUpdate returns_checkForNodeDrainStatus returns_startOrContinueUpdate
         returns_handleCanaryDone returns_untaintNodesAndFinalize returns_finalCleanup,
        auto simp: machine_simps)
qed

end

section \<open>An in-memory environment\<close>

record fwMem = mem +
  mUpdate :: "fwUpdate option"
  mLogs :: "string list"

definition memFwEnv :: "fwMem fwEnv" where
  "memFwEnv =
     \<lparr>cClock = cClock memClient, cGetNode = cGetNode memClient, cUpdateNode = cUpdateNode memClient,
      cListNodes = cListNodes memClient, cListPodsOnNode = cListPodsOnNode memClient,
      cGetPod = cGetPod memClient, cEvict = cEvict memClient, cGetClaim = cGetClaim memClient,
      cGetClaimTemplate = cGetClaimTemplate memClient, cListSlices = cListSlices memClient,
      cListClaims = cListClaims memClient, cGetJob = cGetJob memClient, cCreateJob = cCreateJob memClient,
      cDeleteJob = cDeleteJob memClient, cListJobs = cListJobs memClient,
      cListJobPods = cListJobPods memClient,
      oGetSCC = (\<lambda>n. State_Monad.return (Inl (notFound n))),
      oCreateSCC = (\<lambda>s. State_Monad.return None), oUpdateSCC = (\<lambda>s. State_Monad.return None),
      oGetServiceAccount = (\<lambda>ns n. State_Monad.return (Inl (notFound n))),
      oCreateServiceAccount = (\<lambda>ns n. State_Monad.return None),
      oCreateOrPatchRole = (\<lambda>r. State_Monad.return None),
      oCreateOrPatchBinding = (\<lambda>b. State_Monad.return None),
      oDelete = (\<lambda>k ns n. State_Monad.return None),
      fwNamespace = ''gpu'', fwOpenShift = False,
      fwVerifyImage = (\<lambda>r. State_Monad.return None),
      fwRetrieveLogs = (\<lambda>p c. observe (\<lambda>m. Inr (mLogs m))),
      fwJobTemplate = emptyJob,
      fwSetControllerReference = (\<lambda>fu j. Inr (j\<lparr>jobOwner := Some (fuName fu)\<rparr>)),
      fwGet = (\<lambda>n. observe (\<lambda>m. case mUpdate m of
         None \<Rightarrow> Inl (notFound n) | Some fu \<Rightarrow> if fuName fu = n then Inr fu else Inl (notFound n))),
      fwUpdateObject = (\<lambda>fu. State (\<lambda>m. (Inr fu, m\<lparr>mUpdate := Some fu\<rparr>))),
      fwUpdateStatus = (\<lambda>fu. State (\<lambda>m. (Inr fu, m\<lparr>mUpdate := Some fu\<rparr>)))\<rparr>"

interpretation memUpdates: fw_store memFwEnv
  by unfold_locales (simp_all add: memFwEnv_def returns_iff)

definition fwNode :: "string \<Rightarrow> node" where
  "fwNode n = \<lparr>nodeName = n, nodeLabels = [], nodeTaints = [], nodeDeleting = False, nodeConditions = [(''Ready'', ''True'')]\<rparr>"

definition newUpdate :: "string \<Rightarrow> fwUpdate" where
  "newUpdate method = \<lparr>fuName = ''fw'', fuDeleting = False, fuFinalizers = [],
     fuSpec = \<lparr>usContent = \<lparr>gcContainerImage = ''content'', gcFiles = [\<lparr>ffType = ''GFX'', ffFileName = ''a.bin'', ffChecksum = ''''\<rparr>]\<rparr>,
       usUpdateMethod = method, usUpdaterImage = ''updater'', usImagePullSecret = '''', usPCIDeviceID = ''0xe20b'',
       usUpdateTaint = ''gpufirmware-update'', usTolerations = [], usNodeSelector = None,
       usInsecureSkipTLSVerify = False, usHoldAfterCanary = False\<rparr>,
     fuStatus = \<lparr>ustState = StNotStarted, ustMessages = [], ustNodeInfos = \<lparr>niAll = [], niPending = [], niDraining = [],
       niUpdating = [], niCompleted = [], niError = [], niJobs = []\<rparr>\<rparr>\<rparr>"

definition fwCluster :: fwMem where
  "fwCluster = \<lparr>mClock = 0, mNodes = [fwNode ''n1'', fwNode ''n2''], mPods = [], mPDB = (\<lambda>p. False), mClaims = [],
     mTemplates = [], mSlices = [], mJobs = [], mUpdate = None, mLogs = []\<rparr>"

definition canaryBegin :: "(fwUpdate \<times> fwResult res) \<times> fwMem" where
  "canaryBegin = run_state (updateStep memFwEnv (newUpdate ''canary'')) fwCluster"

lemma canaryBegin_run:
  "run_state (updateStep memFwEnv (newUpdate ''canary'')) fwCluster
     = ((fst (fst canaryBegin), snd (fst canaryBegin)), snd canaryBegin)"
  by (simp add: canaryBegin_def)

lemma canaryBegin_state:
  "fuState (fst (fst canaryBegin)) = StDraining \<and> niAll (nodeInfosOf (fst (fst canaryBegin))) = [''n1'']
     \<and> niPending (nodeInfosOf (fst (fst canaryBegin))) = [''n2'']"
  by code_simp

section \<open>What the machine promises\<close>

text \<open>
  The nodes a listing offers for an update, and how the first pass records them: all of them as nodes
  of the update, or for a canary the first one, the others waiting.
\<close>

definition suitable :: "node list \<Rightarrow> string list" where
  "suitable nds = map nodeName (filter (\<lambda>nd. \<not> nodeDeleting nd \<and> \<not> nodeNotReady nd) nds)"

definition recorded :: "fwUpdate \<Rightarrow> string list \<Rightarrow> fwUpdate \<Rightarrow> bool" where
  "recorded fu ns fu' \<longleftrightarrow>
     (if usUpdateMethod (fuSpec fu) = canaryUpdate \<and> ns \<noteq> []
      then niAll (nodeInfosOf fu') = take 1 ns \<and> niPending (nodeInfosOf fu') = drop 1 ns
      else niAll (nodeInfosOf fu') = ns \<and> niPending (nodeInfosOf fu') = niPending (nodeInfosOf fu))"

text \<open>What a listing in the pass may have offered; a listing that fails offers nothing.\<close>

definition offered :: "('w, 'x) fwEnv_scheme \<Rightarrow> fwUpdate \<Rightarrow> string list \<Rightarrow> bool" where
  "offered E fu ns \<longleftrightarrow> ns = [] \<or>
     (\<exists>nds v v'. run_state (cListNodes E (case usNodeSelector (fuSpec fu) of None \<Rightarrow> [] | Some sel \<Rightarrow> sel)) v = (Inr nds, v')
        \<and> ns = suitable nds)"

definition chosen :: "('w, 'x) fwEnv_scheme \<Rightarrow> fwUpdate \<Rightarrow> fwUpdate \<Rightarrow> bool" where
  "chosen E fu fu' \<longleftrightarrow>
     (\<exists>ns. offered E fu ns \<and> recorded fu ns fu' \<and> (fuState fu' = StDraining \<longrightarrow> ns \<noteq> []))
     \<or> fuState fu' = StError \<and> nodeInfosOf fu' = nodeInfosOf fu"

lemma recorded_cong:
  "niAll (nodeInfosOf f') = niAll (nodeInfosOf f) \<Longrightarrow> niPending (nodeInfosOf f') = niPending (nodeInfosOf f) \<Longrightarrow>
   recorded fu ns f' = recorded fu ns f"
  by (simp only: recorded_def)

lemma chosen_status: "fuStatus f' = fuStatus f \<Longrightarrow> chosen E fu f' = chosen E fu f"
  by (simp only: chosen_def recorded_def)

lemma chosen_cong: "sameObject f f' \<Longrightarrow> chosen E fu f \<Longrightarrow> chosen E fu f'"
  using chosen_status [of f' f E fu] by (simp add: sameObject_def)

lemma chosen_finalizer: "chosen E fu f \<Longrightarrow> chosen E fu (addFuFinalizer f)"
  using chosen_status [of "addFuFinalizer f" f E fu] by (simp add: addFuFinalizer_def)

lemma returns_selectNodesToUpdate: "returns (offered E fu) (selectNodesToUpdate E fu directUpdate)"
  unfolding selectNodesToUpdate_def returns_iff
  by (auto simp: offered_def suitable_def Let_def directUpdate_def canaryUpdate_def split: sum.split prod.split)

lemma returns_selectNodes_recorded:
  "returns (\<lambda>(f, sel, _). \<exists>ns. offered E fu ns \<and> recorded fu ns f \<and> sel = niAll (nodeInfosOf f) \<and> (sel \<noteq> [] \<longrightarrow> ns \<noteq> []))
     (selectNodesTaintAndDrain E fu)"
  unfolding selectNodesTaintAndDrain_def
proof (rule returns_bind_mono [OF returns_selectNodesToUpdate])
  fix ns assume "offered E fu ns"
  then show "returns (\<lambda>(f, sel, _). \<exists>ns. offered E fu ns \<and> recorded fu ns f \<and> sel = niAll (nodeInfosOf f) \<and> (sel \<noteq> [] \<longrightarrow> ns \<noteq> []))
    (let canary = (usUpdateMethod (fuSpec fu) = canaryUpdate \<and> ns \<noteq> []);
         firstBatch = (if canary then take 1 ns else ns);
         fu1 = (if canary then onNodeInfos (niPending_update (\<lambda>_. drop 1 ns)) fu else fu);
         fu2 = onNodeInfos (niAll_update (\<lambda>_. firstBatch)) fu1
     in do {
       (draining, lastErr) \<leftarrow> taintAndDrainNodes E fu2 firstBatch;
       State_Monad.return (onNodeInfos (niDraining_update (\<lambda>_. draining)) fu2, firstBatch, lastErr)
     })"
    unfolding Let_def by (intro returns_bind_any) (auto intro!: exI [of _ ns] simp: recorded_def)
qed

context fw_store
begin

lemma returns_stopWith_chosen:
  "chosen E fu0 (addFuMessage msg (setFuState s fu)) \<Longrightarrow> returns (\<lambda>(f, _). chosen E fu0 f) (stopWith E s msg e fu)"
  unfolding stopWith_def
  by (rule returns_bind_mono [OF status_answer]) (auto split: sum.split intro: chosen_cong)

lemma returns_startDraining_chosen:
  assumes "offered E fu0 ns" "recorded fu0 ns fu" "niAll (nodeInfosOf fu) = sel" "ns \<noteq> []"
  shows "returns (\<lambda>(f, _). chosen E fu0 f) (startDraining E sel fu)"
proof -
  let ?f = "addFuMessage ''Nodes selected, tainted and draining initiated''
      (onNodeInfos (niAll_update (\<lambda>_. sel)) (setFuState StDraining fu))"
  have "recorded fu0 ns ?f" using assms(2,3) recorded_cong [of ?f fu fu0 ns] by simp
  then have "chosen E fu0 ?f" unfolding chosen_def using assms(1,4) by blast
  then show ?thesis
    unfolding startDraining_def Let_def
    by (auto intro!: returns_bind_mono [OF status_answer] returns_case_sum returns_bind_mono [OF object_answer]
        split: sum.split) (meson chosen_cong chosen_finalizer)+
qed

lemma returns_beginUpdate_chosen: "returns (\<lambda>(f, _). chosen E fu f) (beginUpdate E fu)"
proof -
  have early: "returns (\<lambda>(f, _). chosen E fu f) (stopWith E StError msg e fu)" for msg e
    by (rule returns_stopWith_chosen) (simp add: chosen_def)
  have late: "returns (\<lambda>(f, _). chosen E fu f) (stopWith E StError msg e f)"
    if "offered E fu ns" "recorded fu ns f" for msg e f ns
    by (rule returns_stopWith_chosen) (use that in \<open>auto simp: chosen_def recorded_def\<close>)
  show ?thesis
    unfolding beginUpdate_def
    by (auto intro!: returns_case_option returns_bind_any early returns_bind_mono [OF returns_selectNodes_recorded]
        intro: late returns_startDraining_chosen split: option.split)
qed

end



text \<open>
  The life of an update: passes run on the object as it is stored, in any world, and between them
  others edit everything but the status, or delete the object. A pass whose status write fails leaves
  the stored object alone and does not appear. \<open>n\<close> counts the changes of state.
\<close>

inductive fwHistory :: "('w, 'x) fwEnv_scheme \<Rightarrow> fwUpdate \<Rightarrow> nat \<Rightarrow> fwUpdate \<Rightarrow> bool" for E fu where
  start: "fwHistory E fu 0 fu"
| edit: "fwHistory E fu n f \<Longrightarrow> fuStatus f' = fuStatus f \<Longrightarrow> fwHistory E fu n f'"
| pass: "fwHistory E fu n f \<Longrightarrow> run_state (updateStep E f) w = ((f', res), w') \<Longrightarrow>
    fwHistory E fu (if fuState f' = fuState f then n else Suc n) f'"

lemma changesLeft_le: "changesLeft fu \<le> 8"
  by (cases "fuState fu") (simp_all add: changesLeft_def stateRank_def)

context fw_store
begin

lemma history_measure: "fwHistory E fu n f \<Longrightarrow> n + changesLeft f \<le> changesLeft fu"
proof (induction rule: fwHistory.induct)
  case (edit n f f')
  then show ?case using changesLeft_status [OF edit.hyps(2)] by simp
next
  case (pass n f w f' res w')
  from returnsD [OF returns_updateStep pass.hyps(2)] have "stepOk f f'" by simp
  then have "if fuState f' = fuState f then changesLeft f' \<le> changesLeft f else changesLeft f' < changesLeft f"
    unfolding stepOk_def by (elim conjE)
  then show ?case using pass.IH by (simp split: if_splits)
qed simp

text \<open>The passes that wait say so.\<close>

lemma returns_comesBack:
  assumes "fuState fu \<in> {StNotStarted, StDraining, StUpdating, StCanaryDone}" "\<not> fuDeleting fu \<or> fuState fu = StUpdating"
  shows "returns (\<lambda>(_, res). res \<noteq> Inr None) (updateStep E fu)"
  using assms
  by (auto simp: updateStep_def beginUpdate_def stopWith_def startDraining_def checkForNodeDrainStatus_def
      startOrContinueUpdate_def handleCanaryDone_def rollOut_def writeOrFail_def Let_def
      intro!: returns_bind_any split: option.split sum.split bool.split)

end

text \<open>
  C24. Every firmware update comes to rest. Along any history of passes, however they end, with
  edits of the spec and the deletion of the object in between, the number of changes of state made
  and a measure of those left never exceed the measure at the beginning, which is at most eight: an
  update changes its state at most eight times. Until it is completed or has failed, a pass that does
  not change the state fails or asks to be called again.
\<close>

theorem update_comes_to_rest:
  assumes "fw_store E" "fwHistory E fu n f"
  shows "n + changesLeft f \<le> changesLeft fu \<and> n \<le> 8
    \<and> (\<forall>w f' res w'. run_state (updateStep E f) w = ((f', res), w') \<and> fuState f' = fuState f
         \<and> fuState f \<in> {StNotStarted, StDraining, StUpdating, StCanaryDone, StCleanup, StErrorCleanup} \<longrightarrow> res \<noteq> Inr None)"
proof (intro conjI allI impI)
  show m: "n + changesLeft f \<le> changesLeft fu" by (rule fw_store.history_measure [OF assms])
  then show "n \<le> 8" using changesLeft_le [of fu] by simp
  fix w f' res w'
  assume a: "run_state (updateStep E f) w = ((f', res), w') \<and> fuState f' = fuState f
      \<and> fuState f \<in> {StNotStarted, StDraining, StUpdating, StCanaryDone, StCleanup, StErrorCleanup}"
  then have "fuState f' \<in> nextStates (fuDeleting f) (fuState f)"
    using returnsD [OF fw_store.returns_updateStep [OF assms(1)]] by (fastforce simp: stepOk_def)
  then have "fuState f \<in> {StNotStarted, StDraining, StUpdating, StCanaryDone}" "\<not> fuDeleting f \<or> fuState f = StUpdating"
    using a by (auto simp: nextStates_def split: if_splits)
  then show "res \<noteq> Inr None"
    using returnsD [OF fw_store.returns_comesBack [OF assms(1)]] a by fastforce
qed

theorem update_comes_to_rest_witness:
  "fwHistory memFwEnv (newUpdate ''canary'') 1 (fst (fst canaryBegin))
   \<and> 1 + changesLeft (fst (fst canaryBegin)) \<le> changesLeft (newUpdate ''canary'')"
proof -
  have "fwHistory memFwEnv (newUpdate ''canary'')
      (if fuState (fst (fst canaryBegin)) = fuState (newUpdate ''canary'') then 0 else Suc 0) (fst (fst canaryBegin))"
    by (rule fwHistory.pass [OF fwHistory.start canaryBegin_run])
  then have h: "fwHistory memFwEnv (newUpdate ''canary'') 1 (fst (fst canaryBegin))"
    using canaryBegin_state by (simp add: newUpdate_def)
  then show ?thesis using update_comes_to_rest [OF memUpdates.fw_store_axioms h] by blast
qed

end
