(* ===== verification/FirmwareGuarantees.thy ===== *)
theory FirmwareGuarantees
  imports FirmwareMachine DrainGuarantees RecoveryAdmission
begin

text \<open>
  What the firmware update controller promises about the Nodes of the cluster: which it taints
  and when it frees them.
\<close>

section \<open>Nodes\<close>

text \<open>
  A client that keeps Nodes as the API documents, and whose other calls do not touch Nodes.
\<close>

locale fw_nodes = node_store E nodeOf
  for E :: "('w, 'x) fwEnv_scheme" and nodeOf :: "'w \<Rightarrow> string \<Rightarrow> node option" +
  assumes pods_frame: "nodeOf (snd (run_state (cListPodsOnNode E n) w)) = nodeOf w"
    and evict_frame: "nodeOf (snd (run_state (cEvict E p) w)) = nodeOf w"
    and claim_frame: "nodeOf (snd (run_state (cGetClaim E ns n) w)) = nodeOf w"
    and template_frame: "nodeOf (snd (run_state (cGetClaimTemplate E ns n) w)) = nodeOf w"
    and verify_frame: "nodeOf (snd (run_state (fwVerifyImage E req) w)) = nodeOf w"
    and status_frame: "nodeOf (snd (run_state (fwUpdateStatus E fu) w)) = nodeOf w"
    and object_frame: "nodeOf (snd (run_state (fwUpdateObject E fu) w)) = nodeOf w"
begin

lemma keepsNodes_prims:
  "keeps nodeOf (cListPodsOnNode E n)" "keeps nodeOf (cEvict E p)" "keeps nodeOf (cGetClaim E ns n)"
  "keeps nodeOf (cGetClaimTemplate E ns n)" "keeps nodeOf (fwVerifyImage E req)"
  "keeps nodeOf (fwUpdateStatus E fu)" "keeps nodeOf (fwUpdateObject E fu)"
  by (simp_all add: keeps_def pods_frame evict_frame claim_frame template_frame verify_frame status_frame
      object_frame)

lemma keepsNodes_list: "keeps nodeOf (cListNodes E sel)"
  unfolding keeps_def using list_frame by (metis prod.collapse)

lemmas keepsNodes_intros = keeps_return keeps_bind keepsNodes_prims

lemma keepsNodes_podClaims: "keeps nodeOf (podClaimsIntelGPU E claims ns)"
  by (induction claims)
     (auto intro!: keepsNodes_intros split: option.split sum.split bool.split)

lemma keepsNodes_gpuPodsAmong: "keeps nodeOf (gpuPodsAmong E ps)"
  by (induction ps) (auto intro!: keepsNodes_intros keepsNodes_podClaims split: sum.split)

lemma keepsNodes_gpuPods: "keeps nodeOf (GPUPodsOnNode E n)"
  unfolding GPUPodsOnNode_def podsOnNode_def
  by (auto intro!: keepsNodes_intros keepsNodes_gpuPodsAmong split: sum.split)

lemma keepsNodes_evict: "keeps nodeOf (EvictPods E ps)"
proof -
  have "keeps nodeOf (evictAll E ps)"
    by (induction ps) (auto simp: evictPod_def intro!: keepsNodes_intros)
  then show ?thesis unfolding EvictPods_def by (auto intro!: keepsNodes_intros)
qed

lemma keepsNodes_run: "keeps nodeOf m \<Longrightarrow> run_state m w = (x, w') \<Longrightarrow> clusterTaints nodeOf w' = clusterTaints nodeOf w"
  using clusterTaints_frame unfolding keeps_def by (metis snd_conv)

lemma taintAndDrain_taints:
  "run_state (taintAndDrain E t ns dr err) w = (r, w') \<Longrightarrow>
     clusterTaints nodeOf w \<subseteq> clusterTaints nodeOf w'
     \<and> clusterTaints nodeOf w' \<subseteq> clusterTaints nodeOf w \<union> set ns \<times> {taintMark t}
     \<and> (snd r = None \<longrightarrow> set ns \<times> {taintMark t} \<subseteq> clusterTaints nodeOf w')"
proof (induction ns arbitrary: dr err w)
  case (Cons n ns)
  obtain a w1 where a: "run_state (EnsureNodeTaint E n t) w = (a, w1)" by fastforce
  note ens = ensure_refines [OF a]
  show ?case
  proof (cases a)
    case (Inl e)
    then have "w' = w1" "r = (dr, Some e)" using Cons.prems a by simp_all
    then show ?thesis using ens Inl by auto
  next
    case (Inr b)
    obtain g w2 where g: "run_state (GPUPodsOnNode E n) w1 = (g, w2)" by fastforce
    have w2: "clusterTaints nodeOf w2 = insert (n, taintMark t) (clusterTaints nodeOf w)"
      using keepsNodes_run [OF keepsNodes_gpuPods g] ens Inr by simp
    have "\<exists>dr' err' w3. run_state (taintAndDrain E t ns dr' err') w3 = (r, w')
        \<and> clusterTaints nodeOf w3 = clusterTaints nodeOf w2"
    proof (cases g)
      case (Inl e)
      then show ?thesis using Cons.prems a Inr g by auto
    next
      case (Inr pods)
      obtain v w3 where v: "run_state (EvictPods E pods) w2 = (v, w3)" by fastforce
      then show ?thesis
        using Cons.prems a \<open>a = Inr b\<close> g Inr keepsNodes_run [OF keepsNodes_evict v] by auto
    qed
    then obtain dr' err' w3 where rec: "run_state (taintAndDrain E t ns dr' err') w3 = (r, w')"
      "clusterTaints nodeOf w3 = clusterTaints nodeOf w2" by blast
    have "set (n # ns) \<times> {taintMark t} = insert (n, taintMark t) (set ns \<times> {taintMark t})" by auto
    then show ?thesis using Cons.IH [OF rec(1)] unfolding rec(2) w2 by blast
  qed
qed auto

end

text \<open>A computation that adds the taint to at most one node.\<close>

definition touchesOne :: "('w \<Rightarrow> string \<Rightarrow> node option) \<Rightarrow> taint \<Rightarrow> ('w, 'a) io \<Rightarrow> bool" where
  "touchesOne nodeOf t m \<longleftrightarrow>
     (\<forall>w. \<exists>n. clusterTaints nodeOf (snd (run_state m w)) \<subseteq> clusterTaints nodeOf w \<union> {(n, taintMark t)})"

context fw_nodes
begin

lemma touchesOne_keeps: "keeps nodeOf m \<Longrightarrow> touchesOne nodeOf t m"
  unfolding touchesOne_def keeps_def by (metis Un_upper1 clusterTaints_frame)

lemma touchesOne_bind_keeps:
  assumes "touchesOne nodeOf t m" "\<And>x. keeps nodeOf (f x)"
  shows "touchesOne nodeOf t (State_Monad.bind m f)"
  unfolding touchesOne_def
proof
  fix w obtain x w1 where m: "run_state m w = (x, w1)" by fastforce
  have "clusterTaints nodeOf (snd (run_state (f x) w1)) = clusterTaints nodeOf w1"
    using assms(2) [of x] clusterTaints_frame unfolding keeps_def by metis
  then have "clusterTaints nodeOf (snd (run_state (m \<bind> f) w)) = clusterTaints nodeOf (snd (run_state m w))"
    using m by simp
  then show "\<exists>n. clusterTaints nodeOf (snd (run_state (m \<bind> f) w)) \<subseteq> clusterTaints nodeOf w \<union> {(n, taintMark t)}"
    using assms(1) unfolding touchesOne_def by simp
qed

lemma touchesOne_keeps_bind:
  assumes "keeps nodeOf m" "\<And>x. touchesOne nodeOf t (f x)"
  shows "touchesOne nodeOf t (State_Monad.bind m f)"
  unfolding touchesOne_def
proof
  fix w obtain x w1 where m: "run_state m w = (x, w1)" by fastforce
  then have "clusterTaints nodeOf w1 = clusterTaints nodeOf w" by (rule keepsNodes_run [OF assms(1)])
  moreover have "run_state (m \<bind> f) w = run_state (f x) w1" using m by simp
  moreover obtain n where "clusterTaints nodeOf (snd (run_state (f x) w1)) \<subseteq> clusterTaints nodeOf w1 \<union> {(n, taintMark t)}"
    using assms(2) [of x] unfolding touchesOne_def by blast
  ultimately show "\<exists>n. clusterTaints nodeOf (snd (run_state (m \<bind> f) w)) \<subseteq> clusterTaints nodeOf w \<union> {(n, taintMark t)}"
    by auto
qed

lemmas touchesOne_intros = touchesOne_keeps touchesOne_keeps_bind

lemma touchesOne_taint_first: "touchesOne nodeOf t (taintAndDrain E t (take 1 ns) [] None)"
  unfolding touchesOne_def
proof
  fix w
  obtain r w' where run: "run_state (taintAndDrain E t (take 1 ns) [] None) w = (r, w')" by fastforce
  have "set (take 1 ns) \<times> {taintMark t} \<subseteq> {(hd ns, taintMark t)}" by (cases ns) auto
  then show "\<exists>n. clusterTaints nodeOf (snd (run_state (taintAndDrain E t (take 1 ns) [] None) w))
      \<subseteq> clusterTaints nodeOf w \<union> {(n, taintMark t)}"
    using taintAndDrain_taints [OF run] unfolding run snd_conv by blast
qed

lemma keepsNodes_stopWith: "keeps nodeOf (stopWith E st msg e fu)"
  unfolding stopWith_def by (intro keepsNodes_intros)

lemma keepsNodes_startDraining: "keeps nodeOf (startDraining E sel fu)"
  unfolding startDraining_def Let_def by (auto intro!: keepsNodes_intros split: sum.split)

lemma taintFor_nodes [simp]: "taintFor (onNodeInfos f fu) = taintFor fu"
  by (simp add: taintFor_def)

lemma touchesOne_select:
  assumes "usUpdateMethod (fuSpec fu) = canaryUpdate"
  shows "touchesOne nodeOf (taintFor fu) (selectNodesTaintAndDrain E fu)"
proof -
  have sel: "keeps nodeOf (selectNodesToUpdate E fu directUpdate)"
    unfolding selectNodesToUpdate_def by (intro keeps_bind keepsNodes_list keeps_return)
  have none: "touchesOne nodeOf t (taintAndDrain E t [] [] None)" for t
    by (simp add: touchesOne_keeps keeps_return)
  show ?thesis
    unfolding selectNodesTaintAndDrain_def Let_def taintAndDrainNodes_def
  proof (rule touchesOne_keeps_bind [OF sel], rule touchesOne_bind_keeps)
    fix c :: "string list"
    show "touchesOne nodeOf (taintFor fu) (taintAndDrain E
        (taintFor (onNodeInfos (niAll_update (\<lambda>_. if usUpdateMethod (fuSpec fu) = canaryUpdate \<and> c \<noteq> [] then take 1 c else c))
          (if usUpdateMethod (fuSpec fu) = canaryUpdate \<and> c \<noteq> [] then onNodeInfos (niPending_update (\<lambda>_. drop 1 c)) fu else fu)))
        (if usUpdateMethod (fuSpec fu) = canaryUpdate \<and> c \<noteq> [] then take 1 c else c) [] None)"
      using assms none touchesOne_taint_first [of "taintFor fu" c] by (cases "c = []") simp_all
  qed (auto intro: keeps_return)
qed

end

text \<open>On OpenShift the controller also creates accounts, roles and security context constraints, which are no Nodes either.\<close>

locale fw_nodes_openshift = fw_nodes E nodeOf
  for E :: "('w, 'x) fwEnv_scheme" and nodeOf :: "'w \<Rightarrow> string \<Rightarrow> node option" +
  assumes scc_get_frame: "keeps nodeOf (oGetSCC E n)"
    and scc_create_frame: "keeps nodeOf (oCreateSCC E s)"
    and scc_update_frame: "keeps nodeOf (oUpdateSCC E s)"
    and account_get_frame: "keeps nodeOf (oGetServiceAccount E ns n)"
    and account_create_frame: "keeps nodeOf (oCreateServiceAccount E ns n)"
    and role_frame: "keeps nodeOf (oCreateOrPatchRole E ro)"
    and binding_frame: "keeps nodeOf (oCreateOrPatchBinding E bi)"
begin

lemmas openshift_frames = scc_get_frame scc_create_frame scc_update_frame account_get_frame account_create_frame
  role_frame binding_frame keeps_return keeps_bind

lemma keepsNodes_ensure:
  "keeps nodeOf (if b then ensureSCCQuadruple E what part build ns crn else State_Monad.return None)"
  unfolding ensureSCCQuadruple_def CreateServiceAccount_def EnsureSCC_def CreateSCCRole_def CreateSCCRoleBinding_def
  by (auto intro!: openshift_frames split: option.split sum.split prod.split)

lemma touchesOne_beginUpdate:
  assumes "usUpdateMethod (fuSpec fu) = canaryUpdate"
  shows "touchesOne nodeOf (taintFor fu) (beginUpdate E fu)"
proof (cases "verifyGivenParameters fu")
  case (Some e)
  then show ?thesis by (simp add: beginUpdate_def touchesOne_keeps keepsNodes_stopWith)
next
  case None
  have rest: "keeps nodeOf (case x of (fu', selected, err) \<Rightarrow> case err of
      Some e \<Rightarrow> stopWith E StError (''unable to select nodes, taint or drain: '' @ errText e) e fu'
    | None \<Rightarrow> if selected = [] then stopWith E StError ''No suitable nodes found for update''
         (newErr ''no suitable nodes found for update'') fu' else startDraining E selected fu')" for x
    by (auto simp: keepsNodes_stopWith keepsNodes_startDraining split: prod.split option.split)
  have "touchesOne nodeOf (taintFor fu) (verifyContentImage E fu \<bind> (\<lambda>v. case v of
      Some e \<Rightarrow> stopWith E StError (''content image verification failed: '' @ errText e) e fu
    | None \<Rightarrow> selectNodesTaintAndDrain E fu \<bind> (\<lambda>(fu', selected, err). case err of
        Some e \<Rightarrow> stopWith E StError (''unable to select nodes, taint or drain: '' @ errText e) e fu'
      | None \<Rightarrow> if selected = [] then stopWith E StError ''No suitable nodes found for update''
           (newErr ''no suitable nodes found for update'') fu' else startDraining E selected fu')))"
    unfolding verifyContentImage_def
  proof (rule touchesOne_keeps_bind [OF keepsNodes_prims(5)])
    fix v :: "go_error option"
    show "touchesOne nodeOf (taintFor fu) (case v of
        Some e \<Rightarrow> stopWith E StError (''content image verification failed: '' @ errText e) e fu
      | None \<Rightarrow> selectNodesTaintAndDrain E fu \<bind> (\<lambda>(fu', selected, err). case err of
          Some e \<Rightarrow> stopWith E StError (''unable to select nodes, taint or drain: '' @ errText e) e fu'
        | None \<Rightarrow> if selected = [] then stopWith E StError ''No suitable nodes found for update''
             (newErr ''no suitable nodes found for update'') fu' else startDraining E selected fu'))"
    proof (cases v)
      case None
      show ?thesis unfolding None option.case by (rule touchesOne_bind_keeps [OF touchesOne_select [OF assms] rest])
    next
      case (Some e)
      show ?thesis unfolding Some option.case by (rule touchesOne_keeps [OF keepsNodes_stopWith])
    qed
  qed
  then show ?thesis
    unfolding beginUpdate_def None option.case
    by (intro touchesOne_keeps_bind [OF keepsNodes_ensure]) (auto simp: touchesOne_keeps [OF keepsNodes_stopWith] split: option.split)
qed

end

text \<open>The taints of an update after its cleanup, when the calls on Nodes succeed.\<close>

locale fw_nodes_reliable = fw_nodes E nodeOf + reliable_nodes E nodeOf
  for E :: "('w, 'x) fwEnv_scheme" and nodeOf :: "'w \<Rightarrow> string \<Rightarrow> node option"
begin

lemma untaintNode_taints:
  assumes "run_state (untaintNode E t n st) w = (st', w')"
  shows "clusterTaints nodeOf w' = clusterTaints nodeOf w - {(n, taintMark t)}"
proof -
  obtain fu err where st: "st = (fu, err)" by fastforce
  obtain r w1 where r: "run_state (RemoveNodeTaint E n t) w = (r, w1)" by fastforce
  then have w1: "w1 = w'" using assms by (simp add: untaintNode_def st)
  note rem = remove_refines [OF r [unfolded w1]]
  show ?thesis
  proof (cases r)
    case (Inl e)
    then have "nodeOf w n = None" using remove_succeeds r by (metis Inl_Inr_False option.exhaust prod.inject)
    then have "(n, taintMark t) \<notin> clusterTaints nodeOf w" by (simp add: clusterTaints_iff carriesTaint_def)
    then show ?thesis using rem Inl by simp
  next
    case (Inr b)
    then show ?thesis using rem by simp
  qed
qed

lemma untaintLoop_taints:
  "run_state (foldM (untaintNode E t) ns st) w = (st', w') \<Longrightarrow>
     clusterTaints nodeOf w' = clusterTaints nodeOf w - set ns \<times> {taintMark t}"
proof (induction ns arbitrary: st w)
  case (Cons n ns)
  obtain st1 w1 where one: "run_state (untaintNode E t n st) w = (st1, w1)" by fastforce
  then have "run_state (foldM (untaintNode E t) ns st1) w1 = (st', w')" using Cons.prems by simp
  then show ?case using Cons.IH untaintNode_taints [OF one] by auto
qed auto

end

context fw_nodes_reliable
begin

lemma untaintNodesAndFinalize_taints:
  assumes "run_state (untaintNodesAndFinalize E fu err) w = (r, w')"
  shows "clusterTaints nodeOf w' = clusterTaints nodeOf w - set (niAll (nodeInfosOf fu)) \<times> {taintMark (taintFor fu)}"
proof -
  obtain st w1 where loop: "run_state (foldM (untaintNode E (taintFor fu)) (niAll (nodeInfosOf fu)) (fu, None)) w = (st, w1)"
    by fastforce
  obtain fu1 lastErr where st: "st = (fu1, lastErr)" by fastforce
  have keep: "keeps nodeOf (writeOrFail E f res)" for f res
    unfolding writeOrFail_def by (intro keepsNodes_intros)
  have "run_state (writeOrFail E (setFuState (if lastErr \<noteq> None \<or> err then StError else StComplete) fu1) None) w1 = (r, w')"
    using assms loop st by (simp add: untaintNodesAndFinalize_def)
  then have "clusterTaints nodeOf w' = clusterTaints nodeOf w1" by (rule keepsNodes_run [OF keep])
  then show ?thesis using untaintLoop_taints [OF loop] by simp
qed

end

interpretation memFwNodes: fw_nodes_reliable memFwEnv memNode
proof -
  have eqs: "cGetNode memFwEnv = cGetNode memClient" "cUpdateNode memFwEnv = cUpdateNode memClient"
    "cListNodes memFwEnv = cListNodes memClient"
    by (simp_all add: memFwEnv_def)
  have base: "reliable_nodes (memClient :: fwMem client) memNode" by (rule memNodes.reliable_nodes_axioms)
  have rel: "reliable_nodes memFwEnv memNode"
    using base unfolding reliable_nodes_def reliable_nodes_axioms_def node_store_def eqs .
  then have store: "node_store memFwEnv memNode" by (rule reliable_nodes.axioms(1))
  have "fw_nodes memFwEnv memNode"
    using store by (auto simp: fw_nodes_def fw_nodes_axioms_def memFwEnv_def memClient_def memEvict_def memNode_def)
  then show "fw_nodes_reliable memFwEnv memNode" using rel by (simp add: fw_nodes_reliable_def)
qed

interpretation memFwOpenShift: fw_nodes_openshift memFwEnv memNode
  by unfold_locales (simp_all add: memFwEnv_def keeps_return)

text \<open>
  C25. Starting a canary update puts the update's taint on at most one node of the cluster, on
  Kubernetes and on OpenShift, whatever the API server answers and however the pass ends.
\<close>

theorem canary_taints_one_node:
  assumes "fw_nodes_openshift E nodeOf" "fuState fu = StNotStarted" "\<not> fuDeleting fu"
    and "usUpdateMethod (fuSpec fu) = canaryUpdate" "run_state (updateStep E fu) w = (r, w')"
  shows "\<exists>n. clusterTaints nodeOf w' \<subseteq> clusterTaints nodeOf w \<union> {(n, taintMark (taintFor fu))}"
proof -
  have "run_state (beginUpdate E fu) w = (r, w')" using assms(2,3,5) by (simp add: updateStep_def)
  then show ?thesis
    using fw_nodes_openshift.touchesOne_beginUpdate [OF assms(1,4)] unfolding touchesOne_def by (metis snd_conv)
qed

theorem canary_taints_one_node_witness:
  "niAll (nodeInfosOf (fst (fst canaryBegin))) = [''n1'']
   \<and> (\<exists>n. clusterTaints memNode (snd canaryBegin)
        \<subseteq> clusterTaints memNode fwCluster \<union> {(n, taintMark (taintFor (newUpdate ''canary'')))})"
proof -
  have h: "fuState (newUpdate ''canary'') = StNotStarted" "\<not> fuDeleting (newUpdate ''canary'')"
    "usUpdateMethod (fuSpec (newUpdate ''canary'')) = canaryUpdate"
    by (simp_all add: newUpdate_def canaryUpdate_def)
  show ?thesis
    using canary_taints_one_node [OF memFwOpenShift.fw_nodes_openshift_axioms h canaryBegin_run] canaryBegin_state by blast
qed

text \<open>
  C26. Cleaning up after an update frees its nodes: when the calls on Nodes succeed, a pass in one of
  the cleanup states removes the update's taint from every node the update recorded, and removes no
  other taint.
\<close>

theorem cleanup_frees_nodes:
  assumes "fw_nodes_reliable E nodeOf" "fuState fu \<in> {StCleanup, StErrorCleanup}"
    and "run_state (updateStep E fu) w = (r, w')"
  shows "clusterTaints nodeOf w' = clusterTaints nodeOf w - set (niAll (nodeInfosOf fu)) \<times> {taintMark (taintFor fu)}"
proof -
  obtain err where "run_state (untaintNodesAndFinalize E fu err) w = (r, w')"
    using assms(2,3) by (auto simp: updateStep_def)
  then show ?thesis by (rule fw_nodes_reliable.untaintNodesAndFinalize_taints [OF assms(1)])
qed

theorem cleanup_frees_nodes_witness:
  "clusterTaints memNode (snd (run_state (updateStep memFwEnv (setFuState StCleanup (fst (fst canaryBegin)))) (snd canaryBegin)))
     = clusterTaints memNode (snd canaryBegin) - {(''n1'', taintMark (taintFor (fst (fst canaryBegin))))}"
proof -
  let ?fu = "setFuState StCleanup (fst (fst canaryBegin))"
  have "fuState ?fu \<in> {StCleanup, StErrorCleanup}" by simp
  from cleanup_frees_nodes [OF memFwNodes.fw_nodes_reliable_axioms this surjective_pairing, of "snd canaryBegin"]
  have "clusterTaints memNode (snd (run_state (updateStep memFwEnv ?fu) (snd canaryBegin)))
      = clusterTaints memNode (snd canaryBegin) - set (niAll (nodeInfosOf ?fu)) \<times> {taintMark (taintFor ?fu)}" .
  moreover have "taintFor ?fu = taintFor (fst (fst canaryBegin))" by (simp add: taintFor_def)
  moreover have "set (niAll (nodeInfosOf ?fu)) = {''n1''}" using canaryBegin_state by simp
  ultimately show ?thesis by simp
qed

end
