(* ===== verification/FirmwareJobs.thy ===== *)
theory FirmwareJobs
  imports FirmwareMachine RecoveryAdmission
begin

text \<open>
  The update Jobs: they start on drained nodes only, an update counts as done only when every listed
  Job succeeded and its log says so, their names are valid, and the specs they are built from are
  those the webhook of the firmware update accepts.
\<close>

section \<open>Jobs wait for the drain\<close>

lemma stillDraining_grows:
  "run_state (stillDraining E ns remaining) w = ((out, err), w') \<Longrightarrow> set remaining \<subseteq> set out"
  by (induction E ns remaining arbitrary: w rule: stillDraining.induct)
     (auto split: prod.splits sum.splits option.splits if_splits)

lemma stillDraining_Cons_done:
  assumes "run_state (stillDraining E (n # ns) []) w = (([], None), w')"
  obtains w1 where "run_state (GPUPodsOnNode E n) w = (Inr [], w1)"
    and "run_state (stillDraining E ns []) w1 = (([], None), w')"
proof -
  obtain r w1 where r: "run_state (GPUPodsOnNode E n) w = (r, w1)" by fastforce
  obtain pods where pods: "r = Inr pods" using assms r by (cases r) auto
  have "pods = []"
  proof (rule ccontr)
    assume "pods \<noteq> []"
    moreover obtain v w2 where "run_state (EvictPods E pods) w1 = (v, w2)" by fastforce
    ultimately obtain v' where "run_state (stillDraining E ns [n]) v' = (([], None), w')"
      using assms r pods by (cases v) auto
    then show False using stillDraining_grows by fastforce
  qed
  then show thesis using that r pods assms by simp
qed

lemma stillDraining_done:
  "run_state (stillDraining E ns []) w = (([], None), w') \<Longrightarrow> n \<in> set ns \<Longrightarrow>
     \<exists>before after w1 w2. ns = before @ n # after \<and> run_state (stillDraining E before []) w = (([], None), w1)
       \<and> run_state (GPUPodsOnNode E n) w1 = (Inr [], w2)
       \<and> run_state (stillDraining E after []) w2 = (([], None), w')"
proof (induction ns arbitrary: w)
  case (Cons m ns)
  obtain w1 where m: "run_state (GPUPodsOnNode E m) w = (Inr [], w1)"
    and rest: "run_state (stillDraining E ns []) w1 = (([], None), w')"
    using stillDraining_Cons_done [OF Cons.prems(1)] .
  show ?case
  proof (cases "n = m")
    case True
    then have "m # ns = [] @ n # ns" "run_state (stillDraining E [] []) w = (([], None), w)"
      "run_state (GPUPodsOnNode E n) w = (Inr [], w1)" using m by simp_all
    then show ?thesis using rest by blast
  next
    case False
    then obtain before after v1 v2 where *: "ns = before @ n # after"
      "run_state (stillDraining E before []) w1 = (([], None), v1)"
      "run_state (GPUPodsOnNode E n) v1 = (Inr [], v2)" "run_state (stillDraining E after []) v2 = (([], None), w')"
      using Cons.IH [OF rest] Cons.prems(2) by auto
    then have "m # ns = (m # before) @ n # after" "run_state (stillDraining E (m # before) []) w = (([], None), v1)"
      using m by simp_all
    then show ?thesis using *(3,4) by blast
  qed
qed simp

text \<open>
  C27. An update moves on to its Jobs only when its nodes are drained: in the pass that enters the
  updating state, each node still recorded as draining was looked at, after the nodes before it in
  the list and before those after it, and no pod on it used a GPU.
\<close>

theorem jobs_wait_for_drain:
  assumes "fw_store E" "fuState fu = StDraining" "\<not> fuDeleting fu"
    and "run_state (updateStep E fu) w = ((fu', res), w')" "fuState fu' = StUpdating"
    and "n \<in> set (niDraining (nodeInfosOf fu))"
  shows "\<exists>before after w1 w2 w3. niDraining (nodeInfosOf fu) = before @ n # after
    \<and> run_state (stillDraining E before []) w = (([], None), w1)
    \<and> run_state (GPUPodsOnNode E n) w1 = (Inr [], w2)
    \<and> run_state (stillDraining E after []) w2 = (([], None), w3)"
proof -
  obtain rem err w1 where d: "run_state (stillDraining E (niDraining (nodeInfosOf fu)) []) w = ((rem, err), w1)"
    by (metis prod.exhaust)
  have run: "run_state (checkForNodeDrainStatus E fu) w = ((fu', res), w')" using assms(2-4) by (simp add: updateStep_def)
  have wl: "run_state (writeLogged E f) v = (g, v') \<Longrightarrow> fuState g = fuState f" for f g v v'
    using returnsD [OF fw_store.status_answer [OF assms(1)]]
    by (fastforce simp: writeLogged_def sameObject_def split: prod.splits sum.splits)
  have "err = None \<and> rem = []"
  proof (cases err)
    case (Some e)
    then have "\<exists>v. run_state (writeLogged E (addFuMessage (''unable to check drain status: '' @ errText e) (setFuState StError fu))) w1 = (fu', v)"
      using run d by (auto simp: checkForNodeDrainStatus_def split: prod.splits)
    then show ?thesis using wl assms(5) by fastforce
  next
    case None
    then have "rem \<noteq> [] \<Longrightarrow> \<exists>v. run_state (writeLogged E (onNodeInfos (niDraining_update (\<lambda>_. rem)) fu)) w1 = (fu', v)"
      using run d by (auto simp: checkForNodeDrainStatus_def Let_def split: prod.splits)
    then show ?thesis using wl assms(2,5) None by fastforce
  qed
  then have "run_state (stillDraining E (niDraining (nodeInfosOf fu)) []) w = (([], None), w1)" using d by simp
  from stillDraining_done [OF this assms(6)] show ?thesis by blast
qed

definition drainedUpdate :: fwUpdate where
  "drainedUpdate = setFuState StDraining (onNodeInfos (\<lambda>ni. ni\<lparr>niAll := [''n1''], niDraining := [''n1'']\<rparr>) (newUpdate ''direct''))"

theorem jobs_wait_for_drain_witness:
  "\<exists>w1 w2. run_state (GPUPodsOnNode memFwEnv ''n1'') w1 = (Inr [], w2)"
proof -
  let ?run = "run_state (updateStep memFwEnv drainedUpdate) fwCluster"
  have h: "fuState drainedUpdate = StDraining" "\<not> fuDeleting drainedUpdate" "''n1'' \<in> set (niDraining (nodeInfosOf drainedUpdate))"
    by (simp_all add: drainedUpdate_def newUpdate_def)
  have run: "?run = ((fst (fst ?run), snd (fst ?run)), snd ?run)" by simp
  have "fuState (fst (fst ?run)) = StUpdating" by code_simp
  from jobs_wait_for_drain [OF memUpdates.fw_store_axioms h(1,2) run this h(3)] show ?thesis by blast
qed

section \<open>What counts as success\<close>

definition tallyGrows :: "jobTally \<Rightarrow> jobTally \<Rightarrow> bool" where
  "tallyGrows ty ty' \<longleftrightarrow> set (tyRemaining ty) \<subseteq> set (tyRemaining ty') \<and> set (tyFailed ty) \<subseteq> set (tyFailed ty')
     \<and> set (tyUpdated ty) \<subseteq> set (tyUpdated ty')"

definition tallyStep :: "fwUpdate \<times> jobTally \<Rightarrow> fwUpdate \<times> jobTally \<Rightarrow> bool" where
  "tallyStep st st' \<longleftrightarrow> nodeInfosOf (fst st') = nodeInfosOf (fst st) \<and> fuState (fst st') = fuState (fst st)
     \<and> tallyGrows (snd st) (snd st')"

lemma tallyStep_trans: "tallyStep a b \<Longrightarrow> tallyStep b c \<Longrightarrow> tallyStep a c"
  by (auto simp: tallyStep_def tallyGrows_def)

lemma returns_tallyJob_grows: "returns (tallyStep (fu, ty)) (tallyJob E j (fu, ty))"
  unfolding tallyJob_def tallyGrows_def Let_def
  by (auto intro!: returns_bind_any simp: tallyStep_def tallyGrows_def split: option.split sum.split)

lemma returns_tallyJobs_grow: "returns (tallyStep st) (foldM (tallyJob E) js st)"
proof (rule returns_foldM)
  show "tallyStep st st" by (simp add: tallyStep_def tallyGrows_def)
  fix j and st1 :: "fwUpdate \<times> jobTally"
  assume st1: "tallyStep st st1"
  have "returns (tallyStep st1) (tallyJob E j st1)"
    using returns_tallyJob_grows [of "fst st1" "snd st1"] by simp
  then show "returns (tallyStep st) (tallyJob E j st1)"
    by (rule returns_mono) (rule tallyStep_trans [OF st1])
qed

lemma tallyJob_verified:
  assumes "run_state (tallyJob E j (fu, ty)) w = ((fu', ty'), w')" "tyRemaining ty' = []" "tyFailed ty' = []"
    and "map_of (jobLabels j) ''node'' = Some n" "n \<notin> set (niCompleted (nodeInfosOf fu))"
  shows "jobSucceeded j > 0 \<and> run_state (checkJobCompletionFromLogs E j) w = (Inr True, w') \<and> n \<in> set (tyUpdated ty')"
proof -
  obtain r w1 where r: "run_state (checkJobCompletionFromLogs E j) w = (r, w1)" by fastforce
  show ?thesis using assms r by (auto simp: tallyJob_def Let_def split: if_splits)
qed

lemma tallyJobs_verified:
  assumes "run_state (foldM (tallyJob E) (before @ j # after) (fu, ty)) w = ((fu', ty'), w')"
    and "tyRemaining ty' = []" "tyFailed ty' = []"
    and "map_of (jobLabels j) ''node'' = Some n" "n \<notin> set (niCompleted (nodeInfosOf fu))"
  shows "\<exists>st w1 w2. run_state (foldM (tallyJob E) before (fu, ty)) w = (st, w1) \<and> jobSucceeded j > 0
    \<and> run_state (checkJobCompletionFromLogs E j) w1 = (Inr True, w2) \<and> n \<in> set (tyUpdated ty')"
proof -
  obtain f1 t1 w1 where a: "run_state (foldM (tallyJob E) before (fu, ty)) w = ((f1, t1), w1)" by (metis prod.exhaust)
  obtain f2 t2 w2 where b: "run_state (tallyJob E j (f1, t1)) w1 = ((f2, t2), w2)" by (metis prod.exhaust)
  have c: "run_state (foldM (tallyJob E) after (f2, t2)) w2 = ((fu', ty'), w')"
    using assms(1) a b by (simp add: foldM_append)
  have grow: "tallyGrows t2 ty'" and same: "nodeInfosOf f1 = nodeInfosOf fu"
    using returnsD [OF returns_tallyJobs_grow c] returnsD [OF returns_tallyJobs_grow a]
    by (simp_all add: tallyStep_def)
  have "tyRemaining t2 = []" "tyFailed t2 = []" using grow assms(2,3) by (simp_all add: tallyGrows_def)
  from tallyJob_verified [OF b this assms(4)] have "jobSucceeded j > 0"
    "run_state (checkJobCompletionFromLogs E j) w1 = (Inr True, w2)" "n \<in> set (tyUpdated t2)"
    using same assms(5) by simp_all
  moreover have "n \<in> set (tyUpdated ty')" using \<open>n \<in> set (tyUpdated t2)\<close> grow by (auto simp: tallyGrows_def)
  ultimately show ?thesis using a by blast
qed

lemma writeLogged_keeps:
  assumes "fw_store E" "run_state (writeLogged E f) w = (g, w')"
  shows "fuStatus g = fuStatus f"
  using returnsD [OF fw_store.status_answer [OF assms(1)]] assms(2)
  by (fastforce simp: writeLogged_def sameObject_def split: prod.splits sum.splits)

lemma continueUpdateJobs_done:
  assumes "run_state (continueUpdateJobs E fu) w = ((fu', r), w')" "fuState fu = StUpdating"
    and "fuState fu' \<in> {StCleanup, StCanaryDone}"
  obtains js f ty w1 w2 where "r = Inr True"
    "run_state (cListJobs E (fwNamespace E) (''gpufirmwareupdate'', fuName fu)) w = (Inr js, w1)"
    "run_state (foldM (tallyJob E) js (fu, noTally)) w1 = ((f, ty), w2)"
    "tyRemaining ty = []" "tyFailed ty = []" "niCompleted (nodeInfosOf fu') = niCompleted (nodeInfosOf fu) @ tyUpdated ty"
proof -
  obtain l w1 where l: "run_state (cListJobs E (fwNamespace E) (''gpufirmwareupdate'', fuName fu)) w = (l, w1)" by fastforce
  obtain js where js: "l = Inr js" using assms l by (cases l) (auto simp: continueUpdateJobs_def)
  obtain f ty w2 where t: "run_state (foldM (tallyJob E) js (fu, noTally)) w1 = ((f, ty), w2)" by (metis prod.exhaust)
  have same: "nodeInfosOf f = nodeInfosOf fu" and st: "fuState f = StUpdating"
    using returnsD [OF returns_tallyJobs_grow t] assms(2) by (simp_all add: tallyStep_def)
  show thesis
    using that [of js w1 f ty w2] assms l js t same st
    by (auto simp: continueUpdateJobs_def Let_def afterUpdates_def recordTally_def split: if_splits)
qed

text \<open>
  C28. An update ends well, in cleanup or in the pause after the canary, only when the listing of its
  Jobs vouches for it: every listed Job of a node that was not yet completed had succeeded, the log
  of its pod, read in that pass, carries the completion tag, and its node is recorded as completed.
\<close>

theorem success_means_verified:
  assumes "fw_store E" "fuState fu = StUpdating" "niUpdating (nodeInfosOf fu) \<noteq> []"
    and "run_state (updateStep E fu) w = ((fu', res), w')" "fuState fu' \<in> {StCleanup, StCanaryDone}"
  shows "\<exists>js w1. run_state (cListJobs E (fwNamespace E) (''gpufirmwareupdate'', fuName fu)) w = (Inr js, w1)
    \<and> (\<forall>before j after n. js = before @ j # after \<longrightarrow> map_of (jobLabels j) ''node'' = Some n
         \<longrightarrow> n \<notin> set (niCompleted (nodeInfosOf fu)) \<longrightarrow>
         (\<exists>st w2 w3. run_state (foldM (tallyJob E) before (fu, noTally)) w1 = (st, w2) \<and> jobSucceeded j > 0
            \<and> run_state (checkJobCompletionFromLogs E j) w2 = (Inr True, w3)
            \<and> n \<in> set (niCompleted (nodeInfosOf fu'))))"
proof -
  obtain f r w1 where c: "run_state (continueUpdateJobs E fu) w = ((f, r), w1)" by (metis prod.exhaust)
  have same: "fuStatus fu' = fuStatus f"
    using assms(2,3,4) c writeLogged_keeps [OF assms(1)]
    by (auto simp: updateStep_def startOrContinueUpdate_def split: sum.splits bool.splits prod.splits)
  have "fuState f \<in> {StCleanup, StCanaryDone}" using assms(5) same by simp
  from continueUpdateJobs_done [OF c assms(2) this] obtain js g ty v1 v2 where
    l: "run_state (cListJobs E (fwNamespace E) (''gpufirmwareupdate'', fuName fu)) w = (Inr js, v1)"
    and t: "run_state (foldM (tallyJob E) js (fu, noTally)) v1 = ((g, ty), v2)"
    and e: "tyRemaining ty = []" "tyFailed ty = []"
    and n: "niCompleted (nodeInfosOf f) = niCompleted (nodeInfosOf fu) @ tyUpdated ty" .
  show ?thesis using l tallyJobs_verified [OF _ e] t n same by (metis Un_iff set_append)
qed

definition updatingUpdate :: fwUpdate where
  "updatingUpdate = setFuState StUpdating
     (onNodeInfos (\<lambda>ni. ni\<lparr>niAll := [''n1''], niUpdating := [''n1'']\<rparr>) (newUpdate ''direct''))"

definition finishedJob :: job where
  "finishedJob = emptyJob\<lparr>jobName := ''fw-fwupdate-n1'', jobNamespace := ''gpu'',
     jobLabels := [(''gpufirmwareupdate'', ''fw''), (''node'', ''n1'')], jobSucceeded := 1\<rparr>"

definition finishedCluster :: fwMem where
  "finishedCluster = fwCluster\<lparr>mJobs := [finishedJob], mLogs := [''Firmware update process ##COMPLETED##''],
     mPods := [\<lparr>podName = ''p'', podNamespace = ''gpu'', podUID = ''p'', podNodeName = ''n1'',
       podLabels = [(''job-name'', ''fw-fwupdate-n1'')], podAnnotations = [], podOwnerKinds = [''Job''],
       podPhase = ''Succeeded'', podDeleting = False,
       podContainers = [\<lparr>cntName = ''updater'', cntImage = '''', cntPullPolicy = '''', cntArgs = [], cntLimits = []\<rparr>],
       podClaims = []\<rparr>]\<rparr>"

theorem success_means_verified_witness:
  "''n1'' \<in> set (niCompleted (nodeInfosOf (fst (fst (run_state (updateStep memFwEnv updatingUpdate) finishedCluster)))))"
proof -
  let ?run = "run_state (updateStep memFwEnv updatingUpdate) finishedCluster"
  have h: "fuState updatingUpdate = StUpdating" "niUpdating (nodeInfosOf updatingUpdate) \<noteq> []"
    "niCompleted (nodeInfosOf updatingUpdate) = []"
    by (simp_all add: updatingUpdate_def newUpdate_def)
  have run: "?run = ((fst (fst ?run), snd (fst ?run)), snd ?run)" by simp
  have st: "fuState (fst (fst ?run)) = StCleanup" by code_simp
  have list: "run_state (cListJobs memFwEnv (fwNamespace memFwEnv) (''gpufirmwareupdate'', fuName updatingUpdate)) finishedCluster
    = (Inr [finishedJob], finishedCluster)"
    by (simp add: memFwEnv_def memClient_def observe_def updatingUpdate_def newUpdate_def finishedCluster_def
        finishedJob_def setFuState_def onNodeInfos_def)
  obtain js w1 where js: "run_state (cListJobs memFwEnv (fwNamespace memFwEnv) (''gpufirmwareupdate'', fuName updatingUpdate)) finishedCluster = (Inr js, w1)"
    and ok: "\<And>before j after n. js = before @ j # after \<Longrightarrow> map_of (jobLabels j) ''node'' = Some n
      \<Longrightarrow> n \<notin> set (niCompleted (nodeInfosOf updatingUpdate)) \<Longrightarrow> n \<in> set (niCompleted (nodeInfosOf (fst (fst ?run))))"
    using success_means_verified [OF memUpdates.fw_store_axioms h(1,2) run] st by blast
  have "js = [] @ finishedJob # []" using js list by simp
  moreover have "map_of (jobLabels finishedJob) ''node'' = Some ''n1''" by (simp add: finishedJob_def)
  moreover have "''n1'' \<notin> set (niCompleted (nodeInfosOf updatingUpdate))" using h(3) by simp
  ultimately show ?thesis by (rule ok)
qed

text \<open>Jobs that are gone from the listing do not hold an update back: with none listed it is done.\<close>

lemma vanished_jobs_count_as_success:
  assumes "run_state (cListJobs E (fwNamespace E) (''gpufirmwareupdate'', fuName fu)) w = (Inr [], w1)"
    and "usUpdateMethod (fuSpec fu) \<noteq> canaryUpdate"
  shows "\<exists>fu'. run_state (continueUpdateJobs E fu) w = ((fu', Inr True), w1) \<and> fuState fu' = StCleanup"
  using assms by (simp add: continueUpdateJobs_def noTally_def recordTally_def afterUpdates_def Let_def)

section \<open>Job names\<close>

text \<open>A DNS-1123 subdomain: labels of lower case letters, digits and inner dashes, joined by dots.\<close>

definition alnum :: "char \<Rightarrow> bool" where
  "alnum c \<longleftrightarrow> isLowerChar c \<or> isDigitChar c"

definition dotPair :: "char \<Rightarrow> char \<Rightarrow> bool" where
  "dotPair a b \<longleftrightarrow> (a = CHR ''.'' \<longrightarrow> alnum b) \<and> (b = CHR ''.'' \<longrightarrow> alnum a)"

definition subdomain :: "string \<Rightarrow> bool" where
  "subdomain s \<longleftrightarrow> s \<noteq> [] \<and> alnum (hd s) \<and> alnum (last s) \<and> (\<forall>c \<in> set s. alnum c \<or> c = CHR ''-'' \<or> c = CHR ''.'')
     \<and> successively dotPair s"

lemma alnum_simps [simp]: "\<not> alnum CHR ''-''" "\<not> alnum CHR ''.''"
  by (simp_all add: alnum_def isLowerChar_def isDigitChar_def)

lemma successively_no_dot: "CHR ''.'' \<notin> set s \<Longrightarrow> successively dotPair s"
  by (induction s rule: induct_list012) (auto simp: dotPair_def)

lemma dotPair_plain: "a \<noteq> CHR ''.'' \<Longrightarrow> b \<noteq> CHR ''.'' \<Longrightarrow> dotPair a b"
  by (simp add: dotPair_def)

lemma alnum_not_dot: "alnum c \<Longrightarrow> c \<noteq> CHR ''.''"
  by auto

lemma subdomain_join:
  assumes "subdomain a" "subdomain b" "x \<noteq> []" "\<forall>c \<in> set x. alnum c \<or> c = CHR ''-''"
  shows "subdomain (a @ x @ b)"
proof -
  have x: "CHR ''.'' \<notin> set x" using assms(4) by fastforce
  have "hd x \<noteq> CHR ''.''" "last x \<noteq> CHR ''.''" using x hd_in_set [OF assms(3)] last_in_set [OF assms(3)] by metis+
  then have "dotPair (last a) (hd x)" "dotPair (last x) (hd b)"
    using assms(1,2) alnum_not_dot by (auto simp: subdomain_def intro!: dotPair_plain)
  then show ?thesis
    using assms successively_no_dot [OF x] unfolding subdomain_def successively_append_iff by auto
qed

lemma subdomain_fwupdate:
  assumes "subdomain a" "subdomain b"
  shows "subdomain (a @ ''-fwupdate-'' @ b)"
proof (rule subdomain_join [OF assms])
  show "\<forall>c \<in> set ''-fwupdate-''. alnum c \<or> c = CHR ''-''" by code_simp
qed simp

lemma subdomain_hash:
  assumes "subdomain s" "0 < k" "h \<noteq> []" "\<forall>c \<in> set h. alnum c"
  shows "subdomain (trimRightOf (\<lambda>c. c = CHR ''-'' \<or> c = CHR ''.'') (take k s) @ ''-'' @ h)"
proof -
  let ?p = "\<lambda>c. c = CHR ''-'' \<or> c = CHR ''.''" and ?t = "take k s"
  have t: "?t \<noteq> []" "hd ?t = hd s" using assms(1,2) by (auto simp: subdomain_def)
  have "\<not> ?p (hd ?t)" using t assms(1) by (auto simp: subdomain_def)
  then have "dropWhile ?p (rev ?t) \<noteq> []" using hd_in_set [OF t(1)] unfolding dropWhile_eq_Nil_conv set_rev by metis
  then have ne: "trimRightOf ?p ?t \<noteq> []" unfolding trimRightOf_def by simp
  then obtain r where r: "?t = trimRightOf ?p ?t @ r" using trimRightOf_append_last by blast
  define x where "x = trimRightOf ?p ?t"
  have s: "s = x @ (r @ drop k s)" unfolding x_def using r by (metis append_take_drop_id append.assoc)
  have ne': "x \<noteq> []" and l: "\<not> ?p (last x)" unfolding x_def using ne last_trimRightOf [OF ne] by simp_all
  have x: "hd x = hd s" "set x \<subseteq> set s" using ne' s by (metis hd_append2, metis Un_upper1 set_append)
  have suc: "successively dotPair x" using s assms(1) by (metis subdomain_def successively_append_iff)
  have al: "alnum (last x)" using l x(2) assms(1) last_in_set [OF ne'] unfolding subdomain_def by blast
  have "CHR ''.'' \<notin> set h" using assms(4) by fastforce
  then have h: "subdomain h" using assms(3,4) successively_no_dot by (simp add: subdomain_def)
  have "subdomain x" using ne' x suc al assms(1) unfolding subdomain_def by auto
  then show ?thesis unfolding x_def [symmetric] by (rule subdomain_join [OF _ h]) simp_all
qed

text \<open>
  The name of an update Job is a valid DNS-1123 subdomain of at most 63 bytes, whatever the
  lengths of the names of the update and of the node, and spells both when they fit.
\<close>

theorem update_job_names_fit:
  assumes "subdomain fu" "subdomain node"
  shows "subdomain (updateJobName fu node) \<and> length (updateJobName fu node) \<le> 63
    \<and> (length fu + length node \<le> 53 \<longrightarrow> updateJobName fu node = fu @ ''-fwupdate-'' @ node)"
proof -
  define full where "full = fu @ ''-fwupdate-'' @ node"
  let ?cut = "trimRightOf (\<lambda>c. c = CHR ''-'' \<or> c = CHR ''.'') (take 54 full)" and ?h = "take 8 (hexSum full)"
  have name: "updateJobName fu node = (if length full \<le> 63 then full else ?cut @ ''-'' @ ?h)"
    unfolding updateJobName_def full_def Let_def maxUpdateJobNameLen_def jobNameHashLen_def by simp
  have "isLowerHexChar c \<Longrightarrow> alnum c" for c
    by (auto simp: isLowerHexChar_def alnum_def isLowerChar_def isDigitChar_def)
  then have h: "?h \<noteq> []" "\<forall>c \<in> set ?h. alnum c" "length ?h = 8"
    using length_hexSum [of full] hexSum_class by (auto dest!: in_set_takeD)
  have sub: "subdomain full" unfolding full_def by (rule subdomain_fwupdate [OF assms])
  have "length ?cut \<le> 54" using length_trimRightOf [of _ "take 54 full"] by (rule order_trans) simp
  then have "length (updateJobName fu node) \<le> 63" using h(3) by (simp add: name)
  moreover have "subdomain (updateJobName fu node)" using sub subdomain_hash [OF sub _ h(1,2), of 54] by (simp add: name)
  moreover have "length fu + length node \<le> 53 \<longrightarrow> updateJobName fu node = fu @ ''-fwupdate-'' @ node"
    by (simp add: name) (simp add: full_def)
  ultimately show ?thesis by blast
qed

theorem update_job_names_fit_witness:
  "updateJobName ''fw-2026'' ''worker-1.example'' = ''fw-2026-fwupdate-worker-1.example''"
proof -
  have "subdomain ''fw-2026''" "subdomain ''worker-1.example''" by code_simp+
  from update_job_names_fit [OF this] show ?thesis by simp
qed

text \<open>Two pairs of an update and a node can share a Job name.\<close>

lemma update_job_names_ambiguous:
  "updateJobName ''a-fwupdate-b'' ''c'' = updateJobName ''a'' ''b-fwupdate-c''"
  by (simp add: updateJobName_def Let_def)

text \<open>The name is cut to fit a label, the label that carries the node is not.\<close>

lemma node_label_not_cut:
  "map_of (jobLabels (createUpdateJobObjForNode E node fu)) ''node'' = Some node"
  by (simp add: createUpdateJobObjForNode_def)

section \<open>Admission\<close>

definition acceptableFile :: "GPUFirmwareFile \<Rightarrow> bool" where
  "acceptableFile f \<longleftrightarrow> filepathBase (ffFileName f) = ffFileName f \<and> firmwareFileNamePattern (ffFileName f)
     \<and> (ffChecksum f = '''' \<or> hasPrefix (ffChecksum f) ''sha256:'' \<and> length (ffChecksum f) = 71)"

definition acceptableUpdate :: "('w, 'x) webhookLib_scheme \<Rightarrow> GPUFirmwareUpdateSpec \<Rightarrow> bool" where
  "acceptableUpdate L sp \<longleftrightarrow> distinct (map ffFileName (gcFiles (usContent sp)))
     \<and> (\<forall>f \<in> set (gcFiles (usContent sp)). acceptableFile f)
     \<and> ((\<exists>f \<in> set (gcFiles (usContent sp)). ffChecksum f \<noteq> '''')
          \<longrightarrow> containsStr (gcContainerImage (usContent sp)) ''@sha256:'')
     \<and> pciIDPattern (usPCIDeviceID sp)
     \<and> (\<forall>img \<in> {usUpdaterImage sp, gcContainerImage (usContent sp)}. img \<noteq> '''' \<and> wParseReference L img = None)"

lemma duplicateFile_iff:
  "duplicateFile seen fs = None \<longleftrightarrow> distinct (map ffFileName fs) \<and> set (map ffFileName fs) \<inter> seen = {}"
  by (induction seen fs rule: duplicateFile.induct) auto

lemma validateFile_iff: "validateFile f = None \<longleftrightarrow> acceptableFile f"
  by (simp add: validateFile_def acceptableFile_def)

lemma validateFiles_iff:
  "validateFiles fs b = Inr c \<longleftrightarrow>
     (\<forall>f \<in> set fs. acceptableFile f) \<and> (c \<longleftrightarrow> b \<or> (\<exists>f \<in> set fs. ffChecksum f \<noteq> ''''))"
  by (induction fs b rule: validateFiles.induct) (auto simp flip: validateFile_iff split: option.splits)

lemma validateInputs_iff: "validateInputs L sp = None \<longleftrightarrow> acceptableUpdate L sp"
proof -
  let ?fs = "gcFiles (usContent sp)"
  have dup: "duplicateFile {} ?fs = None \<longleftrightarrow> distinct (map ffFileName ?fs)" by (simp add: duplicateFile_iff)
  have img: "validateImage L i = None \<longleftrightarrow> i \<noteq> '''' \<and> wParseReference L i = None" for i by (simp add: validateImage_def)
  show ?thesis
  proof (cases "validateFiles ?fs False")
    case (Inl e)
    then have "\<not> (\<forall>f \<in> set ?fs. acceptableFile f)"
      using validateFiles_iff [of ?fs False "\<exists>f \<in> set ?fs. ffChecksum f \<noteq> ''''"] by auto
    then show ?thesis using Inl by (auto simp: validateInputs_def acceptableUpdate_def split: option.splits)
  next
    case (Inr c)
    then have fs: "\<forall>f \<in> set ?fs. acceptableFile f" "c \<longleftrightarrow> (\<exists>f \<in> set ?fs. ffChecksum f \<noteq> '''')"
      using validateFiles_iff [of ?fs False c] by auto
    have "validateInputs L sp = None \<longleftrightarrow> duplicateFile {} ?fs = None
        \<and> \<not> (c \<and> \<not> containsStr (gcContainerImage (usContent sp)) ''@sha256:'') \<and> pciIDPattern (usPCIDeviceID sp)
        \<and> validateImage L (usUpdaterImage sp) = None \<and> validateImage L (gcContainerImage (usContent sp)) = None"
      using Inr by (simp add: validateInputs_def split: option.split)
    then show ?thesis unfolding acceptableUpdate_def dup img using fs by auto
  qed
qed

text \<open>
  C29. The webhook admits an edit of a firmware update exactly when the new spec is acceptable or the
  update is being deleted, and, while the update is under way, the fields its nodes and Jobs depend
  on, the method, node selector, updater image, device, content and taint, stay as they are; the
  tolerations, the pull secret, the hold after the canary and the TLS flag may be edited. An
  acceptable spec names each file once, by a plain file name, pins the image by digest when it gives
  checksums and refers to images that parse.
\<close>

theorem update_spec_fixed_in_progress:
  "FirmwareUpdate.ValidateUpdate L old new = None \<longleftrightarrow>
     (fuDeleting new \<or> acceptableUpdate L (fuSpec new))
     \<and> (fuState old \<in> inProgressStates \<longrightarrow>
          usUpdateMethod (fuSpec old) = usUpdateMethod (fuSpec new) \<and> usNodeSelector (fuSpec old) = usNodeSelector (fuSpec new)
          \<and> usUpdaterImage (fuSpec old) = usUpdaterImage (fuSpec new) \<and> usPCIDeviceID (fuSpec old) = usPCIDeviceID (fuSpec new)
          \<and> usContent (fuSpec old) = usContent (fuSpec new) \<and> usUpdateTaint (fuSpec old) = usUpdateTaint (fuSpec new))"
  by (simp add: FirmwareUpdate.ValidateUpdate_def immutableFields_def validateInputs_iff [symmetric] split: option.split)

theorem update_spec_fixed_in_progress_witness:
  "FirmwareUpdate.ValidateUpdate lenientLib drainedUpdate (newUpdate ''canary'') \<noteq> None"
  by (simp add: update_spec_fixed_in_progress drainedUpdate_def newUpdate_def inProgressStates_def)

end
