(* ===== verification/PolicyTypes.thy ===== *)
theory PolicyTypes
  imports Drain
begin

text \<open>
  The ClusterPolicy custom resource (\<^verbatim>\<open>api/v1alpha1/clusterpolicy_types.go\<close>) and the options the
  operator's main program gives its controllers (\<^verbatim>\<open>common.ControllerOpts\<close>). An optional field is an
  \<open>option\<close>; \<open>nodeSelector\<close> lists the entries of the map in the order of their keys. Affinities are
  copied into pods and never read, so they stay opaque.
\<close>

section \<open>Parts of the spec\<close>

type_synonym affinity = string

record DynamicResourceAllocationSpec =
  draImage :: string
  draLogLevel :: int
  draPodHealthCheck :: bool
  draManageBinding :: bool
  draAffinity :: "affinity option"

record CDISpec =
  cdiStaticHostPath :: string
  cdiDynamicHostPath :: string

definition CDIDefaultStaticHostPath :: string where "CDIDefaultStaticHostPath = ''/etc/cdi''"
definition CDIDefaultDynamicHostPath :: string where "CDIDefaultDynamicHostPath = ''/var/run/cdi''"

definition WithDefaults :: "CDISpec \<Rightarrow> CDISpec" where
  "WithDefaults c =
     c\<lparr>cdiStaticHostPath := (if cdiStaticHostPath c = '''' then CDIDefaultStaticHostPath else cdiStaticHostPath c),
       cdiDynamicHostPath := (if cdiDynamicHostPath c = '''' then CDIDefaultDynamicHostPath else cdiDynamicHostPath c)\<rparr>"

record HealthinessSpec =
  hsCheckIntervalSeconds :: int
  hsCoreTemperatureThreshold :: int
  hsMemoryTemperatureThreshold :: int

record DevicePluginSpec =
  dpPluginImage :: string
  dpLevelzeroImage :: string
  dpAllowIDs :: "string list"
  dpDenyIDs :: "string list"
  dpByPathMode :: string
  dpLogLevel :: int
  dpAffinity :: "affinity option"

record keySelector =
  ksName :: string
  ksKey :: string

record OTLPHeader =
  ohName :: string
  ohValueFrom :: keySelector

record OTLPTLSSpec =
  otCA :: "keySelector option"
  otClientCertSecret :: "string option"
  otServerName :: string
  otInsecureSkipVerify :: bool

record OTLPExporterSpec =
  oeEndpoint :: string
  oeHeaders :: "OTLPHeader list"
  oeTLS :: "OTLPTLSSpec option"

record OTLPSpec =
  otlpHTTP :: "OTLPExporterSpec option"
  otlpGRPC :: "OTLPExporterSpec option"

text \<open>\<^verbatim>\<open>XpumRestartMode\<close> is a string; the API server's default fills in the first of the constants.\<close>

definition XpumRestartOnRecoveredDevice :: string where "XpumRestartOnRecoveredDevice = ''OnRecoveredDevice''"
definition XpumRestartAlways :: string where "XpumRestartAlways = ''Always''"
definition XpumRestartDisabled :: string where "XpumRestartDisabled = ''Disabled''"

lemmas restart_modes = XpumRestartOnRecoveredDevice_def XpumRestartAlways_def XpumRestartDisabled_def

record XpuManagerSpec =
  xmImage :: string
  xmLogLevel :: int
  xmConfigMapOverride :: string
  xmMonitoringResource :: string
  xmAffinity :: "affinity option"
  xmRestartOnDeviceRecovery :: string
  xmInfoLogs :: bool
  xmCrashLog :: bool
  xmOTLP :: "OTLPSpec option"

record RegistryTLSSpec =
  rtInsecure :: bool
  rtInsecureSkipTLSVerify :: bool

record BuildArg =
  baName :: string
  baValue :: string

record KernelModuleBuildSpec =
  kbDockerfileConfigMap :: string
  kbBuildArgs :: "BuildArg list"
  kbSecrets :: "string list"

record KernelMappingSpec =
  kmRegexp :: string
  kmContainerImage :: string
  kmBuild :: "KernelModuleBuildSpec option"
  kmInTreeModulesToRemove :: "string list"
  kmRegistryTLS :: "RegistryTLSSpec option"

record KernelModuleSpec =
  kspModuleName :: string
  kspVersion :: string
  kspKernelMappings :: "KernelMappingSpec list"
  kspModulesLoadingOrder :: "string list"
  kspFirmwarePath :: string
  kspRegistryTLS :: "RegistryTLSSpec option"

record LocalQueueSpec =
  lqName :: string
  lqNamespace :: string

record ClusterQueueSpec =
  cqName :: string
  cqLocalQueues :: "LocalQueueSpec list"

record KueueQueueSpec =
  kqEqualResources :: "ClusterQueueSpec list"

section \<open>The policy\<close>

record ClusterPolicySpec =
  cpResourceRegistration :: string
  cpResourceMonitoring :: bool
  cpUseNFDLabeling :: bool
  cpPrometheusIntegration :: bool
  cpEnableKueue :: bool
  cpKueue :: "KueueQueueSpec option"
  cpHealth :: "HealthinessSpec option"
  cpDRA :: DynamicResourceAllocationSpec
  cpDP :: DevicePluginSpec
  cpXPU :: XpuManagerSpec
  cpPullSecret :: "string option"
  cpNodeSelector :: "(string \<times> string) list"
  cpTolerations :: "toleration list"
  cpLogLevel :: int
  cpKernelModule :: "KernelModuleSpec option"
  cpCDI :: CDISpec

record ClusterPolicyStatus =
  csDevicePluginStatus :: string
  csDRAStatus :: string
  csXPUManagerStatus :: string
  csKMMStatus :: string
  csErrors :: "string list"

record ClusterPolicy =
  cpName :: string
  cpDeleting :: bool
  cpFinalizers :: "string list"
  cpSpec :: ClusterPolicySpec
  cpStatus :: ClusterPolicyStatus

type_synonym policy = ClusterPolicy

definition resourceModeDRA :: string where "resourceModeDRA = ''dra''"
definition resourceModeDP :: string where "resourceModeDP = ''dp''"

section \<open>A policy\<close>

text \<open>A policy that registers GPUs with DRA and monitors them, with all else left out.\<close>

definition plainPolicy :: policy where
  "plainPolicy = \<lparr>cpName = ''policy'', cpDeleting = False, cpFinalizers = [],
     cpSpec = \<lparr>cpResourceRegistration = resourceModeDRA, cpResourceMonitoring = True, cpUseNFDLabeling = False,
       cpPrometheusIntegration = False, cpEnableKueue = False, cpKueue = None, cpHealth = None,
       cpDRA = \<lparr>draImage = ''dra:1'', draLogLevel = 0, draPodHealthCheck = False, draManageBinding = False, draAffinity = None\<rparr>,
       cpDP = \<lparr>dpPluginImage = '''', dpLevelzeroImage = '''', dpAllowIDs = [], dpDenyIDs = [], dpByPathMode = '''',
               dpLogLevel = 0, dpAffinity = None\<rparr>,
       cpXPU = \<lparr>xmImage = '''', xmLogLevel = 0, xmConfigMapOverride = '''', xmMonitoringResource = '''', xmAffinity = None,
                xmRestartOnDeviceRecovery = '''', xmInfoLogs = False, xmCrashLog = False, xmOTLP = None\<rparr>,
       cpPullSecret = None, cpNodeSelector = [], cpTolerations = [], cpLogLevel = 0, cpKernelModule = None,
       cpCDI = \<lparr>cdiStaticHostPath = '''', cdiDynamicHostPath = ''''\<rparr>\<rparr>,
     cpStatus = \<lparr>csDevicePluginStatus = '''', csDRAStatus = '''', csXPUManagerStatus = '''', csKMMStatus = '''', csErrors = []\<rparr>\<rparr>"

end
