(* ===== verification/DeviceRefresh.thy ===== *)
theory DeviceRefresh
  imports PolicyTypes "HOL-Library.AList"
begin

text \<open>
  The xpumd device refresh controller (\<^verbatim>\<open>clusterpolicy/xpum_device_refresh.go\<close>): for one node it
  compares the GPUs each xpumd pod was given with the GPUs the node's ResourceSlices publish, and
  deletes a pod that misses a usable one so that its DaemonSet replaces it. The three maps guarded by
  the reconciler's mutex are the record \<open>refreshGuards\<close>, passed in and returned. A Go map that is
  iterated is an association list; what the code makes of the iteration is sorted or a set. Log lines
  are left out.
\<close>

section \<open>State and environment\<close>

record refreshGuards =
  lastRestart :: "string \<rightharpoonup> time"
  restartAttempts :: "string \<rightharpoonup> nat"
  lostDevices :: "string \<rightharpoonup> string set"

text \<open>
  The value of the annotation \<^verbatim>\<open>gpu.intel.com/xpum-devices\<close> and the claim names of the pod's
  \<^verbatim>\<open>ResourceClaimStatuses\<close>, which the other controllers do not read.
\<close>

record xpumPod = pod +
  xpDevices :: "string option"
  xpClaimNames :: "string option list"

record 'w refreshEnv = "'w client" +
  rfNamespace :: string
  rfDRAEnable :: bool
  rfRequeueDelay :: int
  rfListPolicies :: "('w, policy list res) io"
  rfListPods :: "string \<Rightarrow> string \<times> string \<Rightarrow> ('w, xpumPod list res) io"
  rfDeletePod :: "xpumPod \<Rightarrow> ('w, go_error option) io"
  rfPatchDevices :: "xpumPod \<Rightarrow> string \<Rightarrow> ('w, go_error option) io"

definition xpuLabel :: string where "xpuLabel = ''app''"
definition xpuValue :: string where "xpuValue = ''intel-xpumanager''"
definition deviceAttrDriver :: string where "deviceAttrDriver = ''driver''"
definition xpumRestartCooldown :: int64 where "xpumRestartCooldown = 120000000000"
definition maxConcurrentXpumRestarts :: nat where "maxConcurrentXpumRestarts = 3"
definition maxXpumRestartAttempts :: nat where "maxXpumRestartAttempts = 3"

record deviceState =
  dsRecovering :: bool
  dsMonitorable :: bool

type_synonym deviceStateMap = "(string \<times> deviceState) list"

definition usable :: "deviceState \<Rightarrow> bool" where
  "usable s \<longleftrightarrow> dsMonitorable s \<and> \<not> dsRecovering s"

datatype restartOutcome = restartDone | restartDeferred | restartAbandoned

datatype restartReason = noReason | restartReasonRecovered | restartReasonRebind

section \<open>What the slices say\<close>

definition deviceNeedsRecovery :: "device \<Rightarrow> bool" where
  "deviceNeedsRecovery dev \<longleftrightarrow> list_ex (\<lambda>k. RecoveryForDeviceTaint k \<noteq> DeviceRecoveryNone) (devTaints dev)"

definition xpumdMonitorableDriver :: "device \<Rightarrow> bool" where
  "xpumdMonitorableDriver dev =
     (case map_of (devAttributes dev) deviceAttrDriver of
        None \<Rightarrow> True
      | Some None \<Rightarrow> True
      | Some (Some s) \<Rightarrow>
          map lowerRune (rangeString s) \<in> {map of_char ''xe'', map of_char ''i915''})"

definition mergeDevice :: "device \<Rightarrow> deviceStateMap \<Rightarrow> deviceStateMap" where
  "mergeDevice dev states =
     AList.update (devName dev)
       (case map_of states (devName dev) of
          None \<Rightarrow> \<lparr>dsRecovering = deviceNeedsRecovery dev, dsMonitorable = xpumdMonitorableDriver dev\<rparr>
        | Some prev \<Rightarrow> \<lparr>dsRecovering = (deviceNeedsRecovery dev \<or> dsRecovering prev),
                       dsMonitorable = (xpumdMonitorableDriver dev \<and> dsMonitorable prev)\<rparr>) states"

definition indexResourceSliceByNodeName :: "resourceSlice \<Rightarrow> string list" where
  "indexResourceSliceByNodeName s =
     (case sliceNodeName s of None \<Rightarrow> [] | Some n \<Rightarrow> if n = '''' then [] else [n])"

text \<open>\<^verbatim>\<open>MatchingFields\<close> on an indexed field selects the objects whose index values contain the given one.\<close>

definition deviceStates :: "('w, 'x) refreshEnv_scheme \<Rightarrow> string \<Rightarrow> ('w, deviceStateMap res) io" where
  "deviceStates E node = do {
     r \<leftarrow> cListSlices E;
     State_Monad.return (case r of
       Inl e \<Rightarrow> Inl (wrapErr (''failed to list ResourceSlices for node '' @ node) e)
     | Inr slices \<Rightarrow>
         Inr (fold (\<lambda>s states. if sliceDriver s \<noteq> GPUDeviceClass then states else fold mergeDevice (sliceDevices s) states)
                (filter (\<lambda>s. node \<in> set (indexResourceSliceByNodeName s)) slices) []))
   }"

section \<open>The record of a pod\<close>

definition parseDeviceRecord :: "string \<Rightarrow> string list" where
  "parseDeviceRecord value = remdups (filter (\<lambda>entry. entry \<noteq> '''') (splitOn (CHR '','') value))"

definition formatDeviceRecord :: "string list \<Rightarrow> string" where
  "formatDeviceRecord names = joinStr '','' (sort names)"

definition patchDeviceRecord ::
  "('w, 'x) refreshEnv_scheme \<Rightarrow> xpumPod \<Rightarrow> string \<Rightarrow> ('w, go_error option) io" where
  "patchDeviceRecord E pd value = do {
     r \<leftarrow> rfPatchDevices E pd value;
     State_Monad.return (map_option
       (wrapErr (''failed to record devices on xpum pod '' @ podNamespace pd @ ''/'' @ podName pd)) r)
   }"

fun allocatedNames ::
  "('w, 'x) refreshEnv_scheme \<Rightarrow> string \<Rightarrow> string option list \<Rightarrow> string list \<Rightarrow> bool \<Rightarrow>
     ('w, (string list \<times> bool) res) io" where
  "allocatedNames E ns [] names found = State_Monad.return (Inr (names, found))"
| "allocatedNames E ns (None # cs) names found = allocatedNames E ns cs names found"
| "allocatedNames E ns (Some c # cs) names found = do {
     r \<leftarrow> cGetClaim E ns c;
     case r of
       Inl e \<Rightarrow> State_Monad.return (Inl (wrapErr (''failed to get ResourceClaim '' @ ns @ ''/'' @ c) e))
     | Inr claim \<Rightarrow>
         (case claimAllocation claim of
            None \<Rightarrow> allocatedNames E ns cs names found
          | Some results \<Rightarrow>
              allocatedNames E ns cs
                (names @ map resDevice (filter (\<lambda>a. resDriver a = GPUDeviceClass) results)) True)
   }"

definition allocatedDeviceNames ::
  "('w, 'x) refreshEnv_scheme \<Rightarrow> xpumPod \<Rightarrow> ('w, (string list \<times> bool) res) io" where
  "allocatedDeviceNames E pd = do {
     r \<leftarrow> allocatedNames E (podNamespace pd) (xpClaimNames pd) [] False;
     State_Monad.return (map_sum id (\<lambda>(names, found). (remdups names, found)) r)
   }"

definition adoptPod ::
  "('w, 'x) refreshEnv_scheme \<Rightarrow> xpumPod \<Rightarrow> deviceStateMap \<Rightarrow> ('w, bool res) io" where
  "adoptPod E pd states = do {
     r \<leftarrow> allocatedDeviceNames E pd;
     case r of
       Inl e \<Rightarrow> State_Monad.return (Inl e)
     | Inr (allocated, ready) \<Rightarrow>
         if \<not> ready then State_Monad.return (Inr True)
         else do {
           let held = filter (\<lambda>n. case map_of states n of None \<Rightarrow> True | Some s \<Rightarrow> usable s) allocated;
           p \<leftarrow> patchDeviceRecord E pd (formatDeviceRecord held);
           State_Monad.return (case p of Some e \<Rightarrow> Inl e | None \<Rightarrow> Inr False)
         }
   }"

section \<open>Missing and rebound devices\<close>

definition missingDevices :: "deviceStateMap \<Rightarrow> string list \<Rightarrow> string list" where
  "missingDevices states held = sort (map fst (filter (\<lambda>(n, s). usable s \<and> n \<notin> set held) states))"

definition lostOn :: "refreshGuards \<Rightarrow> string \<Rightarrow> string set" where
  "lostOn g node = (case lostDevices g node of None \<Rightarrow> {} | Some l \<Rightarrow> l)"

definition trackRebinds ::
  "refreshGuards \<Rightarrow> string \<Rightarrow> string list \<Rightarrow> deviceStateMap \<Rightarrow> refreshGuards \<times> string list" where
  "trackRebinds g node held states =
     (let unusable = filter (\<lambda>n. case map_of states n of None \<Rightarrow> False | Some s \<Rightarrow> \<not> usable s) held;
          rebound = filter (\<lambda>n. case map_of states n of None \<Rightarrow> False | Some s \<Rightarrow> usable s \<and> n \<in> lostOn g node) held
      in (if unusable = [] then g
          else g\<lparr>lostDevices := (lostDevices g)(node \<mapsto> lostOn g node \<union> set unusable)\<rparr>,
          sort rebound))"

definition clearRebinds :: "refreshGuards \<Rightarrow> string \<Rightarrow> string list \<Rightarrow> refreshGuards" where
  "clearRebinds g node names =
     (case lostDevices g node of
        None \<Rightarrow> g
      | Some lost \<Rightarrow>
          if lost - set names = {} then g\<lparr>lostDevices := (lostDevices g)(node := None)\<rparr>
          else g\<lparr>lostDevices := (lostDevices g)(node \<mapsto> lost - set names)\<rparr>)"

definition forgetNode :: "refreshGuards \<Rightarrow> string \<Rightarrow> refreshGuards" where
  "forgetNode g node = \<lparr>lastRestart = (lastRestart g)(node := None),
     restartAttempts = (restartAttempts g)(node := None), lostDevices = (lostDevices g)(node := None)\<rparr>"

definition resetAttempts :: "refreshGuards \<Rightarrow> string \<Rightarrow> refreshGuards" where
  "resetAttempts g node = g\<lparr>restartAttempts := (restartAttempts g)(node := None)\<rparr>"

definition attemptsOn :: "refreshGuards \<Rightarrow> string \<Rightarrow> nat" where
  "attemptsOn g node = (case restartAttempts g node of None \<Rightarrow> 0 | Some k \<Rightarrow> k)"

section \<open>Restarting a pod\<close>

definition listXpumPods :: "('w, 'x) refreshEnv_scheme \<Rightarrow> ('w, xpumPod list res) io" where
  "listXpumPods E = do {
     r \<leftarrow> rfListPods E (rfNamespace E) (xpuLabel, xpuValue);
     State_Monad.return (map_sum (wrapErr ''failed to list xpum pods'') id r)
   }"

definition xpumPodsOnNode :: "('w, 'x) refreshEnv_scheme \<Rightarrow> string \<Rightarrow> ('w, xpumPod list res) io" where
  "xpumPodsOnNode E node = do {
     r \<leftarrow> listXpumPods E;
     State_Monad.return (map_sum id (filter (\<lambda>p. podNodeName p = node \<and> \<not> podDeleting p)) r)
   }"

definition restartingXpumPods :: "('w, 'x) refreshEnv_scheme \<Rightarrow> ('w, nat res) io" where
  "restartingXpumPods E = do {
     r \<leftarrow> listXpumPods E;
     State_Monad.return (map_sum id (\<lambda>ps. length (filter (\<lambda>p. podPhase p \<noteq> ''Running'' \<or> podDeleting p) ps)) r)
   }"

definition restartPod ::
  "('w, 'x) refreshEnv_scheme \<Rightarrow> xpumPod \<Rightarrow> string \<Rightarrow> refreshGuards \<Rightarrow> ('w, refreshGuards \<times> restartOutcome res) io" where
  "restartPod E pd node g =
     (if attemptsOn g node \<ge> maxXpumRestartAttempts then State_Monad.return (g, Inr restartAbandoned)
      else do {
        now \<leftarrow> getNow E;
        if (case lastRestart g node of None \<Rightarrow> False | Some t \<Rightarrow> sint (timeSince now t) < sint xpumRestartCooldown)
        then State_Monad.return (g, Inr restartDeferred)
        else do {
          r \<leftarrow> restartingXpumPods E;
          case r of
            Inl e \<Rightarrow> State_Monad.return (g, Inl e)
          | Inr restarting \<Rightarrow>
              if restarting \<ge> maxConcurrentXpumRestarts then State_Monad.return (g, Inr restartDeferred)
              else do {
                d \<leftarrow> rfDeletePod E pd;
                case d of
                  Some e \<Rightarrow> State_Monad.return (g, Inl (wrapErr
                    (''failed to delete xpum pod '' @ podNamespace pd @ ''/'' @ podName pd) e))
                | None \<Rightarrow> do {
                    now' \<leftarrow> getNow E;
                    State_Monad.return (g\<lparr>lastRestart := (lastRestart g)(node \<mapsto> now'),
                      restartAttempts := (restartAttempts g)(node \<mapsto> attemptsOn g node + 1)\<rparr>, Inr restartDone)
                  }
              }
        }
      })"

section \<open>One pod\<close>

definition restartReasonFor :: "string list \<Rightarrow> string list \<Rightarrow> string \<Rightarrow> restartReason" where
  "restartReasonFor missing rebound mode =
     (if missing \<noteq> [] then restartReasonRecovered
      else if rebound \<noteq> [] \<and> mode = XpumRestartAlways then restartReasonRebind
      else noReason)"

definition refreshPod ::
  "('w, 'x) refreshEnv_scheme \<Rightarrow> string \<Rightarrow> deviceStateMap \<Rightarrow> string \<Rightarrow> xpumPod \<Rightarrow> refreshGuards \<Rightarrow>
     ('w, refreshGuards \<times> bool res) io" where
  "refreshPod E node states mode pd g =
     (if podPhase pd \<noteq> ''Running'' then State_Monad.return (g, Inr False)
      else case xpDevices pd of
        None \<Rightarrow> do { r \<leftarrow> adoptPod E pd states; State_Monad.return (g, r) }
      | Some value \<Rightarrow> do {
          let held = parseDeviceRecord value;
          let missing = missingDevices states held;
          let (g1, rebound) = trackRebinds g node held states;
          let reason = restartReasonFor missing rebound mode;
          if reason = noReason
          then State_Monad.return
                 (resetAttempts (if rebound \<noteq> [] then clearRebinds g1 node rebound else g1) node, Inr False)
          else do {
            (g2, out) \<leftarrow> restartPod E pd node g1;
            State_Monad.return (case out of
              Inl e \<Rightarrow> (g2, Inl e)
            | Inr outcome \<Rightarrow>
                (if reason = restartReasonRebind \<and> outcome \<noteq> restartDeferred then clearRebinds g2 node rebound else g2,
                 Inr (outcome = restartDeferred)))
          }
        })"

section \<open>Reconcile\<close>

definition restartMode :: "('w, 'x) refreshEnv_scheme \<Rightarrow> ('w, string res) io" where
  "restartMode E = do {
     r \<leftarrow> rfListPolicies E;
     State_Monad.return (case r of
       Inl e \<Rightarrow> Inl (wrapErr ''failed to list ClusterPolicies'' e)
     | Inr cps \<Rightarrow>
         (case find (\<lambda>cp. \<not> cpDeleting cp) cps of
            None \<Rightarrow> Inr XpumRestartDisabled
          | Some cp \<Rightarrow>
              if \<not> cpResourceMonitoring (cpSpec cp) then Inr XpumRestartDisabled
              else if \<not> rfDRAEnable E \<or> cpResourceRegistration (cpSpec cp) \<noteq> resourceModeDRA
              then Inr XpumRestartDisabled
              else let mode = xmRestartOnDeviceRecovery (cpXPU (cpSpec cp))
                   in if mode \<in> {XpumRestartOnRecoveredDevice, XpumRestartAlways, XpumRestartDisabled}
                      then Inr mode else Inr XpumRestartOnRecoveredDevice))
   }"

fun refreshPods ::
  "('w, 'x) refreshEnv_scheme \<Rightarrow> string \<Rightarrow> deviceStateMap \<Rightarrow> string \<Rightarrow> xpumPod list \<Rightarrow> refreshGuards \<Rightarrow> bool \<Rightarrow>
     ('w, refreshGuards \<times> bool res) io" where
  "refreshPods E node states mode [] g requeue = State_Monad.return (g, Inr requeue)"
| "refreshPods E node states mode (pd # pds) g requeue = do {
     (g', r) \<leftarrow> refreshPod E node states mode pd g;
     case r of
       Inl e \<Rightarrow> State_Monad.return (g', Inl e)
     | Inr again \<Rightarrow> refreshPods E node states mode pds g' (requeue \<or> again)
   }"

text \<open>The result is the time after which to come back, if any.\<close>

definition ReconcileDevices ::
  "('w, 'x) refreshEnv_scheme \<Rightarrow> string \<Rightarrow> refreshGuards \<Rightarrow> ('w, refreshGuards \<times> int option res) io" where
  "ReconcileDevices E node g = do {
     m \<leftarrow> restartMode E;
     case m of
       Inl e \<Rightarrow> State_Monad.return (g, Inl e)
     | Inr mode \<Rightarrow>
         if mode = XpumRestartDisabled then State_Monad.return (forgetNode g node, Inr None)
         else do {
           s \<leftarrow> deviceStates E node;
           case s of
             Inl e \<Rightarrow> State_Monad.return (g, Inl e)
           | Inr states \<Rightarrow>
               if states = [] then State_Monad.return (forgetNode g node, Inr None)
               else do {
                 p \<leftarrow> xpumPodsOnNode E node;
                 case p of
                   Inl e \<Rightarrow> State_Monad.return (g, Inl e)
                 | Inr pods \<Rightarrow> do {
                     (g', r) \<leftarrow> refreshPods E node states mode pods g False;
                     State_Monad.return (g', map_sum id (\<lambda>requeue. if requeue then Some (rfRequeueDelay E) else None) r)
                   }
               }
         }
   }"

section \<open>Watches\<close>

text \<open>The requests, by name, that an event on a ResourceSlice or on a pod gives rise to.\<close>

definition resourceSliceToNode :: "resourceSlice \<Rightarrow> string list" where
  "resourceSliceToNode s =
     (case sliceNodeName s of
        None \<Rightarrow> [] | Some n \<Rightarrow> if sliceDriver s \<noteq> GPUDeviceClass then [] else [n])"

definition xpumPodToNode :: "('w, 'x) refreshEnv_scheme \<Rightarrow> xpumPod \<Rightarrow> string list" where
  "xpumPodToNode E pd =
     (if podNamespace pd \<noteq> rfNamespace E \<or> map_of (podLabels pd) xpuLabel \<noteq> Some xpuValue \<or> podNodeName pd = ''''
      then [] else [podNodeName pd])"

end
