(* ===== verification/DeviceRefreshGuarantees.thy ===== *)
theory DeviceRefreshGuarantees
  imports DeviceRefresh "HOL-Library.Multiset"
begin

text \<open>
  What the device refresh controller promises: it asks for the deletion of a pod only for a reason
  the slices give and within its limits, it does delete a pod that misses a usable device when the
  limits allow, and the record it keeps on a pod reads back as the devices written.
\<close>

section \<open>The pods it asks to delete\<close>

text \<open>
  \<open>asked w\<close> lists the pods whose deletion has been asked for so far. Nothing is assumed of what the
  calls answer.
\<close>

locale deletion_log =
  fixes E :: "('w, 'x) refreshEnv_scheme" and asked :: "'w \<Rightarrow> xpumPod list"
  assumes slices_keep: "keeps asked (cListSlices E)"
    and claim_keep: "keeps asked (cGetClaim E ns n)"
    and policies_keep: "keeps asked (rfListPolicies E)"
    and pods_keep: "keeps asked (rfListPods E ns kv)"
    and patch_keep: "keeps asked (rfPatchDevices E pd v)"
    and delete_asks: "asked (snd (run_state (rfDeletePod E pd) w)) = asked w @ [pd]"
begin

lemmas keep_prims = keeps_return keeps_observe slices_keep claim_keep policies_keep pods_keep patch_keep

lemma keeps_restartMode: "keeps asked (restartMode E)"
  unfolding restartMode_def by (intro keeps_bind keep_prims)

lemma keeps_deviceStates: "keeps asked (deviceStates E node)"
  unfolding deviceStates_def by (intro keeps_bind keep_prims)

lemma keeps_listXpumPods: "keeps asked (listXpumPods E)"
  unfolding listXpumPods_def by (intro keeps_bind keep_prims)

lemma keeps_xpumPodsOnNode: "keeps asked (xpumPodsOnNode E node)"
  unfolding xpumPodsOnNode_def by (intro keeps_bind keeps_listXpumPods keeps_return)

lemma keeps_restarting: "keeps asked (restartingXpumPods E)"
  unfolding restartingXpumPods_def by (intro keeps_bind keeps_listXpumPods keeps_return)

lemma keeps_allocatedNames: "keeps asked (allocatedNames E ns cs names found)"
proof (induction cs arbitrary: names found)
  case (Cons c cs)
  then show ?case
    by (cases c) (auto intro!: keeps_bind claim_keep keeps_return split: sum.split option.split)
qed (simp add: keeps_return)

lemma keeps_adoptPod: "keeps asked (adoptPod E pd states)"
  unfolding adoptPod_def allocatedDeviceNames_def patchDeviceRecord_def Let_def
  by (auto intro!: keeps_bind keeps_allocatedNames keep_prims split: sum.split)

end

definition cooled :: "('w, 'x) refreshEnv_scheme \<Rightarrow> refreshGuards \<Rightarrow> string \<Rightarrow> 'w \<Rightarrow> bool" where
  "cooled E g node w \<longleftrightarrow>
     (case lastRestart g node of None \<Rightarrow> True | Some t \<Rightarrow> 120000000000 \<le> cClock E w - t)"

lemma cooldown_exact:
  "sint (timeSince now t) < sint xpumRestartCooldown \<longleftrightarrow> now - t < 120000000000"
proof -
  have "sint xpumRestartCooldown = 120000000000" by (simp add: xpumRestartCooldown_def)
  then show ?thesis unfolding sint_timeSince by auto
qed

definition countRestart :: "string \<Rightarrow> time \<Rightarrow> refreshGuards \<Rightarrow> refreshGuards" where
  "countRestart node t g = g\<lparr>lastRestart := (lastRestart g)(node \<mapsto> t),
     restartAttempts := (restartAttempts g)(node \<mapsto> attemptsOn g node + 1)\<rparr>"

context deletion_log
begin

lemma restartPod_run:
  assumes "run_state (restartPod E pd node g) w = ((g', out), w')"
  obtains (idle) "asked w' = asked w" "g' = g" "out \<noteq> Inr restartDone"
  | (ask) w1 n where "attemptsOn g node < 3" "cooled E g node w" "run_state (restartingXpumPods E) w = (Inr n, w1)" "n < 3"
      "asked w' = asked w @ [pd]" "g' = g \<and> (\<exists>e. out = Inl e) \<or> out = Inr restartDone \<and> g' = countRestart node (cClock E w') g"
proof (cases "attemptsOn g node < 3 \<and> cooled E g node w")
  case False
  then have "asked w' = asked w \<and> g' = g \<and> out \<noteq> Inr restartDone"
    using assms by (auto simp: restartPod_def maxXpumRestartAttempts_def cooled_def cooldown_exact split: if_splits option.splits)
  then show ?thesis using idle by blast
next
  case True
  obtain r w1 where r: "run_state (restartingXpumPods E) w = (r, w1)" by fastforce
  then have a1: "asked w1 = asked w" by (rule keepsD [OF keeps_restarting])
  obtain d w2 where d: "run_state (rfDeletePod E pd) w1 = (d, w2)" by fastforce
  then have a2: "asked w2 = asked w1 @ [pd]" using delete_asks [of pd w1] by simp
  show ?thesis
  proof (cases "\<exists>n. r = Inr n \<and> n < 3")
    case False
    then have "asked w' = asked w \<and> g' = g \<and> out \<noteq> Inr restartDone"
      using assms True r a1
      by (auto simp: restartPod_def maxXpumRestartAttempts_def maxConcurrentXpumRestarts_def cooled_def cooldown_exact
          split: if_splits option.splits sum.splits)
    then show ?thesis using idle by blast
  next
    case n: True
    then have "asked w' = asked w @ [pd] \<and> (g' = g \<and> (\<exists>e. out = Inl e) \<or> out = Inr restartDone \<and> g' = countRestart node (cClock E w') g)"
      using assms True r d a1 a2
      by (auto simp: restartPod_def maxXpumRestartAttempts_def maxConcurrentXpumRestarts_def cooled_def cooldown_exact
          countRestart_def split: if_splits option.splits)
    then show ?thesis using ask True n r by blast
  qed
qed

end

section \<open>Reasons\<close>

text \<open>
  Why a pod may be deleted: a usable device of the node is not in its record, or, in the mode that
  restarts on every rebind, a device in its record was seen unusable before and is usable again.
\<close>

definition refreshReason :: "deviceStateMap \<Rightarrow> string \<Rightarrow> string set \<Rightarrow> xpumPod \<Rightarrow> bool" where
  "refreshReason states mode lost pd \<longleftrightarrow>
     (\<exists>value. xpDevices pd = Some value \<and>
        ((\<exists>d s. map_of states d = Some s \<and> usable s \<and> d \<notin> set (parseDeviceRecord value))
         \<or> mode = XpumRestartAlways
             \<and> (\<exists>d s. d \<in> set (parseDeviceRecord value) \<and> d \<in> lost \<and> map_of states d = Some s \<and> usable s)))"

definition unusableIn :: "deviceStateMap \<Rightarrow> string set" where
  "unusableIn states = {d. \<exists>s. map_of states d = Some s \<and> \<not> usable s}"

lemma refreshReason_mono:
  "refreshReason states mode lost' pd \<Longrightarrow> lost' \<subseteq> lost \<union> unusableIn states \<Longrightarrow> refreshReason states mode lost pd"
  by (fastforce simp: refreshReason_def unusableIn_def)

lemma missingDevices_iff:
  assumes "distinct (map fst states)"
  shows "d \<in> set (missingDevices states held) \<longleftrightarrow> (\<exists>s. map_of states d = Some s \<and> usable s \<and> d \<notin> set held)"
  using map_of_eq_Some_iff [OF assms] by (force simp: missingDevices_def)

lemma trackRebinds_rebound:
  "d \<in> set (snd (trackRebinds g node held states)) \<longleftrightarrow>
     d \<in> set held \<and> d \<in> lostOn g node \<and> (\<exists>s. map_of states d = Some s \<and> usable s)"
  by (auto simp: trackRebinds_def Let_def split: option.splits)

lemma trackRebinds_guards:
  "lostOn (fst (trackRebinds g node held states)) node \<subseteq> lostOn g node \<union> unusableIn states"
  "attemptsOn (fst (trackRebinds g node held states)) n = attemptsOn g n"
  "lastRestart (fst (trackRebinds g node held states)) = lastRestart g"
  by (auto simp: trackRebinds_def Let_def lostOn_def unusableIn_def attemptsOn_def split: option.splits)

lemma clearRebinds_lost: "lostOn (clearRebinds g node names) node \<subseteq> lostOn g node"
  by (auto simp: clearRebinds_def lostOn_def split: option.splits if_splits)

lemma clearRebinds_guards [simp]:
  "attemptsOn (clearRebinds g node names) n = attemptsOn g n"
  "lastRestart (clearRebinds g node names) = lastRestart g"
  by (auto simp: clearRebinds_def attemptsOn_def split: option.splits)

lemma resetAttempts_guards [simp]:
  "lostOn (resetAttempts g node) n = lostOn g n"
  "attemptsOn (resetAttempts g node) n = (if n = node then 0 else attemptsOn g n)"
  "lastRestart (resetAttempts g node) = lastRestart g"
  by (auto simp: resetAttempts_def lostOn_def attemptsOn_def)

lemma countRestart_guards [simp]:
  "lostOn (countRestart node t g) n = lostOn g n"
  "attemptsOn (countRestart node t g) n = (if n = node then Suc (attemptsOn g n) else attemptsOn g n)"
  "lastRestart (countRestart node t g) = (lastRestart g)(node \<mapsto> t)"
  by (auto simp: countRestart_def lostOn_def attemptsOn_def)

lemma reason_found:
  assumes "distinct (map fst states)" "xpDevices pd = Some value"
    and "restartReasonFor (missingDevices states (parseDeviceRecord value))
           (snd (trackRebinds g node (parseDeviceRecord value) states)) mode \<noteq> noReason"
  shows "refreshReason states mode (lostOn g node) pd"
proof -
  have "missingDevices states (parseDeviceRecord value) \<noteq> []
      \<or> mode = XpumRestartAlways \<and> snd (trackRebinds g node (parseDeviceRecord value) states) \<noteq> []"
    using assms(3) by (auto simp: restartReasonFor_def split: if_splits)
  then show ?thesis
    using assms(2) missingDevices_iff [OF assms(1)] trackRebinds_rebound
    unfolding refreshReason_def by (metis list.set_sel(1))
qed

section \<open>One pod and one node\<close>

text \<open>How one pod changes the guards of its node, and what it may ask for.\<close>

definition podStep ::
  "('w, 'x) refreshEnv_scheme \<Rightarrow> string \<Rightarrow> deviceStateMap \<Rightarrow> string \<Rightarrow> xpumPod \<Rightarrow> refreshGuards \<Rightarrow> 'w \<Rightarrow>
     refreshGuards \<Rightarrow> bool res \<Rightarrow> 'w \<Rightarrow> xpumPod list \<Rightarrow> bool" where
  "podStep E node states mode pd g w g' r w' new \<longleftrightarrow>
     lostOn g' node \<subseteq> lostOn g node \<union> unusableIn states
     \<and> (new = [] \<and> attemptsOn g' node \<in> {0, attemptsOn g node} \<and> lastRestart g' = lastRestart g
        \<or> new = [pd] \<and> podPhase pd = ''Running'' \<and> refreshReason states mode (lostOn g node) pd
          \<and> attemptsOn g node < 3 \<and> cooled E g node w
          \<and> ((\<exists>e. r = Inl e) \<and> attemptsOn g' node = attemptsOn g node \<and> lastRestart g' = lastRestart g
              \<or> attemptsOn g' node = Suc (attemptsOn g node) \<and> lastRestart g' node = Some (cClock E w')))"

context deletion_log
begin

lemma refreshPod_run:
  assumes "distinct (map fst states)" "run_state (refreshPod E node states mode pd g) w = ((g', r), w')"
  shows "\<exists>new. asked w' = asked w @ new \<and> podStep E node states mode pd g w g' r w' new"
proof (cases "podPhase pd = ''Running''")
  case False
  then show ?thesis using assms(2) by (auto simp: refreshPod_def podStep_def)
next
  case run: True
  show ?thesis
  proof (cases "xpDevices pd")
    case None
    then obtain b where "run_state (adoptPod E pd states) w = (b, w')" "g' = g"
      using assms(2) run by (auto simp: refreshPod_def split: prod.splits)
    then show ?thesis using keepsD [OF keeps_adoptPod] by (fastforce simp: podStep_def)
  next
    case (Some val)
    define held where "held = parseDeviceRecord val"
    obtain g1 rebound where tr: "trackRebinds g node held states = (g1, rebound)" by fastforce
    note g1 = trackRebinds_guards [of g node held states, unfolded tr fst_conv]
    let ?reason = "restartReasonFor (missingDevices states held) rebound mode"
    show ?thesis
    proof (cases "?reason = noReason")
      case True
      then have "g' = resetAttempts (if rebound \<noteq> [] then clearRebinds g1 node rebound else g1) node" "w' = w"
        using assms(2) run Some tr by (simp_all add: refreshPod_def Let_def held_def)
      then show ?thesis using g1 clearRebinds_lost [of g1 node rebound] by (auto simp: podStep_def)
    next
      case False
      obtain g2 out where rs: "run_state (restartPod E pd node g1) w = ((g2, out), w')"
        and res: "(g', r) = (case out of Inl e \<Rightarrow> (g2, Inl e) | Inr outcome \<Rightarrow>
          (if ?reason = restartReasonRebind \<and> outcome \<noteq> restartDeferred then clearRebinds g2 node rebound else g2,
           Inr (outcome = restartDeferred)))"
        using assms(2) run Some tr False
        by (auto simp: refreshPod_def Let_def held_def [symmetric] split: prod.splits)
      have why: "refreshReason states mode (lostOn g node) pd"
        using reason_found [OF assms(1) Some, of g node mode] False tr by (simp add: held_def)
      have g': "attemptsOn g' node = attemptsOn g2 node" "lastRestart g' = lastRestart g2" "lostOn g' node \<subseteq> lostOn g2 node"
        using res by (auto split: sum.splits if_splits dest: subsetD [OF clearRebinds_lost])
      from rs show ?thesis
      proof (cases rule: restartPod_run)
        case idle
        then show ?thesis using g' g1 by (auto simp: podStep_def)
      next
        case ask
        have "cooled E g node w" using ask(2) g1(3) by (simp add: cooled_def)
        moreover have "(\<exists>e. r = Inl e) \<and> attemptsOn g' node = attemptsOn g node \<and> lastRestart g' = lastRestart g
            \<or> attemptsOn g' node = Suc (attemptsOn g node) \<and> lastRestart g' node = Some (cClock E w')"
          using ask(6) res g' g1 by (auto split: sum.splits)
        moreover have "lostOn g2 node = lostOn g1 node" using ask(6) by auto
        ultimately show ?thesis using ask(1,5) why run g' g1 by (auto simp: podStep_def)
      qed
    qed
  qed
qed

lemma refreshPods_run:
  assumes "distinct (map fst states)" "run_state (refreshPods E node states mode pds g b) w = ((g', r), w')"
  shows "\<exists>new. asked w' = asked w @ new
    \<and> (\<forall>pd \<in> set new. pd \<in> set pds \<and> podPhase pd = ''Running'' \<and> refreshReason states mode (lostOn g node) pd)"
  using assms(2)
proof (induction pds arbitrary: g b w)
  case (Cons pd pds)
  obtain g1 r1 w1 where one: "run_state (refreshPod E node states mode pd g) w = ((g1, r1), w1)" by (metis prod.exhaust)
  then obtain new where new: "asked w1 = asked w @ new" and st: "podStep E node states mode pd g w g1 r1 w1 new"
    using refreshPod_run [OF assms(1)] by blast
  have lost: "lostOn g1 node \<subseteq> lostOn g node \<union> unusableIn states"
    and ok: "\<forall>x \<in> set new. x = pd \<and> podPhase x = ''Running'' \<and> refreshReason states mode (lostOn g node) x"
    using st unfolding podStep_def by auto
  show ?case
  proof (cases r1)
    case (Inl e)
    then have "w' = w1" using Cons.prems one by simp
    then show ?thesis using new ok by auto
  next
    case (Inr again)
    then have "run_state (refreshPods E node states mode pds g1 (b \<or> again)) w1 = ((g', r), w')" using Cons.prems one by simp
    from Cons.IH [OF this] obtain new' where "asked w' = asked w1 @ new'"
      and ok': "\<forall>x \<in> set new'. x \<in> set pds \<and> podPhase x = ''Running'' \<and> refreshReason states mode (lostOn g1 node) x" by blast
    then have "asked w' = asked w @ (new @ new')" using new by simp
    moreover have "\<forall>x \<in> set (new @ new'). x \<in> set (pd # pds) \<and> podPhase x = ''Running'' \<and> refreshReason states mode (lostOn g node) x"
      using ok ok' refreshReason_mono [OF _ lost] by auto
    ultimately show ?thesis by blast
  qed
qed simp

end

lemma distinct_mergeDevice: "distinct (map fst states) \<Longrightarrow> distinct (map fst (mergeDevice dev states))"
  by (simp add: mergeDevice_def distinct_update)

lemma distinct_deviceStates:
  assumes "run_state (deviceStates E node) w = (Inr states, w')"
  shows "distinct (map fst states)"
proof -
  have devs: "distinct (map fst st) \<Longrightarrow> distinct (map fst (fold mergeDevice ds st))" for ds st
    by (induction ds arbitrary: st) (auto intro: distinct_mergeDevice)
  have "distinct (map fst st) \<Longrightarrow> distinct (map fst
      (fold (\<lambda>s states. if sliceDriver s \<noteq> GPUDeviceClass then states else fold mergeDevice (sliceDevices s) states) ss st))" for ss st
    by (induction ss arbitrary: st) (auto intro: devs)
  from this [of "[]"] show ?thesis using assms by (auto simp: deviceStates_def split: prod.splits sum.splits)
qed

text \<open>A pass that gets as far as the pods of the node.\<close>

definition podPass ::
  "('w, 'x) refreshEnv_scheme \<Rightarrow> string \<Rightarrow> 'w \<Rightarrow> string \<Rightarrow> deviceStateMap \<Rightarrow> xpumPod list \<Rightarrow> 'w \<Rightarrow> bool" where
  "podPass E node w mode states pods w3 \<longleftrightarrow> (\<exists>w1 w2.
     run_state (restartMode E) w = (Inr mode, w1) \<and> mode \<noteq> XpumRestartDisabled
     \<and> run_state (deviceStates E node) w1 = (Inr states, w2) \<and> states \<noteq> []
     \<and> run_state (xpumPodsOnNode E node) w2 = (Inr pods, w3))"

lemma podPass_pods:
  assumes "podPass E node w mode states pods w3"
  shows "distinct (map fst states)" "\<forall>pd \<in> set pods. podNodeName pd = node \<and> \<not> podDeleting pd"
proof -
  obtain w1 w2 where *: "run_state (deviceStates E node) w1 = (Inr states, w2)"
    "run_state (xpumPodsOnNode E node) w2 = (Inr pods, w3)" using assms unfolding podPass_def by auto
  show "distinct (map fst states)" by (rule distinct_deviceStates [OF *(1)])
  obtain r :: "xpumPod list res" where "map_sum id (filter (\<lambda>p. podNodeName p = node \<and> \<not> podDeleting p)) r = Inr pods"
    using *(2) by (auto simp: xpumPodsOnNode_def split: prod.splits)
  then show "\<forall>pd \<in> set pods. podNodeName pd = node \<and> \<not> podDeleting pd" by (cases r) auto
qed

lemma podPass_run:
  assumes "podPass E node w mode states pods w3"
  shows "run_state (ReconcileDevices E node g) w =
    (case run_state (refreshPods E node states mode pods g False) w3 of ((g', r), w') \<Rightarrow>
       ((g', map_sum id (\<lambda>requeue. if requeue then Some (rfRequeueDelay E) else None) r), w'))"
  using assms by (auto simp: podPass_def ReconcileDevices_def split: prod.splits)

context deletion_log
begin

lemma podPass_asked: "podPass E node w mode states pods w3 \<Longrightarrow> asked w3 = asked w"
  unfolding podPass_def
  by (metis keepsD keeps_restartMode keeps_deviceStates keeps_xpumPodsOnNode)

lemma ReconcileDevices_run:
  assumes "run_state (ReconcileDevices E node g) w = ((g', r), w')"
  obtains (early) "asked w' = asked w" "g' \<in> {g, forgetNode g node}"
  | (pods) mode states pods w3 where "podPass E node w mode states pods w3"
proof -
  obtain m w1 where m: "run_state (restartMode E) w = (m, w1)" by fastforce
  obtain s w2 where s: "run_state (deviceStates E node) w1 = (s, w2)" by fastforce
  obtain p w3 where p: "run_state (xpumPodsOnNode E node) w2 = (p, w3)" by fastforce
  have a: "asked w1 = asked w" "asked w2 = asked w" "asked w3 = asked w"
    using keepsD [OF keeps_restartMode m] keepsD [OF keeps_deviceStates s] keepsD [OF keeps_xpumPodsOnNode p] by simp_all
  show thesis
  proof (cases "\<exists>mode states pods. m = Inr mode \<and> mode \<noteq> XpumRestartDisabled \<and> s = Inr states \<and> states \<noteq> [] \<and> p = Inr pods")
    case True
    then show thesis using pods m s p unfolding podPass_def by blast
  next
    case False
    then have "asked w' = asked w \<and> g' \<in> {g, forgetNode g node}"
      using assms m s p a by (auto simp: ReconcileDevices_def split: sum.splits if_splits)
    then show thesis using early by blast
  qed
qed

end

section \<open>Guards of other nodes\<close>

definition othersKept :: "string \<Rightarrow> refreshGuards \<Rightarrow> refreshGuards \<Rightarrow> bool" where
  "othersKept node g g' \<longleftrightarrow> (\<forall>n. n \<noteq> node \<longrightarrow> restartAttempts g' n = restartAttempts g n
     \<and> lastRestart g' n = lastRestart g n \<and> lostDevices g' n = lostDevices g n)"

lemma othersKept_trans: "othersKept node g g1 \<Longrightarrow> othersKept node g1 g2 \<Longrightarrow> othersKept node g g2"
  by (simp add: othersKept_def)

lemma othersKept_ops:
  "othersKept node g g" "othersKept node g (forgetNode g node)" "othersKept node g (resetAttempts g node)"
  "othersKept node g (clearRebinds g node names)" "othersKept node g (fst (trackRebinds g node held states))"
  by (auto simp: othersKept_def forgetNode_def resetAttempts_def clearRebinds_def trackRebinds_def Let_def
      split: option.split)

lemma returns_restartPod: "returns (\<lambda>(g', _). othersKept node g g') (restartPod E pd node g)"
  unfolding restartPod_def
  by (auto intro!: returns_bind_any returns_intros simp: othersKept_def)

lemma returns_refreshPod: "returns (\<lambda>(g', _). othersKept node g g') (refreshPod E node states mode pd g)"
proof (cases "podPhase pd = ''Running''")
  case run: True
  show ?thesis
  proof (cases "xpDevices pd")
    case None
    then show ?thesis using run by (auto simp: refreshPod_def othersKept_ops intro!: returns_bind_any)
  next
    case (Some val)
    obtain g1 rb where tr: "trackRebinds g node (parseDeviceRecord val) states = (g1, rb)" by fastforce
    then have g1: "othersKept node g g1" using othersKept_ops(5) [of node g "parseDeviceRecord val" states] by simp
    have clear: "othersKept node g (clearRebinds g2 node ns)" if "othersKept node g g2" for g2 ns
      by (rule othersKept_trans [OF that othersKept_ops(4)])
    have reset: "othersKept node g (resetAttempts g2 node)" if "othersKept node g g2" for g2
      by (rule othersKept_trans [OF that othersKept_ops(3)])
    have restart: "returns (\<lambda>(g', _). othersKept node g g') (restartPod E pd node g1)"
      by (rule returns_mono [OF returns_restartPod]) (auto intro: othersKept_trans [OF g1])
    show ?thesis
      using run Some tr
      by (auto simp: refreshPod_def Let_def intro!: reset clear g1 returns_bind_mono [OF restart] split: sum.split)
  qed
qed (simp add: refreshPod_def othersKept_ops)

lemma returns_refreshPods: "returns (\<lambda>(g', _). othersKept node g g') (refreshPods E node states mode pds g b)"
proof (induction pds arbitrary: g b)
  case (Cons pd pds)
  have rest: "returns (\<lambda>(g', _). othersKept node g g') (refreshPods E node states mode pds g1 b1)"
    if "othersKept node g g1" for g1 b1
    by (rule returns_mono [OF Cons.IH [of g1 b1]]) (use that othersKept_trans in auto)
  show ?case
    by (auto intro!: returns_bind_mono [OF returns_refreshPod] returns_intros rest)
qed (simp add: othersKept_ops)

lemma returns_ReconcileDevices: "returns (\<lambda>(g', _). othersKept node g g') (ReconcileDevices E node g)"
  unfolding ReconcileDevices_def
  by (auto intro!: returns_bind_any returns_intros returns_bind_mono [OF returns_refreshPods] simp: othersKept_ops)

section \<open>An in-memory environment\<close>

record refreshMem = mem +
  rmPolicies :: "policy list"
  rmPods :: "xpumPod list"
  rmAsked :: "xpumPod list"

definition samePod :: "xpumPod \<Rightarrow> xpumPod \<Rightarrow> bool" where
  "samePod a b \<longleftrightarrow> podName a = podName b \<and> podNamespace a = podNamespace b"

definition memRefreshEnv :: "refreshMem refreshEnv" where
  "memRefreshEnv =
     \<lparr>cClock = cClock memClient, cGetNode = cGetNode memClient, cUpdateNode = cUpdateNode memClient,
      cListNodes = cListNodes memClient, cListPodsOnNode = cListPodsOnNode memClient,
      cGetPod = cGetPod memClient, cEvict = cEvict memClient, cGetClaim = cGetClaim memClient,
      cGetClaimTemplate = cGetClaimTemplate memClient, cListSlices = cListSlices memClient,
      cListClaims = cListClaims memClient, cGetJob = cGetJob memClient, cCreateJob = cCreateJob memClient,
      cDeleteJob = cDeleteJob memClient, cListJobs = cListJobs memClient, cListJobPods = cListJobPods memClient,
      rfNamespace = ''gpu'', rfDRAEnable = True, rfRequeueDelay = 10,
      rfListPolicies = observe (\<lambda>m. Inr (rmPolicies m)),
      rfListPods = (\<lambda>ns kv. observe (\<lambda>m. Inr (filter (\<lambda>p. podNamespace p = ns \<and> kv \<in> set (podLabels p)) (rmPods m)))),
      rfDeletePod = (\<lambda>pd. State (\<lambda>m. (None, m\<lparr>rmPods := filter (\<lambda>x. \<not> samePod pd x) (rmPods m), rmAsked := rmAsked m @ [pd]\<rparr>))),
      rfPatchDevices = (\<lambda>pd v. State (\<lambda>m. (None, m\<lparr>rmPods := map (\<lambda>x. if samePod pd x then x\<lparr>xpDevices := Some v\<rparr> else x) (rmPods m)\<rparr>)))\<rparr>"

interpretation memRefresh: deletion_log memRefreshEnv rmAsked
  by unfold_locales (simp_all add: memRefreshEnv_def memClient_def keeps_def)

section \<open>What the controller promises\<close>

text \<open>
  The policy that governs a pass, the first that is not being deleted of those listed as the pass
  begins, has monitoring on and registers resources by DRA, which the operator was started with, and
  asks for restarts; \<open>mode\<close> is what it asks for.
\<close>

definition restartsAllowed :: "('w, 'x) refreshEnv_scheme \<Rightarrow> 'w \<Rightarrow> string \<Rightarrow> bool" where
  "restartsAllowed E w mode \<longleftrightarrow>
     (\<exists>cps w1 cp. run_state (rfListPolicies E) w = (Inr cps, w1) \<and> find (\<lambda>cp. \<not> cpDeleting cp) cps = Some cp
        \<and> cpResourceMonitoring (cpSpec cp) \<and> rfDRAEnable E \<and> cpResourceRegistration (cpSpec cp) = resourceModeDRA
        \<and> xmRestartOnDeviceRecovery (cpXPU (cpSpec cp)) \<noteq> XpumRestartDisabled
        \<and> mode = (if xmRestartOnDeviceRecovery (cpXPU (cpSpec cp)) = XpumRestartAlways then XpumRestartAlways
                  else XpumRestartOnRecoveredDevice))"

lemma podPass_allowed: "podPass E node w mode states pods w3 \<Longrightarrow> restartsAllowed E w mode"
  by (auto simp: podPass_def restartMode_def restartsAllowed_def Let_def split: prod.splits sum.splits option.splits if_splits)

text \<open>
  C30. The controller asks to delete a pod only for cause: the ClusterPolicy has monitoring with DRA
  on and does not disable restarts, the pod is a running xpumd pod of the node that is not being
  deleted, and either the slices publish a usable GPU that its record does not have, or, when the
  policy asks to act on every rebind, a GPU of its record that was seen unusable by an earlier pass is
  usable again. This holds whatever the API server answers.
\<close>

theorem restart_is_justified:
  assumes "deletion_log E asked" "run_state (ReconcileDevices E node g) w = ((g', r), w')"
  shows "\<exists>new. asked w' = asked w @ new \<and> (\<forall>pd \<in> set new. \<exists>mode states pods w3.
    restartsAllowed E w mode \<and> podPass E node w mode states pods w3 \<and> pd \<in> set pods \<and> podNodeName pd = node \<and> \<not> podDeleting pd
    \<and> podPhase pd = ''Running'' \<and> refreshReason states mode (lostOn g node) pd)"
  using assms(2)
proof (cases rule: deletion_log.ReconcileDevices_run [OF assms(1), consumes 1, case_names early pods])
  case (pods mode states pods w3)
  obtain r' where "run_state (refreshPods E node states mode pods g False) w3 = ((g', r'), w')"
    using assms(2) podPass_run [OF pods, of g] by (auto split: prod.splits)
  then obtain new where "asked w' = asked w3 @ new" "\<forall>pd \<in> set new. pd \<in> set pods \<and> podPhase pd = ''Running''
      \<and> refreshReason states mode (lostOn g node) pd"
    using deletion_log.refreshPods_run [OF assms(1) podPass_pods(1) [OF pods]] by blast
  then show ?thesis
    using deletion_log.podPass_asked [OF assms(1) pods] podPass_pods(2) [OF pods] podPass_allowed [OF pods] pods by auto
qed auto

text \<open>A node with one usable GPU that the record of its pod does not have.\<close>

definition stalePod :: xpumPod where
  "stalePod = \<lparr>podName = ''xpumd-1'', podNamespace = ''gpu'', podUID = ''u'', podNodeName = ''n1'',
     podLabels = [(xpuLabel, xpuValue)], podAnnotations = [], podOwnerKinds = [''DaemonSet''], podPhase = ''Running'',
     podDeleting = False, podContainers = [], podClaims = [], xpDevices = Some ''a'', xpClaimNames = []\<rparr>"

definition staleNode :: refreshMem where
  "staleNode = \<lparr>mClock = 0, mNodes = [], mPods = [], mPDB = (\<lambda>p. False), mClaims = [], mTemplates = [],
     mSlices = [\<lparr>sliceName = ''s'', sliceDriver = GPUDeviceClass, sliceNodeName = Some ''n1'', slicePool = ''n1'',
        sliceDevices = [\<lparr>devName = ''a'', devAttributes = [], devTaints = []\<rparr>,
                        \<lparr>devName = ''b'', devAttributes = [(deviceAttrDriver, Some ''xe'')], devTaints = []\<rparr>]\<rparr>],
     mJobs = [], rmPolicies = [plainPolicy], rmPods = [stalePod], rmAsked = []\<rparr>"

definition noGuards :: refreshGuards where
  "noGuards = \<lparr>lastRestart = Map.empty, restartAttempts = Map.empty, lostDevices = Map.empty\<rparr>"

definition staleRun :: "(refreshGuards \<times> int option res) \<times> refreshMem" where
  "staleRun = run_state (ReconcileDevices memRefreshEnv ''n1'' noGuards) staleNode"

lemma staleRun_split:
  "run_state (ReconcileDevices memRefreshEnv ''n1'' noGuards) staleNode
     = ((fst (fst staleRun), snd (fst staleRun)), snd staleRun)"
  by (simp add: staleRun_def)

lemma staleRun_asked: "rmAsked (snd staleRun) = [stalePod]" by code_simp

theorem restart_is_justified_witness:
  "\<exists>mode states. restartsAllowed memRefreshEnv staleNode mode \<and> refreshReason states mode {} stalePod"
proof -
  have "lostOn noGuards ''n1'' = {}" by (simp add: lostOn_def noGuards_def)
  moreover have "rmAsked staleNode = []" by (simp add: staleNode_def)
  ultimately show ?thesis
    using restart_is_justified [OF memRefresh.deletion_log_axioms staleRun_split] staleRun_asked by fastforce
qed

text \<open>
  C31. Restarts of a node are limited. When the node has at most one xpumd pod, a pass asks for at
  most one deletion; it does so only if fewer than three restarts in a row failed to help and two
  minutes have passed since the restart on record. A deletion that succeeds is counted and put on
  record with the time of the clock after it; one that fails leaves count and record. A pass that
  asks for no deletion leaves the record and leaves or clears the count, unless it finds the
  controller disabled or no GPU on the node and forgets both. The count never exceeds three, and
  the guards of other nodes are untouched.
\<close>

theorem restart_budget:
  assumes "deletion_log E asked" "run_state (ReconcileDevices E node g) w = ((g', r), w')"
    and "returns (\<lambda>p. \<forall>pods. p = Inr pods \<longrightarrow> length pods \<le> 1) (xpumPodsOnNode E node)"
    and "attemptsOn g node \<le> 3"
  shows "attemptsOn g' node \<le> 3 \<and> othersKept node g g'
    \<and> (asked w' = asked w \<and> (lastRestart g' node = lastRestart g node \<and> attemptsOn g' node \<in> {0, attemptsOn g node}
            \<or> g' = forgetNode g node)
       \<or> (\<exists>pd mode states w3. asked w' = asked w @ [pd] \<and> podPass E node w mode states [pd] w3
            \<and> attemptsOn g node < 3 \<and> cooled E g node w3
            \<and> ((\<exists>e. r = Inl e) \<and> attemptsOn g' node = attemptsOn g node \<and> lastRestart g' node = lastRestart g node
               \<or> attemptsOn g' node = Suc (attemptsOn g node) \<and> lastRestart g' node = Some (cClock E w'))))"
proof -
  have others: "othersKept node g g'" using returnsD [OF returns_ReconcileDevices assms(2)] by simp
  from assms(2) show ?thesis
  proof (cases rule: deletion_log.ReconcileDevices_run [OF assms(1), consumes 1, case_names early pods])
    case early
    then show ?thesis using others assms(4) by (auto simp: attemptsOn_def forgetNode_def)
  next
    case (pods mode states pods w3)
    obtain r' where run: "run_state (refreshPods E node states mode pods g False) w3 = ((g', r'), w')"
      and r: "r = map_sum id (\<lambda>requeue. if requeue then Some (rfRequeueDelay E) else None) r'"
      using assms(2) podPass_run [OF pods, of g] by (auto split: prod.splits)
    have asked: "asked w3 = asked w" by (rule deletion_log.podPass_asked [OF assms(1) pods])
    have "length pods \<le> 1" using pods returnsD [OF assms(3)] unfolding podPass_def by blast
    then consider "pods = []" | pd where "pods = [pd]" by (cases pods) auto
    then show ?thesis
    proof cases
      case 1
      then show ?thesis using run asked others assms(4) by auto
    next
      case (2 pd)
      then obtain r1 where one: "run_state (refreshPod E node states mode pd g) w3 = ((g', r1), w')" and r1: "\<forall>e. r1 = Inl e \<longrightarrow> r' = Inl e"
        using run by (auto split: prod.splits sum.splits)
      obtain new where new: "asked w' = asked w3 @ new" and st: "podStep E node states mode pd g w3 g' r1 w' new"
        using deletion_log.refreshPod_run [OF assms(1) podPass_pods(1) [OF pods] one] by blast
      have "new = [] \<and> attemptsOn g' node \<in> {0, attemptsOn g node} \<and> lastRestart g' = lastRestart g
        \<or> new = [pd] \<and> attemptsOn g node < 3 \<and> cooled E g node w3
          \<and> ((\<exists>e. r1 = Inl e) \<and> attemptsOn g' node = attemptsOn g node \<and> lastRestart g' = lastRestart g
             \<or> attemptsOn g' node = Suc (attemptsOn g node) \<and> lastRestart g' node = Some (cClock E w'))"
        using st unfolding podStep_def by blast
      moreover have "(\<exists>e. r1 = Inl e) \<longrightarrow> (\<exists>e. r = Inl e)" using r1 r by auto
      ultimately show ?thesis using new asked others assms(4) pods 2 by auto
    qed
  qed
qed

text \<open>A cluster whose only xpumd pod is \<open>stalePod\<close>: listings return it alone.\<close>

definition onePodEnv :: "refreshMem refreshEnv" where
  "onePodEnv = memRefreshEnv\<lparr>rfListPods := (\<lambda>ns kv. State_Monad.return (Inr [stalePod]))\<rparr>"

interpretation onePod: deletion_log onePodEnv rmAsked
  by unfold_locales (simp_all add: onePodEnv_def memRefreshEnv_def memClient_def keeps_def)

text \<open>A minute after a restart the node is left alone; without a restart on record one is made and timed.\<close>

definition minuteAfter :: "(refreshGuards \<times> int option res) \<times> refreshMem" where
  "minuteAfter = run_state (ReconcileDevices onePodEnv ''n1'' (noGuards\<lparr>lastRestart := [''n1'' \<mapsto> 0]\<rparr>))
     (staleNode\<lparr>mClock := 60000000000\<rparr>)"

definition firstRestart :: "(refreshGuards \<times> int option res) \<times> refreshMem" where
  "firstRestart = run_state (ReconcileDevices onePodEnv ''n1'' noGuards) (staleNode\<lparr>mClock := 5\<rparr>)"

theorem restart_budget_witness:
  "rmAsked (snd minuteAfter) = [] \<and> rmAsked (snd firstRestart) = [stalePod]
   \<and> lastRestart (fst (fst firstRestart)) ''n1'' = Some 5 \<and> attemptsOn (fst (fst firstRestart)) ''n1'' = 1"
proof -
  let ?g = "noGuards\<lparr>lastRestart := [''n1'' \<mapsto> 0]\<rparr>" and ?w = "staleNode\<lparr>mClock := 60000000000\<rparr>" and ?v = "staleNode\<lparr>mClock := 5\<rparr>"
  have runs: "run_state (ReconcileDevices onePodEnv ''n1'' ?g) ?w = ((fst (fst minuteAfter), snd (fst minuteAfter)), snd minuteAfter)"
    "run_state (ReconcileDevices onePodEnv ''n1'' noGuards) ?v = ((fst (fst firstRestart), snd (fst firstRestart)), snd firstRestart)"
    by (simp_all add: minuteAfter_def firstRestart_def)
  have one: "returns (\<lambda>p. \<forall>pods. p = Inr pods \<longrightarrow> length pods \<le> 1) (xpumPodsOnNode onePodEnv ''n1'')"
    by (simp add: returns_iff onePodEnv_def xpumPodsOnNode_def listXpumPods_def)
  have few: "attemptsOn ?g ''n1'' \<le> 3" "attemptsOn noGuards ''n1'' \<le> 3" by (simp_all add: attemptsOn_def noGuards_def)
  note budget = restart_budget [OF onePod.deletion_log_axioms _ one]
  have clock: "cClock onePodEnv = mClock" by (simp add: onePodEnv_def memRefreshEnv_def memClient_def)
  have same: "w3 = w" if "podPass onePodEnv n w mode states pods w3" for n w mode states pods w3
    using that by (auto simp: podPass_def restartMode_def deviceStates_def xpumPodsOnNode_def listXpumPods_def
        onePodEnv_def memRefreshEnv_def memClient_def)
  have "\<not> cooled onePodEnv ?g ''n1'' w3" if "podPass onePodEnv ''n1'' ?w mode states pods w3" for mode states pods w3
    using same [OF that] clock by (simp add: cooled_def)
  then have "rmAsked (snd minuteAfter) = rmAsked ?w" using budget [OF runs(1) few(1)] by blast
  moreover have asked: "rmAsked (snd firstRestart) = [stalePod]" "\<not> isl (snd (fst firstRestart))" "mClock (snd firstRestart) = 5"
    by code_simp+
  moreover have "lastRestart (fst (fst firstRestart)) ''n1'' = Some (cClock onePodEnv (snd firstRestart))
      \<and> attemptsOn (fst (fst firstRestart)) ''n1'' = Suc (attemptsOn noGuards ''n1'')"
    using budget [OF runs(2) few(2)] asked by (auto simp: staleNode_def)
  ultimately show ?thesis
    using clock by (simp add: staleNode_def attemptsOn_def noGuards_def)
qed

text \<open>
  C32. A pod that misses a GPU is replaced: when the pass finds one running pod on the node whose
  record lacks a usable published GPU, fewer than three restarts in a row have failed, two minutes
  have passed since the last and fewer than three xpumd pods of the cluster are restarting, the
  pass asks to delete that pod.
\<close>

theorem missing_device_restarts:
  assumes "deletion_log E asked" "podPass E node w mode states [pd] w3" "podPhase pd = ''Running''"
    and "xpDevices pd = Some v" "map_of states d = Some s" "usable s" "d \<notin> set (parseDeviceRecord v)"
    and "attemptsOn g node < 3" "cooled E g node w3"
    and "run_state (restartingXpumPods E) w3 = (Inr k, w4)" "k < 3"
  shows "asked (snd (run_state (ReconcileDevices E node g) w)) = asked w @ [pd]"
proof -
  obtain g1 rb where tr: "trackRebinds g node (parseDeviceRecord v) states = (g1, rb)" by fastforce
  have g1: "attemptsOn g1 node = attemptsOn g node" "lastRestart g1 = lastRestart g"
    using trackRebinds_guards(2,3) [of g node "parseDeviceRecord v" states] tr by simp_all
  have "d \<in> set (missingDevices states (parseDeviceRecord v))"
    using missingDevices_iff [OF podPass_pods(1) [OF assms(2)]] assms(5-7) by blast
  then have reason: "restartReasonFor (missingDevices states (parseDeviceRecord v)) rb mode = restartReasonRecovered"
    by (auto simp: restartReasonFor_def)
  obtain del w5 where del: "run_state (rfDeletePod E pd) w4 = (del, w5)" by fastforce
  have "asked w4 = asked w" using keepsD [OF deletion_log.keeps_restarting [OF assms(1)] assms(10)]
      deletion_log.podPass_asked [OF assms(1,2)] by simp
  then have w5: "asked w5 = asked w @ [pd]" using deletion_log.delete_asks [OF assms(1), of pd w4] del by simp
  have "snd (run_state (restartPod E pd node g1) w3) = w5"
    using assms(8-11) g1 del
    by (auto simp: restartPod_def maxXpumRestartAttempts_def maxConcurrentXpumRestarts_def cooled_def cooldown_exact
        split: option.splits)
  then obtain g2 out where rs: "run_state (restartPod E pd node g1) w3 = ((g2, out), w5)" by (metis prod.collapse)
  have "snd (run_state (refreshPod E node states mode pd g) w3) = w5"
    using assms(3,4) tr reason rs by (simp add: refreshPod_def Let_def)
  then obtain g3 o3 where "run_state (refreshPod E node states mode pd g) w3 = ((g3, o3), w5)" by (metis prod.collapse)
  then have "snd (run_state (refreshPods E node states mode [pd] g False) w3) = w5" by (cases o3) simp_all
  then show ?thesis using w5 podPass_run [OF assms(2), of g] by (simp add: split_beta)
qed

text \<open>The listings of \<open>staleNode\<close>, as the pass sees them.\<close>

definition staleStates :: deviceStateMap where
  "staleStates = [(''a'', \<lparr>dsRecovering = False, dsMonitorable = True\<rparr>), (''b'', \<lparr>dsRecovering = False, dsMonitorable = True\<rparr>)]"

lemma stale_podPass: "podPass memRefreshEnv ''n1'' staleNode XpumRestartOnRecoveredDevice staleStates [stalePod] staleNode"
proof -
  have "run_state (restartMode memRefreshEnv) staleNode = (Inr XpumRestartOnRecoveredDevice, staleNode)"
    by (simp add: restartMode_def memRefreshEnv_def staleNode_def plainPolicy_def resourceModeDRA_def restart_modes)
  moreover have "fst (run_state (deviceStates memRefreshEnv ''n1'') staleNode) = Inr staleStates" by code_simp
  moreover have "snd (run_state (deviceStates memRefreshEnv ''n1'') staleNode) = staleNode"
    by (simp add: deviceStates_def memRefreshEnv_def memClient_def)
  moreover have "run_state (xpumPodsOnNode memRefreshEnv ''n1'') staleNode = (Inr [stalePod], staleNode)"
    by (simp add: xpumPodsOnNode_def listXpumPods_def memRefreshEnv_def staleNode_def stalePod_def)
  moreover have "XpumRestartOnRecoveredDevice \<noteq> XpumRestartDisabled" "staleStates \<noteq> []"
    by (simp_all add: restart_modes staleStates_def)
  ultimately show ?thesis unfolding podPass_def by (metis prod.collapse)
qed

theorem missing_device_restarts_witness:
  "rmAsked (snd (run_state (ReconcileDevices memRefreshEnv ''n1'' noGuards) staleNode)) = [stalePod]"
proof -
  have states: "map_of staleStates ''b'' = Some \<lparr>dsRecovering = False, dsMonitorable = True\<rparr>"
    "usable \<lparr>dsRecovering = False, dsMonitorable = True\<rparr>"
    by (simp_all add: staleStates_def usable_def)
  have dev: "xpDevices stalePod = Some ''a''" "podPhase stalePod = ''Running''" by (simp_all add: stalePod_def)
  have lacks: "''b'' \<notin> set (parseDeviceRecord ''a'')" by (simp add: parseDeviceRecord_def)
  have guards: "attemptsOn noGuards ''n1'' < 3" "cooled memRefreshEnv noGuards ''n1'' staleNode"
    by (simp_all add: attemptsOn_def cooled_def noGuards_def)
  have "run_state (restartingXpumPods memRefreshEnv) staleNode = (Inr 0, staleNode)"
    by (simp add: restartingXpumPods_def listXpumPods_def memRefreshEnv_def staleNode_def stalePod_def)
  from missing_device_restarts [OF memRefresh.deletion_log_axioms stale_podPass dev(2,1) states lacks guards this]
  show ?thesis by (simp add: staleNode_def)
qed

section \<open>The device record\<close>

text \<open>
  The device record of a pod is read back as the set that was written, whatever the order in
  which the names were collected, and the same set always gives the same text, for device names that
  are not empty and have no comma, as the names of DRA devices are.
\<close>

theorem device_record_roundtrip:
  assumes "\<forall>n \<in> set names. n \<noteq> '''' \<and> CHR '','' \<notin> set n"
  shows "set (parseDeviceRecord (formatDeviceRecord names)) = set names
    \<and> distinct (parseDeviceRecord (formatDeviceRecord names))
    \<and> (\<forall>names'. mset names' = mset names \<longrightarrow> formatDeviceRecord names' = formatDeviceRecord names)"
proof -
  have "set (parseDeviceRecord (formatDeviceRecord names)) = set names"
  proof (cases "names = []")
    case True
    then show ?thesis by (simp add: parseDeviceRecord_def formatDeviceRecord_def)
  next
    case False
    then have "sort names \<noteq> []" by (metis set_empty set_sort)
    then have "splitOn (CHR '','') (joinStr '','' (sort names)) = sort names" using assms by (intro splitOn_join) auto
    then show ?thesis using assms by (auto simp: parseDeviceRecord_def formatDeviceRecord_def)
  qed
  moreover have "mset names' = mset names \<Longrightarrow> sort names' = sort names" for names'
    by (metis mset_sort properties_for_sort sorted_sort)
  moreover have "distinct (parseDeviceRecord (formatDeviceRecord names))" by (simp add: parseDeviceRecord_def)
  ultimately show ?thesis unfolding formatDeviceRecord_def by metis
qed

theorem device_record_roundtrip_witness:
  "set (parseDeviceRecord (formatDeviceRecord [''0000-05-00-0-0xe20b'', ''0000-04-00-0-0xe20b'']))
     = {''0000-05-00-0-0xe20b'', ''0000-04-00-0-0xe20b''}"
proof -
  let ?names = "[''0000-05-00-0-0xe20b'', ''0000-04-00-0-0xe20b'']"
  have "\<forall>n \<in> set ?names. n \<noteq> '''' \<and> CHR '','' \<notin> set n" by simp
  from conjunct1 [OF device_record_roundtrip [OF this]] show ?thesis unfolding list.set .
qed

section \<open>Rebinds left over\<close>

text \<open>
  A restart for a missing device leaves the rebinds of the node as they are: the pod that replaces
  the deleted one is restarted again for a device that was back before it started.
\<close>

lemma restart_keeps_rebinds:
  assumes "run_state (refreshPod E node states XpumRestartAlways pd g) w = ((g', Inr again), w')"
    and "podPhase pd = ''Running''" "xpDevices pd = Some v" "missingDevices states (parseDeviceRecord v) \<noteq> []"
    and "d \<in> lostOn g node"
  shows "d \<in> lostOn g' node"
proof -
  obtain g1 rb where tr: "trackRebinds g node (parseDeviceRecord v) states = (g1, rb)" by fastforce
  have d: "d \<in> lostOn g1 node" using tr assms(5) by (auto simp: trackRebinds_def Let_def lostOn_def split: if_splits)
  have "restartReasonFor (missingDevices states (parseDeviceRecord v)) rb XpumRestartAlways = restartReasonRecovered"
    using assms(4) by (simp add: restartReasonFor_def)
  then obtain out where "run_state (restartPod E pd node g1) w = ((g', Inr out), w')"
    using assms(1-3) tr by (auto simp: refreshPod_def Let_def split: prod.splits sum.splits)
  then have "lostDevices g' = lostDevices g1"
    by (auto simp: restartPod_def split: if_splits prod.splits sum.splits option.splits)
  then show ?thesis using d by (simp add: lostOn_def)
qed

end
