(* ===== verification/PolicyWebhook.thy ===== *)
theory PolicyWebhook
  imports PolicyTypes RecoveryWebhook
begin

text \<open>
  The admission webhooks of ClusterPolicy (\<^verbatim>\<open>api/v1alpha1/clusterpolicy_webhook.go\<close>): defaults and
  validation. Image reference parsing and the Kubernetes name checks belong to other modules and are
  fields of \<open>policyLib\<close>, as are Go's URL and regular expression parsers, of which only the outcome is
  used. A message is its format string and its arguments. Header names are the ASCII tokens that the
  pattern on the field admits, on which \<open>lowerASCII\<close> is \<^verbatim>\<open>strings.ToLower\<close>.
\<close>

record url =
  urlScheme :: string
  urlHost :: string
  urlUser :: bool

record policyLib =
  libParseNormalizedNamed :: "string \<Rightarrow> go_error option"
  libDNS1123Subdomain :: "string \<Rightarrow> string list"
  libDNS1123Label :: "string \<Rightarrow> string list"
  libConfigMapKey :: "string \<Rightarrow> string list"
  libURLParse :: "string \<Rightarrow> url res"
  libRegexpCompile :: "string \<Rightarrow> go_error option"

datatype message = Msgf string "string list"

section \<open>Defaults\<close>

definition DefaultDPImage :: string where
  "DefaultDPImage = ''docker.io/intel/intel-gpu-plugin:0.37.0@sha256:7001200071db10587fc31184eedda4f5cf291efba737adf85a8c80539f7fa5e1''"
definition DefaultDRAImage :: string where
  "DefaultDRAImage = ''ghcr.io/intel/intel-gpu-resource-driver:v0.12.1@sha256:1479956240397c7207c3d38c0d296bd591cd66f26d432452f9a2d75336843776''"
definition DefaultXPUImage :: string where
  "DefaultXPUImage = ''ghcr.io/intel/xpumanager/xpumd:v2.3.0@sha256:539009b75c64159ca2202f52b94ae736ab3883c3497d30d65bd3d179357e1859''"

definition orDefault :: "string \<Rightarrow> string \<Rightarrow> string" where
  "orDefault s d = (if s = '''' then d else s)"

definition DefaultPolicy :: "policy \<Rightarrow> policy" where
  "DefaultPolicy cp =
     (let sp = cpSpec cp in
      cp\<lparr>cpSpec := sp\<lparr>
        cpDP := (cpDP sp)\<lparr>dpPluginImage := orDefault (dpPluginImage (cpDP sp)) DefaultDPImage\<rparr>,
        cpDRA := (cpDRA sp)\<lparr>draImage := orDefault (draImage (cpDRA sp)) DefaultDRAImage\<rparr>,
        cpXPU := (cpXPU sp)\<lparr>xmImage := orDefault (xmImage (cpXPU sp)) DefaultXPUImage,
                              xmMonitoringResource := orDefault (xmMonitoringResource (cpXPU sp)) ''monitoring''\<rparr>,
        cpKernelModule := map_option (\<lambda>km. km\<lparr>kspModuleName := orDefault (kspModuleName km) ''xe''\<rparr>) (cpKernelModule sp)\<rparr>\<rparr>)"

section \<open>Paths, PCI IDs, images and names\<close>

definition isControlRune :: "nat \<Rightarrow> bool" where
  "isControlRune r \<longleftrightarrow> r < 0x20 \<or> 0x7f \<le> r \<and> r < 0xa0"

definition validateCDIPath :: "string \<times> string \<Rightarrow> message list" where
  "validateCDIPath fv =
     (case fv of (name, v) \<Rightarrow>
        if v = '''' then []
        else (if hd v \<noteq> CHR ''/'' then [Msgf ''%s must be an absolute path'' [name]] else [])
             @ (if ''..'' \<in> set (splitOn (CHR ''/'') v) then [Msgf ''%s must not contain '..' path components'' [name]] else [])
             @ (if list_ex isControlRune (rangeString v) then [Msgf ''%s must not contain control characters'' [name]] else []))"

definition validateCDIPaths :: "ClusterPolicySpec \<Rightarrow> message list" where
  "validateCDIPaths sp = concat (map validateCDIPath
     [(''cdi.staticHostPath'', cdiStaticHostPath (cpCDI sp)), (''cdi.dynamicHostPath'', cdiDynamicHostPath (cpCDI sp))])"

definition validateIDs :: "string \<Rightarrow> string list \<Rightarrow> message list" where
  "validateIDs field ids = map (\<lambda>i. Msgf (''invalid PCI device ID in '' @ field @ '': %q (must match 0x[0-9a-f]{4})'') [i])
     (filter (\<lambda>i. \<not> pciIDPattern i) ids)"

definition validateDPSpec :: "DevicePluginSpec \<Rightarrow> message list" where
  "validateDPSpec dp =
     (if dpAllowIDs dp \<noteq> [] \<and> dpDenyIDs dp \<noteq> [] then [Msgf ''dp.allowIDs and dp.denyIDs cannot both be set'' []] else [])
     @ validateIDs ''dp.allowIDs'' (dpAllowIDs dp) @ validateIDs ''dp.denyIDs'' (dpDenyIDs dp)"

definition imageFields :: "ClusterPolicySpec \<Rightarrow> (string \<times> string) list" where
  "imageFields sp = [(''dra.image'', draImage (cpDRA sp)), (''dp.plugin'', dpPluginImage (cpDP sp)),
     (''dp.levelzero'', dpLevelzeroImage (cpDP sp)), (''xpu.image'', xmImage (cpXPU sp))]"

definition validateImageFields :: "policyLib \<Rightarrow> ClusterPolicySpec \<Rightarrow> message list" where
  "validateImageFields L sp = concat (map (\<lambda>(field, v).
     if v = '''' then []
     else case libParseNormalizedNamed L v of None \<Rightarrow> []
          | Some e \<Rightarrow> [Msgf ''invalid image reference in %s: %q: %w'' [field, v, errText e]]) (imageFields sp))"

definition nameError :: "string \<Rightarrow> string \<Rightarrow> string list \<Rightarrow> message list" where
  "nameError fmt field msgs = (if msgs \<noteq> [] then [Msgf fmt [field, joinStr ''; '' msgs]] else [])"

definition validatePullSecret :: "policyLib \<Rightarrow> ClusterPolicySpec \<Rightarrow> message list" where
  "validatePullSecret L sp =
     (case cpPullSecret sp of None \<Rightarrow> []
      | Some n \<Rightarrow> nameError ''pullSecret.name %q is not a valid Kubernetes object name: %s'' n (libDNS1123Subdomain L n))"

definition validateConfigMapOverride :: "policyLib \<Rightarrow> ClusterPolicySpec \<Rightarrow> message list" where
  "validateConfigMapOverride L sp =
     (let n = xmConfigMapOverride (cpXPU sp)
      in if n = '''' then []
         else nameError ''xpu.configMapOverride %q is not a valid Kubernetes object name: %s'' n (libDNS1123Subdomain L n))"

definition validateObjectName :: "policyLib \<Rightarrow> string \<Rightarrow> string \<Rightarrow> message list" where
  "validateObjectName L field n =
     (let msgs = libDNS1123Subdomain L n
      in if msgs \<noteq> [] then [Msgf ''%s %q is not a valid Kubernetes object name: %s'' [field, n, joinStr ''; '' msgs]] else [])"

definition validateObjectKey :: "policyLib \<Rightarrow> string \<Rightarrow> string \<Rightarrow> message list" where
  "validateObjectKey L field k =
     (let msgs = libConfigMapKey L k
      in if msgs \<noteq> [] then [Msgf ''%s %q is not a valid key: %s'' [field, k, joinStr ''; '' msgs]] else [])"

section \<open>OTLP exporters\<close>

definition lowerASCII :: "string \<Rightarrow> string" where
  "lowerASCII = map (\<lambda>c. if isUpperChar c then char_of ((of_char c :: nat) + 32) else c)"

definition grpcKeyChar :: "char \<Rightarrow> bool" where
  "grpcKeyChar c \<longleftrightarrow> isDigitChar c \<or> isLowerChar c \<or> c \<in> set ''_.-''"

definition grpcMetadataKeyRegexp :: "string \<Rightarrow> bool" where
  "grpcMetadataKeyRegexp s \<longleftrightarrow> s \<noteq> [] \<and> list_all grpcKeyChar s"

definition grpcTransportHeaders :: "string list" where
  "grpcTransportHeaders = [''content-type'', ''te'', ''user-agent'', ''host'', ''connection'', ''keep-alive'',
     ''proxy-connection'', ''transfer-encoding'', ''upgrade'']"

text \<open>The errors and the warnings.\<close>

definition validateGRPCMetadataKey :: "string \<Rightarrow> string \<Rightarrow> message list \<times> message list" where
  "validateGRPCMetadataKey field name =
     (let lower = lowerASCII name
      in if \<not> grpcMetadataKeyRegexp lower
         then ([Msgf ''%s %q is not a valid gRPC metadata key: only letters, digits, '_', '-' and '.' are allowed'' [field, name]], [])
         else if hasPrefix lower ''grpc-'' then ([Msgf ''%s %q: the grpc- prefix is reserved for gRPC'' [field, name]], [])
         else if hasSuffix lower ''-bin''
         then ([Msgf ''%s %q: the -bin suffix is reserved for binary gRPC metadata'' [field, name]], [])
         else if lower \<in> set grpcTransportHeaders
         then ([], [Msgf ''%s %q is a transport header managed by the gRPC client, the configured value may be overwritten or dropped.'' [field, name]])
         else ([], []))"

fun validateHeaders ::
  "policyLib \<Rightarrow> string \<Rightarrow> bool \<Rightarrow> nat \<Rightarrow> string set \<Rightarrow> OTLPHeader list \<Rightarrow> message list \<times> message list" where
  "validateHeaders L prefix grpc i seen [] = ([], [])"
| "validateHeaders L prefix grpc i seen (h # hs) =
     (let field = prefix @ ''.headers['' @ natStr i @ '']'';
          lower = lowerASCII (ohName h);
          nameErrs = (if ohName h = '''' then [Msgf ''%s.name cannot be empty'' [field]]
                      else if lower \<in> seen then [Msgf ''%s.name: duplicate header %q'' [field, ohName h]] else []);
          seen' = (if ohName h = '''' then seen else insert lower seen);
          key = (if grpc \<and> ohName h \<noteq> '''' then validateGRPCMetadataKey (field @ ''.name'') (ohName h) else ([], []));
          rest = validateHeaders L prefix grpc (Suc i) seen' hs
      in (nameErrs @ fst key
          @ validateObjectName L (field @ ''.valueFrom.name'') (ksName (ohValueFrom h))
          @ validateObjectKey L (field @ ''.valueFrom.key'') (ksKey (ohValueFrom h)) @ fst rest,
          snd key @ snd rest))"

definition validateEndpoint :: "policyLib \<Rightarrow> string \<Rightarrow> string \<Rightarrow> message list" where
  "validateEndpoint L prefix endpoint =
     (case libURLParse L endpoint of
        Inl e \<Rightarrow> [Msgf ''%s.endpoint %q is not a valid URL: %w'' [prefix, endpoint, errText e]]
      | Inr u \<Rightarrow>
          if urlScheme u \<noteq> ''http'' \<and> urlScheme u \<noteq> ''https''
          then [Msgf ''%s.endpoint %q has to use the http:// or https:// scheme'' [prefix, endpoint]]
          else if urlHost u = '''' then [Msgf ''%s.endpoint %q is missing the host'' [prefix, endpoint]]
          else if urlUser u
          then [Msgf ''%s.endpoint cannot contain user info, use headers with Secret references for authentication'' [prefix]]
          else [])"

definition plainText :: "policyLib \<Rightarrow> string \<Rightarrow> bool" where
  "plainText L endpoint \<longleftrightarrow> (case libURLParse L endpoint of Inl _ \<Rightarrow> False | Inr u \<Rightarrow> urlScheme u = ''http'')"

definition validateTLS :: "policyLib \<Rightarrow> string \<Rightarrow> bool \<Rightarrow> OTLPTLSSpec \<Rightarrow> message list" where
  "validateTLS L prefix plain tls =
     (if plain then [Msgf ''%s.tls cannot be set for a plain-text http:// endpoint'' [prefix]] else [])
     @ (case otCA tls of None \<Rightarrow> []
        | Some ca \<Rightarrow>
            (if otInsecureSkipVerify tls then [Msgf ''%s.tls.ca and %s.tls.insecureSkipVerify cannot both be set'' [prefix, prefix]] else [])
            @ validateObjectName L (prefix @ ''.tls.ca.name'') (ksName ca)
            @ validateObjectKey L (prefix @ ''.tls.ca.key'') (ksKey ca))
     @ (case otClientCertSecret tls of None \<Rightarrow> []
        | Some n \<Rightarrow> validateObjectName L (prefix @ ''.tls.clientCertSecret.name'') n)
     @ (if otServerName tls \<noteq> '''' \<and> libDNS1123Subdomain L (otServerName tls) \<noteq> []
        then [Msgf ''%s.tls.serverName %q is not a valid host name: %s''
                [prefix, otServerName tls, joinStr ''; '' (libDNS1123Subdomain L (otServerName tls))]] else [])"

definition validateOTLPExporterSpec ::
  "policyLib \<Rightarrow> string \<Rightarrow> OTLPExporterSpec \<Rightarrow> bool \<Rightarrow> message list \<times> message list" where
  "validateOTLPExporterSpec L prefix ex grpc =
     (let headers = validateHeaders L prefix grpc 0 {} (oeHeaders ex);
          plain = plainText L (oeEndpoint ex);
          errs = validateEndpoint L prefix (oeEndpoint ex) @ fst headers;
          warnings = snd headers
            @ (if plain \<and> oeHeaders ex \<noteq> [] then [Msgf ''%s.endpoint uses plain-text http://, the headers are sent unencrypted.'' [prefix]] else [])
      in case oeTLS ex of
           None \<Rightarrow> (errs, warnings)
         | Some tls \<Rightarrow>
             (errs @ validateTLS L prefix plain tls,
              warnings @ (if otInsecureSkipVerify tls
                then [Msgf ''%s.tls.insecureSkipVerify disables the gateway certificate verification, use tls.ca for self-signed certificates instead.'' [prefix]]
                else [])))"

definition validateOTLPSpec :: "policyLib \<Rightarrow> OTLPSpec option \<Rightarrow> message list \<times> message list" where
  "validateOTLPSpec L otlp =
     (case otlp of None \<Rightarrow> ([], [])
      | Some x \<Rightarrow>
          (case (otlpHTTP x, otlpGRPC x) of
             (Some _, Some _) \<Rightarrow> ([Msgf ''xpu.otlp: only one of http or grpc can be set'' []], [])
           | (Some ex, None) \<Rightarrow> validateOTLPExporterSpec L ''xpu.otlp.http'' ex False
           | (None, Some ex) \<Rightarrow> validateOTLPExporterSpec L ''xpu.otlp.grpc'' ex True
           | (None, None) \<Rightarrow> ([Msgf ''xpu.otlp: one of http or grpc has to be set'' []], [])))"

section \<open>Queues\<close>

fun validateLocalQueues :: "policyLib \<Rightarrow> nat \<Rightarrow> nat \<Rightarrow> string set \<Rightarrow> LocalQueueSpec list \<Rightarrow> message list" where
  "validateLocalQueues L cqIdx lqIdx seen [] = []"
| "validateLocalQueues L cqIdx lqIdx seen (lq # lqs) =
     (let pos = [natStr cqIdx, natStr lqIdx]; nameMsgs = libDNS1123Subdomain L (lqName lq);
          nsMsgs = libDNS1123Label L (lqNamespace lq); key = lqNamespace lq @ ''/'' @ lqName lq
      in (if nameMsgs \<noteq> []
          then [Msgf ''kueue.equalResources[%d].localQueues[%d].name %q is not a valid Kubernetes object name: %s''
                  (pos @ [lqName lq, joinStr ''; '' nameMsgs])] else [])
         @ (if nsMsgs \<noteq> []
            then [Msgf ''kueue.equalResources[%d].localQueues[%d].namespace %q is not a valid namespace name: %s''
                    (pos @ [lqNamespace lq, joinStr ''; '' nsMsgs])] else [])
         @ (if key \<in> seen then [Msgf ''kueue.equalResources[%d]: duplicate localQueue %q'' [natStr cqIdx, key]] else [])
         @ validateLocalQueues L cqIdx (Suc lqIdx) (insert key seen) lqs)"

fun validateClusterQueues :: "policyLib \<Rightarrow> nat \<Rightarrow> string set \<Rightarrow> ClusterQueueSpec list \<Rightarrow> message list" where
  "validateClusterQueues L cqIdx seen [] = []"
| "validateClusterQueues L cqIdx seen (cq # cqs) =
     (let msgs = libDNS1123Subdomain L (cqName cq)
      in (if msgs \<noteq> []
          then [Msgf ''kueue.equalResources[%d].name %q is not a valid Kubernetes object name: %s''
                  [natStr cqIdx, cqName cq, joinStr ''; '' msgs]] else [])
         @ (if cqName cq \<in> seen then [Msgf ''kueue.equalResources: duplicate clusterQueue name %q'' [cqName cq]] else [])
         @ validateLocalQueues L cqIdx 0 {} (cqLocalQueues cq)
         @ validateClusterQueues L (Suc cqIdx) (insert (cqName cq) seen) cqs)"

definition validateKueueSpec :: "policyLib \<Rightarrow> ClusterPolicySpec \<Rightarrow> message list" where
  "validateKueueSpec L sp =
     (case cpKueue sp of None \<Rightarrow> [] | Some k \<Rightarrow> validateClusterQueues L 0 {} (kqEqualResources k))"

section \<open>Kernel modules\<close>

text \<open>
  \<open>matchTemplateVar\<close> takes the text after a dollar sign and returns what follows the placeholder, if
  the pattern \<^verbatim>\<open>\$\{[^}]*\}|\$[A-Za-z_][A-Za-z0-9_]*\<close> matches there.
\<close>

definition identFirst :: "char \<Rightarrow> bool" where
  "identFirst c \<longleftrightarrow> isUpperChar c \<or> isLowerChar c \<or> c = CHR ''_''"

definition identRest :: "char \<Rightarrow> bool" where
  "identRest c \<longleftrightarrow> identFirst c \<or> isDigitChar c"

definition matchTemplateVar :: "string \<Rightarrow> string option" where
  "matchTemplateVar s =
     (case s of [] \<Rightarrow> None
      | c # r \<Rightarrow>
          if c = CHR ''{'' then (if CHR ''}'' \<in> set r then Some (tl (dropWhile (\<lambda>x. x \<noteq> CHR ''}'') r)) else None)
          else if identFirst c then Some (dropWhile identRest r)
          else None)"

lemma matchTemplateVar_shorter: "matchTemplateVar s = Some r \<Longrightarrow> length r < length s"
proof (cases s)
  case (Cons c t)
  have "length (tl (dropWhile p t)) \<le> length t" "length (dropWhile p t) \<le> length t" for p
    using length_dropWhile_le [of p t] by simp_all
  moreover assume "matchTemplateVar s = Some r"
  ultimately show ?thesis using Cons by (auto simp: matchTemplateVar_def less_Suc_eq_le split: if_splits)
qed (simp add: matchTemplateVar_def)

function substituteKMMTemplateVars :: "string \<Rightarrow> string" where
  "substituteKMMTemplateVars s =
     (case s of [] \<Rightarrow> []
      | c # t \<Rightarrow>
          if c \<noteq> CHR ''$'' then c # substituteKMMTemplateVars t
          else case matchTemplateVar t of
                 None \<Rightarrow> c # substituteKMMTemplateVars t
               | Some r \<Rightarrow> CHR ''0'' # substituteKMMTemplateVars r)"
  by pat_completeness auto
termination
  by (relation "measure length") (auto dest: matchTemplateVar_shorter)

declare substituteKMMTemplateVars.simps [simp del]

definition validateImageTagOrDigest :: "policyLib \<Rightarrow> string \<Rightarrow> string \<Rightarrow> message list" where
  "validateImageTagOrDigest L field img =
     (let resolved = substituteKMMTemplateVars img
      in case libParseNormalizedNamed L resolved of
           Some e \<Rightarrow> [Msgf ''invalid image reference in %s: %q: %w'' [field, img, errText e]]
         | None \<Rightarrow>
             if \<not> containsStr resolved '':'' \<and> \<not> containsStr resolved ''@''
             then [Msgf ''%s: image %q must include an explicit tag or digest'' [field, img]] else [])"

definition validateKernelMapping :: "policyLib \<Rightarrow> string \<Rightarrow> KernelMappingSpec \<Rightarrow> message list" where
  "validateKernelMapping L prefix m =
     (if kmRegexp m = '''' then [Msgf ''%s: regexp is required'' [prefix]]
      else case libRegexpCompile L (kmRegexp m) of None \<Rightarrow> []
           | Some e \<Rightarrow> [Msgf ''%s.regexp: invalid regular expression: %w'' [prefix, errText e]])
     @ (if kmContainerImage m \<noteq> '''' then validateImageTagOrDigest L (prefix @ ''.containerImage'') (kmContainerImage m) else [])
     @ (if kmContainerImage m = '''' \<and> kmBuild m = None then [Msgf ''%s: one of containerImage or build must be set'' [prefix]] else [])
     @ (case kmBuild m of None \<Rightarrow> []
        | Some b \<Rightarrow> if kbDockerfileConfigMap b = '''' then [Msgf ''%s.build.dockerfileConfigMap.name is required'' [prefix]] else [])"

fun firstDuplicate :: "nat \<Rightarrow> string set \<Rightarrow> string list \<Rightarrow> (nat \<times> string) option" where
  "firstDuplicate i seen [] = None"
| "firstDuplicate i seen (x # xs) = (if x \<in> seen then Some (i, x) else firstDuplicate (Suc i) (insert x seen) xs)"

definition validateModulesLoadingOrder :: "string \<Rightarrow> string list \<Rightarrow> message list" where
  "validateModulesLoadingOrder moduleName order =
     (if length order < 2 then [Msgf ''kernelModule.modulesLoadingOrder must have at least 2 entries'' []] else [])
     @ (if order \<noteq> [] \<and> moduleName \<noteq> '''' \<and> hd order \<noteq> moduleName
        then [Msgf ''kernelModule.modulesLoadingOrder[0] must be moduleName %q'' [moduleName]] else [])
     @ (case firstDuplicate 0 {} order of None \<Rightarrow> []
        | Some (i, x) \<Rightarrow> [Msgf ''kernelModule.modulesLoadingOrder[%d]: duplicate entry %q'' [natStr i, x]])"

fun validateKernelMappings :: "policyLib \<Rightarrow> nat \<Rightarrow> KernelMappingSpec list \<Rightarrow> message list" where
  "validateKernelMappings L i [] = []"
| "validateKernelMappings L i (m # ms) =
     validateKernelMapping L (''kernelModule.kernelMappings['' @ natStr i @ '']'') m @ validateKernelMappings L (Suc i) ms"

definition validateKernelModuleSpec :: "policyLib \<Rightarrow> ClusterPolicySpec \<Rightarrow> message list" where
  "validateKernelModuleSpec L sp =
     (case cpKernelModule sp of None \<Rightarrow> []
      | Some km \<Rightarrow>
          validateKernelMappings L 0 (kspKernelMappings km)
          @ (if kspModulesLoadingOrder km \<noteq> []
             then validateModulesLoadingOrder (kspModuleName km) (kspModulesLoadingOrder km) else []))"

section \<open>The validator\<close>

definition warnForSpecProblems :: "ClusterPolicySpec \<Rightarrow> message list" where
  "warnForSpecProblems sp =
     (if cpResourceRegistration sp = ''dp'' \<and> dpLevelzeroImage (cpDP sp) \<noteq> ''''
      then [Msgf ''dp.levelzero is no longer used and will be ignored.'' []] else [])"

text \<open>The warnings, and the errors joined into one: none means accepted.\<close>

definition validateClusterPolicySpec :: "policyLib \<Rightarrow> ClusterPolicySpec \<Rightarrow> message list \<times> message list" where
  "validateClusterPolicySpec L sp =
     (let otlp = validateOTLPSpec L (xmOTLP (cpXPU sp))
      in (snd otlp @ warnForSpecProblems sp,
          validateDPSpec (cpDP sp) @ validateImageFields L sp @ validatePullSecret L sp @ validateConfigMapOverride L sp
          @ validateKueueSpec L sp @ validateKernelModuleSpec L sp @ validateCDIPaths sp @ fst otlp))"

definition ValidateCreate :: "policyLib \<Rightarrow> policy \<Rightarrow> message list \<times> message list" where
  "ValidateCreate L cp = validateClusterPolicySpec L (cpSpec cp)"

definition ValidateUpdate :: "policyLib \<Rightarrow> policy \<Rightarrow> policy \<Rightarrow> message list \<times> message list" where
  "ValidateUpdate L old cp = (if cpDeleting cp then ([], []) else validateClusterPolicySpec L (cpSpec cp))"

definition ValidateDelete :: "policy \<Rightarrow> message list \<times> message list" where
  "ValidateDelete cp = ([], [])"

end
