(* ===== verification/PolicyAdmission.thy ===== *)
theory PolicyAdmission
  imports PolicyWebhook
begin

text \<open>
  What the webhooks of ClusterPolicy promise: a policy is accepted exactly when its spec meets a
  declarative description, and the defaults are filled in once and for all.
\<close>

section \<open>Acceptable specs\<close>

definition acceptablePath :: "string \<Rightarrow> bool" where
  "acceptablePath p \<longleftrightarrow> p = '''' \<or> hd p = CHR ''/'' \<and> ''..'' \<notin> set (splitOn (CHR ''/'') p)
     \<and> (\<forall>r \<in> set (rangeString p). \<not> isControlRune r)"

definition acceptableKey :: "policyLib \<Rightarrow> keySelector \<Rightarrow> bool" where
  "acceptableKey L k \<longleftrightarrow> libDNS1123Subdomain L (ksName k) = [] \<and> libConfigMapKey L (ksKey k) = []"

definition acceptableHeader :: "policyLib \<Rightarrow> bool \<Rightarrow> OTLPHeader \<Rightarrow> bool" where
  "acceptableHeader L grpc h \<longleftrightarrow> ohName h \<noteq> '''' \<and> acceptableKey L (ohValueFrom h)
     \<and> (grpc \<longrightarrow> grpcMetadataKeyRegexp (lowerASCII (ohName h)) \<and> \<not> hasPrefix (lowerASCII (ohName h)) ''grpc-''
          \<and> \<not> hasSuffix (lowerASCII (ohName h)) ''-bin'')"

definition acceptableTLS :: "policyLib \<Rightarrow> bool \<Rightarrow> OTLPTLSSpec \<Rightarrow> bool" where
  "acceptableTLS L plain t \<longleftrightarrow> \<not> plain
     \<and> (\<forall>ca. otCA t = Some ca \<longrightarrow> \<not> otInsecureSkipVerify t \<and> acceptableKey L ca)
     \<and> (\<forall>n. otClientCertSecret t = Some n \<longrightarrow> libDNS1123Subdomain L n = [])
     \<and> (otServerName t = '''' \<or> libDNS1123Subdomain L (otServerName t) = [])"

definition acceptableExporter :: "policyLib \<Rightarrow> bool \<Rightarrow> OTLPExporterSpec \<Rightarrow> bool" where
  "acceptableExporter L grpc ex \<longleftrightarrow>
     (\<exists>u. libURLParse L (oeEndpoint ex) = Inr u \<and> urlScheme u \<in> {''http'', ''https''} \<and> urlHost u \<noteq> '''' \<and> \<not> urlUser u
        \<and> (\<forall>t. oeTLS ex = Some t \<longrightarrow> acceptableTLS L (urlScheme u = ''http'') t))
     \<and> (\<forall>h \<in> set (oeHeaders ex). acceptableHeader L grpc h)
     \<and> distinct (map (lowerASCII \<circ> ohName) (oeHeaders ex))"

definition acceptableOTLP :: "policyLib \<Rightarrow> OTLPSpec \<Rightarrow> bool" where
  "acceptableOTLP L x \<longleftrightarrow>
     (\<exists>ex. otlpHTTP x = Some ex \<and> otlpGRPC x = None \<and> acceptableExporter L False ex)
     \<or> (\<exists>ex. otlpHTTP x = None \<and> otlpGRPC x = Some ex \<and> acceptableExporter L True ex)"

definition lqKey :: "LocalQueueSpec \<Rightarrow> string" where
  "lqKey lq = lqNamespace lq @ ''/'' @ lqName lq"

definition acceptableQueues :: "policyLib \<Rightarrow> ClusterQueueSpec list \<Rightarrow> bool" where
  "acceptableQueues L cqs \<longleftrightarrow> distinct (map cqName cqs) \<and> (\<forall>cq \<in> set cqs. libDNS1123Subdomain L (cqName cq) = []
     \<and> distinct (map lqKey (cqLocalQueues cq))
     \<and> (\<forall>lq \<in> set (cqLocalQueues cq). libDNS1123Subdomain L (lqName lq) = [] \<and> libDNS1123Label L (lqNamespace lq) = []))"

definition acceptableModuleImage :: "policyLib \<Rightarrow> string \<Rightarrow> bool" where
  "acceptableModuleImage L img \<longleftrightarrow> (let r = substituteKMMTemplateVars img
     in libParseNormalizedNamed L r = None \<and> (containsStr r '':'' \<or> containsStr r ''@''))"

definition acceptableMapping :: "policyLib \<Rightarrow> KernelMappingSpec \<Rightarrow> bool" where
  "acceptableMapping L m \<longleftrightarrow> kmRegexp m \<noteq> '''' \<and> libRegexpCompile L (kmRegexp m) = None
     \<and> (kmContainerImage m = '''' \<longrightarrow> kmBuild m \<noteq> None)
     \<and> (kmContainerImage m \<noteq> '''' \<longrightarrow> acceptableModuleImage L (kmContainerImage m))
     \<and> (\<forall>b. kmBuild m = Some b \<longrightarrow> kbDockerfileConfigMap b \<noteq> '''')"

definition acceptableModule :: "policyLib \<Rightarrow> KernelModuleSpec \<Rightarrow> bool" where
  "acceptableModule L km \<longleftrightarrow> (\<forall>m \<in> set (kspKernelMappings km). acceptableMapping L m)
     \<and> (kspModulesLoadingOrder km = [] \<or> 2 \<le> length (kspModulesLoadingOrder km) \<and> distinct (kspModulesLoadingOrder km)
          \<and> (kspModuleName km = '''' \<or> hd (kspModulesLoadingOrder km) = kspModuleName km))"

definition acceptablePolicy :: "policyLib \<Rightarrow> ClusterPolicySpec \<Rightarrow> bool" where
  "acceptablePolicy L sp \<longleftrightarrow>
     (dpAllowIDs (cpDP sp) = [] \<or> dpDenyIDs (cpDP sp) = [])
     \<and> (\<forall>i \<in> set (dpAllowIDs (cpDP sp)) \<union> set (dpDenyIDs (cpDP sp)). pciIDPattern i)
     \<and> (\<forall>img \<in> {draImage (cpDRA sp), dpPluginImage (cpDP sp), dpLevelzeroImage (cpDP sp), xmImage (cpXPU sp)}.
          img = '''' \<or> libParseNormalizedNamed L img = None)
     \<and> (\<forall>n. cpPullSecret sp = Some n \<longrightarrow> libDNS1123Subdomain L n = [])
     \<and> (xmConfigMapOverride (cpXPU sp) = '''' \<or> libDNS1123Subdomain L (xmConfigMapOverride (cpXPU sp)) = [])
     \<and> (\<forall>k. cpKueue sp = Some k \<longrightarrow> acceptableQueues L (kqEqualResources k))
     \<and> (\<forall>km. cpKernelModule sp = Some km \<longrightarrow> acceptableModule L km)
     \<and> acceptablePath (cdiStaticHostPath (cpCDI sp)) \<and> acceptablePath (cdiDynamicHostPath (cpCDI sp))
     \<and> (\<forall>x. xmOTLP (cpXPU sp) = Some x \<longrightarrow> acceptableOTLP L x)"

section \<open>Each check accepts what it should\<close>

lemma validateCDIPaths_iff:
  "validateCDIPaths sp = [] \<longleftrightarrow> acceptablePath (cdiStaticHostPath (cpCDI sp)) \<and> acceptablePath (cdiDynamicHostPath (cpCDI sp))"
proof -
  have "validateCDIPath (n, v) = [] \<longleftrightarrow> acceptablePath v" for n v
    by (auto simp: validateCDIPath_def acceptablePath_def list_ex_iff)
  then show ?thesis by (simp add: validateCDIPaths_def)
qed

lemma validateDPSpec_iff:
  "validateDPSpec dp = [] \<longleftrightarrow> (dpAllowIDs dp = [] \<or> dpDenyIDs dp = []) \<and> (\<forall>i \<in> set (dpAllowIDs dp) \<union> set (dpDenyIDs dp). pciIDPattern i)"
proof -
  have "validateIDs f ids = [] \<longleftrightarrow> (\<forall>i \<in> set ids. pciIDPattern i)" for f ids by (simp add: validateIDs_def filter_empty_conv)
  then show ?thesis by (auto simp: validateDPSpec_def)
qed

lemma validateImageFields_iff:
  "validateImageFields L sp = [] \<longleftrightarrow>
     (\<forall>img \<in> {draImage (cpDRA sp), dpPluginImage (cpDP sp), dpLevelzeroImage (cpDP sp), xmImage (cpXPU sp)}.
        img = '''' \<or> libParseNormalizedNamed L img = None)"
  by (auto simp: validateImageFields_def imageFields_def split: option.split)

lemma validatePullSecret_iff: "validatePullSecret L sp = [] \<longleftrightarrow> (\<forall>n. cpPullSecret sp = Some n \<longrightarrow> libDNS1123Subdomain L n = [])"
  by (auto simp: validatePullSecret_def nameError_def split: option.split)

lemma validateConfigMapOverride_iff:
  "validateConfigMapOverride L sp = [] \<longleftrightarrow>
     xmConfigMapOverride (cpXPU sp) = '''' \<or> libDNS1123Subdomain L (xmConfigMapOverride (cpXPU sp)) = []"
  by (simp add: validateConfigMapOverride_def nameError_def Let_def)

lemma object_checks [simp]:
  "validateObjectName L f n = [] \<longleftrightarrow> libDNS1123Subdomain L n = []"
  "validateObjectKey L f n = [] \<longleftrightarrow> libConfigMapKey L n = []"
  by (simp_all add: validateObjectName_def validateObjectKey_def Let_def)

lemma validateLocalQueues_iff:
  "validateLocalQueues L c i seen lqs = [] \<longleftrightarrow> distinct (map lqKey lqs) \<and> set (map lqKey lqs) \<inter> seen = {}
     \<and> (\<forall>lq \<in> set lqs. libDNS1123Subdomain L (lqName lq) = [] \<and> libDNS1123Label L (lqNamespace lq) = [])"
  by (induction L c i seen lqs rule: validateLocalQueues.induct) (auto simp: Let_def lqKey_def)

lemma validateClusterQueues_iff:
  "validateClusterQueues L c seen cqs = [] \<longleftrightarrow> acceptableQueues L cqs \<and> set (map cqName cqs) \<inter> seen = {}"
  by (induction L c seen cqs rule: validateClusterQueues.induct)
     (auto simp: Let_def acceptableQueues_def validateLocalQueues_iff)

lemma validateKueueSpec_iff:
  "validateKueueSpec L sp = [] \<longleftrightarrow> (\<forall>k. cpKueue sp = Some k \<longrightarrow> acceptableQueues L (kqEqualResources k))"
  by (simp add: validateKueueSpec_def validateClusterQueues_iff split: option.split)

lemma validateKernelMapping_iff: "validateKernelMapping L f m = [] \<longleftrightarrow> acceptableMapping L m"
proof -
  have "validateImageTagOrDigest L g img = [] \<longleftrightarrow> acceptableModuleImage L img" for g img
    by (auto simp: validateImageTagOrDigest_def acceptableModuleImage_def Let_def split: option.split)
  then show ?thesis
    by (auto simp: validateKernelMapping_def acceptableMapping_def split: option.split)
qed

lemma validateKernelMappings_iff:
  "validateKernelMappings L i ms = [] \<longleftrightarrow> (\<forall>m \<in> set ms. acceptableMapping L m)"
  by (induction L i ms rule: validateKernelMappings.induct) (simp_all add: validateKernelMapping_iff)

lemma firstDuplicate_iff: "firstDuplicate i seen xs = None \<longleftrightarrow> distinct xs \<and> set xs \<inter> seen = {}"
  by (induction i seen xs rule: firstDuplicate.induct) auto

lemma validateModulesLoadingOrder_iff:
  "order \<noteq> [] \<Longrightarrow> validateModulesLoadingOrder n order = [] \<longleftrightarrow>
     2 \<le> length order \<and> distinct order \<and> (n = '''' \<or> hd order = n)"
  using firstDuplicate_iff [of 0 "{}" order]
  by (auto simp: validateModulesLoadingOrder_def split: option.split)

lemma validateKernelModuleSpec_iff:
  "validateKernelModuleSpec L sp = [] \<longleftrightarrow> (\<forall>km. cpKernelModule sp = Some km \<longrightarrow> acceptableModule L km)"
  by (auto simp: validateKernelModuleSpec_def acceptableModule_def validateKernelMappings_iff
      validateModulesLoadingOrder_iff split: option.split)

lemma validateHeaders_iff:
  "fst (validateHeaders L f grpc i seen hs) = [] \<longleftrightarrow> (\<forall>h \<in> set hs. acceptableHeader L grpc h)
     \<and> distinct (map (lowerASCII \<circ> ohName) hs) \<and> set (map (lowerASCII \<circ> ohName) hs) \<inter> seen = {}"
proof (induction hs arbitrary: i seen)
  case (Cons h hs)
  have "fst (validateGRPCMetadataKey g n) = [] \<longleftrightarrow> grpcMetadataKeyRegexp (lowerASCII n)
      \<and> \<not> hasPrefix (lowerASCII n) ''grpc-'' \<and> \<not> hasSuffix (lowerASCII n) ''-bin''" for g n
    by (simp add: validateGRPCMetadataKey_def Let_def)
  then show ?case using Cons.IH by (auto simp: Let_def acceptableHeader_def acceptableKey_def)
qed simp

lemma validateTLS_iff: "validateTLS L f plain t = [] \<longleftrightarrow> acceptableTLS L plain t"
  by (auto simp: validateTLS_def acceptableTLS_def acceptableKey_def split: option.split)

lemma validateOTLPExporterSpec_iff:
  "fst (validateOTLPExporterSpec L f ex grpc) = [] \<longleftrightarrow> acceptableExporter L grpc ex"
proof -
  have errs: "fst (validateOTLPExporterSpec L f ex grpc) = [] \<longleftrightarrow>
      validateEndpoint L f (oeEndpoint ex) = [] \<and> fst (validateHeaders L f grpc 0 {} (oeHeaders ex)) = []
      \<and> (\<forall>t. oeTLS ex = Some t \<longrightarrow> validateTLS L f (plainText L (oeEndpoint ex)) t = [])"
    by (simp add: validateOTLPExporterSpec_def Let_def split: option.split)
  show ?thesis
  proof (cases "libURLParse L (oeEndpoint ex)")
    case (Inl e)
    then show ?thesis unfolding errs by (simp add: validateEndpoint_def acceptableExporter_def)
  next
    case (Inr u)
    then have "validateEndpoint L f (oeEndpoint ex) = [] \<longleftrightarrow> urlScheme u \<in> {''http'', ''https''} \<and> urlHost u \<noteq> '''' \<and> \<not> urlUser u"
      and "plainText L (oeEndpoint ex) = (urlScheme u = ''http'')"
      by (simp_all add: validateEndpoint_def plainText_def)
    then show ?thesis
      unfolding errs validateHeaders_iff validateTLS_iff acceptableExporter_def Inr
      by (simp only: sum.inject simp_thms Int_empty_right) (simp only: conj_ac)
  qed
qed

lemma validateOTLPSpec_iff:
  "fst (validateOTLPSpec L otlp) = [] \<longleftrightarrow> (\<forall>x. otlp = Some x \<longrightarrow> acceptableOTLP L x)"
proof (cases otlp)
  case (Some x)
  show ?thesis
    by (cases "otlpHTTP x"; cases "otlpGRPC x")
       (simp_all add: Some validateOTLPSpec_def acceptableOTLP_def validateOTLPExporterSpec_iff)
qed (simp add: validateOTLPSpec_def)

lemma validateClusterPolicySpec_iff: "snd (validateClusterPolicySpec L sp) = [] \<longleftrightarrow> acceptablePolicy L sp"
  unfolding validateClusterPolicySpec_def acceptablePolicy_def Let_def snd_conv append_is_Nil_conv validateDPSpec_iff
    validateImageFields_iff validatePullSecret_iff validateConfigMapOverride_iff validateKueueSpec_iff
    validateKernelModuleSpec_iff validateCDIPaths_iff validateOTLPSpec_iff conj_assoc ..

text \<open>
  C33. The webhook accepts a ClusterPolicy exactly when its spec is acceptable: PCI IDs well formed and
  on one list only, images that parse, names and keys Kubernetes admits, queues named once, kernel
  modules with an expression that compiles and an image or a build, a loading order that starts with
  the module and repeats nothing, absolute host paths that do not climb, and at most one exporter,
  whose endpoint is a plain http or https URL without credentials, whose headers are distinct up to
  case and whose TLS settings are consistent and not set for plain text. A policy that is being
  deleted may always be updated, so that its finalizer can be removed.
\<close>

theorem policy_accepts_iff:
  "(snd (ValidateCreate L cp) = [] \<longleftrightarrow> acceptablePolicy L (cpSpec cp))
   \<and> (snd (ValidateUpdate L old cp) = [] \<longleftrightarrow> cpDeleting cp \<or> acceptablePolicy L (cpSpec cp))"
  by (simp add: ValidateCreate_def ValidateUpdate_def validateClusterPolicySpec_iff)

section \<open>Defaults\<close>

lemma DefaultPolicy_idem: "DefaultPolicy (DefaultPolicy cp) = DefaultPolicy cp"
proof -
  have "orDefault (orDefault s d) d = orDefault s d" for s d by (simp add: orDefault_def)
  then show ?thesis by (simp add: DefaultPolicy_def Let_def option.map_comp comp_def)
qed

text \<open>A registry with a port passes for a tag: the check looks for a colon anywhere in the reference.\<close>

lemma port_passes_for_tag:
  assumes "libParseNormalizedNamed L ''registry:5000/kmod'' = None"
  shows "validateImageTagOrDigest L field ''registry:5000/kmod'' = []"
proof -
  have "substituteKMMTemplateVars ''registry:5000/kmod'' = ''registry:5000/kmod''" by code_simp
  moreover have "containsStr ''registry:5000/kmod'' '':''" by code_simp
  ultimately show ?thesis using assms by (simp add: validateImageTagOrDigest_def)
qed

end
