(* ===== verification/PolicyController.thy ===== *)
theory PolicyController
  imports PolicyTypes OpenShift "HOL-Library.AList"
begin

text \<open>
  The ClusterPolicy reconciler (\<^verbatim>\<open>clusterpolicy/clusterpolicy_controller.go\<close>) and the helpers its
  sub-controllers share (\<^verbatim>\<open>controller_utils.go\<close>). The sub-controllers are functions that take the
  policy, absent once it is gone from the API server, and return it as they leave it in memory, when
  to come back and an error; the reconciler runs a list of them. \<^verbatim>\<open>controllerutil.CreateOrPatch\<close> and
  the objects decoded from embedded YAML are fields of \<open>policyEnv\<close>. Log lines are left out.
\<close>

section \<open>Options, objects and environment\<close>

record ControllerOpts =
  coReqName :: string
  coNamespace :: string
  coSecretName :: string
  coRequeueDelay :: int
  coDRAEnable :: bool
  coOpenShift :: bool
  coKMMEnable :: bool
  coModuleLoaderServiceAccountName :: string
  coKMMModuleReadyLabel :: string

text \<open>
  An object by kind, namespace and name, with the fields the code sets over the object's template.
\<close>

record apiObject =
  aoKind :: string
  aoNamespace :: string
  aoName :: string
  aoSet :: "(string \<times> string) list"

record probe =
  prFailureThreshold :: int
  prPeriodSeconds :: int
  prTimeoutSeconds :: int
  prPort :: int
  prService :: string

text \<open>The sources of volumes and of environment variables that the code builds; any other is kept as it is.\<close>

datatype volumeSource =
    HostPathSource string "string option"
  | ConfigMapSource string "(string \<times> string) list" int
  | SecretSource string "(string \<times> string) list" int
  | OtherVolumeSource string

datatype envSource = EnvSecretKey keySelector | OtherEnvSource string

record volume =
  volName :: string
  volSource :: volumeSource

record volumeMount =
  vmName :: string
  vmPath :: string
  vmReadOnly :: bool

record envVar =
  evName :: string
  evSource :: envSource

record dsContainer =
  dcName :: string
  dcImage :: string
  dcArgs :: "string list"
  dcPorts :: "(string \<times> int) list"
  dcStartupProbe :: "probe option"
  dcLivenessProbe :: "probe option"
  dcSELinuxType :: "string option"
  dcMounts :: "volumeMount list"
  dcEnv :: "envVar list"
  dcLimits :: "(string \<times> string) list"
  dcRequests :: "(string \<times> string) list"
  dcClaims :: "string list"

record daemonSet =
  dsetName :: string
  dsetNamespace :: string
  dsetLabels :: "(string \<times> string) list"
  dsetAnnotations :: "(string \<times> string) list"
  dsetServiceAccount :: string
  dsetContainers :: "dsContainer list"
  dsetNodeSelector :: "(string \<times> string) list"
  dsetTolerations :: "toleration list"
  dsetAffinity :: "affinity option"
  dsetVolumes :: "volume list"
  dsetPullSecrets :: "string list"
  dsetResourceClaims :: "(string \<times> string) list"
  dsetReady :: int
  dsetDesired :: int

record 'w policyEnv = "'w osClient" +
  peGet :: "string \<Rightarrow> ('w, policy res) io"
  peUpdate :: "policy \<Rightarrow> ('w, policy res) io"
  peUpdateStatus :: "policy \<Rightarrow> ('w, policy res) io"
  peListCRDs :: "('w, string list res) io"
  peCreate :: "apiObject \<Rightarrow> ('w, go_error option) io"
  peDelete :: "apiObject \<Rightarrow> ('w, go_error option) io"
  peCreateOrPatch :: "apiObject \<Rightarrow> ('w, go_error option) io"
  peGetDaemonSet :: "string \<Rightarrow> string \<Rightarrow> ('w, daemonSet res) io"
  peCreateOrPatchDaemonSet :: "daemonSet \<Rightarrow> (daemonSet \<Rightarrow> daemonSet) \<Rightarrow> ('w, go_error option) io"
  peDraTemplate :: daemonSet
  peDpTemplate :: daemonSet

type_synonym requeue = "int option"
type_synonym 'w subController = "policy option \<Rightarrow> ('w, policy option \<times> requeue \<times> go_error option) io"

definition requeueErr :: go_error where
  "requeueErr = Err RequeueRequested ''sub-controller requested a requeue''"

definition ownerKey :: string where "ownerKey = ''owner''"
definition trueValue :: string where "trueValue = ''true''"
definition notAvailableStatus :: string where "notAvailableStatus = ''N/A''"
definition xpumdSocketPath :: string where "xpumdSocketPath = ''/run/xpumd/intel_xpu_info.sock''"
definition draNotEnabledMsg :: string where
  "draNotEnabledMsg = ''DRA is not enabled in the cluster, but ClusterPolicy requests it.''"
definition clusterPolicyFinalizer :: string where
  "clusterPolicyFinalizer = ''gpu.intel.com/clusterpolicy-protection''"
definition maxKeptErrors :: nat where "maxKeptErrors = 10"
definition kmmModuleSuffix :: string where "kmmModuleSuffix = ''-gpu''"

definition kmmModuleName :: "string \<Rightarrow> string" where
  "kmmModuleName cpn = cpn @ kmmModuleSuffix"

section \<open>Status\<close>

definition onStatus :: "(ClusterPolicyStatus \<Rightarrow> ClusterPolicyStatus) \<Rightarrow> policy \<Rightarrow> policy" where
  "onStatus f cp = cp\<lparr>cpStatus := f (cpStatus cp)\<rparr>"

lemma onStatus_frame [simp, frame_simps]:
  "cpName (onStatus f cp) = cpName cp" "cpDeleting (onStatus f cp) = cpDeleting cp"
  "cpFinalizers (onStatus f cp) = cpFinalizers cp" "cpSpec (onStatus f cp) = cpSpec cp"
  by (simp_all add: onStatus_def)

definition addIfMissing :: "string \<Rightarrow> policy \<Rightarrow> policy" where
  "addIfMissing s = onStatus (\<lambda>st. if s \<in> set (csErrors st) then st else st\<lparr>csErrors := csErrors st @ [s]\<rparr>)"

definition recordError :: "go_error \<Rightarrow> policy \<Rightarrow> policy" where
  "recordError e = onStatus (\<lambda>st. st\<lparr>csErrors := drop (length (csErrors st) - maxKeptErrors) (csErrors st) @ [errText e]\<rparr>)"

definition clearErrors :: "policy \<Rightarrow> policy" where
  "clearErrors = onStatus (\<lambda>st. st\<lparr>csErrors := []\<rparr>)"

section \<open>Helpers of the sub-controllers\<close>

definition nfdGpuWithDriver :: string where "nfdGpuWithDriver = ''intel.feature.node.kubernetes.io/gpu''"
definition nfdGpuWithoutDriver :: string where "nfdGpuWithoutDriver = ''intel.feature.node.kubernetes.io/gpu-pci''"

definition generateNodeSelector :: "policy \<Rightarrow> ControllerOpts \<Rightarrow> (string \<times> string) list" where
  "generateNodeSelector cp opts =
     (let ns1 = fold (\<lambda>(k, v). AList.update k v) (cpNodeSelector (cpSpec cp)) [(''kubernetes.io/arch'', ''amd64'')];
          ns2 = (if cpUseNFDLabeling (cpSpec cp) then AList.update nfdGpuWithDriver trueValue ns1 else ns1)
      in if coKMMModuleReadyLabel opts \<noteq> '''' \<and> cpKernelModule (cpSpec cp) \<noteq> None
         then AList.update (coKMMModuleReadyLabel opts) '''' ns2 else ns2)"

definition generateNodeSelectorDriverless :: "policy \<Rightarrow> ControllerOpts \<Rightarrow> (string \<times> string) list" where
  "generateNodeSelectorDriverless cp opts =
     (let ns = generateNodeSelector cp opts
      in if cpUseNFDLabeling (cpSpec cp)
         then AList.update nfdGpuWithoutDriver trueValue (AList.delete nfdGpuWithDriver ns) else ns)"

definition generateTolerations :: "policy \<Rightarrow> toleration list" where
  "generateTolerations cp = cpTolerations (cpSpec cp)"

definition generateAffinity :: "affinity option \<Rightarrow> affinity option" where
  "generateAffinity a = a"

definition setHostPath :: "string \<Rightarrow> string \<Rightarrow> volume list \<Rightarrow> volume list" where
  "setHostPath name path = map (\<lambda>v. case volSource v of
     HostPathSource _ t \<Rightarrow> if volName v = name then v\<lparr>volSource := HostPathSource path t\<rparr> else v
   | _ \<Rightarrow> v)"

text \<open>The pull secrets every DaemonSet gets: the operator's own and the policy's.\<close>

definition pullSecrets :: "ControllerOpts \<Rightarrow> policy \<Rightarrow> string list" where
  "pullSecrets opts cp =
     (if coSecretName opts \<noteq> '''' then [coSecretName opts] else [])
     @ (case cpPullSecret (cpSpec cp) of None \<Rightarrow> [] | Some s \<Rightarrow> [s])"

text \<open>The template has a container; \<^verbatim>\<open>Containers[0]\<close> of a set without one would panic.\<close>

definition onFirstContainer :: "(dsContainer \<Rightarrow> dsContainer) \<Rightarrow> dsContainer list \<Rightarrow> dsContainer list" where
  "onFirstContainer f cs = (case cs of [] \<Rightarrow> [] | c # r \<Rightarrow> f c # r)"

definition plainObject :: "string \<Rightarrow> string \<Rightarrow> string \<Rightarrow> apiObject" where
  "plainObject kind ns name = \<lparr>aoKind = kind, aoNamespace = ns, aoName = name, aoSet = []\<rparr>"

definition isClusterPolicyBeingDeleted :: "policy option \<Rightarrow> bool" where
  "isClusterPolicyBeingDeleted cp = (case cp of None \<Rightarrow> True | Some c \<Rightarrow> cpDeleting c)"

definition shouldRemoveDRA :: "policy option \<Rightarrow> bool" where
  "shouldRemoveDRA cp \<longleftrightarrow> isClusterPolicyBeingDeleted cp \<or> cpResourceRegistration (cpSpec (the cp)) \<noteq> resourceModeDRA"

definition shouldRemoveDevicePlugin :: "policy option \<Rightarrow> bool" where
  "shouldRemoveDevicePlugin cp \<longleftrightarrow> isClusterPolicyBeingDeleted cp \<or> cpResourceRegistration (cpSpec (the cp)) \<noteq> resourceModeDP"

definition shouldRemoveXpumd :: "policy option \<Rightarrow> bool" where
  "shouldRemoveXpumd cp \<longleftrightarrow> isClusterPolicyBeingDeleted cp \<or> \<not> cpResourceMonitoring (cpSpec (the cp))"

definition holdsDevice :: "string \<Rightarrow> resourceClaim \<Rightarrow> bool" where
  "holdsDevice driver claim =
     (case claimAllocation claim of None \<Rightarrow> False | Some rs \<Rightarrow> list_ex (\<lambda>a. resDriver a = driver) rs)"

definition anyAllocatedResourceClaims :: "('w, 'x) client_scheme \<Rightarrow> string \<Rightarrow> ('w, bool) io" where
  "anyAllocatedResourceClaims C driver = do {
     r \<leftarrow> cListClaims C;
     State_Monad.return (case r of Inl _ \<Rightarrow> True | Inr claims \<Rightarrow> list_ex (holdsDevice driver) claims)
   }"

definition logLevelForXpum :: "policy \<Rightarrow> string" where
  "logLevelForXpum cp =
     (let v = max (cpLogLevel (cpSpec cp)) (xmLogLevel (cpXPU (cpSpec cp)))
      in if v = 0 then ''error'' else if v = 1 then ''warn'' else if v = 2 then ''info'' else ''debug'')"

section \<open>Reconcile\<close>

definition passOpts :: "ControllerOpts \<Rightarrow> string \<Rightarrow> ControllerOpts" where
  "passOpts opts key =
     (let o1 = opts\<lparr>coReqName := key\<rparr>
      in if coKMMEnable o1
         then o1\<lparr>coKMMModuleReadyLabel := ''kmm.node.kubernetes.io/'' @ coNamespace o1 @ ''.'' @ kmmModuleName key @ ''.ready''\<rparr>
         else o1)"

text \<open>
  The loop over the sub-controllers while the policy is deleted: \<open>None\<close> when all of them were done,
  otherwise what \<open>Reconcile\<close> returns.
\<close>

fun deletionLoop :: "'w subController list \<Rightarrow> policy option \<Rightarrow> ('w, policy option \<times> requeue res option) io" where
  "deletionLoop [] cp = State_Monad.return (cp, None)"
| "deletionLoop (s # ss) cp = do {
     (cp', ret, err) \<leftarrow> s cp;
     case err of
       None \<Rightarrow> deletionLoop ss cp'
     | Some e \<Rightarrow> State_Monad.return (cp', Some (if reason e = RequeueRequested then Inr ret else Inl e))
   }"

fun delegationLoop ::
  "'w subController list \<Rightarrow> policy option \<Rightarrow> go_error option \<Rightarrow> ('w, policy option \<times> requeue res) io" where
  "delegationLoop [] cp retErr =
     State_Monad.return (cp, case retErr of None \<Rightarrow> Inr None | Some e \<Rightarrow> Inl e)"
| "delegationLoop (s # ss) cp retErr = do {
     (cp', ret, err) \<leftarrow> s cp;
     case err of
       None \<Rightarrow> delegationLoop ss cp' retErr
     | Some e \<Rightarrow>
         if reason e = RequeueRequested then State_Monad.return (cp', Inr ret)
         else delegationLoop ss (map_option (recordError e) cp') (Some e)
   }"

definition addPolicyFinalizer :: "policy \<Rightarrow> policy" where
  "addPolicyFinalizer cp = cp\<lparr>cpFinalizers := cpFinalizers cp @ [clusterPolicyFinalizer]\<rparr>"

definition removePolicyFinalizer :: "policy \<Rightarrow> policy" where
  "removePolicyFinalizer cp = cp\<lparr>cpFinalizers := filter (\<lambda>f. f \<noteq> clusterPolicyFinalizer) (cpFinalizers cp)\<rparr>"

text \<open>
  One pass over a policy that exists: whether the deferred status write is still due, the policy as
  it is in memory, and the result. A sub-controller that is given a policy returns one.
\<close>

definition reconcileExisting ::
  "('w, 'x) policyEnv_scheme \<Rightarrow> 'w subController list \<Rightarrow> policy \<Rightarrow> ('w, bool \<times> policy \<times> requeue res) io" where
  "reconcileExisting E subs cp =
     (if cpDeleting cp then do {
        (cp', stop) \<leftarrow> deletionLoop subs (Some cp);
        case stop of
          Some res \<Rightarrow> State_Monad.return (True, the cp', res)
        | None \<Rightarrow> do {
            u \<leftarrow> peUpdate E (removePolicyFinalizer (the cp'));
            State_Monad.return (case u of
              Inl e \<Rightarrow> (False, removePolicyFinalizer (the cp'), if reason e = NotFound then Inr None else Inl e)
            | Inr cp2 \<Rightarrow> (False, cp2, Inr None))
          }
      }
      else if clusterPolicyFinalizer \<in> set (cpFinalizers cp) then do {
        (cp', res) \<leftarrow> delegationLoop subs (Some cp) None;
        State_Monad.return (True, the cp', res)
      }
      else do {
        u \<leftarrow> peUpdate E (addPolicyFinalizer cp);
        case u of
          Inl e \<Rightarrow> State_Monad.return (True, addPolicyFinalizer cp, Inl e)
        | Inr cp1 \<Rightarrow> do {
            (cp', res) \<leftarrow> delegationLoop subs (Some cp1) None;
            State_Monad.return (True, the cp', res)
          }
      })"

definition ReconcilePolicy ::
  "('w, 'x) policyEnv_scheme \<Rightarrow> ControllerOpts \<Rightarrow> (ControllerOpts \<Rightarrow> string list \<Rightarrow> 'w subController list) \<Rightarrow> string \<Rightarrow>
     ('w, requeue res) io" where
  "ReconcilePolicy E opts subControllers key = do {
     r \<leftarrow> peGet E key;
     case r of
       Inl e \<Rightarrow>
         if reason e \<noteq> NotFound then State_Monad.return (Inl e)
         else do {
           c \<leftarrow> peListCRDs E;
           case c of
             Inl e' \<Rightarrow> State_Monad.return (Inl e')
           | Inr crds \<Rightarrow> do {
               (_, res) \<leftarrow> delegationLoop (subControllers (passOpts opts key) crds) None None;
               State_Monad.return res
             }
         }
     | Inr orig \<Rightarrow> do {
         c \<leftarrow> peListCRDs E;
         (due, cp, res) \<leftarrow> (case c of
           Inl e' \<Rightarrow> State_Monad.return (True, clearErrors orig, Inl e')
         | Inr crds \<Rightarrow> reconcileExisting E (subControllers (passOpts opts key) crds) (clearErrors orig));
         if due \<and> cpStatus orig \<noteq> cpStatus cp
         then do { _ \<leftarrow> peUpdateStatus E cp; State_Monad.return res }
         else State_Monad.return res
       }
   }"

end
