(* ===== verification/PolicyOTel.thy ===== *)
theory PolicyOTel
  imports Complex_Main PolicyController
begin

text \<open>
  The configuration of the OpenTelemetry collector in xpumd: its types (\<^verbatim>\<open>deployments/otel_types.go\<close>)
  and how \<^verbatim>\<open>clusterpolicy/xpumanager_controller.go\<close> fills in the embedded default from the policy.
  Values of type \<^verbatim>\<open>float64\<close> are rational numbers: the code only stores 32-bit integers in them, which
  is exact. Free-form YAML is kept as text by key.
\<close>

section \<open>Types\<close>

record KeyValues =
  kvKey :: string
  kvValues :: "string list"

record InfoLogsConfig =
  ilEnabled :: bool
  ilInstanceName :: string

record IntelXPUReceiver =
  ixCollectionInterval :: string
  ixInitialDelay :: string
  ixTimeout :: int
  ixSamplingInterval :: string
  ixFailOnSysmanInit :: bool
  ixInfoLogs :: "InfoLogsConfig option"
  ixMetrics :: "(string \<times> string) list"

record IntelCrashlogReceiver =
  icDirectory :: string
  icGlob :: string
  icIgnoreOlderThan :: string
  icAddAttributes :: "(string \<times> string) list"

record OTelReceivers =
  orIntelXPU :: IntelXPUReceiver
  orIntelCrashlog :: "IntelCrashlogReceiver option"

record StateCondition =
  scValue :: rat
  scParentFilters :: "KeyValues list"

record StatusState =
  ssStateName :: string
  ssConditions :: "StateCondition list"

record StatusRule =
  srName :: string
  srSourceMetric :: string
  srParentMetric :: string
  srParentRefAttribute :: string
  srParentFilters :: "KeyValues list"
  srComponentFilters :: "KeyValues list"
  srCopyAttributes :: "string list"
  srAddAttributes :: "(string \<times> string) list"
  srStates :: "StatusState list"

record OTLPExporterTLS =
  etInsecure :: bool
  etInsecureSkipVerify :: bool
  etCAFile :: string
  etCertFile :: string
  etKeyFile :: string
  etServerNameOverride :: string

record OTLPExporter =
  eoEndpoint :: string
  eoHeaders :: "(string \<times> string) list"
  eoTLS :: "OTLPExporterTLS option"

record HWSeverityMapping =
  hmSeverity :: string
  hmMessage :: string

record HWStatusMapping =
  hwHealthDomain :: string
  hwFilters :: "KeyValues list"
  hwStateMapping :: "(string \<times> HWSeverityMapping) list"

record IntelXPUInfoExporter =
  ieEndpoint :: string
  ieHWStatusMappings :: "HWStatusMapping list"

record OTelExporters =
  exIntelXPUInfo :: IntelXPUInfoExporter
  exPrometheusEndpoint :: string
  exOTLPHTTP :: "OTLPExporter option"
  exOTLPGRPC :: "OTLPExporter option"

record OTelLogs =
  olLevel :: string
  olDisableStacktrace :: bool

record pipeline =
  plReceivers :: "string list"
  plProcessors :: "string list"
  plExporters :: "string list"

record OTelService =
  svLogs :: OTelLogs
  svMetricsPipeline :: pipeline
  svLogsPipeline :: "pipeline option"

record OTelConfig =
  ocReceivers :: OTelReceivers
  ocRules :: "StatusRule list"
  ocExporters :: OTelExporters
  ocExtensions :: "(string \<times> string) list"
  ocService :: OTelService

section \<open>The OTLP exporter\<close>

definition otlpHTTPExporter :: string where "otlpHTTPExporter = ''otlp_http''"
definition otlpGRPCExporter :: string where "otlpGRPCExporter = ''otlp_grpc''"
definition otlpHeaderEnvPrefix :: string where "otlpHeaderEnvPrefix = ''OTLP_HEADER_''"
definition otlpCAMountDir :: string where "otlpCAMountDir = ''/etc/otlp/ca''"
definition otlpCAFile :: string where "otlpCAFile = ''ca.crt''"
definition otlpClientCertMountDir :: string where "otlpClientCertMountDir = ''/etc/otlp/client''"
definition TLSCertKey :: string where "TLSCertKey = ''tls.crt''"
definition TLSPrivateKeyKey :: string where "TLSPrivateKeyKey = ''tls.key''"
definition crashlogReceiver :: string where "crashlogReceiver = ''intel_crashlog''"

definition otlpExporter :: "XpuManagerSpec \<Rightarrow> (string \<times> OTLPExporterSpec) option" where
  "otlpExporter xspec =
     (case xmOTLP xspec of
        None \<Rightarrow> None
      | Some ot \<Rightarrow>
          (case otlpHTTP ot of
             Some ex \<Rightarrow> Some (otlpHTTPExporter, ex)
           | None \<Rightarrow> map_option (Pair otlpGRPCExporter) (otlpGRPC ot)))"

definition otlpHeaderEnvName :: "nat \<Rightarrow> string" where
  "otlpHeaderEnvName idx = otlpHeaderEnvPrefix @ natStr idx"

definition headerReference :: "nat \<Rightarrow> string" where
  "headerReference idx = ''${env:'' @ otlpHeaderEnvName idx @ ''}''"

definition noTLS :: OTLPExporterTLS where
  "noTLS = \<lparr>etInsecure = False, etInsecureSkipVerify = False, etCAFile = '''', etCertFile = '''', etKeyFile = '''', etServerNameOverride = ''''\<rparr>"

definition exporterTLS :: "OTLPTLSSpec \<Rightarrow> OTLPExporterTLS" where
  "exporterTLS t = noTLS\<lparr>etInsecureSkipVerify := otInsecureSkipVerify t, etServerNameOverride := otServerName t,
     etCAFile := (if otCA t \<noteq> None then otlpCAMountDir @ ''/'' @ otlpCAFile else ''''),
     etCertFile := (if otClientCertSecret t \<noteq> None then otlpClientCertMountDir @ ''/'' @ TLSCertKey else ''''),
     etKeyFile := (if otClientCertSecret t \<noteq> None then otlpClientCertMountDir @ ''/'' @ TLSPrivateKeyKey else '''')\<rparr>"

definition buildOTLPExporterConfig :: "OTLPExporterSpec \<Rightarrow> OTLPExporter" where
  "buildOTLPExporterConfig ex =
     \<lparr>eoEndpoint = oeEndpoint ex,
      eoHeaders = fold (\<lambda>(i, h). AList.update (ohName h) (headerReference i)) (enumerate 0 (oeHeaders ex)) [],
      eoTLS = (if hasPrefix (oeEndpoint ex) ''http://'' then Some (noTLS\<lparr>etInsecure := True\<rparr>)
               else case oeTLS ex of
                 None \<Rightarrow> None
               | Some t \<Rightarrow> if exporterTLS t = noTLS then None else Some (exporterTLS t))\<rparr>"

section \<open>The configuration\<close>

fun setCriticalStates :: "rat \<Rightarrow> StatusState list \<Rightarrow> StatusState list" where
  "setCriticalStates t [] = []"
| "setCriticalStates t (s # ss) =
     (if ssStateName s = ''critical'' then s\<lparr>ssConditions := map (scValue_update (\<lambda>_. t)) (ssConditions s)\<rparr> # ss
      else s # setCriticalStates t ss)"

definition setCriticalThreshold :: "rat \<Rightarrow> StatusRule \<Rightarrow> StatusRule" where
  "setCriticalThreshold t rule = rule\<lparr>srStates := setCriticalStates t (srStates rule)\<rparr>"

definition applyThresholds :: "HealthinessSpec \<Rightarrow> StatusRule \<Rightarrow> StatusRule" where
  "applyThresholds health rule =
     (if srSourceMetric rule = ''hw.temperature''
      then fold (\<lambda>loc r. if loc = ''gpu'' then setCriticalThreshold (of_int (hsCoreTemperatureThreshold health)) r
                         else if loc = ''memory'' then setCriticalThreshold (of_int (hsMemoryTemperatureThreshold health)) r
                         else r)
             (concat (map kvValues (srComponentFilters rule))) rule
      else rule)"

definition appendMissing :: "string \<Rightarrow> string list \<Rightarrow> string list" where
  "appendMissing x xs = (if x \<in> set xs then xs else xs @ [x])"

definition configLogs :: "policy \<Rightarrow> OTelConfig \<Rightarrow> OTelConfig" where
  "configLogs cp cfg =
     (let xspec = cpXPU (cpSpec cp); sv = ocService cfg; rc = ocReceivers cfg;
          rc1 = rc\<lparr>orIntelXPU := (orIntelXPU rc)\<lparr>ixInfoLogs :=
                  map_option (ilEnabled_update (\<lambda>_. xmInfoLogs xspec)) (ixInfoLogs (orIntelXPU rc))\<rparr>\<rparr>;
          sv1 = sv\<lparr>svLogs := (svLogs sv)\<lparr>olLevel := logLevelForXpum cp\<rparr>\<rparr>
      in if xmCrashLog xspec \<and> orIntelCrashlog rc \<noteq> None \<and> svLogsPipeline sv \<noteq> None
         then cfg\<lparr>ocReceivers := rc1,
                  ocService := sv1\<lparr>svLogsPipeline := map_option (plReceivers_update (appendMissing crashlogReceiver)) (svLogsPipeline sv)\<rparr>\<rparr>
         else cfg\<lparr>ocReceivers := rc1\<lparr>orIntelCrashlog := None\<rparr>, ocService := sv1\<rparr>)"

definition configOTLP :: "policy \<Rightarrow> OTelConfig \<Rightarrow> OTelConfig" where
  "configOTLP cp cfg =
     (case otlpExporter (cpXPU (cpSpec cp)) of
        None \<Rightarrow> cfg
      | Some (name, ex) \<Rightarrow>
          let otlp = Some (buildOTLPExporterConfig ex); sv = ocService cfg
          in cfg\<lparr>ocExporters := (if name = otlpHTTPExporter then (ocExporters cfg)\<lparr>exOTLPHTTP := otlp\<rparr>
                                 else (ocExporters cfg)\<lparr>exOTLPGRPC := otlp\<rparr>),
                 ocService := sv\<lparr>svMetricsPipeline := plExporters_update (appendMissing name) (svMetricsPipeline sv),
                                 svLogsPipeline := map_option (plExporters_update (appendMissing name)) (svLogsPipeline sv)\<rparr>\<rparr>)"

definition configHealth :: "policy \<Rightarrow> OTelConfig \<Rightarrow> OTelConfig" where
  "configHealth cp cfg =
     (case cpHealth (cpSpec cp) of
        None \<Rightarrow> cfg
      | Some health \<Rightarrow>
          let rc = ocReceivers cfg
          in cfg\<lparr>ocReceivers := rc\<lparr>orIntelXPU := (orIntelXPU rc)\<lparr>ixCollectionInterval := itoa (hsCheckIntervalSeconds health) @ ''s''\<rparr>\<rparr>,
                 ocRules := map (applyThresholds health) (ocRules cfg)\<rparr>)"

text \<open>\<open>marshal\<close> is \<^verbatim>\<open>yaml.Marshal\<close>; \<open>base\<close> is the embedded default as decoded.\<close>

definition otelConfigFor :: "OTelConfig \<Rightarrow> policy \<Rightarrow> OTelConfig" where
  "otelConfigFor base cp = configHealth cp (configOTLP cp (configLogs cp base))"

definition buildOTelConfigData :: "(OTelConfig \<Rightarrow> string res) \<Rightarrow> OTelConfig \<Rightarrow> policy \<Rightarrow> string res" where
  "buildOTelConfigData marshal base cp =
     (case marshal (otelConfigFor base cp) of
        Inl e \<Rightarrow> Inl (wrapErr ''failed to marshal otel config'' e)
      | Inr out \<Rightarrow> Inr out)"

end
