(* ===== verification/PolicyDRA.thy ===== *)
theory PolicyDRA
  imports PolicyController Drain
begin

text \<open>
  The DRA sub-controller (\<^verbatim>\<open>clusterpolicy/dra_controller.go\<close>): it deploys the DRA driver with what
  the driver depends on, and removes all of it when the policy is deleted or asks for another way to
  register GPUs, unless a ResourceClaim still holds one.
\<close>

definition draResourcePart :: string where "draResourcePart = ''gpu-dra''"
definition vfioGpuDeviceClass :: string where "vfioGpuDeviceClass = ''gpu-vfio.intel.com''"
definition draStaticCDIVolume :: string where "draStaticCDIVolume = ''cdi''"
definition draDynamicCDIVolume :: string where "draDynamicCDIVolume = ''varruncdi''"
definition healthCheckPort :: int where "healthCheckPort = 51516"

definition buildDaemonSetName :: "string \<Rightarrow> string" where
  "buildDaemonSetName crn = crn @ ''-gpu-dra''"

definition boolText :: "bool \<Rightarrow> string" where
  "boolText b = (if b then ''true'' else ''false'')"

section \<open>Dependencies\<close>

text \<open>
  The device classes carry a selector that limits them to devices with a driver bound unless the DRA
  driver manages the binding.
\<close>

definition deviceClassObject :: "string \<Rightarrow> bool \<Rightarrow> apiObject" where
  "deviceClassObject name limit = \<lparr>aoKind = ''DeviceClass'', aoNamespace = '''', aoName = name, aoSet = [(''limitToDriver'', boolText limit)]\<rparr>"

definition draDependencies :: "ControllerOpts \<Rightarrow> policy \<Rightarrow> apiObject list" where
  "draDependencies opts cp =
     (let objName = buildDaemonSetName (cpName cp); ns = coNamespace opts; mb = draManageBinding (cpDRA (cpSpec cp))
      in [\<lparr>aoKind = ''ServiceAccount'', aoNamespace = ns, aoName = objName, aoSet = []\<rparr>,
          \<lparr>aoKind = ''ClusterRole'', aoNamespace = '''', aoName = objName, aoSet = []\<rparr>,
          \<lparr>aoKind = ''ClusterRoleBinding'', aoNamespace = ns, aoName = objName,
           aoSet = [(''subjects.namespace'', ns), (''subjects.name'', objName), (''roleRef.name'', objName)]\<rparr>,
          deviceClassObject GPUDeviceClass (\<not> mb), deviceClassObject vfioGpuDeviceClass (\<not> mb),
          \<lparr>aoKind = ''ValidatingAdmissionPolicy'', aoNamespace = '''', aoName = objName,
           aoSet = [(''spec.matchConditions[0].expression'',
             ''request.userInfo.username == '' @ [CHR 0x22] @ ''system:serviceaccount:'' @ ns @ '':'' @ objName @ [CHR 0x22])]\<rparr>,
          \<lparr>aoKind = ''ValidatingAdmissionPolicyBinding'', aoNamespace = '''', aoName = objName,
           aoSet = [(''spec.policyName'', objName)]\<rparr>])"

fun createAll :: "('w, 'x) policyEnv_scheme \<Rightarrow> apiObject list \<Rightarrow> ('w, go_error option) io" where
  "createAll E [] = State_Monad.return None"
| "createAll E (x # xs) = do {
     r \<leftarrow> peCreate E x;
     case ignoreAlreadyExists r of Some e \<Rightarrow> State_Monad.return (Some e) | None \<Rightarrow> createAll E xs
   }"

definition createDependencyComponentsIfMissing ::
  "('w, 'x) policyEnv_scheme \<Rightarrow> ControllerOpts \<Rightarrow> policy \<Rightarrow> ('w, go_error option) io" where
  "createDependencyComponentsIfMissing E opts cp = createAll E (draDependencies opts cp)"

text \<open>Errors are only logged.\<close>

definition ensureDrmDeviceClass :: "('w, 'x) policyEnv_scheme \<Rightarrow> bool \<Rightarrow> ('w, unit) io" where
  "ensureDrmDeviceClass E manageBinding = do {
     _ \<leftarrow> peCreateOrPatch E (deviceClassObject GPUDeviceClass (\<not> manageBinding)); State_Monad.return () }"

definition ensureVfioDeviceClass :: "('w, 'x) policyEnv_scheme \<Rightarrow> bool \<Rightarrow> ('w, unit) io" where
  "ensureVfioDeviceClass E manageBinding = do {
     _ \<leftarrow> peCreateOrPatch E (deviceClassObject vfioGpuDeviceClass (\<not> manageBinding)); State_Monad.return () }"

section \<open>OpenShift\<close>

definition buildDRASCC :: "string \<Rightarrow> scc" where
  "buildDRASCC name = BuildSCC name
     [(''allowPrivilegedContainer'', SccBool False), (''allowHostDirVolumePlugin'', SccBool True),
      (''allowHostIPC'', SccBool False), (''allowHostNetwork'', SccBool False),
      (''allowHostPID'', SccBool False), (''allowHostPorts'', SccBool False),
      (''allowPrivilegeEscalation'', SccBool False), (''allowedCapabilities'', SccNull),
      (''defaultAddCapabilities'', SccNull), (''fsGroup'', SccStrategy ''RunAsAny''),
      (''readOnlyRootFilesystem'', SccBool False), (''requiredDropCapabilities'', SccList [''ALL'']),
      (''runAsUser'', SccStrategy ''RunAsAny''), (''seLinuxContext'', SccStrategy ''RunAsAny''),
      (''seccompProfiles'', SccList [''*'']), (''supplementalGroups'', SccStrategy ''RunAsAny''),
      (''volumes'', SccList [''hostPath'', ''projected'']), (''users'', SccList []), (''groups'', SccList [])]"

definition createOpenShiftResourcesIfNotExists ::
  "('w, 'x) policyEnv_scheme \<Rightarrow> ControllerOpts \<Rightarrow> string \<Rightarrow> ('w, go_error option) io" where
  "createOpenShiftResourcesIfNotExists E opts crn =
     (case BuildOpenShiftNames crn draResourcePart of (sccn, roleName, bindingName, _) \<Rightarrow> do {
        r1 \<leftarrow> EnsureSCC E (buildDRASCC sccn);
        case r1 of Some e \<Rightarrow> State_Monad.return (Some e)
        | None \<Rightarrow> do {
            r2 \<leftarrow> CreateSCCRole E roleName sccn;
            case r2 of Some e \<Rightarrow> State_Monad.return (Some e)
            | None \<Rightarrow> CreateSCCRoleBinding E bindingName roleName (buildDaemonSetName crn) (coNamespace opts)
          }
      })"

section \<open>Removal\<close>

definition draObjects :: "ControllerOpts \<Rightarrow> string \<Rightarrow> apiObject list" where
  "draObjects opts crn =
     (let objName = buildDaemonSetName crn; ns = coNamespace opts
      in [plainObject ''ServiceAccount'' ns objName, plainObject ''ClusterRole'' '''' objName,
          plainObject ''ClusterRoleBinding'' ns objName, plainObject ''DeviceClass'' '''' GPUDeviceClass,
          plainObject ''DeviceClass'' '''' vfioGpuDeviceClass, plainObject ''ValidatingAdmissionPolicy'' '''' objName,
          plainObject ''ValidatingAdmissionPolicyBinding'' '''' objName, plainObject ''DaemonSet'' ns objName]
         @ (if coOpenShift opts
            then case BuildOpenShiftNames crn draResourcePart of (sccn, roleName, bindingName, _) \<Rightarrow>
                   [plainObject ''SecurityContextConstraints'' '''' sccn, plainObject ''ClusterRole'' '''' roleName,
                    plainObject ''ClusterRoleBinding'' '''' bindingName]
            else []))"

fun deleteEach :: "('w, 'x) policyEnv_scheme \<Rightarrow> apiObject list \<Rightarrow> ('w, go_error option) io" where
  "deleteEach E [] = State_Monad.return None"
| "deleteEach E (x # xs) = do {
     r \<leftarrow> peDelete E x;
     case r of
       None \<Rightarrow> deleteEach E xs
     | Some e \<Rightarrow> if reason e = NotFound then deleteEach E xs else State_Monad.return (Some e)
   }"

definition deleteAll :: "('w, 'x) policyEnv_scheme \<Rightarrow> ControllerOpts \<Rightarrow> string \<Rightarrow> ('w, go_error option) io" where
  "deleteAll E opts crn = deleteEach E (draObjects opts crn)"

definition setDRAStatus :: "string \<Rightarrow> policy \<Rightarrow> policy" where
  "setDRAStatus s = onStatus (csDRAStatus_update (\<lambda>_. s))"

definition removeDeploymentIfExists ::
  "('w, 'x) policyEnv_scheme \<Rightarrow> ControllerOpts \<Rightarrow> 'w subController" where
  "removeDeploymentIfExists E opts cp = do {
     held \<leftarrow> anyAllocatedResourceClaims E GPUDeviceClass;
     if held then State_Monad.return (cp, Some (coRequeueDelay opts), Some requeueErr)
     else do {
       d \<leftarrow> deleteAll E opts (coReqName opts);
       State_Monad.return (case d of
         Some e \<Rightarrow> (cp, None, Some e)
       | None \<Rightarrow> (map_option (setDRAStatus notAvailableStatus) cp, None, None))
     }
   }"

section \<open>The DaemonSet\<close>

definition healthProbe :: "int \<Rightarrow> int \<Rightarrow> int \<Rightarrow> probe" where
  "healthProbe failures period port =
     \<lparr>prFailureThreshold = failures, prPeriodSeconds = period, prTimeoutSeconds = 10, prPort = port, prService = ''liveness''\<rparr>"

definition addHealthCheckIfMissing :: "int \<Rightarrow> dsContainer \<Rightarrow> dsContainer" where
  "addHealthCheckIfMissing port c =
     (if list_ex (\<lambda>p. snd p = port) (dcPorts c) then c
      else c\<lparr>dcPorts := dcPorts c @ [(''healthcheck'', port)], dcStartupProbe := Some (healthProbe 60 10 port),
             dcLivenessProbe := Some (healthProbe 3 30 port)\<rparr>)"

fun removePort :: "(string \<times> int) list \<Rightarrow> (string \<times> int) list" where
  "removePort [] = []"
| "removePort (p # ps) = (if fst p = ''healthcheck'' then ps else p # removePort ps)"

definition removeHealthCheckIfExists :: "dsContainer \<Rightarrow> dsContainer" where
  "removeHealthCheckIfExists c =
     (if list_ex (\<lambda>p. fst p = ''healthcheck'') (dcPorts c)
      then c\<lparr>dcPorts := removePort (dcPorts c), dcStartupProbe := None, dcLivenessProbe := None\<rparr> else c)"

definition generateArgs :: "policy \<Rightarrow> string list" where
  "generateArgs cp =
     [''-v='' @ natStr (nat (max (max 0 (draLogLevel (cpDRA (cpSpec cp)))) (cpLogLevel (cpSpec cp))))]
     @ (if cpResourceMonitoring (cpSpec cp) then [''--health-monitoring=true'', ''--xpumd-socket='' @ xpumdSocketPath] else [])
     @ [if draPodHealthCheck (cpDRA (cpSpec cp)) then ''--healthcheck-port='' @ natStr (nat healthCheckPort) else ''--healthcheck-port=-1'']
     @ [''--manage-binding='' @ boolText (draManageBinding (cpDRA (cpSpec cp)))]"

definition updateDaemonSetObject :: "ControllerOpts \<Rightarrow> policy \<Rightarrow> daemonSet \<Rightarrow> daemonSet" where
  "updateDaemonSetObject opts cp ds =
     (let name = buildDaemonSetName (cpName cp); sp = cpSpec cp; cdi = WithDefaults (cpCDI sp)
      in ds\<lparr>dsetName := name, dsetNamespace := coNamespace opts,
            dsetLabels := AList.update ownerKey (cpName cp) (dsetLabels ds),
            dsetServiceAccount := name,
            dsetContainers := onFirstContainer (\<lambda>c.
              let c1 = c\<lparr>dcImage := draImage (cpDRA sp), dcArgs := generateArgs cp\<rparr>;
                  c2 = (if draPodHealthCheck (cpDRA sp) then addHealthCheckIfMissing healthCheckPort c1 else removeHealthCheckIfExists c1)
              in if coOpenShift opts then c2\<lparr>dcSELinuxType := Some ''spc_t''\<rparr> else c2) (dsetContainers ds),
            dsetNodeSelector := generateNodeSelector cp opts,
            dsetTolerations := generateTolerations cp,
            dsetAffinity := generateAffinity (draAffinity (cpDRA sp)),
            dsetVolumes := setHostPath draDynamicCDIVolume (cdiDynamicHostPath cdi)
                             (setHostPath draStaticCDIVolume (cdiStaticHostPath cdi) (dsetVolumes ds)),
            dsetPullSecrets := pullSecrets opts cp\<rparr>)"

definition buildDraDaemonset :: "('w, 'x) policyEnv_scheme \<Rightarrow> ControllerOpts \<Rightarrow> policy \<Rightarrow> daemonSet" where
  "buildDraDaemonset E opts cp = updateDaemonSetObject opts cp (peDraTemplate E)"

definition updateStatus ::
  "('w, 'x) policyEnv_scheme \<Rightarrow> ControllerOpts \<Rightarrow> policy \<Rightarrow> ('w, policy \<times> go_error option) io" where
  "updateStatus E opts cp = do {
     r \<leftarrow> peGetDaemonSet E (coNamespace opts) (buildDaemonSetName (cpName cp));
     State_Monad.return (case r of
       Inl e \<Rightarrow> if reason e = NotFound then (setDRAStatus notAvailableStatus cp, None) else (cp, Some e)
     | Inr ds \<Rightarrow> (setDRAStatus (itoa (dsetReady ds) @ ''/'' @ itoa (dsetDesired ds)) cp, None))
   }"

section \<open>Reconcile\<close>

definition deployDRA :: "('w, 'x) policyEnv_scheme \<Rightarrow> ControllerOpts \<Rightarrow> policy \<Rightarrow> ('w, policy \<times> go_error option) io" where
  "deployDRA E opts cp = do {
     d \<leftarrow> createDependencyComponentsIfMissing E opts cp;
     case d of
       Some e \<Rightarrow> State_Monad.return (cp, Some e)
     | None \<Rightarrow> do {
         _ \<leftarrow> ensureDrmDeviceClass E (draManageBinding (cpDRA (cpSpec cp)));
         _ \<leftarrow> ensureVfioDeviceClass E (draManageBinding (cpDRA (cpSpec cp)));
         p \<leftarrow> peCreateOrPatchDaemonSet E (buildDraDaemonset E opts cp) (updateDaemonSetObject opts cp);
         case p of Some e \<Rightarrow> State_Monad.return (cp, Some e) | None \<Rightarrow> updateStatus E opts cp
       }
   }"

definition ReconcileDRA :: "('w, 'x) policyEnv_scheme \<Rightarrow> ControllerOpts \<Rightarrow> 'w subController" where
  "ReconcileDRA E opts cp =
     (if \<not> coDRAEnable opts
      then State_Monad.return
             (map_option (\<lambda>c. if cpResourceRegistration (cpSpec c) = resourceModeDRA then addIfMissing draNotEnabledMsg c else c) cp,
              None, None)
      else if shouldRemoveDRA cp then removeDeploymentIfExists E opts cp
      else do {
        os \<leftarrow> (if coOpenShift opts then createOpenShiftResourcesIfNotExists E opts (cpName (the cp)) else State_Monad.return None);
        case os of
          Some e \<Rightarrow> State_Monad.return (cp, None, Some e)
        | None \<Rightarrow> do {
            (cp', err) \<leftarrow> deployDRA E opts (the cp);
            State_Monad.return (Some cp', None, err)
          }
      })"

end
