(* ===== verification/PolicyDevicePlugin.thy ===== *)
theory PolicyDevicePlugin
  imports PolicyDRA
begin

text \<open>
  The device plugin sub-controller (\<^verbatim>\<open>clusterpolicy/deviceplugin_controller.go\<close>): the DaemonSet that
  registers GPUs as extended resources, deployed when the policy asks for it and removed otherwise.
\<close>

definition xpumdVolumeName :: string where "xpumdVolumeName = ''runxpumd''"
definition dpCDIVolume :: string where "dpCDIVolume = ''cdipath''"
definition dpResourcePart :: string where "dpResourcePart = ''gpu-dp''"

section \<open>Arguments\<close>

definition logLevelForDp :: "policy \<Rightarrow> int" where
  "logLevelForDp cp = max (max 0 (cpLogLevel (cpSpec cp))) (dpLogLevel (cpDP (cpSpec cp)))"

definition hexArgStr :: "string list \<Rightarrow> string" where
  "hexArgStr s = joinStr '','' (map (\<lambda>str. if hasPrefix str ''0x'' then str else ''0x'' @ str) s)"

definition dpArgs :: "policy \<Rightarrow> string list" where
  "dpArgs cp =
     (let dpspec = cpDP (cpSpec cp); logLevel = logLevelForDp cp
      in (if cpResourceMonitoring (cpSpec cp) then [''-enable-monitoring'', ''-xpumd-endpoint='' @ xpumdSocketPath] else [])
         @ (if logLevel > 0 then [''-v='' @ itoa logLevel] else [])
         @ (if dpByPathMode dpspec \<noteq> '''' then [''-bypath='' @ dpByPathMode dpspec] else [])
         @ (if dpAllowIDs dpspec \<noteq> [] then [''-allow-ids='' @ hexArgStr (dpAllowIDs dpspec)] else [])
         @ (if dpDenyIDs dpspec \<noteq> [] then [''-deny-ids='' @ hexArgStr (dpDenyIDs dpspec)] else []))"

section \<open>The mount of the xpumd socket\<close>

text \<open>\<^verbatim>\<open>slices.Delete\<close> at the first element that meets the condition, with the \<^verbatim>\<open>break\<close> after it.\<close>

fun deleteFirst :: "('a \<Rightarrow> bool) \<Rightarrow> 'a list \<Rightarrow> 'a list" where
  "deleteFirst P [] = []"
| "deleteFirst P (x # xs) = (if P x then xs else x # deleteFirst P xs)"

definition xpumdVolume :: volume where
  "xpumdVolume = \<lparr>volName = xpumdVolumeName, volSource = HostPathSource ''/run/xpumd'' (Some ''DirectoryOrCreate'')\<rparr>"

definition xpumdMount :: volumeMount where
  "xpumdMount = \<lparr>vmName = xpumdVolumeName, vmPath = ''/run/xpumd'', vmReadOnly = False\<rparr>"

definition addXpumdMounts :: "daemonSet \<Rightarrow> daemonSet" where
  "addXpumdMounts ds =
     (if list_ex (\<lambda>v. volName v = xpumdVolumeName) (dsetVolumes ds) then ds
      else ds\<lparr>dsetVolumes := dsetVolumes ds @ [xpumdVolume],
              dsetContainers := onFirstContainer (\<lambda>c. c\<lparr>dcMounts := dcMounts c @ [xpumdMount]\<rparr>) (dsetContainers ds)\<rparr>)"

definition removeXpumdMounts :: "daemonSet \<Rightarrow> daemonSet" where
  "removeXpumdMounts ds =
     ds\<lparr>dsetVolumes := deleteFirst (\<lambda>v. volName v = xpumdVolumeName) (dsetVolumes ds),
        dsetContainers := onFirstContainer
          (\<lambda>c. c\<lparr>dcMounts := deleteFirst (\<lambda>m. vmName m = xpumdVolumeName) (dcMounts c)\<rparr>) (dsetContainers ds)\<rparr>"

section \<open>The DaemonSet\<close>

definition dpDaemonSetName :: "string \<Rightarrow> string" where
  "dpDaemonSetName crn = crn @ ''-device-plugin''"

definition updateDpDaemonSet :: "ControllerOpts \<Rightarrow> policy \<Rightarrow> daemonSet \<Rightarrow> daemonSet" where
  "updateDpDaemonSet opts cp ds =
     (let sp = cpSpec cp;
          d1 = ds\<lparr>dsetName := dpDaemonSetName (cpName cp), dsetNamespace := coNamespace opts,
                  dsetLabels := AList.update ownerKey (cpName cp) (dsetLabels ds),
                  dsetContainers := onFirstContainer
                    (\<lambda>c. c\<lparr>dcImage := dpPluginImage (cpDP sp), dcArgs := dpArgs cp\<rparr>) (dsetContainers ds),
                  dsetNodeSelector := generateNodeSelector cp opts,
                  dsetTolerations := generateTolerations cp,
                  dsetAffinity := generateAffinity (dpAffinity (cpDP sp)),
                  dsetVolumes := setHostPath dpCDIVolume (cdiDynamicHostPath (WithDefaults (cpCDI sp))) (dsetVolumes ds),
                  dsetPullSecrets := pullSecrets opts cp\<rparr>;
          d2 = (if cpResourceMonitoring sp then addXpumdMounts d1 else removeXpumdMounts d1)
      in if coOpenShift opts
         then case BuildOpenShiftNames (cpName cp) dpResourcePart of (_, _, _, saName) \<Rightarrow> d2\<lparr>dsetServiceAccount := saName\<rparr>
         else d2)"

definition buildDpDaemonSet :: "('w, 'x) policyEnv_scheme \<Rightarrow> ControllerOpts \<Rightarrow> policy \<Rightarrow> daemonSet" where
  "buildDpDaemonSet E opts cp = updateDpDaemonSet opts cp (peDpTemplate E)"

section \<open>OpenShift\<close>

definition buildDevicePluginSCC :: "string \<Rightarrow> scc" where
  "buildDevicePluginSCC name = BuildSCC name
     [(''allowPrivilegedContainer'', SccBool False), (''allowHostDirVolumePlugin'', SccBool True),
      (''allowHostIPC'', SccBool False), (''allowHostNetwork'', SccBool False),
      (''allowHostPID'', SccBool False), (''allowHostPorts'', SccBool False),
      (''allowPrivilegeEscalation'', SccBool False), (''allowedCapabilities'', SccNull),
      (''defaultAddCapabilities'', SccNull), (''fsGroup'', SccStrategy ''RunAsAny''),
      (''readOnlyRootFilesystem'', SccBool False), (''requiredDropCapabilities'', SccList [''ALL'']),
      (''runAsUser'', SccStrategy ''RunAsAny''), (''seLinuxContext'', SccStrategy ''RunAsAny''),
      (''seccompProfiles'', SccList [''*'']), (''supplementalGroups'', SccStrategy ''RunAsAny''),
      (''volumes'', SccList [''hostPath'', ''emptyDir'']), (''users'', SccList []), (''groups'', SccList [])]"

definition dpOpenShiftResources :: "('w, 'x) policyEnv_scheme \<Rightarrow> ControllerOpts \<Rightarrow> string \<Rightarrow> ('w, go_error option) io" where
  "dpOpenShiftResources E opts crn = ensureSCCQuadruple E ''DP'' dpResourcePart buildDevicePluginSCC (coNamespace opts) crn"

section \<open>Removal, status and Reconcile\<close>

definition setDPStatus :: "string \<Rightarrow> policy \<Rightarrow> policy" where
  "setDPStatus s = onStatus (csDevicePluginStatus_update (\<lambda>_. s))"

text \<open>
  Shared by the device plugin and XPU manager sub-controllers: the objects of OpenShift go first, errors
  unnoticed, then the DaemonSet.
\<close>

definition removeDaemonSet ::
  "('w, 'x) policyEnv_scheme \<Rightarrow> ControllerOpts \<Rightarrow> string \<Rightarrow> string \<Rightarrow> (policy \<Rightarrow> policy) \<Rightarrow> 'w subController" where
  "removeDaemonSet E opts part name mark cp = do {
     _ \<leftarrow> (if coOpenShift opts then cleanupSCCQuadruple E part (coNamespace opts) (coReqName opts) else State_Monad.return ());
     d \<leftarrow> peDelete E (plainObject ''DaemonSet'' (coNamespace opts) name);
     State_Monad.return (case d of
       None \<Rightarrow> (map_option mark cp, None, None)
     | Some e \<Rightarrow> if reason e = NotFound then (map_option mark cp, None, None) else (cp, None, Some e))
   }"

definition daemonSetStatus ::
  "('w, 'x) policyEnv_scheme \<Rightarrow> ControllerOpts \<Rightarrow> string \<Rightarrow> (string \<Rightarrow> policy \<Rightarrow> policy) \<Rightarrow> policy \<Rightarrow> ('w, policy \<times> go_error option) io" where
  "daemonSetStatus E opts name mark cp = do {
     r \<leftarrow> peGetDaemonSet E (coNamespace opts) name;
     State_Monad.return (case r of
       Inl e \<Rightarrow> if reason e = NotFound then (mark notAvailableStatus cp, None) else (cp, Some e)
     | Inr ds \<Rightarrow> (mark (itoa (dsetReady ds) @ ''/'' @ itoa (dsetDesired ds)) cp, None))
   }"

definition removeDevicePlugin :: "('w, 'x) policyEnv_scheme \<Rightarrow> ControllerOpts \<Rightarrow> 'w subController" where
  "removeDevicePlugin E opts =
     removeDaemonSet E opts dpResourcePart (dpDaemonSetName (coReqName opts)) (setDPStatus notAvailableStatus)"

definition updateDPStatus :: "('w, 'x) policyEnv_scheme \<Rightarrow> ControllerOpts \<Rightarrow> policy \<Rightarrow> ('w, policy \<times> go_error option) io" where
  "updateDPStatus E opts cp = daemonSetStatus E opts (dpDaemonSetName (cpName cp)) setDPStatus cp"

definition ReconcileDP :: "('w, 'x) policyEnv_scheme \<Rightarrow> ControllerOpts \<Rightarrow> 'w subController" where
  "ReconcileDP E opts pol =
     (if shouldRemoveDevicePlugin pol then removeDevicePlugin E opts pol
      else let cp = the pol in do {
        os \<leftarrow> (if coOpenShift opts then dpOpenShiftResources E opts (cpName cp) else State_Monad.return None);
        case os of
          Some e \<Rightarrow> State_Monad.return (pol, None, Some e)
        | None \<Rightarrow> do {
            p \<leftarrow> peCreateOrPatchDaemonSet E (buildDpDaemonSet E opts cp) (updateDpDaemonSet opts cp);
            case p of
              Some e \<Rightarrow> State_Monad.return (pol, None, Some e)
            | None \<Rightarrow> do {
                (cp', err) \<leftarrow> updateDPStatus E opts cp;
                State_Monad.return (Some cp', None, err)
              }
          }
      })"

end
