(* ===== verification/PolicyKMM.thy ===== *)
theory PolicyKMM
  imports PolicyDRA
begin

text \<open>
  The KMM sub-controller (\<^verbatim>\<open>clusterpolicy/kmm_controller.go\<close>): it keeps a Module object of the kernel
  module management operator in step with the policy, recreates it when its version is set or unset,
  and deletes it when the policy no longer asks for a kernel module, unless a ResourceClaim still
  holds a GPU. The Module's fields are those the code reads or writes.
\<close>

section \<open>Module\<close>

record kmmTLS =
  ktInsecure :: bool
  ktInsecureSkipTLSVerify :: bool

record kmmBuild =
  mbDockerfileConfigMap :: string
  mbSecrets :: "string list"
  mbSelector :: "(string \<times> string) list"
  mbBuildArgs :: "BuildArg list"

record kmmMapping =
  mmRegexp :: string
  mmContainerImage :: string
  mmInTreeModulesToRemove :: "string list"
  mmRegistryTLS :: "kmmTLS option"
  mmBuild :: "kmmBuild option"

record kmmLoader =
  mlModuleName :: string
  mlFirmwarePath :: string
  mlModulesLoadingOrder :: "string list"
  mlVersion :: string
  mlInTreeModulesToRemove :: "string list"
  mlImagePullPolicy :: string
  mlRegistryTLS :: kmmTLS
  mlKernelMappings :: "kmmMapping list"
  mlServiceAccountName :: string

record kmmModule =
  modName :: string
  modNamespace :: string
  modDeleting :: bool
  modOwner :: "string option"
  modSelector :: "(string \<times> string) list"
  modTolerations :: "toleration list"
  modImageRepoSecret :: "string option"
  modLoader :: "kmmLoader option"
  modAvailable :: int
  modDesired :: int

text \<open>
  \<^verbatim>\<open>CreateOrPatch\<close> returns the Module as the call leaves it in memory. The mutate function of the code
  may fail, which \<^verbatim>\<open>CreateOrPatch\<close> passes on.
\<close>

record 'w kmmEnv = "'w policyEnv" +
  kmGetModule :: "string \<Rightarrow> string \<Rightarrow> ('w, kmmModule res) io"
  kmDeleteModule :: "kmmModule \<Rightarrow> ('w, go_error option) io"
  kmCreateOrPatchModule :: "kmmModule \<Rightarrow> (kmmModule \<Rightarrow> kmmModule res) \<Rightarrow> ('w, kmmModule \<times> go_error option) io"
  kmSetControllerReference :: "policy \<Rightarrow> kmmModule \<Rightarrow> kmmModule res"

definition kmmNotEnabledMsg :: string where "kmmNotEnabledMsg = ''KMM is not installed in the cluster.''"

definition emptyModule :: "string \<Rightarrow> string \<Rightarrow> kmmModule" where
  "emptyModule ns name = \<lparr>modName = name, modNamespace = ns, modDeleting = False, modOwner = None, modSelector = [],
     modTolerations = [], modImageRepoSecret = None, modLoader = None, modAvailable = 0, modDesired = 0\<rparr>"

section \<open>The desired Module\<close>

fun dedupeFrom :: "string set \<Rightarrow> string list \<Rightarrow> string list" where
  "dedupeFrom seen [] = []"
| "dedupeFrom seen (x # xs) = (if x \<in> seen then dedupeFrom seen xs else x # dedupeFrom (insert x seen) xs)"

definition dedupeStrings :: "string list \<Rightarrow> string list" where
  "dedupeStrings xs = dedupeFrom {} xs"

definition convertBuildSpec :: "KernelModuleBuildSpec \<Rightarrow> (string \<times> string) list \<Rightarrow> kmmBuild" where
  "convertBuildSpec src selector =
     \<lparr>mbDockerfileConfigMap = kbDockerfileConfigMap src, mbSecrets = kbSecrets src, mbSelector = selector,
      mbBuildArgs = kbBuildArgs src\<rparr>"

definition convertTLS :: "RegistryTLSSpec \<Rightarrow> kmmTLS" where
  "convertTLS t = \<lparr>ktInsecure = rtInsecure t, ktInsecureSkipTLSVerify = rtInsecureSkipTLSVerify t\<rparr>"

definition convertMapping :: "string \<Rightarrow> (string \<times> string) list \<Rightarrow> KernelMappingSpec \<Rightarrow> kmmMapping" where
  "convertMapping moduleName selector m =
     \<lparr>mmRegexp = kmRegexp m, mmContainerImage = kmContainerImage m,
      mmInTreeModulesToRemove = (if kmInTreeModulesToRemove m \<noteq> []
        then dedupeStrings (moduleName # kmInTreeModulesToRemove m) else []),
      mmRegistryTLS = map_option convertTLS (kmRegistryTLS m),
      mmBuild = map_option (\<lambda>b. convertBuildSpec b selector) (kmBuild m)\<rparr>"

definition setModuleLoader :: "ControllerOpts \<Rightarrow> KernelModuleSpec \<Rightarrow> kmmModule \<Rightarrow> kmmModule" where
  "setModuleLoader opts km md =
     md\<lparr>modLoader := Some
       \<lparr>mlModuleName = kspModuleName km, mlFirmwarePath = kspFirmwarePath km,
        mlModulesLoadingOrder = kspModulesLoadingOrder km, mlVersion = kspVersion km,
        mlInTreeModulesToRemove = [kspModuleName km], mlImagePullPolicy = ''IfNotPresent'',
        mlRegistryTLS = (case kspRegistryTLS km of None \<Rightarrow> \<lparr>ktInsecure = False, ktInsecureSkipTLSVerify = False\<rparr> | Some t \<Rightarrow> convertTLS t),
        mlKernelMappings = map (convertMapping (kspModuleName km) (modSelector md)) (kspKernelMappings km),
        mlServiceAccountName = coModuleLoaderServiceAccountName opts\<rparr>\<rparr>"

definition setModuleDesiredState ::
  "('w, 'x) kmmEnv_scheme \<Rightarrow> ControllerOpts \<Rightarrow> policy \<Rightarrow> KernelModuleSpec \<Rightarrow> kmmModule \<Rightarrow> kmmModule res" where
  "setModuleDesiredState E opts cp km md =
     (case kmSetControllerReference E cp md of
        Inl e \<Rightarrow> Inl (wrapErr ''failed to set controller reference'' e)
      | Inr m1 \<Rightarrow>
          Inr (setModuleLoader opts km
            (m1\<lparr>modSelector := generateNodeSelectorDriverless cp opts, modTolerations := generateTolerations cp,
                modImageRepoSecret := cpPullSecret (cpSpec cp)\<rparr>)))"

section \<open>Status\<close>

definition setKMMStatus :: "string \<Rightarrow> policy \<Rightarrow> policy" where
  "setKMMStatus s = onStatus (csKMMStatus_update (\<lambda>_. s))"

definition updateKMMStatus :: "kmmModule \<Rightarrow> policy \<Rightarrow> policy" where
  "updateKMMStatus md cp =
     (if cpKernelModule (cpSpec cp) \<noteq> None
      then let count = itoa (modAvailable md) @ ''/'' @ itoa (modDesired md); cp1 = setKMMStatus count cp
           in if modDesired md > 0 \<and> modAvailable md < modDesired md
              then addIfMissing (''module loader not fully available ('' @ count @ '') for modules.kmm.sigs.x-k8s.io/'' @ modName md) cp1
              else cp1
      else setKMMStatus notAvailableStatus cp)"

section \<open>Recreation and deletion\<close>

text \<open>The result, whether the caller is to stop, and an error.\<close>

definition recreateOnVersionToggle ::
  "('w, 'x) kmmEnv_scheme \<Rightarrow> ControllerOpts \<Rightarrow> policy \<Rightarrow> KernelModuleSpec \<Rightarrow> string \<Rightarrow>
     ('w, policy \<times> requeue \<times> bool \<times> go_error option) io" where
  "recreateOnVersionToggle E opts cp km name = do {
     r \<leftarrow> kmGetModule E (coNamespace opts) name;
     case r of
       Inl e \<Rightarrow> State_Monad.return (cp, None, False,
         if reason e = NotFound then None else Some (wrapErr (''failed to get KMM Module '' @ name) e))
     | Inr existing \<Rightarrow>
         (let current = (case modLoader existing of None \<Rightarrow> '''' | Some l \<Rightarrow> mlVersion l)
          in if (current = '''') = (kspVersion km = '''') then State_Monad.return (cp, None, False, None)
             else if modDeleting existing
             then State_Monad.return (setKMMStatus ''Recreating'' cp, Some (coRequeueDelay opts), True, None)
             else do {
               held \<leftarrow> (if coDRAEnable opts then anyAllocatedResourceClaims E GPUDeviceClass else State_Monad.return False);
               if held
               then State_Monad.return
                      (addIfMissing (''allocated GPU ResourceClaims blocking modules.kmm.sigs.x-k8s.io/'' @ name
                         @ '' recreation for version change'') cp, Some (coRequeueDelay opts), True, Some requeueErr)
               else do {
                 d \<leftarrow> kmDeleteModule E existing;
                 State_Monad.return (case d of
                   None \<Rightarrow> (setKMMStatus ''Recreating'' cp, Some (coRequeueDelay opts), True, None)
                 | Some e \<Rightarrow>
                     if reason e = NotFound then (setKMMStatus ''Recreating'' cp, Some (coRequeueDelay opts), True, None)
                     else (cp, None, False, Some (wrapErr (''failed to delete KMM Module '' @ name @ '' for version change'') e)))
               }
             })
   }"

definition deleteModuleIfExists ::
  "('w, 'x) kmmEnv_scheme \<Rightarrow> ControllerOpts \<Rightarrow> string \<Rightarrow> 'w subController" where
  "deleteModuleIfExists E opts name cp = do {
     r \<leftarrow> kmGetModule E (coNamespace opts) name;
     case r of
       Inl e \<Rightarrow> State_Monad.return
         (if reason e = NotFound then (map_option (setKMMStatus notAvailableStatus) cp, None, None)
          else (cp, None, Some (wrapErr (''failed to get KMM Module '' @ name) e)))
     | Inr md \<Rightarrow> do {
         held \<leftarrow> (if coDRAEnable opts then anyAllocatedResourceClaims E GPUDeviceClass else State_Monad.return False);
         if held
         then State_Monad.return
                (map_option (addIfMissing (''allocated GPU ResourceClaims blocking modules.kmm.sigs.x-k8s.io/'' @ name @ '' deletion'')) cp,
                 Some (coRequeueDelay opts), Some requeueErr)
         else if modDeleting md
         then State_Monad.return
                (map_option (\<lambda>c. addIfMissing (''modules.kmm.sigs.x-k8s.io/'' @ name @ '' is pending deletion'')
                   (setKMMStatus ''Removing'' c)) cp, Some (coRequeueDelay opts), None)
         else do {
           d \<leftarrow> kmDeleteModule E md;
           State_Monad.return (cp, None, case d of
             None \<Rightarrow> None
           | Some e \<Rightarrow> if reason e = NotFound then None else Some (wrapErr (''failed to delete KMM Module '' @ name) e))
         }
       }
   }"

section \<open>Reconcile\<close>

definition patchModule ::
  "('w, 'x) kmmEnv_scheme \<Rightarrow> ControllerOpts \<Rightarrow> policy \<Rightarrow> KernelModuleSpec \<Rightarrow> string \<Rightarrow>
     ('w, policy option \<times> requeue \<times> go_error option) io" where
  "patchModule E opts cp km name = do {
     (md, err) \<leftarrow> kmCreateOrPatchModule E (emptyModule (coNamespace opts) name) (setModuleDesiredState E opts cp km);
     State_Monad.return (Some (updateKMMStatus md cp), None,
       map_option (wrapErr (''failed to reconcile KMM Module '' @ name @ '' for ClusterPolicy '' @ cpName cp)) err)
   }"

definition ReconcileKMM :: "('w, 'x) kmmEnv_scheme \<Rightarrow> ControllerOpts \<Rightarrow> 'w subController" where
  "ReconcileKMM E opts cp =
     (let name = kmmModuleName (coReqName opts)
      in if \<not> coKMMEnable opts
         then State_Monad.return
                (map_option (\<lambda>c. if cpKernelModule (cpSpec c) \<noteq> None then addIfMissing kmmNotEnabledMsg c else c) cp, None, None)
         else case cp of
           None \<Rightarrow> deleteModuleIfExists E opts name cp
         | Some c \<Rightarrow>
             (case cpKernelModule (cpSpec c) of
                None \<Rightarrow> deleteModuleIfExists E opts name cp
              | Some km \<Rightarrow> do {
                  (c1, res, done, err) \<leftarrow> recreateOnVersionToggle E opts c km name;
                  if done \<or> err \<noteq> None then State_Monad.return (Some c1, res, err)
                  else patchModule E opts c1 km name
                }))"

end
