(* ===== verification/PolicyXPUM.thy ===== *)
theory PolicyXPUM
  imports PolicyOTel PolicyDevicePlugin PolicyKMM DeviceRefresh Sha256
begin

text \<open>
  The XPU manager sub-controller (\<^verbatim>\<open>clusterpolicy/xpumanager_controller.go\<close>): the xpumd DaemonSet with
  its collector configuration in a ConfigMap, whose hash is an annotation of the pods so that they are
  replaced when the configuration changes.
\<close>

definition xpumdContainerName :: string where "xpumdContainerName = ''xpumd''"
definition xpumdConfigVolume :: string where "xpumdConfigVolume = ''config''"
definition crashlogVolume :: string where "crashlogVolume = ''crashlog''"
definition crashlogHostDir :: string where "crashlogHostDir = ''/var/log/crashlog''"
definition tracefsVolume :: string where "tracefsVolume = ''tracefs''"
definition tracefsHostDir :: string where "tracefsHostDir = ''/sys/kernel/tracing''"
definition monResourcePrefix :: string where "monResourcePrefix = ''gpu.intel.com''"
definition monClaim :: string where "monClaim = ''monitor-claim''"
definition otelConfigMapKey :: string where "otelConfigMapKey = ''config.yaml''"
definition otelConfigMountDir :: string where "otelConfigMountDir = ''/etc/xpumd''"
definition otelConfigHashKey :: string where "otelConfigHashKey = ''gpu.intel.com/xpum-otel-config-hash''"
definition xpumResourcePart :: string where "xpumResourcePart = ''xpu-manager''"
definition otlpCAVolume :: string where "otlpCAVolume = ''otlp-ca''"
definition otlpClientCertVolume :: string where "otlpClientCertVolume = ''otlp-client-cert''"

section \<open>Volumes and mounts\<close>

text \<open>The loops over the containers that pass over every one but xpumd.\<close>

definition onXpumd :: "(dsContainer \<Rightarrow> dsContainer) \<Rightarrow> daemonSet \<Rightarrow> daemonSet" where
  "onXpumd f ds = ds\<lparr>dsetContainers := map (\<lambda>c. if dcName c = xpumdContainerName then f c else c) (dsetContainers ds)\<rparr>"

text \<open>The mode \<^verbatim>\<open>0420\<close> of the ConfigMap volume is octal.\<close>

definition configVolume :: "string \<Rightarrow> volume" where
  "configVolume cm = \<lparr>volName = xpumdConfigVolume, volSource = ConfigMapSource cm [] 272\<rparr>"

definition configMount :: volumeMount where
  "configMount = \<lparr>vmName = xpumdConfigVolume, vmPath = otelConfigMountDir, vmReadOnly = True\<rparr>"

definition setConfigVolume :: "string \<Rightarrow> volume list \<Rightarrow> volume list" where
  "setConfigVolume cm vs =
     map (\<lambda>v. if volName v = xpumdConfigVolume then v\<lparr>volSource := volSource (configVolume cm)\<rparr> else v) vs
     @ (if list_ex (\<lambda>v. volName v = xpumdConfigVolume) vs then [] else [configVolume cm])"

definition setConfigMount :: "volumeMount list \<Rightarrow> volumeMount list" where
  "setConfigMount ms =
     map (\<lambda>m. if vmName m = xpumdConfigVolume then m\<lparr>vmPath := otelConfigMountDir, vmReadOnly := True\<rparr> else m) ms
     @ (if list_ex (\<lambda>m. vmName m = xpumdConfigVolume) ms then [] else [configMount])"

definition processXpumdConfigMapMount :: "string \<Rightarrow> daemonSet \<Rightarrow> daemonSet" where
  "processXpumdConfigMapMount cm ds =
     onXpumd (dcMounts_update setConfigMount) (ds\<lparr>dsetVolumes := setConfigVolume cm (dsetVolumes ds)\<rparr>)"

definition setXpumdVolume :: "string \<Rightarrow> volumeSource option \<Rightarrow> string \<Rightarrow> bool \<Rightarrow> daemonSet \<Rightarrow> daemonSet" where
  "setXpumdVolume name source path readOnly ds =
     onXpumd (dcMounts_update (\<lambda>ms. filter (\<lambda>m. vmName m \<noteq> name) ms
         @ (if source \<noteq> None then [\<lparr>vmName = name, vmPath = path, vmReadOnly = readOnly\<rparr>] else [])))
       (ds\<lparr>dsetVolumes := filter (\<lambda>v. volName v \<noteq> name) (dsetVolumes ds)
           @ (case source of None \<Rightarrow> [] | Some src \<Rightarrow> [\<lparr>volName = name, volSource = src\<rparr>])\<rparr>)"

definition setXpumdHostPathMount :: "bool \<Rightarrow> string \<Rightarrow> string \<Rightarrow> string \<Rightarrow> bool \<Rightarrow> daemonSet \<Rightarrow> daemonSet" where
  "setXpumdHostPathMount enabled name path pathType readOnly =
     setXpumdVolume name (if enabled then Some (HostPathSource path (Some pathType)) else None) path readOnly"

definition processXpumdLogMounts :: "policy \<Rightarrow> daemonSet \<Rightarrow> daemonSet" where
  "processXpumdLogMounts cp ds =
     (let xspec = cpXPU (cpSpec cp)
      in setXpumdHostPathMount (xmInfoLogs xspec) tracefsVolume tracefsHostDir ''Directory'' False
           (setXpumdHostPathMount (xmCrashLog xspec) crashlogVolume crashlogHostDir ''DirectoryOrCreate'' True ds))"

definition exporterSpec :: "policy \<Rightarrow> OTLPExporterSpec option" where
  "exporterSpec cp = map_option snd (otlpExporter (cpXPU (cpSpec cp)))"

definition headerEnv :: "policy \<Rightarrow> envVar list" where
  "headerEnv cp =
     (case exporterSpec cp of
        None \<Rightarrow> []
      | Some ex \<Rightarrow> map (\<lambda>(i, h). \<lparr>evName = otlpHeaderEnvName i, evSource = EnvSecretKey (ohValueFrom h)\<rparr>) (enumerate 0 (oeHeaders ex)))"

definition caSource :: "policy \<Rightarrow> volumeSource option" where
  "caSource cp = do {
     ex \<leftarrow> exporterSpec cp;
     tls \<leftarrow> oeTLS ex;
     ca \<leftarrow> otCA tls;
     Some (ConfigMapSource (ksName ca) [(ksKey ca, otlpCAFile)] 292)
   }"

definition clientCertSource :: "policy \<Rightarrow> volumeSource option" where
  "clientCertSource cp = do {
     ex \<leftarrow> exporterSpec cp;
     tls \<leftarrow> oeTLS ex;
     secret \<leftarrow> otClientCertSecret tls;
     Some (SecretSource secret [(TLSCertKey, TLSCertKey), (TLSPrivateKeyKey, TLSPrivateKeyKey)] 256)
   }"

definition setHeaderEnv :: "envVar list \<Rightarrow> envVar list \<Rightarrow> envVar list" where
  "setHeaderEnv env es = filter (\<lambda>e. \<not> hasPrefix (evName e) otlpHeaderEnvPrefix) es @ env"

definition processXpumdOTLP :: "policy \<Rightarrow> daemonSet \<Rightarrow> daemonSet" where
  "processXpumdOTLP cp ds =
     onXpumd (dcEnv_update (setHeaderEnv (headerEnv cp)))
       (setXpumdVolume otlpClientCertVolume (clientCertSource cp) otlpClientCertMountDir True
         (setXpumdVolume otlpCAVolume (caSource cp) otlpCAMountDir True ds))"

section \<open>Resources\<close>

definition removePrevMonitoring :: "(string \<times> string) list \<Rightarrow> (string \<times> string) list" where
  "removePrevMonitoring = filter (\<lambda>(res, _). \<not> (hasPrefix res monResourcePrefix \<and> hasSuffix res ''monitoring''))"

definition monitoringResource :: "policy \<Rightarrow> string" where
  "monitoringResource cp =
     monResourcePrefix @ ''/'' @ (if xmMonitoringResource (cpXPU (cpSpec cp)) \<noteq> '''' then xmMonitoringResource (cpXPU (cpSpec cp)) else ''monitoring'')"

definition monitoringLimits :: "policy \<Rightarrow> string \<Rightarrow> (string \<times> string) list \<Rightarrow> (string \<times> string) list" where
  "monitoringLimits cp draClaim rs =
     (if draClaim = '''' then AList.update (monitoringResource cp) ''1'' (removePrevMonitoring rs) else removePrevMonitoring rs)"

definition processContainerResources :: "policy \<Rightarrow> string \<Rightarrow> daemonSet \<Rightarrow> daemonSet" where
  "processContainerResources cp draClaim ds =
     onXpumd (\<lambda>c. c\<lparr>dcLimits := monitoringLimits cp draClaim (dcLimits c),
                    dcRequests := monitoringLimits cp draClaim (dcRequests c),
                    dcClaims := (if draClaim = '''' then [] else [monClaim])\<rparr>)
       (ds\<lparr>dsetResourceClaims := (if draClaim \<noteq> '''' then [(monClaim, draClaim)] else []),
           dsetContainers := map (dcImage_update (\<lambda>_. xmImage (cpXPU (cpSpec cp)))) (dsetContainers ds)\<rparr>)"

section \<open>The DaemonSet\<close>

definition xpumDaemonSetName :: "string \<Rightarrow> string" where
  "xpumDaemonSetName cpn = cpn @ ''-xpu-manager''"

definition openShiftXpum :: "ControllerOpts \<Rightarrow> policy \<Rightarrow> daemonSet \<Rightarrow> daemonSet" where
  "openShiftXpum opts cp ds =
     (if coOpenShift opts
      then case BuildOpenShiftNames (cpName cp) xpumResourcePart of (_, _, _, saName) \<Rightarrow>
        ds\<lparr>dsetServiceAccount := saName,
           dsetContainers := onFirstContainer (dcSELinuxType_update (\<lambda>_. Some ''spc_t'')) (dsetContainers ds)\<rparr>
      else ds)"

definition updateXpumDaemonSet ::
  "ControllerOpts \<Rightarrow> policy \<Rightarrow> string \<Rightarrow> string \<Rightarrow> string \<Rightarrow> daemonSet \<Rightarrow> daemonSet" where
  "updateXpumDaemonSet opts cp draClaim cm hash ds =
     (let d1 = ds\<lparr>dsetName := xpumDaemonSetName (cpName cp), dsetNamespace := coNamespace opts,
                  dsetLabels := [(xpuLabel, xpuValue), (ownerKey, cpName cp)],
                  dsetAnnotations := [(otelConfigHashKey, hash)]\<rparr>;
          d2 = processXpumdOTLP cp (processXpumdLogMounts cp (processXpumdConfigMapMount cm (processContainerResources cp draClaim d1)))
      in openShiftXpum opts cp
           (d2\<lparr>dsetNodeSelector := generateNodeSelector cp opts, dsetTolerations := generateTolerations cp,
               dsetAffinity := generateAffinity (xmAffinity (cpXPU (cpSpec cp))),
               dsetPullSecrets := pullSecrets opts cp\<rparr>))"

section \<open>Environment\<close>

text \<open>
  The calls on ConfigMaps, the embedded files and the YAML library. A ConfigMap may have no data at
  all. \<open>xeSetControllerReference\<close> says whether the policy can be made the controller of an object.
\<close>

record configMap =
  cmName :: string
  cmNamespace :: string
  cmLabels :: "(string \<times> string) list"
  cmOwner :: "string option"
  cmData :: "(string \<times> string) list option"

record 'w xpumEnv = "'w kmmEnv" +
  xeTemplate :: daemonSet
  xeOTelConfig :: OTelConfig
  xeMarshal :: "OTelConfig \<Rightarrow> string res"
  xeUnmarshal :: "string \<Rightarrow> OTelConfig res"
  xeSetControllerReference :: "policy \<Rightarrow> string \<Rightarrow> string \<Rightarrow> go_error option"
  xeGetConfigMap :: "string \<Rightarrow> string \<Rightarrow> ('w, configMap res) io"
  xeCreateConfigMap :: "configMap \<Rightarrow> ('w, go_error option) io"
  xeUpdateConfigMap :: "configMap \<Rightarrow> ('w, go_error option) io"

definition buildXpumDaemonSet ::
  "('w, 'x) xpumEnv_scheme \<Rightarrow> ControllerOpts \<Rightarrow> policy \<Rightarrow> string \<Rightarrow> string \<Rightarrow> string \<Rightarrow> daemonSet" where
  "buildXpumDaemonSet E opts cp draClaim cm hash = updateXpumDaemonSet opts cp draClaim cm hash (xeTemplate E)"

section \<open>The configuration in its ConfigMap\<close>

definition otelConfigHash :: "string \<Rightarrow> string" where
  "otelConfigHash data = hexSum data"

definition cmEntry :: "configMap \<Rightarrow> string option" where
  "cmEntry cm = Option.bind (cmData cm) (\<lambda>d. map_of d otelConfigMapKey)"

definition newConfigMap :: "ControllerOpts \<Rightarrow> policy \<Rightarrow> string \<Rightarrow> string \<Rightarrow> configMap" where
  "newConfigMap opts cp name data =
     \<lparr>cmName = name, cmNamespace = coNamespace opts, cmLabels = [(xpuLabel, xpuValue)], cmOwner = Some (cpName cp),
      cmData = Some [(otelConfigMapKey, data)]\<rparr>"

text \<open>
  A missing key reads as the empty string. Assigning to the data of a ConfigMap that has none panics;
  the model returns the error the recovered panic becomes.
\<close>

definition createOrUpdateOTelConfigMap ::
  "('w, 'x) xpumEnv_scheme \<Rightarrow> ControllerOpts \<Rightarrow> policy \<Rightarrow> string \<Rightarrow> ('w, string res) io" where
  "createOrUpdateOTelConfigMap E opts cp name =
     (case buildOTelConfigData (xeMarshal E) (xeOTelConfig E) cp of
        Inl e \<Rightarrow> State_Monad.return (Inl e)
      | Inr data \<Rightarrow> do {
          r \<leftarrow> xeGetConfigMap E (coNamespace opts) name;
          case r of
            Inl e \<Rightarrow>
              if reason e \<noteq> NotFound then State_Monad.return (Inl e)
              else (case xeSetControllerReference E cp ''ConfigMap'' name of
                  Some e' \<Rightarrow> State_Monad.return (Inl e')
                | None \<Rightarrow> do {
                    c \<leftarrow> xeCreateConfigMap E (newConfigMap opts cp name data);
                    State_Monad.return (case c of Some e' \<Rightarrow> Inl e' | None \<Rightarrow> Inr (otelConfigHash data))
                  })
          | Inr existing \<Rightarrow>
              if (case cmEntry existing of None \<Rightarrow> '''' | Some d \<Rightarrow> d) = data then State_Monad.return (Inr (otelConfigHash data))
              else (case cmData existing of
                  None \<Rightarrow> State_Monad.return (Inl (newErr ''panic: assignment to entry in nil map''))
                | Some d \<Rightarrow> do {
                    u \<leftarrow> xeUpdateConfigMap E (existing\<lparr>cmData := Some (AList.update otelConfigMapKey data d)\<rparr>);
                    State_Monad.return (case u of Some e' \<Rightarrow> Inl e' | None \<Rightarrow> Inr (otelConfigHash data))
                  })
        })"

definition fetchConfigHashFromConfigMap ::
  "('w, 'x) xpumEnv_scheme \<Rightarrow> ControllerOpts \<Rightarrow> string \<Rightarrow> ('w, string res) io" where
  "fetchConfigHashFromConfigMap E opts name = do {
     r \<leftarrow> xeGetConfigMap E (coNamespace opts) name;
     State_Monad.return (case r of
       Inl e \<Rightarrow> Inl e
     | Inr cm \<Rightarrow>
         (case cmEntry cm of
            None \<Rightarrow> Inl (newErr (''override ConfigMap '' @ name @ '' does not contain key '' @ otelConfigMapKey))
          | Some d \<Rightarrow>
              (case xeUnmarshal E d of
                 Inl e \<Rightarrow> Inl (wrapErr ''failed to parse OTel config from override ConfigMap'' e)
               | Inr _ \<Rightarrow> Inr (otelConfigHash d))))
   }"

definition generateXpumdConfigEntries ::
  "('w, 'x) xpumEnv_scheme \<Rightarrow> ControllerOpts \<Rightarrow> policy \<Rightarrow> ('w, (string \<times> string) res) io" where
  "generateXpumdConfigEntries E opts cp =
     (if xmConfigMapOverride (cpXPU (cpSpec cp)) = ''''
      then let name = cpName cp @ ''-xpumanager-otel-config'' in do {
        r \<leftarrow> createOrUpdateOTelConfigMap E opts cp name;
        State_Monad.return (case r of
          Inl e \<Rightarrow> Inl (wrapErr ''unable to create or update otel ConfigMap'' e)
        | Inr hash \<Rightarrow> Inr (name, hash))
      }
      else let name = xmConfigMapOverride (cpXPU (cpSpec cp)) in do {
        r \<leftarrow> fetchConfigHashFromConfigMap E opts name;
        State_Monad.return (case r of
          Inl e \<Rightarrow> Inl (wrapErr ''unable to fetch otel ConfigMap hash'' e)
        | Inr hash \<Rightarrow> Inr (name, hash))
      })"

section \<open>Reconcile\<close>

definition createMonitoringResourceClaim ::
  "('w, 'x) xpumEnv_scheme \<Rightarrow> ControllerOpts \<Rightarrow> policy \<Rightarrow> string \<Rightarrow> ('w, go_error option) io" where
  "createMonitoringResourceClaim E opts cp tmplName =
     (case xeSetControllerReference E cp ''ResourceClaimTemplate'' tmplName of
        Some e \<Rightarrow> State_Monad.return (Some e)
      | None \<Rightarrow> do {
          c \<leftarrow> peCreate E \<lparr>aoKind = ''ResourceClaimTemplate'', aoNamespace = coNamespace opts, aoName = tmplName,
                          aoSet = [(''owner'', cpName cp)]\<rparr>;
          State_Monad.return (ignoreAlreadyExists c)
        })"

definition buildXpuManagerSCC :: "string \<Rightarrow> scc" where
  "buildXpuManagerSCC name = BuildSCC name
     [(''allowPrivilegedContainer'', SccBool False), (''allowHostDirVolumePlugin'', SccBool True),
      (''allowHostIPC'', SccBool False), (''allowHostNetwork'', SccBool False),
      (''allowHostPID'', SccBool False), (''allowHostPorts'', SccBool False),
      (''allowPrivilegeEscalation'', SccBool False), (''allowedCapabilities'', SccList [''SYS_ADMIN'']),
      (''defaultAddCapabilities'', SccNull), (''fsGroup'', SccStrategy ''RunAsAny''),
      (''readOnlyRootFilesystem'', SccBool False), (''requiredDropCapabilities'', SccList [''ALL'']),
      (''runAsUser'', SccStrategy ''RunAsAny''), (''seLinuxContext'', SccStrategy ''RunAsAny''),
      (''seccompProfiles'', SccList [''*'']), (''supplementalGroups'', SccStrategy ''RunAsAny''),
      (''volumes'', SccList [''hostPath'', ''configMap'', ''secret'']), (''users'', SccList []), (''groups'', SccList [])]"

definition xpumOpenShiftResources :: "('w, 'x) policyEnv_scheme \<Rightarrow> ControllerOpts \<Rightarrow> string \<Rightarrow> ('w, go_error option) io" where
  "xpumOpenShiftResources E opts crn = ensureSCCQuadruple E ''XPUM'' xpumResourcePart buildXpuManagerSCC (coNamespace opts) crn"

definition setXPUMStatus :: "string \<Rightarrow> policy \<Rightarrow> policy" where
  "setXPUMStatus s = onStatus (csXPUManagerStatus_update (\<lambda>_. s))"

definition removeXpum :: "('w, 'x) policyEnv_scheme \<Rightarrow> ControllerOpts \<Rightarrow> 'w subController" where
  "removeXpum E opts =
     removeDaemonSet E opts xpumResourcePart (xpumDaemonSetName (coReqName opts)) (setXPUMStatus notAvailableStatus)"

definition updateXpumStatus :: "('w, 'x) policyEnv_scheme \<Rightarrow> ControllerOpts \<Rightarrow> policy \<Rightarrow> ('w, policy \<times> go_error option) io" where
  "updateXpumStatus E opts cp = daemonSetStatus E opts (xpumDaemonSetName (cpName cp)) setXPUMStatus cp"

definition xpumClaimName :: "ControllerOpts \<Rightarrow> policy \<Rightarrow> string" where
  "xpumClaimName opts cp =
     (if coDRAEnable opts \<and> cpResourceRegistration (cpSpec cp) = resourceModeDRA then cpName cp @ ''-monitor-claim'' else '''')"

text \<open>From the configuration on: what the code does once the claim exists.\<close>

definition deployXpum :: "('w, 'x) xpumEnv_scheme \<Rightarrow> ControllerOpts \<Rightarrow> policy \<Rightarrow> ('w, policy \<times> go_error option) io" where
  "deployXpum E opts cp = do {
     r \<leftarrow> generateXpumdConfigEntries E opts cp;
     case r of
       Inl e \<Rightarrow> State_Monad.return (cp, Some e)
     | Inr (cm, hash) \<Rightarrow> do {
         p \<leftarrow> peCreateOrPatchDaemonSet E (buildXpumDaemonSet E opts cp (xpumClaimName opts cp) cm hash)
                (updateXpumDaemonSet opts cp (xpumClaimName opts cp) cm hash);
         case p of Some e \<Rightarrow> State_Monad.return (cp, Some e) | None \<Rightarrow> updateXpumStatus E opts cp
       }
   }"

definition ReconcileXPUM :: "('w, 'x) xpumEnv_scheme \<Rightarrow> ControllerOpts \<Rightarrow> 'w subController" where
  "ReconcileXPUM E opts pol =
     (if shouldRemoveXpumd pol then removeXpum E opts pol
      else let cp = the pol in do {
        os \<leftarrow> (if coOpenShift opts then xpumOpenShiftResources E opts (cpName cp) else State_Monad.return None);
        case os of
          Some e \<Rightarrow> State_Monad.return (pol, None, Some e)
        | None \<Rightarrow> do {
            c \<leftarrow> (if xpumClaimName opts cp \<noteq> '''' then createMonitoringResourceClaim E opts cp (xpumClaimName opts cp)
                  else State_Monad.return None);
            case c of
              Some e \<Rightarrow> State_Monad.return (pol, None, Some e)
            | None \<Rightarrow> do {
                (cp', err) \<leftarrow> deployXpum E opts cp;
                State_Monad.return (Some cp', None, err)
              }
          }
      })"

end
