(* ===== verification/PolicyMisc.thy ===== *)
theory PolicyMisc
  imports PolicyXPUM
begin

text \<open>
  The misc sub-controller (\<^verbatim>\<open>clusterpolicy/misc_controller.go\<close>): the rule by which NFD labels nodes with
  GPUs, the objects of Prometheus, and the Kueue queues among which the GPUs of the cluster are
  divided. An object read in unstructured form is converted before it is used, so that its Get has a
  result of a result. A quantity is a number of nano-units, the finest a \<^verbatim>\<open>resource.Quantity\<close> has, and
  fits an \<^verbatim>\<open>int64\<close> in whole units. The order in which Go visits a map is asked of the environment.
\<close>

definition nfdRuleName :: string where "nfdRuleName = ''intel-gpu-devices''"
definition nfdRuleCrd :: string where "nfdRuleCrd = ''nodefeaturerules.nfd.k8s-sigs.io''"
definition serviceMonitorCrd :: string where "serviceMonitorCrd = ''servicemonitors.monitoring.coreos.com''"
definition gpuResourceName :: string where "gpuResourceName = ''gpu.intel.com''"
definition draResourceName :: string where "draResourceName = ''dra.'' @ gpuResourceName"
definition kueueResourceFlavorCrd :: string where "kueueResourceFlavorCrd = ''resourceflavors.kueue.x-k8s.io''"
definition kueueClusterQueueCrd :: string where "kueueClusterQueueCrd = ''clusterqueues.kueue.x-k8s.io''"
definition kueueLocalQueueCrd :: string where "kueueLocalQueueCrd = ''localqueues.kueue.x-k8s.io''"
definition kueueFlavorName :: string where "kueueFlavorName = gpuResourceName @ ''-kueue-flavor''"
definition kueueAppLabel :: string where "kueueAppLabel = gpuResourceName @ ''-kueue-queue''"
definition ResourceCPU :: string where "ResourceCPU = ''cpu''"
definition ResourceMemory :: string where "ResourceMemory = ''memory''"
definition NamespaceScoped :: string where "NamespaceScoped = ''Namespaced''"

section \<open>Objects and environment\<close>

type_synonym labels = "(string \<times> string) list"
type_synonym quantity = nat
type_synonym clusterResourceMap = "(string \<times> quantity) list"

record nfdRule =
  nrName :: string
  nrNamespace :: string
  nrLabels :: labels
  nrSpec :: string

record resourceFlavor =
  rfName :: string
  rfLabels :: "labels option"

text \<open>\<open>qsRest\<close> and \<open>lsRest\<close> stand for the fields the code leaves unset.\<close>

record queueSpec =
  qsCovered :: "string list"
  qsFlavor :: string
  qsQuotas :: clusterResourceMap
  qsRest :: string

record clusterQueue =
  cquName :: string
  cquLabels :: "labels option"
  cquSpec :: queueSpec

record localSpec =
  lsClusterQueue :: string
  lsRest :: string

record localQueue =
  lquName :: string
  lquNamespace :: string
  lquLabels :: "labels option"
  lquSpec :: localSpec

record sliceDevice =
  sdHasAttributes :: bool
  sdHasCapacity :: bool

record gpuSlice =
  gsDriver :: string
  gsNodeName :: "string option"
  gsDevices :: "sliceDevice list"

record 'w miscEnv = "'w xpumEnv" +
  meNfdTemplate :: nfdRule
  meMonitorName :: string
  meServiceName :: string
  meRange :: "clusterResourceMap \<Rightarrow> ('w, clusterResourceMap) io"
  meListMonitors :: "string \<Rightarrow> labels \<Rightarrow> ('w, string list res) io"
  meListServices :: "string \<Rightarrow> labels \<Rightarrow> ('w, string list res) io"
  meGetCRDScope :: "string \<Rightarrow> ('w, string res) io"
  meGetNfdRule :: "string \<Rightarrow> string \<Rightarrow> ('w, nfdRule res res) io"
  meUpdateNfdRule :: "nfdRule \<Rightarrow> ('w, go_error option) io"
  meCreateNfdRule :: "nfdRule \<Rightarrow> ('w, go_error option) io"
  meListAllocatable :: "('w, (string \<times> clusterResourceMap) list res) io"
  meListSlices :: "('w, gpuSlice list res) io"
  meGetFlavor :: "string \<Rightarrow> ('w, resourceFlavor res res) io"
  meCreateFlavor :: "resourceFlavor \<Rightarrow> ('w, go_error option) io"
  meUpdateFlavor :: "resourceFlavor \<Rightarrow> ('w, go_error option) io"
  meDeleteFlavors :: "labels \<Rightarrow> ('w, go_error option) io"
  meGetClusterQueue :: "string \<Rightarrow> ('w, clusterQueue res res) io"
  meCreateClusterQueue :: "clusterQueue \<Rightarrow> ('w, go_error option) io"
  meUpdateClusterQueue :: "clusterQueue \<Rightarrow> ('w, go_error option) io"
  meDeleteClusterQueue :: "clusterQueue \<Rightarrow> ('w, go_error option) io"
  meListClusterQueues :: "labels \<Rightarrow> ('w, clusterQueue list res) io"
  meGetLocalQueue :: "string \<Rightarrow> string \<Rightarrow> ('w, localQueue res res) io"
  meCreateLocalQueue :: "localQueue \<Rightarrow> ('w, go_error option) io"
  meUpdateLocalQueue :: "localQueue \<Rightarrow> ('w, go_error option) io"
  meDeleteLocalQueue :: "localQueue \<Rightarrow> ('w, go_error option) io"
  meListLocalQueues :: "labels \<Rightarrow> ('w, localQueue list res) io"

definition ignoreNotFound :: "go_error option \<Rightarrow> go_error option" where
  "ignoreNotFound r = (case r of None \<Rightarrow> None | Some e \<Rightarrow> if reason e = NotFound then None else Some e)"

text \<open>Two steps in a row, the second unless the first failed.\<close>

definition thenTry :: "('w, go_error option) io \<Rightarrow> ('w, go_error option) io \<Rightarrow> ('w, go_error option) io" where
  "thenTry a b = do { r \<leftarrow> a; case r of Some e \<Rightarrow> State_Monad.return (Some e) | None \<Rightarrow> b }"

fun tryEach :: "('a \<Rightarrow> ('w, go_error option) io) \<Rightarrow> 'a list \<Rightarrow> ('w, go_error option) io" where
  "tryEach f [] = State_Monad.return None"
| "tryEach f (x # xs) = thenTry (f x) (tryEach f xs)"

section \<open>Prometheus\<close>

definition monitorLabels :: "string \<Rightarrow> labels" where
  "monitorLabels owner = [(''app'', ''intel-xpumanager''), (''owner'', owner)]"

definition prometheusObject :: "ControllerOpts \<Rightarrow> string \<Rightarrow> string \<Rightarrow> labels \<Rightarrow> apiObject" where
  "prometheusObject opts kind name ls = \<lparr>aoKind = kind, aoNamespace = coNamespace opts, aoName = name, aoSet = ls\<rparr>"

definition deleteNamed :: "('w, 'x) miscEnv_scheme \<Rightarrow> ControllerOpts \<Rightarrow> string \<Rightarrow> string \<Rightarrow> ('w, go_error option) io" where
  "deleteNamed E opts kind name = peDelete E (plainObject kind (coNamespace opts) name)"

definition reconcilePrometheusComponents ::
  "('w, 'x) miscEnv_scheme \<Rightarrow> ControllerOpts \<Rightarrow> string list \<Rightarrow> policy \<Rightarrow> ('w, go_error option) io" where
  "reconcilePrometheusComponents E opts crds cp =
     (if serviceMonitorCrd \<notin> set crds then State_Monad.return None
      else let ls = monitorLabels (cpName cp) in do {
        r1 \<leftarrow> meListMonitors E (coNamespace opts) ls;
        case r1 of
          Inl e \<Rightarrow> State_Monad.return (Some e)
        | Inr monitors \<Rightarrow> do {
            r2 \<leftarrow> meListServices E (coNamespace opts) ls;
            case r2 of
              Inl e \<Rightarrow> State_Monad.return (Some e)
            | Inr services \<Rightarrow>
                let wanted = (cpResourceMonitoring (cpSpec cp) \<and> cpPrometheusIntegration (cpSpec cp)) in
                if (monitors = [] \<or> services = []) \<and> wanted
                then tryEach (\<lambda>obj. do { c \<leftarrow> peCreate E obj; State_Monad.return (ignoreAlreadyExists c) })
                       [prometheusObject opts ''ServiceMonitor'' (meMonitorName E) ls, prometheusObject opts ''Service'' (meServiceName E) ls]
                else if (monitors \<noteq> [] \<or> services \<noteq> []) \<and> \<not> wanted
                then thenTry (tryEach (deleteNamed E opts ''ServiceMonitor'') monitors) (tryEach (deleteNamed E opts ''Service'') services)
                else State_Monad.return None
          }
      })"

definition removePrometheusComponents ::
  "('w, 'x) miscEnv_scheme \<Rightarrow> ControllerOpts \<Rightarrow> string list \<Rightarrow> ('w, go_error option) io" where
  "removePrometheusComponents E opts crds =
     (if serviceMonitorCrd \<notin> set crds then State_Monad.return None
      else tryEach (\<lambda>(kind, name). do { d \<leftarrow> deleteNamed E opts kind name; State_Monad.return (ignoreNotFound d) })
             [(''ServiceMonitor'', meMonitorName E), (''Service'', meServiceName E)])"

section \<open>NFD\<close>

definition createNfdRule :: "('w, 'x) miscEnv_scheme \<Rightarrow> policy \<Rightarrow> string \<Rightarrow> nfdRule" where
  "createNfdRule E cp ns =
     (let r = (meNfdTemplate E)\<lparr>nrLabels := [(''app'', ''nfd-gpu''), (''owner'', cpName cp)]\<rparr>
      in if ns \<noteq> '''' then r\<lparr>nrNamespace := ns\<rparr> else r)"

text \<open>The wrapped error keeps its reason, so that a CRD that is not installed is still NotFound.\<close>

definition getNFDCRDScope :: "('w, 'x) miscEnv_scheme \<Rightarrow> ('w, string res) io" where
  "getNFDCRDScope E = do {
     r \<leftarrow> meGetCRDScope E nfdRuleCrd;
     State_Monad.return (case r of Inl e \<Rightarrow> Inl (wrapErr (''unable to get NFD CRD '' @ nfdRuleCrd) e) | Inr s \<Rightarrow> Inr s)
   }"

definition deleteNfdRule :: "('w, 'x) miscEnv_scheme \<Rightarrow> nfdRule \<Rightarrow> ('w, go_error option) io" where
  "deleteNfdRule E r = do {
     d \<leftarrow> peDelete E (plainObject ''NodeFeatureRule'' (nrNamespace r) (nrName r));
     State_Monad.return (ignoreNotFound d)
   }"

definition reconcileNfdRules :: "('w, 'x) miscEnv_scheme \<Rightarrow> ControllerOpts \<Rightarrow> policy \<Rightarrow> ('w, go_error option) io" where
  "reconcileNfdRules E opts cp = do {
     s \<leftarrow> getNFDCRDScope E;
     case s of
       Inl e \<Rightarrow> State_Monad.return (if reason e = NotFound then None else Some e)
     | Inr scope \<Rightarrow>
         let ns = (if scope = NamespaceScoped then coNamespace opts else '''') in
         if cpUseNFDLabeling (cpSpec cp) then do {
           g \<leftarrow> meGetNfdRule E ns nfdRuleName;
           case g of
             Inl e \<Rightarrow> if reason e \<noteq> NotFound then State_Monad.return (Some e) else meCreateNfdRule E (createNfdRule E cp ns)
           | Inr (Inl e) \<Rightarrow> State_Monad.return (Some e)
           | Inr (Inr nfr) \<Rightarrow>
               if nrSpec nfr \<noteq> nrSpec (createNfdRule E cp '''') then meUpdateNfdRule E (nfr\<lparr>nrSpec := nrSpec (createNfdRule E cp '''')\<rparr>)
               else State_Monad.return None
         }
         else deleteNfdRule E (createNfdRule E cp ns)
   }"

definition removeNfdRules :: "('w, 'x) miscEnv_scheme \<Rightarrow> ControllerOpts \<Rightarrow> ('w, go_error option) io" where
  "removeNfdRules E opts = do {
     s \<leftarrow> getNFDCRDScope E;
     case s of
       Inl e \<Rightarrow> State_Monad.return (if reason e = NotFound then None else Some e)
     | Inr scope \<Rightarrow> deleteNfdRule E (if scope = NamespaceScoped then (meNfdTemplate E)\<lparr>nrNamespace := coNamespace opts\<rparr> else meNfdTemplate E)
   }"

end
