(* ===== verification/PolicyKueue.thy ===== *)
theory PolicyKueue
  imports PolicyMisc
begin

text \<open>
  The second half of the misc sub-controller (\<^verbatim>\<open>clusterpolicy/misc_controller.go\<close>): the resources of the
  cluster, their division among the queues of the policy, and the Kueue objects.
\<close>

definition quoted :: "string \<Rightarrow> string" where
  "quoted s = [CHR 0x27] @ s @ [CHR 0x27]"

section \<open>Resources of the cluster\<close>

text \<open>\<^verbatim>\<open>Quantity.Value\<close> rounds up to whole units.\<close>

definition nano :: nat where "nano = 1000000000"

definition quantityValue :: "quantity \<Rightarrow> nat" where
  "quantityValue q = (q + (nano - 1)) div nano"

definition addToResource :: "string \<Rightarrow> quantity \<Rightarrow> clusterResourceMap \<Rightarrow> clusterResourceMap" where
  "addToResource kind q rs = AList.update kind (case map_of rs kind of None \<Rightarrow> q | Some p \<Rightarrow> p + q) rs"

text \<open>A key that is missing from the allocatable resources of a node reads as zero.\<close>

definition allocatable :: "clusterResourceMap \<Rightarrow> string \<Rightarrow> quantity" where
  "allocatable al kind = (case map_of al kind of None \<Rightarrow> 0 | Some q \<Rightarrow> q)"

definition addNodeResources :: "clusterResourceMap \<Rightarrow> clusterResourceMap \<Rightarrow> clusterResourceMap" where
  "addNodeResources al rs =
     addToResource ResourceMemory (allocatable al ResourceMemory) (addToResource ResourceCPU (allocatable al ResourceCPU) rs)"

definition addDevicePluginNode :: "string \<times> clusterResourceMap \<Rightarrow> clusterResourceMap \<Rightarrow> clusterResourceMap" where
  "addDevicePluginNode nd rs =
     (let al = snd nd; present = filter (\<lambda>k. map_of al k \<noteq> None) [I915Resource, XeResource];
          rs1 = fold (\<lambda>k. addToResource k (allocatable al k)) present rs
      in if present \<noteq> [] then addNodeResources al rs1 else rs1)"

definition getDevicePluginResources :: "(string \<times> clusterResourceMap) list \<Rightarrow> clusterResourceMap" where
  "getDevicePluginResources nodes = fold addDevicePluginNode nodes []"

text \<open>
  \<^verbatim>\<open>*nodeName\<close> of a slice that is not local to a node is a nil dereference, whatever its driver; the
  model returns the error the recovered panic becomes.
\<close>

definition addResourceFromResourceSlice ::
  "(string \<times> clusterResourceMap) list \<Rightarrow> gpuSlice \<Rightarrow> clusterResourceMap \<Rightarrow> (clusterResourceMap \<times> string option) res" where
  "addResourceFromResourceSlice nodes rs resources =
     (case gsNodeName rs of
        None \<Rightarrow> Inl (newErr ''panic: invalid memory address or nil pointer dereference'')
      | Some n \<Rightarrow>
          if map_of nodes n = None \<or> gsDriver rs \<noteq> gpuResourceName then Inr (resources, None)
          else let devs = filter (\<lambda>d. sdHasAttributes d \<or> sdHasCapacity d) (gsDevices rs)
               in Inr (fold (\<lambda>_. addToResource draResourceName nano) devs resources, if devs \<noteq> [] then Some n else None))"

fun addSlices ::
  "(string \<times> clusterResourceMap) list \<Rightarrow> gpuSlice list \<Rightarrow> clusterResourceMap \<Rightarrow> string list \<Rightarrow> (clusterResourceMap \<times> string list) res" where
  "addSlices nodes [] resources addNodes = Inr (resources, addNodes)"
| "addSlices nodes (s # ss) resources addNodes =
     (case addResourceFromResourceSlice nodes s resources of
        Inl e \<Rightarrow> Inl e
      | Inr (resources', n) \<Rightarrow> addSlices nodes ss resources' (addNodes @ (case n of None \<Rightarrow> [] | Some x \<Rightarrow> [x])))"

definition draResourcesOf :: "(string \<times> clusterResourceMap) list \<Rightarrow> gpuSlice list \<Rightarrow> clusterResourceMap res" where
  "draResourcesOf nodes slices =
     (case addSlices nodes slices [] [] of
        Inl e \<Rightarrow> Inl e
      | Inr (resources, addNodes) \<Rightarrow>
          Inr (fold (\<lambda>n rs. case map_of nodes n of None \<Rightarrow> rs | Some al \<Rightarrow> addNodeResources al rs) addNodes resources))"

text \<open>Without a listing the result is the nil map, which has no entries.\<close>

definition getDraResources ::
  "('w, 'x) miscEnv_scheme \<Rightarrow> (string \<times> clusterResourceMap) list \<Rightarrow> ('w, clusterResourceMap res) io" where
  "getDraResources E nodes = do {
     r \<leftarrow> meListSlices E;
     State_Monad.return (case r of Inl _ \<Rightarrow> Inr [] | Inr slices \<Rightarrow> draResourcesOf nodes slices)
   }"

section \<open>Division\<close>

definition share :: "nat \<Rightarrow> nat \<Rightarrow> quantity \<Rightarrow> nat" where
  "share n i q = quantityValue q div n + (if i < quantityValue q mod n then 1 else 0)"

definition divisionError :: "nat \<Rightarrow> string \<Rightarrow> quantity \<Rightarrow> go_error" where
  "divisionError n kind q = newErr (''unable to create '' @ natStr n @ '' queues using '' @ natStr (quantityValue q) @ '' '' @ quoted kind @ '' reources'')"

text \<open>
  The share of queue \<open>i\<close>, in nano-units again, or the first resource there is not enough of; the order
  of the resources decides only which of them the error names.
\<close>

fun divideFor :: "nat \<Rightarrow> nat \<Rightarrow> clusterResourceMap \<Rightarrow> clusterResourceMap res" where
  "divideFor n i [] = Inr []"
| "divideFor n i ((kind, q) # rs) =
     (if q = 0 then divideFor n i rs
      else if share n i q < 1 then Inl (divisionError n kind q)
      else case divideFor n i rs of Inl e \<Rightarrow> Inl e | Inr ls \<Rightarrow> Inr ((kind, nano * share n i q) # ls))"

fun divideFrom :: "nat \<Rightarrow> clusterResourceMap \<Rightarrow> nat list \<Rightarrow> clusterResourceMap list res" where
  "divideFrom n rs [] = Inr []"
| "divideFrom n rs (i # is) =
     (case divideFor n i rs of
        Inl e \<Rightarrow> Inl e
      | Inr ls \<Rightarrow> (case divideFrom n rs is of Inl e \<Rightarrow> Inl e | Inr lss \<Rightarrow> Inr (ls # lss)))"

definition divideResources :: "clusterResourceMap \<Rightarrow> nat \<Rightarrow> clusterResourceMap list res" where
  "divideResources rs numQueues = divideFrom numQueues rs [0..<numQueues]"

section \<open>Flavor\<close>

definition kueueLabels :: "string \<Rightarrow> labels" where
  "kueueLabels owner = [(''app'', kueueAppLabel), (''owner'', owner)]"

definition createResourceFlavor :: "string \<Rightarrow> resourceFlavor" where
  "createResourceFlavor owner = \<lparr>rfName = kueueFlavorName, rfLabels = Some (kueueLabels owner)\<rparr>"

definition modifyResourceFlavor :: "('w, 'x) miscEnv_scheme \<Rightarrow> string \<Rightarrow> ('w, go_error option) io" where
  "modifyResourceFlavor E owner = do {
     g \<leftarrow> meGetFlavor E kueueFlavorName;
     case g of
       Inl e \<Rightarrow>
         if reason e \<noteq> NotFound then State_Monad.return (Some (newErr (''cannot fetch Kueue '' @ quoted kueueFlavorName @ '': '' @ errText e)))
         else do { c \<leftarrow> meCreateFlavor E (createResourceFlavor owner); State_Monad.return (ignoreAlreadyExists c) }
     | Inr (Inl e) \<Rightarrow> State_Monad.return (Some (newErr (''unable to convert unstructured to ResourceFlavor '' @ quoted kueueFlavorName @ '': '' @ errText e)))
     | Inr (Inr current) \<Rightarrow>
         let ls = (case rfLabels current of None \<Rightarrow> [] | Some x \<Rightarrow> x) in
         if map_of ls ''app'' \<noteq> Some kueueAppLabel \<or> map_of ls ''owner'' \<noteq> Some owner
         then do {
           u \<leftarrow> meUpdateFlavor E (current\<lparr>rfLabels := Some (AList.update ''owner'' owner (AList.update ''app'' kueueAppLabel ls))\<rparr>);
           State_Monad.return (map_option (\<lambda>e. newErr (''unable to update labels for Kueue ResourceFlavor '' @ quoted kueueFlavorName @ '': '' @ errText e)) u)
         }
         else State_Monad.return None
   }"

section \<open>Queues\<close>

text \<open>\<^verbatim>\<open>cmp.Diff\<close> of two label maps, nil and empty being the same.\<close>

definition sameLabels :: "labels option \<Rightarrow> labels \<Rightarrow> bool" where
  "sameLabels a b = (let x = (case a of None \<Rightarrow> [] | Some ls \<Rightarrow> ls) in list_all (\<lambda>k. map_of x k = map_of b k) (map fst x @ map fst b))"

text \<open>
  The labels as they are after those of the operator were assigned; assigning to the nil map panics.
\<close>

definition assignLabels :: "labels option \<Rightarrow> labels \<Rightarrow> labels res" where
  "assignLabels a b =
     (case a of
        None \<Rightarrow> Inl (newErr ''panic: assignment to entry in nil map'')
      | Some ls \<Rightarrow> Inr (fold (\<lambda>(k, v). AList.update k v) b ls))"

definition createLocalQueue :: "string \<Rightarrow> string \<Rightarrow> LocalQueueSpec \<Rightarrow> localQueue" where
  "createLocalQueue owner clusterQueueName lq =
     \<lparr>lquName = lqName lq, lquNamespace = lqNamespace lq, lquLabels = Some (kueueLabels owner),
      lquSpec = \<lparr>lsClusterQueue = clusterQueueName, lsRest = ''''\<rparr>\<rparr>"

definition modifyLocalQueue :: "('w, 'x) miscEnv_scheme \<Rightarrow> string \<Rightarrow> string \<Rightarrow> LocalQueueSpec \<Rightarrow> ('w, go_error option) io" where
  "modifyLocalQueue E owner cq lq = do {
     g \<leftarrow> meGetLocalQueue E (lqNamespace lq) (lqName lq);
     let new = createLocalQueue owner cq lq in
     case g of
       Inl e \<Rightarrow>
         if reason e \<noteq> NotFound then State_Monad.return (Some (newErr (''cannot fetch Kueue LocalQueue '' @ quoted (lqName lq) @ '': '' @ errText e)))
         else do { c \<leftarrow> meCreateLocalQueue E new; State_Monad.return (ignoreAlreadyExists c) }
     | Inr (Inl e) \<Rightarrow> State_Monad.return (Some e)
     | Inr (Inr current) \<Rightarrow>
         if lquSpec current \<noteq> lquSpec new \<or> \<not> sameLabels (lquLabels current) (kueueLabels owner)
         then (case assignLabels (lquLabels current) (kueueLabels owner) of
             Inl e \<Rightarrow> State_Monad.return (Some e)
           | Inr ls \<Rightarrow> do {
               u \<leftarrow> meUpdateLocalQueue E (current\<lparr>lquSpec := lquSpec new, lquLabels := Some ls\<rparr>);
               State_Monad.return (ignoreAlreadyExists u)
             })
         else State_Monad.return None
   }"

definition modifyLocalQueues :: "('w, 'x) miscEnv_scheme \<Rightarrow> string \<Rightarrow> ClusterQueueSpec \<Rightarrow> ('w, go_error option) io" where
  "modifyLocalQueues E owner cq = tryEach (modifyLocalQueue E owner (cqName cq)) (cqLocalQueues cq)"

text \<open>The resources in the order in which the map is visited.\<close>

definition createClusterQueue :: "string \<Rightarrow> clusterResourceMap \<Rightarrow> ClusterQueueSpec \<Rightarrow> clusterQueue" where
  "createClusterQueue owner resources cq =
     \<lparr>cquName = cqName cq, cquLabels = Some (kueueLabels owner),
      cquSpec = \<lparr>qsCovered = map fst resources, qsFlavor = kueueFlavorName, qsQuotas = resources, qsRest = ''''\<rparr>\<rparr>"

definition ensureClusterQueue ::
  "('w, 'x) miscEnv_scheme \<Rightarrow> string \<Rightarrow> clusterResourceMap \<Rightarrow> ClusterQueueSpec \<Rightarrow> ('w, go_error option) io" where
  "ensureClusterQueue E owner resources cq = do {
     g \<leftarrow> meGetClusterQueue E (cqName cq);
     case g of
       Inl e \<Rightarrow>
         if reason e \<noteq> NotFound then State_Monad.return (Some (newErr (''cannot fetch Kueue '' @ quoted (cqName cq) @ '': '' @ errText e)))
         else do {
           visited \<leftarrow> meRange E resources;
           c \<leftarrow> meCreateClusterQueue E (createClusterQueue owner visited cq);
           State_Monad.return (ignoreAlreadyExists c)
         }
     | Inr found \<Rightarrow> do {
         visited \<leftarrow> meRange E resources;
         let new = createClusterQueue owner visited cq in
         case found of
           Inl e \<Rightarrow> State_Monad.return (Some e)
         | Inr current \<Rightarrow>
             if cquSpec current \<noteq> cquSpec new \<or> \<not> sameLabels (cquLabels current) (kueueLabels owner)
             then (case assignLabels (cquLabels current) (kueueLabels owner) of
                 Inl e \<Rightarrow> State_Monad.return (Some e)
               | Inr ls \<Rightarrow> do {
                   u \<leftarrow> meUpdateClusterQueue E (current\<lparr>cquSpec := cquSpec new, cquLabels := Some ls\<rparr>);
                   State_Monad.return (ignoreAlreadyExists u)
                 })
             else State_Monad.return None
       }
   }"

section \<open>Cleanup\<close>

definition expectedClusterQueues :: "KueueQueueSpec option \<Rightarrow> string list" where
  "expectedClusterQueues sp = (case sp of None \<Rightarrow> [] | Some k \<Rightarrow> map cqName (kqEqualResources k))"

definition expectedLocalQueues :: "KueueQueueSpec option \<Rightarrow> (string \<times> string) list" where
  "expectedLocalQueues sp =
     (case sp of None \<Rightarrow> [] | Some k \<Rightarrow> concat (map (\<lambda>cq. map (\<lambda>lq. (lqNamespace lq, lqName lq)) (cqLocalQueues cq)) (kqEqualResources k)))"

definition deleteStale :: "('a \<Rightarrow> ('w, go_error option) io) \<Rightarrow> ('a \<Rightarrow> string) \<Rightarrow> 'a list \<Rightarrow> ('w, go_error option) io" where
  "deleteStale del text = tryEach (\<lambda>q. do {
     d \<leftarrow> del q;
     State_Monad.return (map_option (\<lambda>e. newErr (text q @ '': '' @ errText e)) (ignoreNotFound d)) })"

definition cleanupStaleKueueQueues ::
  "('w, 'x) miscEnv_scheme \<Rightarrow> string \<Rightarrow> KueueQueueSpec option \<Rightarrow> ('w, go_error option) io" where
  "cleanupStaleKueueQueues E owner sp = do {
     r \<leftarrow> meListClusterQueues E (kueueLabels owner);
     case r of
       Inl e \<Rightarrow> State_Monad.return (Some (newErr (''failed to list Kueue ClusterQueues for cleanup: '' @ errText e)))
     | Inr cqs \<Rightarrow>
         thenTry
           (deleteStale (meDeleteClusterQueue E) (\<lambda>q. ''unable to delete stale Kueue ClusterQueue '' @ quoted (cquName q))
              (filter (\<lambda>q. cquName q \<notin> set (expectedClusterQueues sp)) cqs))
           (do {
              l \<leftarrow> meListLocalQueues E (kueueLabels owner);
              case l of
                Inl e \<Rightarrow> State_Monad.return (Some (newErr (''failed to list Kueue LocalQueues for cleanup: '' @ errText e)))
              | Inr lqs \<Rightarrow>
                  deleteStale (meDeleteLocalQueue E) (\<lambda>q. ''unable to delete stale Kueue LocalQueue '' @ quoted (lquNamespace q @ ''/'' @ lquName q))
                    (filter (\<lambda>q. (lquNamespace q, lquName q) \<notin> set (expectedLocalQueues sp)) lqs)
            })
   }"

definition removeKueueObjects :: "('w, 'x) miscEnv_scheme \<Rightarrow> string list \<Rightarrow> string \<Rightarrow> ('w, go_error option) io" where
  "removeKueueObjects E crds crn =
     (if kueueClusterQueueCrd \<notin> set crds then State_Monad.return None
      else do { _ \<leftarrow> meDeleteFlavors E (kueueLabels crn); cleanupStaleKueueQueues E crn None })"

section \<open>Reconcile\<close>

definition modifyClusterQueue ::
  "('w, 'x) miscEnv_scheme \<Rightarrow> string \<Rightarrow> clusterResourceMap \<Rightarrow> KueueQueueSpec \<Rightarrow> ('w, go_error option) io" where
  "modifyClusterQueue E owner resources sp =
     (if kqEqualResources sp = [] then cleanupStaleKueueQueues E owner (Some sp)
      else case divideResources resources (length (kqEqualResources sp)) of
        Inl e \<Rightarrow> State_Monad.return (Some e)
      | Inr shares \<Rightarrow>
          thenTry
            (tryEach (\<lambda>(s, cq). thenTry (ensureClusterQueue E owner s cq) (modifyLocalQueues E owner cq)) (zip shares (kqEqualResources sp)))
            (cleanupStaleKueueQueues E owner (Some sp)))"

text \<open>The nil map is caught before, by its length.\<close>

definition createKueueQueues ::
  "('w, 'x) miscEnv_scheme \<Rightarrow> string \<Rightarrow> clusterResourceMap \<Rightarrow> KueueQueueSpec \<Rightarrow> ('w, go_error option) io" where
  "createKueueQueues E owner resources sp = thenTry (modifyResourceFlavor E owner) (modifyClusterQueue E owner resources sp)"

definition clusterResources ::
  "('w, 'x) miscEnv_scheme \<Rightarrow> policy \<Rightarrow> (string \<times> clusterResourceMap) list \<Rightarrow> ('w, clusterResourceMap res) io" where
  "clusterResources E cp nodes =
     (if cpResourceRegistration (cpSpec cp) = resourceModeDP then State_Monad.return (Inr (getDevicePluginResources nodes))
      else if cpResourceRegistration (cpSpec cp) = resourceModeDRA then getDraResources E nodes
      else State_Monad.return (Inr []))"

definition reconcileKueueObjects ::
  "('w, 'x) miscEnv_scheme \<Rightarrow> string list \<Rightarrow> policy \<Rightarrow> ('w, go_error option) io" where
  "reconcileKueueObjects E crds cp =
     (if \<not> {kueueResourceFlavorCrd, kueueClusterQueueCrd, kueueLocalQueueCrd} \<subseteq> set crds then State_Monad.return None
      else if \<not> cpEnableKueue (cpSpec cp) then removeKueueObjects E crds (cpName cp)
      else case cpKueue (cpSpec cp) of
        None \<Rightarrow> cleanupStaleKueueQueues E (cpName cp) None
      | Some sp \<Rightarrow>
          if kqEqualResources sp = [] then cleanupStaleKueueQueues E (cpName cp) (Some sp)
          else do {
            n \<leftarrow> meListAllocatable E;
            case n of
              Inl e \<Rightarrow> State_Monad.return (Some e)
            | Inr nodes \<Rightarrow> do {
                r \<leftarrow> clusterResources E cp nodes;
                case r of
                  Inl e \<Rightarrow> State_Monad.return (Some e)
                | Inr resources \<Rightarrow>
                    if resources = [] then State_Monad.return None else createKueueQueues E (cpName cp) resources sp
              }
          })"

definition lastError :: "go_error option \<Rightarrow> go_error option \<Rightarrow> go_error option" where
  "lastError old new = (case new of None \<Rightarrow> old | Some e \<Rightarrow> Some e)"

definition ReconcileMisc :: "('w, 'x) miscEnv_scheme \<Rightarrow> ControllerOpts \<Rightarrow> string list \<Rightarrow> 'w subController" where
  "ReconcileMisc E opts crds pol =
     (if isClusterPolicyBeingDeleted pol then do {
        e1 \<leftarrow> removeNfdRules E opts;
        e2 \<leftarrow> removePrometheusComponents E opts crds;
        e3 \<leftarrow> removeKueueObjects E crds (coReqName opts);
        State_Monad.return (pol, None, lastError (lastError e1 e2) e3)
      }
      else do {
        err \<leftarrow> thenTry (reconcilePrometheusComponents E opts crds (the pol))
                (thenTry (reconcileNfdRules E opts (the pol)) (reconcileKueueObjects E crds (the pol)));
        State_Monad.return (pol, None, err)
      })"

text \<open>
  The sub-controllers in the order in which the reconciler runs them. KMM gets options without the label
  that waits for its own Module.
\<close>

definition policyControllers :: "('w, 'x) miscEnv_scheme \<Rightarrow> ControllerOpts \<Rightarrow> string list \<Rightarrow> 'w subController list" where
  "policyControllers E opts crds =
     [ReconcileDP E opts, ReconcileXPUM E opts, ReconcileDRA E opts, ReconcileMisc E opts crds,
      ReconcileKMM E (opts\<lparr>coKMMModuleReadyLabel := ''''\<rparr>)]"

end
