(* ===== verification/PolicyWorld.thy ===== *)
theory PolicyWorld
  imports PolicyKueue
begin

text \<open>
  An in-memory API server on which the ClusterPolicy reconciler and its sub-controllers run, with the
  embedded files as far as the model has them. The contracts under which the guarantees are proved are
  interpreted on it.
\<close>

section \<open>Embedded files\<close>

text \<open>The embedded DaemonSet of xpumd, as far as the model has it.\<close>

definition xpumTemplate :: daemonSet where
  "xpumTemplate = \<lparr>dsetName = ''intel-xpumd'', dsetNamespace = '''', dsetLabels = [(''app'', ''intel-xpumanager'')], dsetAnnotations = [],
     dsetServiceAccount = '''',
     dsetContainers = [\<lparr>dcName = ''xpumd'', dcImage = '''', dcArgs = [''--config=/etc/xpumd/config.yaml''], dcPorts = [(''http'', 8080)],
       dcStartupProbe = None, dcLivenessProbe = None, dcSELinuxType = None,
       dcMounts = [\<lparr>vmName = ''config'', vmPath = ''/etc/xpumd'', vmReadOnly = True\<rparr>, \<lparr>vmName = ''rundir'', vmPath = ''/run/xpumd'', vmReadOnly = False\<rparr>],
       dcEnv = [], dcLimits = [(''cpu'', ''100m'')], dcRequests = [(''cpu'', ''10m'')], dcClaims = []\<rparr>],
     dsetNodeSelector = [(''kubernetes.io/arch'', ''amd64'')], dsetTolerations = [], dsetAffinity = None,
     dsetVolumes = [\<lparr>volName = ''config'', volSource = ConfigMapSource ''changed-by-the-operator'' [] 420\<rparr>,
       \<lparr>volName = ''rundir'', volSource = HostPathSource ''/run/xpumd'' (Some ''DirectoryOrCreate'')\<rparr>],
     dsetPullSecrets = [], dsetResourceClaims = [], dsetReady = 0, dsetDesired = 0\<rparr>"

text \<open>The embedded configuration, reduced to one rule.\<close>

definition smallConfig :: OTelConfig where
  "smallConfig = \<lparr>
     ocReceivers = \<lparr>orIntelXPU = \<lparr>ixCollectionInterval = ''5s'', ixInitialDelay = ''1s'', ixTimeout = 0, ixSamplingInterval = ''1s'',
         ixFailOnSysmanInit = False, ixInfoLogs = Some \<lparr>ilEnabled = False, ilInstanceName = ''xpumd''\<rparr>, ixMetrics = []\<rparr>, orIntelCrashlog = None\<rparr>,
     ocRules = [\<lparr>srName = ''core'', srSourceMetric = ''hw.temperature'', srParentMetric = ''hw.gpu.info'', srParentRefAttribute = ''hw.id'',
         srParentFilters = [], srComponentFilters = [\<lparr>kvKey = ''hw.sensor_location'', kvValues = [''gpu'']\<rparr>], srCopyAttributes = [], srAddAttributes = [],
         srStates = [\<lparr>ssStateName = ''critical'', ssConditions = [\<lparr>scValue = 100, scParentFilters = []\<rparr>]\<rparr>]\<rparr>],
     ocExporters = \<lparr>exIntelXPUInfo = \<lparr>ieEndpoint = xpumdSocketPath, ieHWStatusMappings = []\<rparr>, exPrometheusEndpoint = '':8080'',
         exOTLPHTTP = None, exOTLPGRPC = None\<rparr>,
     ocExtensions = [],
     ocService = \<lparr>svLogs = \<lparr>olLevel = ''info'', olDisableStacktrace = True\<rparr>,
         svMetricsPipeline = \<lparr>plReceivers = [''intel_xpu''], plProcessors = [], plExporters = [''prometheus'']\<rparr>, svLogsPipeline = None\<rparr>\<rparr>"

section \<open>Labels and keys\<close>

definition carries :: "labels \<Rightarrow> labels option \<Rightarrow> bool" where
  "carries ls have \<longleftrightarrow> (\<forall>(k, v) \<in> set ls. map_of (case have of None \<Rightarrow> [] | Some x \<Rightarrow> x) k = Some v)"

definition lquKey :: "localQueue \<Rightarrow> string \<times> string" where
  "lquKey q = (lquNamespace q, lquName q)"

section \<open>An in-memory environment\<close>

record policyMem = mem +
  pmPolicy :: "policy option"
  pmModule :: "kmmModule option"
  pmSent :: "policy list"
  pmRemoved :: "string list"
  pmDaemonSets :: "((string \<times> string) \<times> daemonSet) list"
  pmConfigMaps :: "configMap list"
  pmFlavor :: "resourceFlavor option"
  pmClusterQueues :: "clusterQueue list"
  pmLocalQueues :: "localQueue list"
  pmAllocatable :: "(string \<times> clusterResourceMap) list"
  pmGpuSlices :: "gpuSlice list"

definition templateDaemonSet :: daemonSet where
  "templateDaemonSet = \<lparr>dsetName = ''dra'', dsetNamespace = '''', dsetLabels = [], dsetAnnotations = [], dsetServiceAccount = '''',
     dsetContainers = [\<lparr>dcName = ''dra'', dcImage = '''', dcArgs = [], dcPorts = [], dcStartupProbe = None, dcLivenessProbe = None,
       dcSELinuxType = None, dcMounts = [], dcEnv = [], dcLimits = [], dcRequests = [], dcClaims = []\<rparr>],
     dsetNodeSelector = [], dsetTolerations = [], dsetAffinity = None, dsetVolumes = [], dsetPullSecrets = [], dsetResourceClaims = [],
     dsetReady = 0, dsetDesired = 0\<rparr>"

definition memStoreConfigMap :: "configMap \<Rightarrow> (policyMem, go_error option) io" where
  "memStoreConfigMap c = State (\<lambda>m. (None, m\<lparr>pmConfigMaps := c # pmConfigMaps m\<rparr>))"

definition memPolicyEnv :: "policyMem miscEnv" where
  "memPolicyEnv =
     \<lparr>cClock = cClock memClient, cGetNode = cGetNode memClient, cUpdateNode = cUpdateNode memClient,
      cListNodes = cListNodes memClient, cListPodsOnNode = cListPodsOnNode memClient,
      cGetPod = cGetPod memClient, cEvict = cEvict memClient, cGetClaim = cGetClaim memClient,
      cGetClaimTemplate = cGetClaimTemplate memClient, cListSlices = cListSlices memClient,
      cListClaims = cListClaims memClient, cGetJob = cGetJob memClient, cCreateJob = cCreateJob memClient,
      cDeleteJob = cDeleteJob memClient, cListJobs = cListJobs memClient, cListJobPods = cListJobPods memClient,
      oGetSCC = (\<lambda>n. State_Monad.return (Inl (notFound n))),
      oCreateSCC = (\<lambda>s. State_Monad.return None), oUpdateSCC = (\<lambda>s. State_Monad.return None),
      oGetServiceAccount = (\<lambda>ns n. State_Monad.return (Inl (notFound n))),
      oCreateServiceAccount = (\<lambda>ns n. State_Monad.return None),
      oCreateOrPatchRole = (\<lambda>r. State_Monad.return None), oCreateOrPatchBinding = (\<lambda>b. State_Monad.return None),
      oDelete = (\<lambda>k ns n. State_Monad.return None),
      peGet = (\<lambda>n. observe (\<lambda>m. case pmPolicy m of Some cp \<Rightarrow> if cpName cp = n then Inr cp else Inl (notFound n) | None \<Rightarrow> Inl (notFound n))),
      peUpdate = (\<lambda>cp. State (\<lambda>m. (Inr cp, m\<lparr>pmPolicy := Some cp, pmSent := pmSent m @ [cp]\<rparr>))),
      peUpdateStatus = (\<lambda>cp. State (\<lambda>m. (Inr cp, m\<lparr>pmPolicy := Some cp\<rparr>))),
      peListCRDs = State_Monad.return (Inr []),
      peCreate = (\<lambda>x. State_Monad.return None),
      peDelete = (\<lambda>x. State (\<lambda>m. (None, m\<lparr>pmRemoved := pmRemoved m @ [aoName x]\<rparr>))),
      peCreateOrPatch = (\<lambda>x. State_Monad.return None),
      peGetDaemonSet = (\<lambda>ns n. observe (\<lambda>m. case map_of (pmDaemonSets m) (ns, n) of Some d \<Rightarrow> Inr d | None \<Rightarrow> Inl (notFound n))),
      peCreateOrPatchDaemonSet = (\<lambda>d g. State (\<lambda>m. let k = (dsetNamespace d, dsetName d) in
         (None, m\<lparr>pmDaemonSets := AList.update k (g (case map_of (pmDaemonSets m) k of Some e \<Rightarrow> e | None \<Rightarrow> d)) (pmDaemonSets m)\<rparr>))),
      peDraTemplate = templateDaemonSet, peDpTemplate = templateDaemonSet,
      kmGetModule = (\<lambda>ns n. observe (\<lambda>m. case pmModule m of Some md \<Rightarrow> Inr md | None \<Rightarrow> Inl (notFound n))),
      kmDeleteModule = (\<lambda>md. State (\<lambda>m. (None, m\<lparr>pmModule := None, pmRemoved := pmRemoved m @ [modName md]\<rparr>))),
      kmCreateOrPatchModule = (\<lambda>md g. State (\<lambda>m. case g (case pmModule m of Some x \<Rightarrow> x | None \<Rightarrow> md) of
         Inl e \<Rightarrow> ((md, Some e), m) | Inr md' \<Rightarrow> ((md', None), m\<lparr>pmModule := Some md'\<rparr>))),
      kmSetControllerReference = (\<lambda>cp md. Inr (md\<lparr>modOwner := Some (cpName cp)\<rparr>)),
      xeTemplate = xpumTemplate, xeOTelConfig = smallConfig,
      xeMarshal = (\<lambda>c. Inr (''level: '' @ olLevel (svLogs (ocService c)) @ '' interval: '' @ ixCollectionInterval (orIntelXPU (ocReceivers c)))),
      xeUnmarshal = (\<lambda>s. Inr smallConfig), xeSetControllerReference = (\<lambda>cp k n. None),
      xeGetConfigMap = (\<lambda>ns n. observe (\<lambda>m. case find (\<lambda>c. cmNamespace c = ns \<and> cmName c = n) (pmConfigMaps m) of Some c \<Rightarrow> Inr c | None \<Rightarrow> Inl (notFound n))),
      xeCreateConfigMap = memStoreConfigMap, xeUpdateConfigMap = memStoreConfigMap,
      meNfdTemplate = \<lparr>nrName = nfdRuleName, nrNamespace = '''', nrLabels = [], nrSpec = ''rules''\<rparr>,
      meMonitorName = ''xpumd'', meServiceName = ''xpumd'', meRange = State_Monad.return,
      meListMonitors = (\<lambda>ns ls. State_Monad.return (Inr [])), meListServices = (\<lambda>ns ls. State_Monad.return (Inr [])),
      meGetCRDScope = (\<lambda>n. State_Monad.return (Inl (notFound n))),
      meGetNfdRule = (\<lambda>ns n. State_Monad.return (Inl (notFound n))),
      meUpdateNfdRule = (\<lambda>r. State_Monad.return None), meCreateNfdRule = (\<lambda>r. State_Monad.return None),
      meListAllocatable = observe (\<lambda>m. Inr (pmAllocatable m)), meListSlices = observe (\<lambda>m. Inr (pmGpuSlices m)),
      meGetFlavor = (\<lambda>n. observe (\<lambda>m. case pmFlavor m of Some f \<Rightarrow> Inr (Inr f) | None \<Rightarrow> Inl (notFound n))),
      meCreateFlavor = (\<lambda>f. State (\<lambda>m. (None, m\<lparr>pmFlavor := Some f\<rparr>))), meUpdateFlavor = (\<lambda>f. State (\<lambda>m. (None, m\<lparr>pmFlavor := Some f\<rparr>))),
      meDeleteFlavors = (\<lambda>ls. State (\<lambda>m. (None, m\<lparr>pmFlavor := None\<rparr>))),
      meGetClusterQueue = (\<lambda>n. observe (\<lambda>m. case find (\<lambda>q. cquName q = n) (pmClusterQueues m) of Some q \<Rightarrow> Inr (Inr q) | None \<Rightarrow> Inl (notFound n))),
      meCreateClusterQueue = (\<lambda>q. State (\<lambda>m. (None, m\<lparr>pmClusterQueues := pmClusterQueues m @ [q]\<rparr>))),
      meUpdateClusterQueue = (\<lambda>q. State (\<lambda>m. (None, m\<lparr>pmClusterQueues := map (\<lambda>p. if cquName p = cquName q then q else p) (pmClusterQueues m)\<rparr>))),
      meDeleteClusterQueue = (\<lambda>q. State (\<lambda>m. (None, m\<lparr>pmClusterQueues := filter (\<lambda>p. cquName p \<noteq> cquName q) (pmClusterQueues m)\<rparr>))),
      meListClusterQueues = (\<lambda>ls. observe (\<lambda>m. Inr (filter (\<lambda>q. carries ls (cquLabels q)) (pmClusterQueues m)))),
      meGetLocalQueue = (\<lambda>ns n. observe (\<lambda>m. case find (\<lambda>q. lquKey q = (ns, n)) (pmLocalQueues m) of Some q \<Rightarrow> Inr (Inr q) | None \<Rightarrow> Inl (notFound n))),
      meCreateLocalQueue = (\<lambda>q. State (\<lambda>m. (None, m\<lparr>pmLocalQueues := pmLocalQueues m @ [q]\<rparr>))),
      meUpdateLocalQueue = (\<lambda>q. State (\<lambda>m. (None, m\<lparr>pmLocalQueues := map (\<lambda>p. if lquKey p = lquKey q then q else p) (pmLocalQueues m)\<rparr>))),
      meDeleteLocalQueue = (\<lambda>q. State (\<lambda>m. (None, m\<lparr>pmLocalQueues := filter (\<lambda>p. lquKey p \<noteq> lquKey q) (pmLocalQueues m)\<rparr>))),
      meListLocalQueues = (\<lambda>ls. observe (\<lambda>m. Inr (filter (\<lambda>q. carries ls (lquLabels q)) (pmLocalQueues m))))\<rparr>"

text \<open>The calls one by one, so that proofs need not unfold the whole record.\<close>

lemma memPolicyEnv_calls:
  "cClock memPolicyEnv = cClock memClient"
  "cGetNode memPolicyEnv = cGetNode memClient"
  "cUpdateNode memPolicyEnv = cUpdateNode memClient"
  "cListNodes memPolicyEnv = cListNodes memClient"
  "cListPodsOnNode memPolicyEnv = cListPodsOnNode memClient"
  "cGetPod memPolicyEnv = cGetPod memClient"
  "cEvict memPolicyEnv = cEvict memClient"
  "cGetClaim memPolicyEnv = cGetClaim memClient"
  "cGetClaimTemplate memPolicyEnv = cGetClaimTemplate memClient"
  "cListSlices memPolicyEnv = cListSlices memClient"
  "cListClaims memPolicyEnv = cListClaims memClient"
  "cGetJob memPolicyEnv = cGetJob memClient"
  "cCreateJob memPolicyEnv = cCreateJob memClient"
  "cDeleteJob memPolicyEnv = cDeleteJob memClient"
  "cListJobs memPolicyEnv = cListJobs memClient"
  "cListJobPods memPolicyEnv = cListJobPods memClient"
  "oGetSCC memPolicyEnv = (\<lambda>n. State_Monad.return (Inl (notFound n)))"
  "oCreateSCC memPolicyEnv = (\<lambda>s. State_Monad.return None)"
  "oUpdateSCC memPolicyEnv = (\<lambda>s. State_Monad.return None)"
  "oGetServiceAccount memPolicyEnv = (\<lambda>ns n. State_Monad.return (Inl (notFound n)))"
  "oCreateServiceAccount memPolicyEnv = (\<lambda>ns n. State_Monad.return None)"
  "oCreateOrPatchRole memPolicyEnv = (\<lambda>r. State_Monad.return None)"
  "oCreateOrPatchBinding memPolicyEnv = (\<lambda>b. State_Monad.return None)"
  "oDelete memPolicyEnv = (\<lambda>k ns n. State_Monad.return None)"
  "peGet memPolicyEnv = (\<lambda>n. observe (\<lambda>m. case pmPolicy m of Some cp \<Rightarrow> if cpName cp = n then Inr cp else Inl (notFound n) | None \<Rightarrow> Inl (notFound n)))"
  "peUpdate memPolicyEnv = (\<lambda>cp. State (\<lambda>m. (Inr cp, m\<lparr>pmPolicy := Some cp, pmSent := pmSent m @ [cp]\<rparr>)))"
  "peUpdateStatus memPolicyEnv = (\<lambda>cp. State (\<lambda>m. (Inr cp, m\<lparr>pmPolicy := Some cp\<rparr>)))"
  "peListCRDs memPolicyEnv = State_Monad.return (Inr [])"
  "peCreate memPolicyEnv = (\<lambda>x. State_Monad.return None)"
  "peDelete memPolicyEnv = (\<lambda>x. State (\<lambda>m. (None, m\<lparr>pmRemoved := pmRemoved m @ [aoName x]\<rparr>)))"
  "peCreateOrPatch memPolicyEnv = (\<lambda>x. State_Monad.return None)"
  "peGetDaemonSet memPolicyEnv = (\<lambda>ns n. observe (\<lambda>m. case map_of (pmDaemonSets m) (ns, n) of Some d \<Rightarrow> Inr d | None \<Rightarrow> Inl (notFound n)))"
  "peCreateOrPatchDaemonSet memPolicyEnv = (\<lambda>d g. State (\<lambda>m. let k = (dsetNamespace d, dsetName d) in (None, m\<lparr>pmDaemonSets := AList.update k (g (case map_of (pmDaemonSets m) k of Some e \<Rightarrow> e | None \<Rightarrow> d)) (pmDaemonSets m)\<rparr>)))"
  "peDraTemplate memPolicyEnv = templateDaemonSet"
  "peDpTemplate memPolicyEnv = templateDaemonSet"
  "kmGetModule memPolicyEnv = (\<lambda>ns n. observe (\<lambda>m. case pmModule m of Some md \<Rightarrow> Inr md | None \<Rightarrow> Inl (notFound n)))"
  "kmDeleteModule memPolicyEnv = (\<lambda>md. State (\<lambda>m. (None, m\<lparr>pmModule := None, pmRemoved := pmRemoved m @ [modName md]\<rparr>)))"
  "kmCreateOrPatchModule memPolicyEnv = (\<lambda>md g. State (\<lambda>m. case g (case pmModule m of Some x \<Rightarrow> x | None \<Rightarrow> md) of Inl e \<Rightarrow> ((md, Some e), m) | Inr md' \<Rightarrow> ((md', None), m\<lparr>pmModule := Some md'\<rparr>)))"
  "kmSetControllerReference memPolicyEnv = (\<lambda>cp md. Inr (md\<lparr>modOwner := Some (cpName cp)\<rparr>))"
  "xeTemplate memPolicyEnv = xpumTemplate"
  "xeOTelConfig memPolicyEnv = smallConfig"
  "xeMarshal memPolicyEnv = (\<lambda>c. Inr (''level: '' @ olLevel (svLogs (ocService c)) @ '' interval: '' @ ixCollectionInterval (orIntelXPU (ocReceivers c))))"
  "xeUnmarshal memPolicyEnv = (\<lambda>s. Inr smallConfig)"
  "xeSetControllerReference memPolicyEnv = (\<lambda>cp k n. None)"
  "xeGetConfigMap memPolicyEnv = (\<lambda>ns n. observe (\<lambda>m. case find (\<lambda>c. cmNamespace c = ns \<and> cmName c = n) (pmConfigMaps m) of Some c \<Rightarrow> Inr c | None \<Rightarrow> Inl (notFound n)))"
  "xeCreateConfigMap memPolicyEnv = memStoreConfigMap"
  "xeUpdateConfigMap memPolicyEnv = memStoreConfigMap"
  "meNfdTemplate memPolicyEnv = \<lparr>nrName = nfdRuleName, nrNamespace = '''', nrLabels = [], nrSpec = ''rules''\<rparr>"
  "meMonitorName memPolicyEnv = ''xpumd''"
  "meServiceName memPolicyEnv = ''xpumd''"
  "meRange memPolicyEnv = State_Monad.return"
  "meListMonitors memPolicyEnv = (\<lambda>ns ls. State_Monad.return (Inr []))"
  "meListServices memPolicyEnv = (\<lambda>ns ls. State_Monad.return (Inr []))"
  "meGetCRDScope memPolicyEnv = (\<lambda>n. State_Monad.return (Inl (notFound n)))"
  "meGetNfdRule memPolicyEnv = (\<lambda>ns n. State_Monad.return (Inl (notFound n)))"
  "meUpdateNfdRule memPolicyEnv = (\<lambda>r. State_Monad.return None)"
  "meCreateNfdRule memPolicyEnv = (\<lambda>r. State_Monad.return None)"
  "meListAllocatable memPolicyEnv = observe (\<lambda>m. Inr (pmAllocatable m))"
  "meListSlices memPolicyEnv = observe (\<lambda>m. Inr (pmGpuSlices m))"
  "meGetFlavor memPolicyEnv = (\<lambda>n. observe (\<lambda>m. case pmFlavor m of Some f \<Rightarrow> Inr (Inr f) | None \<Rightarrow> Inl (notFound n)))"
  "meCreateFlavor memPolicyEnv = (\<lambda>f. State (\<lambda>m. (None, m\<lparr>pmFlavor := Some f\<rparr>)))"
  "meUpdateFlavor memPolicyEnv = (\<lambda>f. State (\<lambda>m. (None, m\<lparr>pmFlavor := Some f\<rparr>)))"
  "meDeleteFlavors memPolicyEnv = (\<lambda>ls. State (\<lambda>m. (None, m\<lparr>pmFlavor := None\<rparr>)))"
  "meGetClusterQueue memPolicyEnv = (\<lambda>n. observe (\<lambda>m. case find (\<lambda>q. cquName q = n) (pmClusterQueues m) of Some q \<Rightarrow> Inr (Inr q) | None \<Rightarrow> Inl (notFound n)))"
  "meCreateClusterQueue memPolicyEnv = (\<lambda>q. State (\<lambda>m. (None, m\<lparr>pmClusterQueues := pmClusterQueues m @ [q]\<rparr>)))"
  "meUpdateClusterQueue memPolicyEnv = (\<lambda>q. State (\<lambda>m. (None, m\<lparr>pmClusterQueues := map (\<lambda>p. if cquName p = cquName q then q else p) (pmClusterQueues m)\<rparr>)))"
  "meDeleteClusterQueue memPolicyEnv = (\<lambda>q. State (\<lambda>m. (None, m\<lparr>pmClusterQueues := filter (\<lambda>p. cquName p \<noteq> cquName q) (pmClusterQueues m)\<rparr>)))"
  "meListClusterQueues memPolicyEnv = (\<lambda>ls. observe (\<lambda>m. Inr (filter (\<lambda>q. carries ls (cquLabels q)) (pmClusterQueues m))))"
  "meGetLocalQueue memPolicyEnv = (\<lambda>ns n. observe (\<lambda>m. case find (\<lambda>q. lquKey q = (ns, n)) (pmLocalQueues m) of Some q \<Rightarrow> Inr (Inr q) | None \<Rightarrow> Inl (notFound n)))"
  "meCreateLocalQueue memPolicyEnv = (\<lambda>q. State (\<lambda>m. (None, m\<lparr>pmLocalQueues := pmLocalQueues m @ [q]\<rparr>)))"
  "meUpdateLocalQueue memPolicyEnv = (\<lambda>q. State (\<lambda>m. (None, m\<lparr>pmLocalQueues := map (\<lambda>p. if lquKey p = lquKey q then q else p) (pmLocalQueues m)\<rparr>)))"
  "meDeleteLocalQueue memPolicyEnv = (\<lambda>q. State (\<lambda>m. (None, m\<lparr>pmLocalQueues := filter (\<lambda>p. lquKey p \<noteq> lquKey q) (pmLocalQueues m)\<rparr>)))"
  "meListLocalQueues memPolicyEnv = (\<lambda>ls. observe (\<lambda>m. Inr (filter (\<lambda>q. carries ls (lquLabels q)) (pmLocalQueues m))))"
  by (simp_all add: memPolicyEnv_def)

section \<open>Policies and worlds\<close>

definition defaultOpts :: ControllerOpts where
  "defaultOpts = \<lparr>coReqName = '''', coNamespace = ''gpu'', coSecretName = '''', coRequeueDelay = 10, coDRAEnable = True,
     coOpenShift = False, coKMMEnable = True, coModuleLoaderServiceAccountName = ''loader'', coKMMModuleReadyLabel = ''''\<rparr>"

definition deletedPolicy :: policy where
  "deletedPolicy = plainPolicy\<lparr>cpDeleting := True, cpFinalizers := [clusterPolicyFinalizer]\<rparr>"

definition policyWorld :: "policy \<Rightarrow> policyMem" where
  "policyWorld cp = \<lparr>mClock = 0, mNodes = [], mPods = [], mPDB = (\<lambda>p. False), mClaims = [], mTemplates = [], mSlices = [], mJobs = [],
     pmPolicy = Some cp, pmModule = None, pmSent = [], pmRemoved = [], pmDaemonSets = [],
     pmConfigMaps = [], pmFlavor = None, pmClusterQueues = [], pmLocalQueues = [], pmAllocatable = [], pmGpuSlices = []\<rparr>"

end
