(* ===== verification/PolicyGuarantees.thy ===== *)
theory PolicyGuarantees
  imports PolicyWorld
begin

text \<open>
  What the ClusterPolicy reconciler promises: its finalizer goes last, after every sub-controller is
  done, and neither the DRA driver nor the kernel module is taken away while a claim holds a GPU.
\<close>

section \<open>Calls that leave something alone\<close>

text \<open>
  \<open>f\<close> stands for a part of the world that only an update of the policy and the deletion of an object
  may change.
\<close>

locale policy_calls =
  fixes E :: "('w, 'x) kmmEnv_scheme" and f :: "'w \<Rightarrow> 'b"
  assumes get_keep: "keeps f (peGet E key)"
    and crds_keep: "keeps f (peListCRDs E)"
    and status_keep: "keeps f (peUpdateStatus E cp)"
    and create_keep: "keeps f (peCreate E x)"
    and patch_keep: "keeps f (peCreateOrPatch E x)"
    and getDS_keep: "keeps f (peGetDaemonSet E ns n)"
    and patchDS_keep: "keeps f (peCreateOrPatchDaemonSet E ds m)"
    and getSCC_keep: "keeps f (oGetSCC E n)"
    and createSCC_keep: "keeps f (oCreateSCC E s)"
    and updateSCC_keep: "keeps f (oUpdateSCC E s)"
    and role_keep: "keeps f (oCreateOrPatchRole E cr)"
    and binding_keep: "keeps f (oCreateOrPatchBinding E crb)"
    and claims_keep: "keeps f (cListClaims E)"
    and getModule_keep: "keeps f (kmGetModule E ns n)"
    and patchModule_keep: "keeps f (kmCreateOrPatchModule E md mf)"
begin

lemmas keep_calls = keeps_return get_keep crds_keep status_keep create_keep patch_keep getDS_keep patchDS_keep
  getSCC_keep createSCC_keep updateSCC_keep role_keep binding_keep claims_keep getModule_keep patchModule_keep

lemma keeps_anyAllocated: "keeps f (anyAllocatedResourceClaims E d)"
  unfolding anyAllocatedResourceClaims_def by (intro keeps_bind keep_calls)

lemma keeps_createAll: "keeps f (createAll E xs)"
  by (induction xs) (auto intro!: keeps_bind keep_calls split: option.split)

lemma keeps_openShift: "keeps f (createOpenShiftResourcesIfNotExists E opts crn)"
  unfolding createOpenShiftResourcesIfNotExists_def EnsureSCC_def CreateSCCRole_def CreateSCCRoleBinding_def
  by (auto intro!: keeps_bind keep_calls split: option.split sum.split prod.split)

lemma keeps_deployDRA: "keeps f (deployDRA E opts cp)"
  unfolding deployDRA_def createDependencyComponentsIfMissing_def ensureDrmDeviceClass_def ensureVfioDeviceClass_def
    updateStatus_def
  by (auto intro!: keeps_bind keep_calls keeps_createAll split: option.split)

lemma keeps_ReconcileDRA:
  assumes "\<And>cp. keeps f (removeDeploymentIfExists E opts cp)"
  shows "keeps f (ReconcileDRA E opts cp)"
  unfolding ReconcileDRA_def
  by (auto intro!: keeps_bind keep_calls keeps_openShift keeps_deployDRA assms split: option.split prod.split)

lemma keeps_patchModule: "keeps f (patchModule E opts cp km name)"
  unfolding patchModule_def by (auto intro!: keeps_bind keep_calls split: prod.split)

end

section \<open>The finalizer goes last\<close>

text \<open>The sub-controllers ran in order and none reported an error.\<close>

fun succeedInOrder :: "'w subController list \<Rightarrow> policy option \<Rightarrow> 'w \<Rightarrow> policy option \<Rightarrow> 'w \<Rightarrow> bool" where
  "succeedInOrder [] cp w cp' w' \<longleftrightarrow> cp' = cp \<and> w' = w"
| "succeedInOrder (s # ss) cp w cp' w' \<longleftrightarrow>
     (\<exists>cp1 ret w1. run_state (s cp) w = ((cp1, ret, None), w1) \<and> succeedInOrder ss cp1 w1 cp' w')"

lemma deletionLoop_done:
  "run_state (deletionLoop subs cp) w = ((cp', None), w') \<longleftrightarrow> succeedInOrder subs cp w cp' w'"
proof (induction subs arbitrary: cp w)
  case (Cons s ss)
  obtain cp1 ret err w1 where "run_state (s cp) w = ((cp1, ret, err), w1)" by (metis prod.exhaust)
  then show ?case using Cons.IH by (cases err) auto
qed auto

text \<open>\<open>sent w\<close> lists the policies sent to the API server to be updated so far.\<close>

locale update_log =
  fixes E :: "('w, 'x) policyEnv_scheme" and sent :: "'w \<Rightarrow> policy list"
    and subControllers :: "ControllerOpts \<Rightarrow> string list \<Rightarrow> 'w subController list"
  assumes get_quiet: "keeps sent (peGet E key)"
    and crds_quiet: "keeps sent (peListCRDs E)"
    and status_quiet: "keeps sent (peUpdateStatus E cp)"
    and subs_quiet: "s \<in> set (subControllers opts crds) \<Longrightarrow> keeps sent (s pol)"
    and update_sends: "sent (snd (run_state (peUpdate E cp) w)) = sent w @ [cp]"
begin

lemma keeps_deletionLoop: "\<forall>s \<in> set subs. \<forall>pol. keeps sent (s pol) \<Longrightarrow> keeps sent (deletionLoop subs cp)"
  by (induction subs arbitrary: cp) (auto intro!: keeps_bind keeps_return split: prod.split option.split)

lemma keeps_delegationLoop:
  "\<forall>s \<in> set subs. \<forall>pol. keeps sent (s pol) \<Longrightarrow> keeps sent (delegationLoop subs cp err)"
  by (induction subs arbitrary: cp err) (auto intro!: keeps_bind keeps_return split: prod.split option.split)

text \<open>What one pass over an existing policy sends.\<close>

lemma deleting_sends:
  assumes "\<forall>s \<in> set subs. \<forall>pol. keeps sent (s pol)" "cpDeleting cp"
    and "run_state (reconcileExisting E subs cp) w = (r, w')"
  shows "sent w' = sent w \<and> \<not> (\<exists>cp' w1. succeedInOrder subs (Some cp) w cp' w1)
    \<or> (\<exists>cp' w1. succeedInOrder subs (Some cp) w cp' w1 \<and> sent w' = sent w @ [removePolicyFinalizer (the cp')])"
proof -
  obtain cp' stop w1 where d: "run_state (deletionLoop subs (Some cp)) w = ((cp', stop), w1)" by (metis prod.exhaust)
  have w1: "sent w1 = sent w" by (rule keepsD [OF keeps_deletionLoop [OF assms(1)] d])
  show ?thesis
  proof (cases stop)
    case None
    obtain u w2 where u: "run_state (peUpdate E (removePolicyFinalizer (the cp'))) w1 = (u, w2)" by fastforce
    have "sent w2 = sent w @ [removePolicyFinalizer (the cp')]"
      using update_sends [of "removePolicyFinalizer (the cp')" w1] u w1 by simp
    moreover have "w' = w2" using assms(2,3) d None u by (simp add: reconcileExisting_def)
    moreover have "succeedInOrder subs (Some cp) w cp' w1" using d None unfolding deletionLoop_done [symmetric] by simp
    ultimately show ?thesis by blast
  next
    case (Some res)
    have "\<not> (\<exists>cp' w1. succeedInOrder subs (Some cp) w cp' w1)"
      unfolding deletionLoop_done [symmetric] using d Some by simp
    moreover have "w' = w1" using assms(2,3) d Some by (simp add: reconcileExisting_def)
    ultimately show ?thesis using w1 by simp
  qed
qed

lemma live_sends:
  assumes "\<forall>s \<in> set subs. \<forall>pol. keeps sent (s pol)" "\<not> cpDeleting cp"
    and "run_state (reconcileExisting E subs cp) w = (r, w')"
  shows "sent w' = sent w \<or> sent w' = sent w @ [addPolicyFinalizer cp]"
proof -
  note loop = keepsD [OF keeps_delegationLoop [OF assms(1)]]
  show ?thesis
  proof (cases "clusterPolicyFinalizer \<in> set (cpFinalizers cp)")
    case True
    obtain x w1 where "run_state (delegationLoop subs (Some cp) None) w = (x, w1)" by fastforce
    then show ?thesis using assms(2,3) True loop by (auto simp: reconcileExisting_def split: prod.splits)
  next
    case False
    obtain u w1 where u: "run_state (peUpdate E (addPolicyFinalizer cp)) w = (u, w1)" by fastforce
    then have w1: "sent w1 = sent w @ [addPolicyFinalizer cp]" using update_sends [of "addPolicyFinalizer cp" w] by simp
    show ?thesis
    proof (cases u)
      case (Inl e)
      then show ?thesis using assms(2,3) False u w1 by (simp add: reconcileExisting_def)
    next
      case (Inr cp1)
      obtain x w2 where x: "run_state (delegationLoop subs (Some cp1) None) w1 = (x, w2)" by fastforce
      then have "w' = w2" using assms(2,3) False u Inr by (auto simp: reconcileExisting_def split: prod.splits)
      then show ?thesis using loop [OF x] w1 by simp
    qed
  qed
qed

end

text \<open>
  C34. The finalizer that protects a ClusterPolicy goes last. A pass sends a policy without the
  finalizer to the API server only when the policy read is being deleted and all sub-controllers, run
  in their order, have reported success on it; and when they have, it does send it. This holds
  whatever the API server answers and whatever the sub-controllers do, as long as they do not update
  the policy themselves.
\<close>

theorem finalizer_goes_last:
  assumes "update_log E sent subControllers" "run_state (peGet E key) w = (Inr cp, w1)"
    and "run_state (peListCRDs E) w1 = (Inr crds, w2)"
    and "run_state (ReconcilePolicy E opts subControllers key) w = (res, w')"
  shows "\<exists>new. sent w' = sent w @ new
    \<and> (\<forall>p \<in> set new. clusterPolicyFinalizer \<notin> set (cpFinalizers p) \<longrightarrow> cpDeleting cp
         \<and> (\<exists>cp' w3. succeedInOrder (subControllers (passOpts opts key) crds) (Some (clearErrors cp)) w2 cp' w3
              \<and> p = removePolicyFinalizer (the cp')))
    \<and> (\<forall>cp' w3. cpDeleting cp \<and> succeedInOrder (subControllers (passOpts opts key) crds) (Some (clearErrors cp)) w2 cp' w3
         \<longrightarrow> new = [removePolicyFinalizer (the cp')])"
proof -
  let ?subs = "subControllers (passOpts opts key) crds"
  obtain due cp1 r w3 where ex: "run_state (reconcileExisting E ?subs (clearErrors cp)) w2 = ((due, cp1, r), w3)"
    by (metis prod.exhaust)
  have w2: "sent w2 = sent w"
    using keepsD [OF update_log.get_quiet [OF assms(1)] assms(2)] keepsD [OF update_log.crds_quiet [OF assms(1)] assms(3)] by simp
  obtain x w4 where x: "run_state (peUpdateStatus E cp1) w3 = (x, w4)" by fastforce
  have "w' = w3 \<or> w' = w4" using assms(2-4) ex x by (auto simp: ReconcilePolicy_def split: if_splits)
  then have w': "sent w' = sent w3" using keepsD [OF update_log.status_quiet [OF assms(1)] x] by auto
  have quiet: "\<forall>s \<in> set ?subs. \<forall>pol. keeps sent (s pol)" using update_log.subs_quiet [OF assms(1)] by blast
  have fin: "clusterPolicyFinalizer \<in> set (cpFinalizers (addPolicyFinalizer q))" for q by (simp add: addPolicyFinalizer_def)
  have same: "succeedInOrder subs q v a u \<Longrightarrow> succeedInOrder subs q v b t \<Longrightarrow> a = b" for subs q v a u b t
    unfolding deletionLoop_done [symmetric] by simp
  show ?thesis
  proof (cases "cpDeleting cp")
    case True
    then have "cpDeleting (clearErrors cp)" by (simp add: clearErrors_def)
    from update_log.deleting_sends [OF assms(1) quiet this ex] show ?thesis
    proof (elim disjE conjE exE)
      assume "sent w3 = sent w2" "\<not> (\<exists>cp' w1. succeedInOrder ?subs (Some (clearErrors cp)) w2 cp' w1)"
      then show ?thesis using w2 w' by (intro exI [of _ "[]"]) auto
    next
      fix q v
      assume q: "succeedInOrder ?subs (Some (clearErrors cp)) w2 q v" and "sent w3 = sent w2 @ [removePolicyFinalizer (the q)]"
      then have all: "sent w' = sent w @ [removePolicyFinalizer (the q)]" using w2 w' by simp
      have "cp' = q" if "succeedInOrder ?subs (Some (clearErrors cp)) w2 cp' u" for cp' u
        by (rule same [OF that q])
      then have conv: "\<forall>cp' w3. cpDeleting cp \<and> succeedInOrder ?subs (Some (clearErrors cp)) w2 cp' w3
        \<longrightarrow> [removePolicyFinalizer (the q)] = [removePolicyFinalizer (the cp')]" by metis
      have "\<exists>cp' w3. succeedInOrder ?subs (Some (clearErrors cp)) w2 cp' w3
        \<and> removePolicyFinalizer (the q) = removePolicyFinalizer (the cp')" using q by blast
      then have "\<forall>p \<in> set [removePolicyFinalizer (the q)]. clusterPolicyFinalizer \<notin> set (cpFinalizers p) \<longrightarrow> cpDeleting cp
        \<and> (\<exists>cp' w3. succeedInOrder ?subs (Some (clearErrors cp)) w2 cp' w3 \<and> p = removePolicyFinalizer (the cp'))"
        using True unfolding list.set ball_simps by blast
      then show ?thesis using all conv by blast
    qed
  next
    case False
    then have "\<not> cpDeleting (clearErrors cp)" by (simp add: clearErrors_def)
    from update_log.live_sends [OF assms(1) quiet this ex] show ?thesis using w2 w' False fin by auto
  qed
qed

section \<open>The sub-controllers do not update the policy\<close>

locale policy_quiet = policy_calls E f for E :: "('w, 'x) kmmEnv_scheme" and f :: "'w \<Rightarrow> 'b" +
  assumes delete_keep: "keeps f (peDelete E x)"
    and deleteModule_keep: "keeps f (kmDeleteModule E md)"
begin

lemma quiet_deleteEach: "keeps f (deleteEach E xs)"
  by (induction xs) (auto intro!: keeps_bind keeps_return delete_keep split: option.split)

lemma quiet_DRA: "keeps f (ReconcileDRA E opts cp)"
proof (rule keeps_ReconcileDRA)
  fix cp show "keeps f (removeDeploymentIfExists E opts cp)"
    unfolding removeDeploymentIfExists_def deleteAll_def
    by (auto intro!: keeps_bind keeps_return keeps_anyAllocated quiet_deleteEach)
qed

lemma quiet_KMM: "keeps f (ReconcileKMM E opts cp)"
  unfolding ReconcileKMM_def deleteModuleIfExists_def recreateOnVersionToggle_def Let_def
  by (auto intro!: keeps_bind keeps_if keep_calls keeps_anyAllocated keeps_patchModule deleteModule_keep
      split: option.split sum.split prod.split)

end

text \<open>The calls of the other sub-controllers leave the policy alone too.\<close>

locale all_quiet = policy_quiet E f for E :: "('w, 'x) miscEnv_scheme" and f :: "'w \<Rightarrow> 'b" +
  assumes getSA_keep: "keeps f (oGetServiceAccount E ns n)" and createSA_keep: "keeps f (oCreateServiceAccount E ns n)"
    and osDelete_keep: "keeps f (oDelete E k ns n)"
    and cm_keep: "keeps f (xeGetConfigMap E ns n)" "keeps f (xeCreateConfigMap E cm)" "keeps f (xeUpdateConfigMap E cm)"
    and prom_keep: "keeps f (meListMonitors E ns ls)" "keeps f (meListServices E ns ls)"
    and nfd_keep: "keeps f (meGetCRDScope E n)" "keeps f (meGetNfdRule E ns n)" "keeps f (meUpdateNfdRule E nr)" "keeps f (meCreateNfdRule E nr)"
    and res_keep: "keeps f (meListAllocatable E)" "keeps f (meListSlices E)" "keeps f (meRange E rs)"
    and flavor_keep: "keeps f (meGetFlavor E n)" "keeps f (meCreateFlavor E fl)" "keeps f (meUpdateFlavor E fl)" "keeps f (meDeleteFlavors E ls)"
    and cq_keep: "keeps f (meGetClusterQueue E n)" "keeps f (meCreateClusterQueue E cq)" "keeps f (meUpdateClusterQueue E cq)"
      "keeps f (meDeleteClusterQueue E cq)" "keeps f (meListClusterQueues E ls)"
    and lq_keep: "keeps f (meGetLocalQueue E ns n)" "keeps f (meCreateLocalQueue E lq)" "keeps f (meUpdateLocalQueue E lq)"
      "keeps f (meDeleteLocalQueue E lq)" "keeps f (meListLocalQueues E ls)"
begin

lemmas all_calls = keep_calls delete_keep getSA_keep createSA_keep osDelete_keep cm_keep prom_keep nfd_keep res_keep flavor_keep cq_keep lq_keep

lemma quiet_thenTry: "keeps f a \<Longrightarrow> keeps f b \<Longrightarrow> keeps f (thenTry a b)"
  unfolding thenTry_def by (auto intro!: keeps_bind keeps_return split: option.split)

lemma quiet_tryEach: "(\<And>x. keeps f (g x)) \<Longrightarrow> keeps f (tryEach g xs)"
  by (induction xs) (auto intro: quiet_thenTry keeps_return)

lemma quiet_removeDaemonSet: "keeps f (removeDaemonSet E opts part name mark cp)"
  unfolding removeDaemonSet_def cleanupSCCQuadruple_def DeleteOpenShiftSCCResources_def
  by (auto intro!: keeps_bind keeps_if all_calls split: prod.split)

lemma quiet_quadruple: "keeps f (ensureSCCQuadruple E what part build ns crn)"
  unfolding ensureSCCQuadruple_def CreateServiceAccount_def EnsureSCC_def CreateSCCRole_def CreateSCCRoleBinding_def
  by (auto intro!: keeps_bind keeps_if all_calls split: prod.split option.split sum.split)

lemma quiet_status: "keeps f (daemonSetStatus E opts name mark cp)"
  unfolding daemonSetStatus_def by (intro keeps_bind all_calls)

lemma quiet_DP: "keeps f (ReconcileDP E opts cp)"
  unfolding ReconcileDP_def removeDevicePlugin_def updateDPStatus_def dpOpenShiftResources_def Let_def
  by (auto intro!: keeps_bind keeps_if all_calls quiet_removeDaemonSet quiet_quadruple quiet_status split: option.split prod.split)

lemma quiet_entries: "keeps f (generateXpumdConfigEntries E opts cp)"
  unfolding generateXpumdConfigEntries_def createOrUpdateOTelConfigMap_def fetchConfigHashFromConfigMap_def Let_def
  by (auto intro!: keeps_bind keeps_if all_calls split: option.split sum.split)

lemma quiet_XPUM: "keeps f (ReconcileXPUM E opts cp)"
  unfolding ReconcileXPUM_def removeXpum_def deployXpum_def updateXpumStatus_def xpumOpenShiftResources_def createMonitoringResourceClaim_def Let_def
  by (auto intro!: keeps_bind keeps_if all_calls quiet_removeDaemonSet quiet_quadruple quiet_status quiet_entries split: option.split prod.split sum.split)

lemma quiet_prometheus: "keeps f (reconcilePrometheusComponents E opts crds cp)" "keeps f (removePrometheusComponents E opts crds)"
  unfolding reconcilePrometheusComponents_def removePrometheusComponents_def deleteNamed_def Let_def
  by (auto intro!: keeps_bind keeps_if all_calls quiet_thenTry quiet_tryEach split: sum.split prod.split)

lemma quiet_nfd: "keeps f (reconcileNfdRules E opts cp)" "keeps f (removeNfdRules E opts)"
  unfolding reconcileNfdRules_def removeNfdRules_def getNFDCRDScope_def deleteNfdRule_def Let_def
  by (auto intro!: keeps_bind keeps_if all_calls split: sum.split)

lemma quiet_cleanup: "keeps f (cleanupStaleKueueQueues E owner sp)"
  unfolding cleanupStaleKueueQueues_def deleteStale_def
  by (auto intro!: keeps_bind all_calls quiet_thenTry quiet_tryEach split: sum.split)

lemma quiet_queues: "keeps f (ensureClusterQueue E owner rs cq)" "keeps f (modifyLocalQueues E owner cq)" "keeps f (modifyResourceFlavor E owner)"
  unfolding ensureClusterQueue_def modifyLocalQueues_def modifyLocalQueue_def modifyResourceFlavor_def Let_def
  by (auto intro!: keeps_bind keeps_if all_calls quiet_tryEach split: sum.split)

lemma quiet_kueue: "keeps f (reconcileKueueObjects E crds cp)" "keeps f (removeKueueObjects E crds n)"
  unfolding reconcileKueueObjects_def removeKueueObjects_def createKueueQueues_def modifyClusterQueue_def clusterResources_def getDraResources_def
  by (auto intro!: keeps_bind keeps_if all_calls quiet_thenTry quiet_tryEach quiet_cleanup quiet_queues split: sum.split option.split prod.split)

lemma quiet_Misc: "keeps f (ReconcileMisc E opts crds cp)"
  unfolding ReconcileMisc_def by (auto intro!: keeps_bind keeps_return quiet_prometheus quiet_nfd quiet_kueue quiet_thenTry)

lemma quiet_controllers: "s \<in> set (policyControllers E opts crds) \<Longrightarrow> keeps f (s pol)"
  unfolding policyControllers_def using quiet_DP quiet_XPUM quiet_DRA quiet_Misc quiet_KMM by auto

end

section \<open>The contracts on the in-memory server\<close>

interpretation memSent: all_quiet memPolicyEnv pmSent
  by unfold_locales (simp_all add: memPolicyEnv_calls memClient_def memStoreConfigMap_def keeps_def Let_def split: sum.split)

interpretation memRemoved: policy_calls memPolicyEnv pmRemoved
  by unfold_locales (simp_all add: memPolicyEnv_calls memClient_def memStoreConfigMap_def keeps_def Let_def split: sum.split)

interpretation memUpdateLog: update_log memPolicyEnv pmSent "policyControllers memPolicyEnv"
  by unfold_locales
     (auto simp: memSent.quiet_controllers memSent.get_keep memSent.crds_keep memSent.status_keep, simp add: memPolicyEnv_calls)

theorem finalizer_goes_last_witness:
  "\<exists>p. pmSent (snd (run_state (ReconcilePolicy memPolicyEnv defaultOpts (policyControllers memPolicyEnv) ''policy'') (policyWorld deletedPolicy))) = [p]
     \<and> clusterPolicyFinalizer \<notin> set (cpFinalizers p)"
proof -
  let ?w = "policyWorld deletedPolicy" and ?subs = "policyControllers memPolicyEnv (passOpts defaultOpts ''policy'') []"
  let ?run = "run_state (ReconcilePolicy memPolicyEnv defaultOpts (policyControllers memPolicyEnv) ''policy'') ?w"
  have get: "run_state (peGet memPolicyEnv ''policy'') ?w = (Inr deletedPolicy, ?w)"
    by (simp add: memPolicyEnv_calls policyWorld_def deletedPolicy_def plainPolicy_def)
  have crds: "run_state (peListCRDs memPolicyEnv) ?w = (Inr [], ?w)" by (simp add: memPolicyEnv_calls)
  have run: "?run = (fst ?run, snd ?run)" by simp
  let ?loop = "run_state (deletionLoop ?subs (Some (clearErrors deletedPolicy))) ?w"
  have "snd (fst ?loop) = None" by code_simp
  then have "?loop = ((fst (fst ?loop), None), snd ?loop)" by (metis prod.collapse)
  then have all: "succeedInOrder ?subs (Some (clearErrors deletedPolicy)) ?w (fst (fst ?loop)) (snd ?loop)"
    by (simp only: deletionLoop_done)
  have "cpDeleting deletedPolicy" by (simp add: deletedPolicy_def)
  then have "pmSent (snd ?run) = pmSent ?w @ [removePolicyFinalizer (the (fst (fst ?loop)))]"
    using finalizer_goes_last [OF memUpdateLog.update_log_axioms get crds run] all by metis
  then show ?thesis by (simp add: policyWorld_def removePolicyFinalizer_def)
qed

section \<open>Claims protect the driver\<close>

definition claimsFree :: "('w, 'x) client_scheme \<Rightarrow> 'w \<Rightarrow> bool" where
  "claimsFree C w \<longleftrightarrow> (\<exists>claims. fst (run_state (cListClaims C) w) = Inr claims \<and> (\<forall>c \<in> set claims. \<not> holdsDevice GPUDeviceClass c))"

lemma anyAllocated_free:
  "run_state (anyAllocatedResourceClaims C GPUDeviceClass) w = (False, w') \<Longrightarrow> claimsFree C w"
  by (auto simp: anyAllocatedResourceClaims_def claimsFree_def list_ex_iff split: prod.splits sum.splits)

context policy_calls
begin

lemma claims_unchanged:
  assumes "run_state (anyAllocatedResourceClaims E GPUDeviceClass) w = (held, w1)"
    and "held \<Longrightarrow> f w' = f w1" "f w' \<noteq> f w"
  shows "claimsFree E w"
  using assms keepsD [OF keeps_anyAllocated assms(1)] anyAllocated_free by (cases held) auto

lemma DRA_removal:
  assumes "run_state (ReconcileDRA E opts cp) w = (r, w')" "f w' \<noteq> f w"
  shows "claimsFree E w"
proof (cases "coDRAEnable opts \<and> shouldRemoveDRA cp")
  case True
  obtain held w1 where held: "run_state (anyAllocatedResourceClaims E GPUDeviceClass) w = (held, w1)" by fastforce
  have "held \<Longrightarrow> w' = w1" using assms(1) True held by (auto simp: ReconcileDRA_def removeDeploymentIfExists_def)
  then show ?thesis using claims_unchanged [OF held] assms(2) by blast
next
  case False
  then have "keeps f (ReconcileDRA E opts cp)"
    unfolding ReconcileDRA_def
    by (auto intro!: keeps_bind keeps_if keep_calls keeps_openShift keeps_deployDRA split: option.split prod.split)
  then show ?thesis using keepsD assms by metis
qed

lemma deleteModule_removal:
  assumes "run_state (deleteModuleIfExists E opts name cp) w = (r, w')" "f w' \<noteq> f w" "coDRAEnable opts"
  shows "claimsFree E (snd (run_state (kmGetModule E (coNamespace opts) name) w))"
proof -
  obtain g w1 where g: "run_state (kmGetModule E (coNamespace opts) name) w = (g, w1)" by fastforce
  have w1: "f w1 = f w" by (rule keepsD [OF getModule_keep g])
  obtain held w2 where held: "run_state (anyAllocatedResourceClaims E GPUDeviceClass) w1 = (held, w2)" by fastforce
  obtain md where md: "g = Inr md" using assms(1,2) g w1 by (cases g) (auto simp: deleteModuleIfExists_def)
  have "held \<Longrightarrow> w' = w2" using assms(1,3) g md held by (auto simp: deleteModuleIfExists_def)
  then have "claimsFree E w1" using claims_unchanged [OF held, of w'] assms(2) w1 by simp
  then show ?thesis using g by simp
qed

lemma recreate_removal:
  assumes "run_state (recreateOnVersionToggle E opts cp km name) w = (r, w')" "f w' \<noteq> f w" "coDRAEnable opts"
  shows "claimsFree E (snd (run_state (kmGetModule E (coNamespace opts) name) w))"
proof -
  obtain g w1 where g: "run_state (kmGetModule E (coNamespace opts) name) w = (g, w1)" by fastforce
  have w1: "f w1 = f w" by (rule keepsD [OF getModule_keep g])
  obtain held w2 where held: "run_state (anyAllocatedResourceClaims E GPUDeviceClass) w1 = (held, w2)" by fastforce
  obtain md where md: "g = Inr md" using assms(1,2) g w1 by (cases g) (auto simp: recreateOnVersionToggle_def)
  have "held \<Longrightarrow> w' = w2 \<or> w' = w1"
    using assms(1,3) g md held by (auto simp: recreateOnVersionToggle_def Let_def split: if_splits option.splits)
  moreover have "f w2 = f w1" by (rule keepsD [OF keeps_anyAllocated held])
  ultimately have "held \<Longrightarrow> f w' = f w2" by auto
  then have "claimsFree E w1" using claims_unchanged [OF held, of w'] assms(2) w1 by simp
  then show ?thesis using g by simp
qed

lemma KMM_removal:
  assumes "run_state (ReconcileKMM E opts cp) w = (r, w')" "f w' \<noteq> f w" "coDRAEnable opts"
  shows "claimsFree E (snd (run_state (kmGetModule E (coNamespace opts) (kmmModuleName (coReqName opts))) w))"
proof (cases "\<exists>c km. cp = Some c \<and> cpKernelModule (cpSpec c) = Some km")
  case False
  then have "run_state (deleteModuleIfExists E opts (kmmModuleName (coReqName opts)) cp) w = (r, w')"
    using assms(1,2) by (auto simp: ReconcileKMM_def Let_def split: if_splits option.splits)
  then show ?thesis using deleteModule_removal assms(2,3) by blast
next
  case True
  then obtain c km where c: "cp = Some c" "cpKernelModule (cpSpec c) = Some km" by blast
  obtain x w1 where x: "run_state (recreateOnVersionToggle E opts c km (kmmModuleName (coReqName opts))) w = (x, w1)" by fastforce
  have "f w' = f w1"
    using assms(1,2) c x keepsD [OF keeps_patchModule]
    by (auto simp: ReconcileKMM_def Let_def split: if_splits prod.splits)
  then have "f w1 \<noteq> f w" using assms(2) by simp
  then show ?thesis using recreate_removal [OF x _ assms(3)] by blast
qed

end

text \<open>
  C35. Claims protect the driver. A pass of the DRA sub-controller that deletes anything has first
  listed the ResourceClaims and found none that holds a GPU, and in a cluster with DRA the same is
  true of a pass of the KMM sub-controller that deletes the kernel module, whether to recreate it for
  a new version or for good; a listing that fails counts as a claim that holds one.
\<close>

theorem claims_protect_driver:
  assumes "policy_calls E removed"
  shows "(run_state (ReconcileDRA E opts cp) w = (r, w') \<and> removed w' \<noteq> removed w \<longrightarrow> claimsFree E w)
    \<and> (run_state (ReconcileKMM E opts cp) w = (s, v') \<and> coDRAEnable opts \<and> removed v' \<noteq> removed w
        \<longrightarrow> claimsFree E (snd (run_state (kmGetModule E (coNamespace opts) (kmmModuleName (coReqName opts))) w)))"
  using policy_calls.DRA_removal [OF assms] policy_calls.KMM_removal [OF assms] by blast

theorem claims_protect_driver_witness:
  "claimsFree memPolicyEnv (policyWorld deletedPolicy)"
proof -
  let ?w = "policyWorld deletedPolicy"
  let ?run = "run_state (ReconcileDRA memPolicyEnv defaultOpts (Some deletedPolicy)) ?w"
  have run: "?run = (fst ?run, snd ?run)" by simp
  have "pmRemoved (snd ?run) \<noteq> pmRemoved ?w" by code_simp
  then show ?thesis using conjunct1 [OF claims_protect_driver [OF memRemoved.policy_calls_axioms]] run by blast
qed

section \<open>Requeues of sub-controllers that report no error\<close>

text \<open>
  A sub-controller that asks to be called again without an error is not heard: the reconciler looks
  at the time to come back only together with an error.
\<close>

lemma plain_requeue_dropped:
  "run_state (delegationLoop [\<lambda>cp. State_Monad.return (cp, Some delay, None)] cp None) w = ((cp, Inr None), w)"
  by simp

text \<open>The list of errors in the status keeps one more entry than its bound says.\<close>

lemma recordError_length: "length (csErrors (cpStatus (recordError e cp))) \<le> Suc maxKeptErrors"
  by (simp add: recordError_def onStatus_def)

end
