(* ===== verification/XpumGuarantees.thy ===== *)
theory XpumGuarantees
  imports PolicyWorld PolicyAdmission
begin

text \<open>
  What the sub-controllers that deploy DaemonSets promise: applying their update twice is applying it
  once, the collector finds every secret and file its configuration refers to, and the hash on the
  pods is the hash of the configuration they mount.
\<close>

section \<open>Updates settle\<close>

text \<open>Replacing the entries of one key, as \<^verbatim>\<open>slices.DeleteFunc\<close> with the \<^verbatim>\<open>append\<close> after it does.\<close>

definition replaceKey :: "('a \<Rightarrow> string) \<Rightarrow> string \<Rightarrow> 'a list \<Rightarrow> 'a list \<Rightarrow> 'a list" where
  "replaceKey key n new xs = filter (\<lambda>x. key x \<noteq> n) xs @ new"

definition setKey :: "('a \<Rightarrow> string) \<Rightarrow> string \<Rightarrow> ('a \<Rightarrow> 'a) \<Rightarrow> 'a \<Rightarrow> 'a list \<Rightarrow> 'a list" where
  "setKey key n f x xs = map (\<lambda>y. if key y = n then f y else y) xs @ (if list_ex (\<lambda>y. key y = n) xs then [] else [x])"

lemma setKey_present:
  assumes "key x = n" "\<And>y. key (f y) = key y"
  shows "list_ex (\<lambda>y. key y = n) (setKey key n f x xs)"
proof (cases "list_ex (\<lambda>y. key y = n) xs")
  case True
  then obtain y where "y \<in> set xs" "key y = n" by (auto simp: list_ex_iff)
  then have "f y \<in> set (setKey key n f x xs)" "key (f y) = n" using assms(2) by (auto simp: setKey_def)
  then show ?thesis unfolding list_ex_iff by blast
next
  case False
  then show ?thesis using assms(1) by (simp add: setKey_def)
qed

lemma setKey_fixed:
  assumes "list_ex (\<lambda>y. key y = n) ys" "\<forall>y \<in> set ys. key y = n \<longrightarrow> f y = y"
  shows "setKey key n f x ys = ys"
  using assms by (auto simp: setKey_def map_idI)

text \<open>
  Four keys replaced in turn after a fifth was set: the shape of the volumes and of the mounts.
\<close>

lemma replaceKeys_settle:
  assumes "distinct [n, a, b, c, d]" "key x = n" "f x = x" "\<And>y. f (f y) = f y" "\<And>y. key (f y) = key y"
    and "\<forall>x \<in> set as. key x = a" "\<forall>x \<in> set bs. key x = b" "\<forall>x \<in> set cs. key x = c" "\<forall>x \<in> set ds. key x = d"
  shows "(let g = (\<lambda>xs. replaceKey key d ds (replaceKey key c cs (replaceKey key b bs (replaceKey key a as (setKey key n f x xs)))))
          in g (g xs) = g xs)"
proof -
  let ?g = "\<lambda>xs. replaceKey key d ds (replaceKey key c cs (replaceKey key b bs (replaceKey key a as xs)))"
  let ?new = "as @ bs @ cs @ ds"
  have g: "?g ys = filter (\<lambda>y. key y \<notin> {a, b, c, d}) ys @ ?new" for ys
  proof -
    have drop: "filter (\<lambda>y. key y \<noteq> m) zs = zs" if "\<forall>y \<in> set zs. key y = k" "k \<noteq> m" for m k zs
      using that by (auto simp: filter_id_conv)
    have e: "filter (\<lambda>y. key y \<noteq> b) as = as" "filter (\<lambda>y. key y \<noteq> c) as = as" "filter (\<lambda>y. key y \<noteq> d) as = as"
      "filter (\<lambda>y. key y \<noteq> c) bs = bs" "filter (\<lambda>y. key y \<noteq> d) bs = bs" "filter (\<lambda>y. key y \<noteq> d) cs = cs"
      using assms by (auto intro: drop)
    show ?thesis by (simp add: replaceKey_def e conj_ac)
  qed
  let ?zs = "?g (setKey key n f x xs)"
  have "list_ex (\<lambda>y. key y = n) (setKey key n f x xs)" by (rule setKey_present [OF assms(2,5)])
  then have "list_ex (\<lambda>y. key y = n) ?zs" using assms(1) unfolding g by (auto simp: list_ex_iff)
  moreover have "\<forall>y \<in> set (setKey key n f x xs). key y = n \<longrightarrow> f y = y" using assms(3-5) by (auto simp: setKey_def)
  then have "\<forall>y \<in> set ?zs. key y = n \<longrightarrow> f y = y" using assms(1,6-9) unfolding g by auto
  ultimately have fixed: "setKey key n f x ?zs = ?zs" by (rule setKey_fixed)
  have "?g ?zs = ?zs" unfolding g using assms(6-9) by (auto simp: filter_empty_conv)
  then show ?thesis using fixed by (simp add: Let_def)
qed

lemma volume_names: "distinct [xpumdConfigVolume, crashlogVolume, tracefsVolume, otlpCAVolume, otlpClientCertVolume]"
  by (simp add: xpumdConfigVolume_def crashlogVolume_def tracefsVolume_def otlpCAVolume_def otlpClientCertVolume_def)

text \<open>What the update does to the volumes, and to the mounts and variables of the xpumd container.\<close>

definition xpumVolumes :: "policy \<Rightarrow> string \<Rightarrow> volume list \<Rightarrow> volume list" where
  "xpumVolumes cp cm vs =
     (let xspec = cpXPU (cpSpec cp); new = (\<lambda>n src. case src of None \<Rightarrow> [] | Some x \<Rightarrow> [\<lparr>volName = n, volSource = x\<rparr>])
      in replaceKey volName otlpClientCertVolume (new otlpClientCertVolume (clientCertSource cp))
          (replaceKey volName otlpCAVolume (new otlpCAVolume (caSource cp))
            (replaceKey volName tracefsVolume (new tracefsVolume (if xmInfoLogs xspec then Some (HostPathSource tracefsHostDir (Some ''Directory'')) else None))
              (replaceKey volName crashlogVolume (new crashlogVolume (if xmCrashLog xspec then Some (HostPathSource crashlogHostDir (Some ''DirectoryOrCreate'')) else None))
                (setKey volName xpumdConfigVolume (volSource_update (\<lambda>_. volSource (configVolume cm))) (configVolume cm) vs)))))"

definition xpumMounts :: "policy \<Rightarrow> volumeMount list \<Rightarrow> volumeMount list" where
  "xpumMounts cp ms =
     (let xspec = cpXPU (cpSpec cp); new = (\<lambda>n on path ro. if on then [\<lparr>vmName = n, vmPath = path, vmReadOnly = ro\<rparr>] else [])
      in replaceKey vmName otlpClientCertVolume (new otlpClientCertVolume (clientCertSource cp \<noteq> None) otlpClientCertMountDir True)
          (replaceKey vmName otlpCAVolume (new otlpCAVolume (caSource cp \<noteq> None) otlpCAMountDir True)
            (replaceKey vmName tracefsVolume (new tracefsVolume (xmInfoLogs xspec) tracefsHostDir False)
              (replaceKey vmName crashlogVolume (new crashlogVolume (xmCrashLog xspec) crashlogHostDir True)
                (setKey vmName xpumdConfigVolume (\<lambda>m. m\<lparr>vmPath := otelConfigMountDir, vmReadOnly := True\<rparr>) configMount ms)))))"

lemma xpumVolumes_settle: "xpumVolumes cp cm (xpumVolumes cp cm vs) = xpumVolumes cp cm vs"
  unfolding xpumVolumes_def Let_def
  by (rule replaceKeys_settle [OF volume_names, unfolded Let_def]) (auto simp: configVolume_def split: option.splits)

lemma xpumMounts_settle: "xpumMounts cp (xpumMounts cp ms) = xpumMounts cp ms"
  unfolding xpumMounts_def Let_def
  by (rule replaceKeys_settle [OF volume_names, unfolded Let_def]) (auto simp: configMount_def)

definition xpumContainer :: "policy \<Rightarrow> string \<Rightarrow> dsContainer \<Rightarrow> dsContainer" where
  "xpumContainer cp draClaim c =
     (let c1 = c\<lparr>dcImage := xmImage (cpXPU (cpSpec cp))\<rparr>
      in if dcName c = xpumdContainerName
         then c1\<lparr>dcMounts := xpumMounts cp (dcMounts c), dcEnv := setHeaderEnv (headerEnv cp) (dcEnv c),
                 dcLimits := monitoringLimits cp draClaim (dcLimits c), dcRequests := monitoringLimits cp draClaim (dcRequests c),
                 dcClaims := (if draClaim = '''' then [] else [monClaim])\<rparr>
         else c1)"

definition xpumContainers :: "ControllerOpts \<Rightarrow> policy \<Rightarrow> string \<Rightarrow> dsContainer list \<Rightarrow> dsContainer list" where
  "xpumContainers opts cp draClaim cs =
     (if coOpenShift opts then onFirstContainer (dcSELinuxType_update (\<lambda>_. Some ''spc_t'')) else id) (map (xpumContainer cp draClaim) cs)"

lemma setXpumdVolume_parts:
  "dsetVolumes (setXpumdVolume n src path ro ds) =
     replaceKey volName n (case src of None \<Rightarrow> [] | Some x \<Rightarrow> [\<lparr>volName = n, volSource = x\<rparr>]) (dsetVolumes ds)"
  "dsetContainers (setXpumdVolume n src path ro ds) = map (\<lambda>c. if dcName c = xpumdContainerName
     then c\<lparr>dcMounts := replaceKey vmName n (if src \<noteq> None then [\<lparr>vmName = n, vmPath = path, vmReadOnly = ro\<rparr>] else []) (dcMounts c)\<rparr>
     else c) (dsetContainers ds)"
  by (simp_all add: setXpumdVolume_def onXpumd_def replaceKey_def cong: if_cong)

text \<open>The steps of the update on the containers, one lemma each.\<close>

lemma resources_containers:
  "dsetContainers (processContainerResources cp draClaim ds) = map (\<lambda>c. if dcName c = xpumdContainerName
     then c\<lparr>dcImage := xmImage (cpXPU (cpSpec cp)), dcLimits := monitoringLimits cp draClaim (dcLimits c),
            dcRequests := monitoringLimits cp draClaim (dcRequests c), dcClaims := (if draClaim = '''' then [] else [monClaim])\<rparr>
     else c\<lparr>dcImage := xmImage (cpXPU (cpSpec cp))\<rparr>) (dsetContainers ds)"
  by (simp add: processContainerResources_def onXpumd_def)

lemma configMap_containers:
  "dsetContainers (processXpumdConfigMapMount cm ds) = map (\<lambda>c. if dcName c = xpumdContainerName
     then c\<lparr>dcMounts := setKey vmName xpumdConfigVolume (\<lambda>m. m\<lparr>vmPath := otelConfigMountDir, vmReadOnly := True\<rparr>) configMount (dcMounts c)\<rparr>
     else c) (dsetContainers ds)"
  by (simp add: processXpumdConfigMapMount_def onXpumd_def setConfigMount_def setKey_def cong: if_cong)

lemma env_containers:
  "dsetContainers (onXpumd (dcEnv_update f) ds) = map (\<lambda>c. if dcName c = xpumdContainerName
     then c\<lparr>dcEnv := f (dcEnv c)\<rparr> else c) (dsetContainers ds)"
  by (simp add: onXpumd_def cong: if_cong)

lemmas xpum_steps = processXpumdOTLP_def processXpumdLogMounts_def setXpumdHostPathMount_def Let_def

lemma steps_containers:
  "dsetContainers (processXpumdOTLP cp (processXpumdLogMounts cp (processXpumdConfigMapMount cm (processContainerResources cp draClaim ds))))
     = map (xpumContainer cp draClaim) (dsetContainers ds)"
  unfolding xpum_steps env_containers setXpumdVolume_parts configMap_containers resources_containers list.map_comp
proof (rule map_cong [OF refl], goal_cases)
  case (1 c)
  show ?case by (cases "dcName c = xpumdContainerName") (simp_all add: xpumContainer_def xpumMounts_def)
qed

lemma steps_volumes:
  "dsetVolumes (processXpumdOTLP cp (processXpumdLogMounts cp (processXpumdConfigMapMount cm (processContainerResources cp draClaim ds))))
     = xpumVolumes cp cm (dsetVolumes ds)"
  unfolding xpum_steps xpumVolumes_def
  by (simp add: setXpumdVolume_parts onXpumd_def processXpumdConfigMapMount_def processContainerResources_def setConfigVolume_def setKey_def
      cong: if_cong)

lemma updateXpum_rest:
  "updateXpumDaemonSet opts cp draClaim cm hash ds =
     ds\<lparr>dsetName := xpumDaemonSetName (cpName cp), dsetNamespace := coNamespace opts,
        dsetLabels := [(xpuLabel, xpuValue), (ownerKey, cpName cp)], dsetAnnotations := [(otelConfigHashKey, hash)],
        dsetServiceAccount := (if coOpenShift opts then cpName cp @ ''-'' @ xpumResourcePart @ ''-sa'' else dsetServiceAccount ds),
        dsetContainers := xpumContainers opts cp draClaim (dsetContainers ds),
        dsetNodeSelector := generateNodeSelector cp opts, dsetTolerations := generateTolerations cp,
        dsetAffinity := generateAffinity (xmAffinity (cpXPU (cpSpec cp))), dsetVolumes := xpumVolumes cp cm (dsetVolumes ds),
        dsetPullSecrets := pullSecrets opts cp,
        dsetResourceClaims := (if draClaim \<noteq> '''' then [(monClaim, draClaim)] else [])\<rparr>"
  by (rule daemonSet.equality)
     (simp_all add: updateXpumDaemonSet_def openShiftXpum_def BuildOpenShiftNames_def xpumContainers_def steps_containers steps_volumes Let_def,
      simp_all add: xpum_steps processXpumdConfigMapMount_def processContainerResources_def onXpumd_def setXpumdVolume_def)

lemma headerEnv_names: "e \<in> set (headerEnv cp) \<Longrightarrow> hasPrefix (evName e) otlpHeaderEnvPrefix"
  by (auto simp: headerEnv_def otlpHeaderEnvName_def hasPrefix_def split: option.splits)

lemma setHeaderEnv_settle: "setHeaderEnv (headerEnv cp) (setHeaderEnv (headerEnv cp) es) = setHeaderEnv (headerEnv cp) es"
  using headerEnv_names by (auto simp: setHeaderEnv_def filter_empty_conv)

lemma update_new: "k \<notin> fst ` set xs \<Longrightarrow> AList.update k v xs = xs @ [(k, v)]"
  by (induction xs) auto

lemma update_filter_settle:
  "AList.update k v (filter (\<lambda>(r, _). keep r) (AList.update k v (filter (\<lambda>(r, _). keep r) xs))) = AList.update k v (filter (\<lambda>(r, _). keep r) xs)"
proof (cases "keep k")
  case True
  then have "filter (\<lambda>(r, _). keep r) (AList.update k v ys) = AList.update k v ys" if "\<forall>(r, _) \<in> set ys. keep r" for ys
    using that by (induction ys) auto
  then have "filter (\<lambda>(r, _). keep r) (AList.update k v (filter (\<lambda>(r, _). keep r) xs)) = AList.update k v (filter (\<lambda>(r, _). keep r) xs)"
    by auto
  then show ?thesis by (simp add: AList.update_triv AList.update_conv')
next
  case False
  then have "k \<notin> fst ` set (filter (\<lambda>(r, _). keep r) xs)" by auto
  then show ?thesis using False by (simp add: update_new)
qed

lemma monitoringLimits_settle: "monitoringLimits cp draClaim (monitoringLimits cp draClaim rs) = monitoringLimits cp draClaim rs"
proof (cases "draClaim = ''''")
  case True
  show ?thesis unfolding monitoringLimits_def removePrevMonitoring_def if_P [OF True] by (rule update_filter_settle)
qed (simp add: monitoringLimits_def removePrevMonitoring_def case_prod_unfold)

lemma xpumContainer_settle: "xpumContainer cp draClaim (xpumContainer cp draClaim c) = xpumContainer cp draClaim c"
  by (simp add: xpumContainer_def Let_def xpumMounts_settle setHeaderEnv_settle monitoringLimits_settle)

lemma onFirst_settle:
  assumes "\<And>c. g (g c) = g c" "\<And>c. f (f c) = f c" "\<And>c. g (f c) = f (g c)"
  shows "onFirstContainer f (map g (onFirstContainer f (map g cs))) = onFirstContainer f (map g cs)"
  using assms by (cases cs) (simp_all add: onFirstContainer_def)

lemma xpumContainers_settle: "xpumContainers opts cp draClaim (xpumContainers opts cp draClaim cs) = xpumContainers opts cp draClaim cs"
proof (cases "coOpenShift opts")
  case True
  then show ?thesis unfolding xpumContainers_def
    by (simp, intro onFirst_settle) (simp_all add: xpumContainer_settle, simp add: xpumContainer_def Let_def)
qed (simp add: xpumContainers_def xpumContainer_settle)

lemma updateXpum_settle:
  "updateXpumDaemonSet opts cp draClaim cm hash (updateXpumDaemonSet opts cp draClaim cm hash ds) = updateXpumDaemonSet opts cp draClaim cm hash ds"
  by (simp add: updateXpum_rest xpumVolumes_settle xpumContainers_settle)

text \<open>A DaemonSet without two volumes, mounts or ports of the same name, as the templates and the API server have them.\<close>

definition orderlyContainer :: "dsContainer \<Rightarrow> bool" where
  "orderlyContainer c \<longleftrightarrow> distinct (map vmName (dcMounts c)) \<and> distinct (map fst (dcPorts c))"

definition orderlyDaemonSet :: "daemonSet \<Rightarrow> bool" where
  "orderlyDaemonSet ds \<longleftrightarrow> distinct (map volName (dsetVolumes ds)) \<and> list_all orderlyContainer (dsetContainers ds)"

lemma update_again: "AList.update k v (AList.update k v xs) = AList.update k v xs"
  by (simp add: AList.update_triv AList.update_conv')

lemma deleteFirst_gone:
  "distinct (map key xs) \<Longrightarrow> deleteFirst (\<lambda>x. key x = n) (deleteFirst (\<lambda>x. key x = n) xs) = deleteFirst (\<lambda>x. key x = n) xs"
proof (induction xs)
  case (Cons x xs)
  have "deleteFirst (\<lambda>x. key x = n) ys = ys" if "n \<notin> key ` set ys" for ys using that by (induction ys) auto
  with Cons show ?case by auto
qed simp

lemma removePort_gone: "distinct (map fst ps) \<Longrightarrow> \<not> list_ex (\<lambda>p. fst p = ''healthcheck'') (removePort ps)"
  by (induction ps) (auto simp: list_ex_iff, force)

lemma healthCheck_settle:
  "addHealthCheckIfMissing port (addHealthCheckIfMissing port c) = addHealthCheckIfMissing port c"
  "orderlyContainer c \<Longrightarrow> removeHealthCheckIfExists (removeHealthCheckIfExists c) = removeHealthCheckIfExists c"
  by (simp_all add: addHealthCheckIfMissing_def removeHealthCheckIfExists_def orderlyContainer_def removePort_gone)

lemma setHostPath_again: "setHostPath n p (setHostPath n p vs) = setHostPath n p vs"
  by (auto simp: setHostPath_def comp_def split: volumeSource.splits)

lemma setHostPath_swap: "n \<noteq> m \<Longrightarrow> setHostPath n p (setHostPath m q vs) = setHostPath m q (setHostPath n p vs)"
  by (auto simp: setHostPath_def comp_def split: volumeSource.splits)

lemma setHostPath_names: "map volName (setHostPath n p vs) = map volName vs"
  by (auto simp: setHostPath_def comp_def split: volumeSource.splits)

lemma cdi_volumes: "draDynamicCDIVolume \<noteq> draStaticCDIVolume"
  by (simp add: draDynamicCDIVolume_def draStaticCDIVolume_def)

lemma onFirst_again:
  "list_all P cs \<Longrightarrow> (\<And>c. P c \<Longrightarrow> f (f c) = f c) \<Longrightarrow> onFirstContainer f (onFirstContainer f cs) = onFirstContainer f cs"
  by (cases cs) (simp_all add: onFirstContainer_def)

lemma updateDRA_settle:
  assumes "orderlyDaemonSet ds"
  shows "updateDaemonSetObject opts cp (updateDaemonSetObject opts cp ds) = updateDaemonSetObject opts cp ds"
proof -
  let ?f = "\<lambda>c. let c1 = c\<lparr>dcImage := draImage (cpDRA (cpSpec cp)), dcArgs := generateArgs cp\<rparr>;
      c2 = (if draPodHealthCheck (cpDRA (cpSpec cp)) then addHealthCheckIfMissing healthCheckPort c1 else removeHealthCheckIfExists c1)
    in if coOpenShift opts then c2\<lparr>dcSELinuxType := Some ''spc_t''\<rparr> else c2"
  have "?f (?f c) = ?f c" if "orderlyContainer c" for c
    using that by (simp add: Let_def addHealthCheckIfMissing_def removeHealthCheckIfExists_def orderlyContainer_def removePort_gone)
  then have "onFirstContainer ?f (onFirstContainer ?f (dsetContainers ds)) = onFirstContainer ?f (dsetContainers ds)"
    using assms by (intro onFirst_again [of orderlyContainer]) (auto simp: orderlyDaemonSet_def)
  moreover have "setHostPath draDynamicCDIVolume p (setHostPath draStaticCDIVolume q
      (setHostPath draDynamicCDIVolume p (setHostPath draStaticCDIVolume q vs)))
    = setHostPath draDynamicCDIVolume p (setHostPath draStaticCDIVolume q vs)" for p q vs
    by (metis setHostPath_again setHostPath_swap cdi_volumes)
  ultimately show ?thesis unfolding updateDaemonSetObject_def Let_def by (simp add: update_again)
qed

text \<open>What the device plugin's update does to the volumes and to the first container.\<close>

definition hasXpumd :: "volume list \<Rightarrow> bool" where
  "hasXpumd vs = list_ex (\<lambda>v. volName v = xpumdVolumeName) vs"

definition dpVolumes :: "policy \<Rightarrow> volume list \<Rightarrow> volume list" where
  "dpVolumes cp vs =
     (let ws = setHostPath dpCDIVolume (cdiDynamicHostPath (WithDefaults (cpCDI (cpSpec cp)))) vs
      in if cpResourceMonitoring (cpSpec cp) then (if hasXpumd vs then ws else ws @ [xpumdVolume])
         else deleteFirst (\<lambda>v. volName v = xpumdVolumeName) ws)"

definition dpContainer :: "policy \<Rightarrow> bool \<Rightarrow> dsContainer \<Rightarrow> dsContainer" where
  "dpContainer cp has c = c\<lparr>dcImage := dpPluginImage (cpDP (cpSpec cp)), dcArgs := dpArgs cp,
     dcMounts := (if cpResourceMonitoring (cpSpec cp) then (if has then dcMounts c else dcMounts c @ [xpumdMount])
                  else deleteFirst (\<lambda>m. vmName m = xpumdVolumeName) (dcMounts c))\<rparr>"

lemma hasXpumd_setHostPath: "hasXpumd (setHostPath n p vs) = hasXpumd vs"
  unfolding hasXpumd_def setHostPath_def by (induction vs) (auto split: volumeSource.splits)

lemma onFirst_comp: "onFirstContainer f (onFirstContainer g cs) = onFirstContainer (\<lambda>c. f (g c)) cs"
  by (cases cs) (simp_all add: onFirstContainer_def)

lemma addXpumdMounts_eq:
  "addXpumdMounts ds = ds\<lparr>dsetVolumes := (if hasXpumd (dsetVolumes ds) then dsetVolumes ds else dsetVolumes ds @ [xpumdVolume]),
     dsetContainers := onFirstContainer
       (\<lambda>c. c\<lparr>dcMounts := (if hasXpumd (dsetVolumes ds) then dcMounts c else dcMounts c @ [xpumdMount])\<rparr>) (dsetContainers ds)\<rparr>"
  by (cases "dsetContainers ds") (simp_all add: addXpumdMounts_def hasXpumd_def onFirstContainer_def)

lemma updateDP_rest:
  "updateDpDaemonSet opts cp ds =
     ds\<lparr>dsetName := dpDaemonSetName (cpName cp), dsetNamespace := coNamespace opts,
        dsetLabels := AList.update ownerKey (cpName cp) (dsetLabels ds),
        dsetServiceAccount := (if coOpenShift opts then cpName cp @ ''-'' @ dpResourcePart @ ''-sa'' else dsetServiceAccount ds),
        dsetContainers := onFirstContainer (dpContainer cp (hasXpumd (dsetVolumes ds))) (dsetContainers ds),
        dsetNodeSelector := generateNodeSelector cp opts, dsetTolerations := generateTolerations cp,
        dsetAffinity := generateAffinity (dpAffinity (cpDP (cpSpec cp))), dsetVolumes := dpVolumes cp (dsetVolumes ds),
        dsetPullSecrets := pullSecrets opts cp\<rparr>"
  unfolding updateDpDaemonSet_def Let_def BuildOpenShiftNames_def dpVolumes_def
  by (rule daemonSet.equality)
     (simp_all add: addXpumdMounts_eq removeXpumdMounts_def hasXpumd_setHostPath onFirst_comp dpContainer_def [abs_def] cong: if_cong)

lemma dpVolumes_settle:
  assumes "distinct (map volName vs)"
  shows "dpVolumes cp (dpVolumes cp vs) = dpVolumes cp vs"
    and "cpResourceMonitoring (cpSpec cp) \<Longrightarrow> hasXpumd (dpVolumes cp vs)"
proof -
  let ?h = "setHostPath dpCDIVolume (cdiDynamicHostPath (WithDefaults (cpCDI (cpSpec cp))))"
  let ?gone = "deleteFirst (\<lambda>v. volName v = xpumdVolumeName)"
  have "dpCDIVolume \<noteq> xpumdVolumeName" by (simp add: dpCDIVolume_def xpumdVolumeName_def)
  then have app: "?h (ws @ [xpumdVolume]) = ?h ws @ [xpumdVolume]" for ws by (simp add: setHostPath_def xpumdVolume_def)
  have new: "hasXpumd (ws @ [xpumdVolume])" for ws by (simp add: hasXpumd_def xpumdVolume_def)
  have gone: "?h (?gone ws) = ?gone (?h ws)" for ws by (induction ws) (auto simp: setHostPath_def split: volumeSource.splits)
  have "distinct (map volName (?h vs))" using assms by (simp add: setHostPath_names)
  then show "dpVolumes cp (dpVolumes cp vs) = dpVolumes cp vs"
    by (simp add: dpVolumes_def Let_def hasXpumd_setHostPath app new gone setHostPath_again deleteFirst_gone)
  show "cpResourceMonitoring (cpSpec cp) \<Longrightarrow> hasXpumd (dpVolumes cp vs)"
    by (simp add: dpVolumes_def Let_def hasXpumd_setHostPath new)
qed

lemma updateDP_settle:
  assumes "orderlyDaemonSet ds"
  shows "updateDpDaemonSet opts cp (updateDpDaemonSet opts cp ds) = updateDpDaemonSet opts cp ds"
proof -
  have vols: "distinct (map volName (dsetVolumes ds))" using assms by (simp add: orderlyDaemonSet_def)
  have "dpContainer cp (hasXpumd (dpVolumes cp (dsetVolumes ds))) (dpContainer cp h c) = dpContainer cp h c" if "orderlyContainer c" for c h
    using dpVolumes_settle(2) [OF vols] that
    by (cases "cpResourceMonitoring (cpSpec cp)") (simp_all add: dpContainer_def deleteFirst_gone orderlyContainer_def)
  then have "onFirstContainer (dpContainer cp (hasXpumd (dpVolumes cp (dsetVolumes ds)))) (onFirstContainer (dpContainer cp h) (dsetContainers ds))
      = onFirstContainer (dpContainer cp h) (dsetContainers ds)" for h
    using assms by (cases "dsetContainers ds") (simp_all add: onFirstContainer_def orderlyDaemonSet_def)
  then show ?thesis by (simp add: updateDP_rest dpVolumes_settle(1) [OF vols] update_again)
qed

text \<open>
  C36. Updates settle. What the three sub-controllers that own a DaemonSet make of it is a fixed point of
  their update: when the DRA driver's, the device plugin's or the XPU manager's update is applied to a
  DaemonSet it has been applied to, nothing changes, so that a pass over an unchanged policy patches
  nothing and no pod is replaced. For the XPU manager this holds of every DaemonSet, although it takes
  its volumes, mounts, variables and resources out and appends them again; for the other two of those
  whose volumes, mounts and ports have distinct names.
\<close>

theorem daemonset_updates_settle:
  assumes "orderlyDaemonSet ds"
  shows "updateXpumDaemonSet opts cp draClaim cm hash (updateXpumDaemonSet opts cp draClaim cm hash ds) = updateXpumDaemonSet opts cp draClaim cm hash ds
    \<and> updateDaemonSetObject opts cp (updateDaemonSetObject opts cp ds) = updateDaemonSetObject opts cp ds
    \<and> updateDpDaemonSet opts cp (updateDpDaemonSet opts cp ds) = updateDpDaemonSet opts cp ds"
  using updateXpum_settle updateDRA_settle [OF assms] updateDP_settle [OF assms] by blast

theorem daemonset_updates_settle_witness:
  "updateXpumDaemonSet defaultOpts plainPolicy '''' ''cm'' ''h'' (updateXpumDaemonSet defaultOpts plainPolicy '''' ''cm'' ''h'' xpumTemplate)
     = updateXpumDaemonSet defaultOpts plainPolicy '''' ''cm'' ''h'' xpumTemplate
   \<and> map_of (dcLimits (hd (dsetContainers (updateXpumDaemonSet defaultOpts plainPolicy '''' ''cm'' ''h'' xpumTemplate)))) ''gpu.intel.com/monitoring'' = Some ''1''"
proof -
  have "orderlyDaemonSet xpumTemplate" by (simp add: orderlyDaemonSet_def orderlyContainer_def xpumTemplate_def)
  moreover have "map_of (dcLimits (hd (dsetContainers (updateXpumDaemonSet defaultOpts plainPolicy '''' ''cm'' ''h'' xpumTemplate)))) ''gpu.intel.com/monitoring'' = Some ''1''"
    by code_simp
  ultimately show ?thesis
    using daemonset_updates_settle [of xpumTemplate defaultOpts plainPolicy "''''" "''cm''" "''h''"] by blast
qed

section \<open>The collector finds what its configuration refers to\<close>

lemma filter_replaceKey:
  assumes "\<forall>x \<in> set new. key x = n"
  shows "filter (\<lambda>x. key x = m) (replaceKey key n new xs) = (if m = n then new else filter (\<lambda>x. key x = m) xs)"
proof -
  have "filter (\<lambda>x. key x = n) new = new" "m \<noteq> n \<Longrightarrow> filter (\<lambda>x. key x = m) new = []"
    using assms by (auto simp: filter_id_conv filter_empty_conv)
  moreover have "m \<noteq> n \<Longrightarrow> filter (\<lambda>x. key x \<noteq> n \<and> key x = m) xs = filter (\<lambda>x. key x = m) xs" by (rule filter_cong) auto
  ultimately show ?thesis by (simp add: replaceKey_def)
qed

lemma xpum_otlp_volumes:
  "filter (\<lambda>v. volName v = otlpCAVolume) (xpumVolumes cp cm vs) = (case caSource cp of None \<Rightarrow> [] | Some x \<Rightarrow> [\<lparr>volName = otlpCAVolume, volSource = x\<rparr>])"
  "filter (\<lambda>v. volName v = otlpClientCertVolume) (xpumVolumes cp cm vs) =
     (case clientCertSource cp of None \<Rightarrow> [] | Some x \<Rightarrow> [\<lparr>volName = otlpClientCertVolume, volSource = x\<rparr>])"
  using volume_names unfolding xpumVolumes_def Let_def by (auto simp: filter_replaceKey split: option.split)

lemma xpumVolumes_config:
  "(\<exists>v \<in> set (xpumVolumes cp cm vs). volName v = xpumdConfigVolume)
    \<and> (\<forall>v \<in> set (xpumVolumes cp cm vs). volName v = xpumdConfigVolume \<longrightarrow> volSource v = ConfigMapSource cm [] 272)"
proof -
  let ?set = "setKey volName xpumdConfigVolume (volSource_update (\<lambda>_. volSource (configVolume cm))) (configVolume cm) vs"
  have "filter (\<lambda>v. volName v = xpumdConfigVolume) (xpumVolumes cp cm vs) = filter (\<lambda>v. volName v = xpumdConfigVolume) ?set"
    using volume_names unfolding xpumVolumes_def Let_def by (auto simp: filter_replaceKey split: option.split)
  then have "v \<in> set (xpumVolumes cp cm vs) \<and> volName v = xpumdConfigVolume \<longleftrightarrow> v \<in> set ?set \<and> volName v = xpumdConfigVolume" for v
    by (metis (mono_tags, lifting) mem_Collect_eq set_filter)
  moreover have "list_ex (\<lambda>v. volName v = xpumdConfigVolume) ?set" by (rule setKey_present) (simp_all add: configVolume_def)
  moreover have "v \<in> set ?set \<Longrightarrow> volName v = xpumdConfigVolume \<Longrightarrow> volSource v = ConfigMapSource cm [] 272" for v
    by (auto simp: setKey_def configVolume_def split: if_splits)
  ultimately show ?thesis unfolding list_ex_iff by blast
qed

lemma xpum_otlp_mounts:
  "filter (\<lambda>m. vmName m = otlpCAVolume) (xpumMounts cp ms) =
     (if caSource cp \<noteq> None then [\<lparr>vmName = otlpCAVolume, vmPath = otlpCAMountDir, vmReadOnly = True\<rparr>] else [])"
  "filter (\<lambda>m. vmName m = otlpClientCertVolume) (xpumMounts cp ms) =
     (if clientCertSource cp \<noteq> None then [\<lparr>vmName = otlpClientCertVolume, vmPath = otlpClientCertMountDir, vmReadOnly = True\<rparr>] else [])"
  using volume_names unfolding xpumMounts_def Let_def by (auto simp: filter_replaceKey)

lemma filter_enumerate: "i < length xs \<Longrightarrow> filter (\<lambda>p. fst p = k + i) (enumerate k xs) = [(k + i, xs ! i)]"
proof (induction xs arbitrary: i k)
  case (Cons x xs)
  have "p \<in> set (enumerate (Suc k) xs) \<Longrightarrow> fst p \<noteq> k" for p by (auto simp: in_set_enumerate_eq)
  then show ?case using Cons.IH [of "i - 1" "Suc k"] Cons.prems by (cases i) (auto simp: filter_empty_conv)
qed simp

lemma header_env_unique:
  assumes "exporterSpec cp = Some ex" "i < length (oeHeaders ex)"
  shows "filter (\<lambda>e. evName e = otlpHeaderEnvName i) (setHeaderEnv (headerEnv cp) es)
    = [\<lparr>evName = otlpHeaderEnvName i, evSource = EnvSecretKey (ohValueFrom (oeHeaders ex ! i))\<rparr>]"
proof -
  have "hasPrefix (otlpHeaderEnvName i) otlpHeaderEnvPrefix" by (simp add: otlpHeaderEnvName_def hasPrefix_def)
  then have "filter (\<lambda>e. \<not> hasPrefix (evName e) otlpHeaderEnvPrefix \<and> evName e = otlpHeaderEnvName i) es = []"
    by (auto simp: filter_empty_conv)
  moreover have name: "otlpHeaderEnvName j = otlpHeaderEnvName i \<longleftrightarrow> j = i" for j by (simp add: otlpHeaderEnvName_def natStr_inject)
  have "filter (\<lambda>e. evName e = otlpHeaderEnvName i) (headerEnv cp)
    = map (\<lambda>(i, h). \<lparr>evName = otlpHeaderEnvName i, evSource = EnvSecretKey (ohValueFrom h)\<rparr>) (filter (\<lambda>p. fst p = i) (enumerate 0 (oeHeaders ex)))"
    using assms(1) by (simp add: headerEnv_def filter_map comp_def case_prod_unfold name)
  ultimately show ?thesis using filter_enumerate [of i "oeHeaders ex" 0] assms(2) by (simp add: setHeaderEnv_def)
qed

lemma header_fold_other:
  "n \<notin> ohName ` set hs \<Longrightarrow> map_of (fold (\<lambda>(i, h). AList.update (ohName h) (g i)) (enumerate k hs) acc) n = map_of acc n"
  by (induction hs arbitrary: k acc) (auto simp: AList.update_conv')

lemma header_fold:
  "distinct (map ohName hs) \<Longrightarrow> i < length hs \<Longrightarrow>
     map_of (fold (\<lambda>(i, h). AList.update (ohName h) (g i)) (enumerate k hs) acc) (ohName (hs ! i)) = Some (g (k + i))"
proof (induction hs arbitrary: i k acc)
  case (Cons h hs)
  show ?case
  proof (cases i)
    case 0
    then show ?thesis using Cons.prems by (simp add: header_fold_other AList.update_conv')
  next
    case (Suc j)
    then show ?thesis using Cons.prems Cons.IH [of j "Suc k"] by simp
  qed
qed simp

lemma header_fold_keys:
  "fst ` set (fold (\<lambda>(i, h). AList.update (ohName h) (g i)) (enumerate k hs) acc) = fst ` set acc \<union> ohName ` set hs"
  by (induction hs arbitrary: k acc) (auto simp: AList.dom_update)

text \<open>
  The file at a path is in exactly one volume of the DaemonSet, made from a given source that projects
  it, and the container mounts that volume once, read-only and at the directory of the path.
\<close>

definition projectedFiles :: "volumeSource \<Rightarrow> string list" where
  "projectedFiles src = (case src of ConfigMapSource _ items _ \<Rightarrow> map snd items | SecretSource _ items _ \<Rightarrow> map snd items | _ \<Rightarrow> [])"

definition mountsFile :: "daemonSet \<Rightarrow> dsContainer \<Rightarrow> volumeSource \<Rightarrow> string \<Rightarrow> bool" where
  "mountsFile ds c src path \<longleftrightarrow> (\<exists>n dir file. filter (\<lambda>v. volName v = n) (dsetVolumes ds) = [\<lparr>volName = n, volSource = src\<rparr>]
     \<and> filter (\<lambda>m. vmName m = n) (dcMounts c) = [\<lparr>vmName = n, vmPath = dir, vmReadOnly = True\<rparr>]
     \<and> file \<in> set (projectedFiles src) \<and> path = dir @ ''/'' @ file)"

lemma xpumContainer_of:
  assumes "c \<in> set (dsetContainers (updateXpumDaemonSet opts cp draClaim cm hash ds))" "dcName c = xpumdContainerName"
  shows "\<exists>c0 :: dsContainer. dcMounts c = xpumMounts cp (dcMounts c0) \<and> dcEnv c = setHeaderEnv (headerEnv cp) (dcEnv c0)"
proof -
  have "c \<in> set (xpumContainers opts cp draClaim (dsetContainers ds))" using assms(1) by (simp add: updateXpum_rest)
  then have "\<exists>c0 \<in> set (dsetContainers ds). c = xpumContainer cp draClaim c0
      \<or> c = (xpumContainer cp draClaim c0)\<lparr>dcSELinuxType := Some ''spc_t''\<rparr>"
    by (cases "dsetContainers ds") (auto simp: xpumContainers_def onFirstContainer_def split: if_splits)
  then obtain c0 where "c = xpumContainer cp draClaim c0 \<or> c = (xpumContainer cp draClaim c0)\<lparr>dcSELinuxType := Some ''spc_t''\<rparr>" by blast
  then have "dcName c0 = dcName c" "dcMounts c = dcMounts (xpumContainer cp draClaim c0)" "dcEnv c = dcEnv (xpumContainer cp draClaim c0)"
    by (auto simp: xpumContainer_def Let_def)
  then show ?thesis using assms(2) by - (rule exI [of _ c0], simp add: xpumContainer_def)
qed

lemma exporter_files:
  assumes "exporterSpec cp = Some ex" "oeTLS ex = Some t"
    and "dcMounts c = xpumMounts cp ms" "dsetVolumes ds = xpumVolumes cp cm vs"
  shows "otCA t = Some ca \<Longrightarrow> mountsFile ds c (ConfigMapSource (ksName ca) [(ksKey ca, otlpCAFile)] 292) (etCAFile (exporterTLS t))"
    and "otClientCertSecret t = Some s \<Longrightarrow>
      mountsFile ds c (SecretSource s [(TLSCertKey, TLSCertKey), (TLSPrivateKeyKey, TLSPrivateKeyKey)] 256) (etCertFile (exporterTLS t))
      \<and> mountsFile ds c (SecretSource s [(TLSCertKey, TLSCertKey), (TLSPrivateKeyKey, TLSPrivateKeyKey)] 256) (etKeyFile (exporterTLS t))"
proof -
  assume "otCA t = Some ca"
  then show "mountsFile ds c (ConfigMapSource (ksName ca) [(ksKey ca, otlpCAFile)] 292) (etCAFile (exporterTLS t))"
    using assms xpum_otlp_volumes(1) [of cp cm vs] xpum_otlp_mounts(1) [of cp ms]
    unfolding mountsFile_def by - (rule exI [of _ otlpCAVolume], simp add: caSource_def projectedFiles_def exporterTLS_def noTLS_def)
next
  assume "otClientCertSecret t = Some s"
  then show "mountsFile ds c (SecretSource s [(TLSCertKey, TLSCertKey), (TLSPrivateKeyKey, TLSPrivateKeyKey)] 256) (etCertFile (exporterTLS t))
      \<and> mountsFile ds c (SecretSource s [(TLSCertKey, TLSCertKey), (TLSPrivateKeyKey, TLSPrivateKeyKey)] 256) (etKeyFile (exporterTLS t))"
    using assms xpum_otlp_volumes(2) [of cp cm vs] xpum_otlp_mounts(2) [of cp ms]
    unfolding mountsFile_def
    by - (intro conjI; rule exI [of _ otlpClientCertVolume]; simp add: clientCertSource_def projectedFiles_def exporterTLS_def noTLS_def)
qed

lemma accepted_exporter:
  assumes "xmOTLP (cpXPU (cpSpec cp)) = Some x" "acceptableOTLP L x"
  shows "\<exists>name ex grpc. otlpExporter (cpXPU (cpSpec cp)) = Some (name, ex) \<and> name = (if grpc then otlpGRPCExporter else otlpHTTPExporter)
    \<and> acceptableExporter L grpc ex"
  using assms unfolding acceptableOTLP_def otlpExporter_def by (auto intro: exI [of _ True] exI [of _ False])

text \<open>What is relied on of \<^verbatim>\<open>url.Parse\<close>: a URL that begins with http:// has that scheme.\<close>

definition parsesPlain :: "policyLib \<Rightarrow> bool" where
  "parsesPlain L \<longleftrightarrow> (\<forall>s u. libURLParse L s = Inr u \<and> hasPrefix s ''http://'' \<longrightarrow> urlScheme u = ''http'')"

lemma accepted_tls:
  assumes "acceptableExporter L grpc ex" "oeTLS ex = Some t" "parsesPlain L"
    and "otCA t \<noteq> None \<or> otClientCertSecret t \<noteq> None"
  shows "eoTLS (buildOTLPExporterConfig ex) = Some (exporterTLS t)"
proof -
  obtain u where "libURLParse L (oeEndpoint ex) = Inr u" "urlScheme u \<noteq> ''http''"
    using assms(1,2) by (auto simp: acceptableExporter_def acceptableTLS_def)
  then have "\<not> hasPrefix (oeEndpoint ex) ''http://''" using assms(3) unfolding parsesPlain_def by blast
  moreover have "exporterTLS t \<noteq> noTLS"
    using assms(4) by (auto simp: exporterTLS_def noTLS_def otlpCAMountDir_def otlpClientCertMountDir_def split: if_splits)
  ultimately show ?thesis using assms(2) by (simp add: buildOTLPExporterConfig_def)
qed

lemma configured_exporter:
  assumes "otlpExporter (cpXPU (cpSpec cp)) = Some (name, ex)" "name = (if grpc then otlpGRPCExporter else otlpHTTPExporter)"
  shows "(if grpc then exOTLPGRPC else exOTLPHTTP) (ocExporters (otelConfigFor base cp)) = Some (buildOTLPExporterConfig ex)"
    and "name \<in> set (plExporters (svMetricsPipeline (ocService (otelConfigFor base cp))))"
  using assms
  by (simp_all add: otelConfigFor_def configHealth_def configOTLP_def otlpGRPCExporter_def otlpHTTPExporter_def appendMissing_def Let_def split: option.split)

text \<open>
  C37. The collector finds what its configuration refers to, and no secret is in the configuration. For
  an OTLP export the webhook accepts, with \<^verbatim>\<open>url.Parse\<close> giving an endpoint that begins with http://
  that scheme: the exporter is configured and in the metrics pipeline; the value of every header is a
  reference to an environment variable that every xpumd container of the updated DaemonSet has exactly
  once, taken from the key of the Secret the policy gives for that header, and there are no other
  headers; and the files of the CA and of the client certificate that the configuration names are in
  volumes made from the ConfigMap and the Secret of the policy and mounted where the paths say.
\<close>

theorem otlp_config_resolves:
  assumes "xmOTLP (cpXPU (cpSpec cp)) = Some x" "acceptableOTLP L x"
    and "parsesPlain L"
    and "ds' = updateXpumDaemonSet opts cp draClaim cm hash ds" "c \<in> set (dsetContainers ds')" "dcName c = xpumdContainerName"
  shows "\<exists>ex grpc e. (if grpc then otlpGRPC else otlpHTTP) x = Some ex
    \<and> (if grpc then exOTLPGRPC else exOTLPHTTP) (ocExporters (otelConfigFor base cp)) = Some e
    \<and> (if grpc then otlpGRPCExporter else otlpHTTPExporter) \<in> set (plExporters (svMetricsPipeline (ocService (otelConfigFor base cp))))
    \<and> eoEndpoint e = oeEndpoint ex \<and> dom (map_of (eoHeaders e)) = ohName ` set (oeHeaders ex)
    \<and> (\<forall>i < length (oeHeaders ex). map_of (eoHeaders e) (ohName (oeHeaders ex ! i)) = Some (''${env:'' @ otlpHeaderEnvName i @ ''}'')
         \<and> filter (\<lambda>v. evName v = otlpHeaderEnvName i) (dcEnv c)
             = [\<lparr>evName = otlpHeaderEnvName i, evSource = EnvSecretKey (ohValueFrom (oeHeaders ex ! i))\<rparr>])
    \<and> (\<forall>t ca. oeTLS ex = Some t \<and> otCA t = Some ca \<longrightarrow> (\<exists>et. eoTLS e = Some et
         \<and> mountsFile ds' c (ConfigMapSource (ksName ca) [(ksKey ca, otlpCAFile)] 292) (etCAFile et)))
    \<and> (\<forall>t s. oeTLS ex = Some t \<and> otClientCertSecret t = Some s \<longrightarrow> (\<exists>et. eoTLS e = Some et
         \<and> mountsFile ds' c (SecretSource s [(TLSCertKey, TLSCertKey), (TLSPrivateKeyKey, TLSPrivateKeyKey)] 256) (etCertFile et)
         \<and> mountsFile ds' c (SecretSource s [(TLSCertKey, TLSCertKey), (TLSPrivateKeyKey, TLSPrivateKeyKey)] 256) (etKeyFile et)))"
proof -
  obtain name ex grpc where e: "otlpExporter (cpXPU (cpSpec cp)) = Some (name, ex)" "name = (if grpc then otlpGRPCExporter else otlpHTTPExporter)"
    "acceptableExporter L grpc ex" using accepted_exporter [OF assms(1,2)] by blast
  have x: "(if grpc then otlpGRPC else otlpHTTP) x = Some ex"
    using e(1,2) assms(1) by (auto simp: otlpExporter_def otlpGRPCExporter_def otlpHTTPExporter_def split: option.splits if_splits)
  have spec: "exporterSpec cp = Some ex" using e(1) by (simp add: exporterSpec_def)
  have dist: "distinct (map ohName (oeHeaders ex))" using e(3) unfolding acceptableExporter_def by (metis distinct_map list.map_comp)
  obtain c0 :: dsContainer where c0: "dcMounts c = xpumMounts cp (dcMounts c0)" "dcEnv c = setHeaderEnv (headerEnv cp) (dcEnv c0)"
    using xpumContainer_of [OF assms(5) [unfolded assms(4)] assms(6)] by blast
  have vols: "dsetVolumes ds' = xpumVolumes cp cm (dsetVolumes ds)" using assms(4) by (simp add: updateXpum_rest)
  have "dom (map_of (eoHeaders (buildOTLPExporterConfig ex))) = ohName ` set (oeHeaders ex)"
    by (simp add: buildOTLPExporterConfig_def dom_map_of_conv_image_fst header_fold_keys)
  moreover have "map_of (eoHeaders (buildOTLPExporterConfig ex)) (ohName (oeHeaders ex ! i)) = Some (''${env:'' @ otlpHeaderEnvName i @ ''}'')"
    if "i < length (oeHeaders ex)" for i
    using header_fold [OF dist that, of headerReference 0] by (simp add: buildOTLPExporterConfig_def headerReference_def)
  moreover note header_env_unique [OF spec, of _ "dcEnv c0", folded c0(2)]
  moreover note exporter_files [OF spec _ c0(1) vols]
  moreover note accepted_tls [OF e(3) _ assms(3)]
  moreover have "eoEndpoint (buildOTLPExporterConfig ex) = oeEndpoint ex" by (simp add: buildOTLPExporterConfig_def)
  ultimately show ?thesis
    using x configured_exporter [OF e(1,2), of base] e(2)
    by (intro exI [of _ ex] exI [of _ grpc] exI [of _ "buildOTLPExporterConfig ex"]) simp
qed

text \<open>A library in which every name is fine and an endpoint without http:// is an https URL.\<close>

definition easyLib :: policyLib where
  "easyLib = \<lparr>libParseNormalizedNamed = (\<lambda>_. None), libDNS1123Subdomain = (\<lambda>_. []), libDNS1123Label = (\<lambda>_. []), libConfigMapKey = (\<lambda>_. []),
     libURLParse = (\<lambda>s. Inr \<lparr>urlScheme = (if hasPrefix s ''http://'' then ''http'' else ''https''), urlHost = ''gateway'', urlUser = False\<rparr>),
     libRegexpCompile = (\<lambda>_. None)\<rparr>"

definition exportSpec :: OTLPSpec where
  "exportSpec = \<lparr>otlpHTTP = Some \<lparr>oeEndpoint = ''https://gateway:4318'',
       oeHeaders = [\<lparr>ohName = ''Authorization'', ohValueFrom = \<lparr>ksName = ''gateway-token'', ksKey = ''token''\<rparr>\<rparr>],
       oeTLS = Some \<lparr>otCA = Some \<lparr>ksName = ''gateway-ca'', ksKey = ''bundle''\<rparr>, otClientCertSecret = None, otServerName = '''', otInsecureSkipVerify = False\<rparr>\<rparr>,
     otlpGRPC = None\<rparr>"

definition exportPolicy :: policy where
  "exportPolicy = plainPolicy\<lparr>cpSpec := (cpSpec plainPolicy)\<lparr>cpXPU := (cpXPU (cpSpec plainPolicy))\<lparr>xmOTLP := Some exportSpec\<rparr>\<rparr>\<rparr>"

theorem otlp_config_resolves_witness:
  "\<exists>c. dsetContainers (updateXpumDaemonSet defaultOpts exportPolicy '''' ''cm'' ''h'' xpumTemplate) = [c]
     \<and> filter (\<lambda>v. evName v = ''OTLP_HEADER_0'') (dcEnv c)
         = [\<lparr>evName = ''OTLP_HEADER_0'', evSource = EnvSecretKey \<lparr>ksName = ''gateway-token'', ksKey = ''token''\<rparr>\<rparr>]"
proof -
  let ?ds = "updateXpumDaemonSet defaultOpts exportPolicy '''' ''cm'' ''h'' xpumTemplate"
  have cs: "dsetContainers ?ds = [hd (dsetContainers ?ds)]" and name: "dcName (hd (dsetContainers ?ds)) = xpumdContainerName" by code_simp+
  have otlp: "xmOTLP (cpXPU (cpSpec exportPolicy)) = Some exportSpec" by (simp add: exportPolicy_def)
  have ok: "acceptableOTLP easyLib exportSpec"
    by (simp add: acceptableOTLP_def exportSpec_def acceptableExporter_def acceptableTLS_def acceptableHeader_def acceptableKey_def easyLib_def hasPrefix_def)
  have parse: "parsesPlain easyLib" by (auto simp: easyLib_def parsesPlain_def)
  have hd: "hd (dsetContainers ?ds) \<in> set (dsetContainers ?ds)" using cs by (metis list.set_intros(1))
  obtain ex grpc where ex: "(if grpc then otlpGRPC else otlpHTTP) exportSpec = Some ex"
    and env: "\<forall>i < length (oeHeaders ex). filter (\<lambda>v. evName v = otlpHeaderEnvName i) (dcEnv (hd (dsetContainers ?ds)))
             = [\<lparr>evName = otlpHeaderEnvName i, evSource = EnvSecretKey (ohValueFrom (oeHeaders ex ! i))\<rparr>]"
    using otlp_config_resolves [where base = smallConfig, OF otlp ok parse refl hd name]
    by (elim exE conjE) blast
  have "oeHeaders ex = [\<lparr>ohName = ''Authorization'', ohValueFrom = \<lparr>ksName = ''gateway-token'', ksKey = ''token''\<rparr>\<rparr>]"
    using ex by (auto simp: exportSpec_def split: if_splits)
  moreover have "otlpHeaderEnvName 0 = ''OTLP_HEADER_0''" by code_simp
  ultimately show ?thesis using env cs by fastforce
qed

section \<open>The pods carry the hash of their configuration\<close>

text \<open>
  What the API server keeps: ConfigMaps and DaemonSets by namespace and name. A call that succeeds has
  stored what it was given; \<^verbatim>\<open>CreateOrPatch\<close> applies the function to the object it finds, or to the one
  it was given when there is none. Nothing is assumed of calls that fail.
\<close>

definition cmHolds :: "configMap option \<Rightarrow> string \<Rightarrow> bool" where
  "cmHolds x data \<longleftrightarrow> (\<exists>cm. x = Some cm \<and> (case cmEntry cm of None \<Rightarrow> '''' | Some d \<Rightarrow> d) = data)"

locale xpum_store =
  fixes E :: "('w, 'x) xpumEnv_scheme" and cms :: "'w \<Rightarrow> string \<times> string \<Rightarrow> configMap option" and dsets :: "'w \<Rightarrow> string \<times> string \<Rightarrow> daemonSet option"
  assumes get_reads: "run_state (xeGetConfigMap E ns n) w = (Inr cm, w') \<Longrightarrow> cms w (ns, n) = Some cm \<and> cmNamespace cm = ns \<and> cmName cm = n"
    and get_keeps: "keeps cms (xeGetConfigMap E ns n)"
    and create_stores: "run_state (xeCreateConfigMap E cm) w = (None, w') \<Longrightarrow> cms w' (cmNamespace cm, cmName cm) = Some cm"
    and update_stores: "run_state (xeUpdateConfigMap E cm) w = (None, w') \<Longrightarrow> cms w' (cmNamespace cm, cmName cm) = Some cm"
    and patch_keeps: "keeps cms (peCreateOrPatchDaemonSet E ds f)"
    and patch_stores: "run_state (peCreateOrPatchDaemonSet E ds f) w = (None, w') \<Longrightarrow> \<exists>d. dsets w' (dsetNamespace ds, dsetName ds) = Some (f d)"
    and getDS_keeps: "keeps (\<lambda>w. (cms w, dsets w)) (peGetDaemonSet E ns n)"
begin

lemma createOrUpdate_holds:
  assumes "run_state (createOrUpdateOTelConfigMap E opts cp name) w = (Inr hash, w')"
  shows "\<exists>data. buildOTelConfigData (xeMarshal E) (xeOTelConfig E) cp = Inr data \<and> hash = otelConfigHash data \<and> cmHolds (cms w' (coNamespace opts, name)) data"
proof -
  obtain data where d: "buildOTelConfigData (xeMarshal E) (xeOTelConfig E) cp = Inr data"
    using assms by (auto simp: createOrUpdateOTelConfigMap_def split: sum.splits)
  obtain r w1 where r: "run_state (xeGetConfigMap E (coNamespace opts) name) w = (r, w1)" by fastforce
  have "hash = otelConfigHash data \<and> cmHolds (cms w' (coNamespace opts, name)) data"
  proof (cases r)
    case (Inl e)
    then have "run_state (xeCreateConfigMap E (newConfigMap opts cp name data)) w1 = (None, w') \<and> hash = otelConfigHash data"
      using assms d r by (auto simp: createOrUpdateOTelConfigMap_def split: if_splits option.splits prod.splits)
    then show ?thesis using create_stores by (fastforce simp: cmHolds_def newConfigMap_def cmEntry_def)
  next
    case (Inr cm)
    have cm: "cms w1 (coNamespace opts, name) = Some cm" "cmNamespace cm = coNamespace opts" "cmName cm = name"
      using get_reads r keepsD [OF get_keeps r] Inr by auto
    show ?thesis
    proof (cases "(case cmEntry cm of None \<Rightarrow> '''' | Some d \<Rightarrow> d) = data")
      case True
      then show ?thesis using assms d r Inr cm by (auto simp: createOrUpdateOTelConfigMap_def cmHolds_def)
    next
      case False
      then obtain es where "cmData cm = Some es \<and> run_state (xeUpdateConfigMap E (cm\<lparr>cmData := Some (AList.update otelConfigMapKey data es)\<rparr>)) w1 = (None, w')
        \<and> hash = otelConfigHash data"
        using assms d r Inr by (auto simp: createOrUpdateOTelConfigMap_def split: option.splits prod.splits)
      then show ?thesis using update_stores cm(2,3) by (fastforce simp: cmHolds_def cmEntry_def AList.update_conv')
    qed
  qed
  then show ?thesis using d by blast
qed

lemma fetch_holds:
  assumes "run_state (fetchConfigHashFromConfigMap E opts name) w = (Inr hash, w')"
  shows "\<exists>data. hash = otelConfigHash data \<and> cmHolds (cms w' (coNamespace opts, name)) data"
proof -
  obtain r w1 where r: "run_state (xeGetConfigMap E (coNamespace opts) name) w = (r, w1)" by fastforce
  then obtain cm where cm: "r = Inr cm" "w' = w1" using assms by (auto simp: fetchConfigHashFromConfigMap_def split: sum.splits)
  have "cms w' (coNamespace opts, name) = Some cm" using get_reads r keepsD [OF get_keeps r] cm by simp
  then show ?thesis using assms r cm by (auto simp: fetchConfigHashFromConfigMap_def cmHolds_def split: option.splits sum.splits)
qed

lemma entries_hold:
  assumes "run_state (generateXpumdConfigEntries E opts cp) w = (Inr (cm, hash), w')"
  shows "\<exists>data. hash = otelConfigHash data \<and> cmHolds (cms w' (coNamespace opts, cm)) data
    \<and> (if xmConfigMapOverride (cpXPU (cpSpec cp)) = ''''
       then cm = cpName cp @ ''-xpumanager-otel-config'' \<and> buildOTelConfigData (xeMarshal E) (xeOTelConfig E) cp = Inr data
       else cm = xmConfigMapOverride (cpXPU (cpSpec cp)))"
proof (cases "xmConfigMapOverride (cpXPU (cpSpec cp)) = ''''")
  case True
  then have "cm = cpName cp @ ''-xpumanager-otel-config'' \<and> run_state (createOrUpdateOTelConfigMap E opts cp cm) w = (Inr hash, w')"
    using assms by (auto simp: generateXpumdConfigEntries_def Let_def split: sum.splits prod.splits)
  then show ?thesis using True createOrUpdate_holds by fastforce
next
  case False
  then have "cm = xmConfigMapOverride (cpXPU (cpSpec cp)) \<and> run_state (fetchConfigHashFromConfigMap E opts cm) w = (Inr hash, w')"
    using assms by (auto simp: generateXpumdConfigEntries_def Let_def split: sum.splits prod.splits)
  then show ?thesis using False fetch_holds by fastforce
qed

lemma deploy_current:
  assumes "run_state (deployXpum E opts cp) w = ((cp', None), w')"
  shows "\<exists>cm data d. cmHolds (cms w' (coNamespace opts, cm)) data
    \<and> dsets w' (coNamespace opts, xpumDaemonSetName (cpName cp)) = Some (updateXpumDaemonSet opts cp (xpumClaimName opts cp) cm (otelConfigHash data) d)
    \<and> (if xmConfigMapOverride (cpXPU (cpSpec cp)) = ''''
       then cm = cpName cp @ ''-xpumanager-otel-config'' \<and> buildOTelConfigData (xeMarshal E) (xeOTelConfig E) cp = Inr data
       else cm = xmConfigMapOverride (cpXPU (cpSpec cp)))"
proof -
  let ?claim = "xpumClaimName opts cp"
  obtain r w1 where r: "run_state (generateXpumdConfigEntries E opts cp) w = (r, w1)" by fastforce
  then obtain cm hash where ch: "r = Inr (cm, hash)" using assms by (cases r) (auto simp: deployXpum_def)
  obtain p w2 where p: "run_state (peCreateOrPatchDaemonSet E (buildXpumDaemonSet E opts cp ?claim cm hash) (updateXpumDaemonSet opts cp ?claim cm hash)) w1 = (p, w2)"
    by fastforce
  have none: "p = None" and st: "run_state (updateXpumStatus E opts cp) w2 = ((cp', None), w')"
    using assms r ch p by (auto simp: deployXpum_def split: option.splits)
  obtain g where "run_state (peGetDaemonSet E (coNamespace opts) (xpumDaemonSetName (cpName cp))) w2 = (g, w')"
    using st by (auto simp: updateXpumStatus_def daemonSetStatus_def split: prod.splits)
  then have same: "cms w' = cms w2" "dsets w' = dsets w2" using keepsD [OF getDS_keeps] by fastforce+
  have "cms w2 = cms w1" by (rule keepsD [OF patch_keeps p])
  moreover obtain data where "hash = otelConfigHash data" "cmHolds (cms w1 (coNamespace opts, cm)) data"
    "if xmConfigMapOverride (cpXPU (cpSpec cp)) = ''''
       then cm = cpName cp @ ''-xpumanager-otel-config'' \<and> buildOTelConfigData (xeMarshal E) (xeOTelConfig E) cp = Inr data
       else cm = xmConfigMapOverride (cpXPU (cpSpec cp))"
    using entries_hold r ch by metis
  moreover obtain d where "dsets w2 (coNamespace opts, xpumDaemonSetName (cpName cp)) = Some (updateXpumDaemonSet opts cp ?claim cm hash d)"
    using patch_stores p none by (fastforce simp: buildXpumDaemonSet_def updateXpum_rest)
  ultimately show ?thesis using same by metis
qed

end

text \<open>
  C38. The pods carry the hash of their configuration. After a pass of the XPU manager sub-controller
  that reports no error on a policy that is monitored and not deleted, the API server has the xpumd
  DaemonSet, whose config volumes, of which there is one at least, are all made from the same
  ConfigMap, and whose only pod annotation is the SHA-256 of the text that ConfigMap holds. The
  ConfigMap is the one the policy names, or else the operator's, which then holds the configuration
  made from the policy. So a change of the configuration changes the pod template.
\<close>

theorem config_hash_current:
  assumes "xpum_store E cms dsets" "\<not> shouldRemoveXpumd (Some cp)"
    and "run_state (ReconcileXPUM E opts (Some cp)) w = ((pol, requeue, None), w')"
  shows "\<exists>d cm data. dsets w' (coNamespace opts, xpumDaemonSetName (cpName cp)) = Some d
    \<and> dsetAnnotations d = [(otelConfigHashKey, hexSum data)] \<and> cmHolds (cms w' (coNamespace opts, cm)) data
    \<and> (\<exists>v \<in> set (dsetVolumes d). volName v = xpumdConfigVolume)
    \<and> (\<forall>v \<in> set (dsetVolumes d). volName v = xpumdConfigVolume \<longrightarrow> volSource v = ConfigMapSource cm [] 272)
    \<and> (if xmConfigMapOverride (cpXPU (cpSpec cp)) \<noteq> '''' then cm = xmConfigMapOverride (cpXPU (cpSpec cp))
       else xeMarshal E (otelConfigFor (xeOTelConfig E) cp) = Inr data)"
proof -
  obtain w1 cp' where "run_state (deployXpum E opts cp) w1 = ((cp', None), w')"
    using assms(2,3) by (auto simp: ReconcileXPUM_def Let_def split: option.splits prod.splits)
  then obtain cm data d where d: "cmHolds (cms w' (coNamespace opts, cm)) data"
    "dsets w' (coNamespace opts, xpumDaemonSetName (cpName cp)) = Some (updateXpumDaemonSet opts cp (xpumClaimName opts cp) cm (otelConfigHash data) d)"
    "if xmConfigMapOverride (cpXPU (cpSpec cp)) = ''''
       then cm = cpName cp @ ''-xpumanager-otel-config'' \<and> buildOTelConfigData (xeMarshal E) (xeOTelConfig E) cp = Inr data
       else cm = xmConfigMapOverride (cpXPU (cpSpec cp))"
    using xpum_store.deploy_current [OF assms(1)] by meson
  let ?d = "updateXpumDaemonSet opts cp (xpumClaimName opts cp) cm (otelConfigHash data) d"
  have "dsetVolumes ?d = xpumVolumes cp cm (dsetVolumes d)" "dsetAnnotations ?d = [(otelConfigHashKey, hexSum data)]"
    by (simp_all add: updateXpum_rest otelConfigHash_def)
  moreover have "(\<exists>v \<in> set (xpumVolumes cp cm vs). volName v = xpumdConfigVolume)
    \<and> (\<forall>v \<in> set (xpumVolumes cp cm vs). volName v = xpumdConfigVolume \<longrightarrow> volSource v = ConfigMapSource cm [] 272)" for vs
    using xpumVolumes_config by blast
  moreover have "xmConfigMapOverride (cpXPU (cpSpec cp)) = '''' \<Longrightarrow> xeMarshal E (otelConfigFor (xeOTelConfig E) cp) = Inr data"
    using d(3) by (auto simp: buildOTelConfigData_def split: sum.splits)
  ultimately show ?thesis using d by (intro exI [of _ ?d] exI [of _ cm] exI [of _ data]) auto
qed

interpretation memXpum: xpum_store memPolicyEnv
    "\<lambda>m (ns, n). find (\<lambda>c. cmNamespace c = ns \<and> cmName c = n) (pmConfigMaps m)" "\<lambda>m. map_of (pmDaemonSets m)"
  by unfold_locales
     (auto simp: memPolicyEnv_calls memStoreConfigMap_def keeps_def Let_def find_Some_iff AList.update_conv' split: option.splits)

theorem config_hash_current_witness:
  "\<exists>d. map_of (pmDaemonSets (snd (run_state (ReconcileXPUM memPolicyEnv defaultOpts (Some plainPolicy)) (policyWorld plainPolicy)))) (''gpu'', ''policy-xpu-manager'') = Some d
     \<and> dsetAnnotations d = [(otelConfigHashKey, hexSum ''level: error interval: 5s'')]"
proof -
  let ?run = "run_state (ReconcileXPUM memPolicyEnv defaultOpts (Some plainPolicy)) (policyWorld plainPolicy)"
  have live: "\<not> shouldRemoveXpumd (Some plainPolicy)" by code_simp
  have "snd (snd (fst ?run)) = None"
    using live by (simp add: ReconcileXPUM_def Let_def defaultOpts_def createMonitoringResourceClaim_def deployXpum_def generateXpumdConfigEntries_def
        createOrUpdateOTelConfigMap_def buildOTelConfigData_def updateXpumStatus_def daemonSetStatus_def memPolicyEnv_calls memStoreConfigMap_def
        ignoreAlreadyExists_def policyWorld_def notFound_def plainPolicy_def split: option.split sum.split prod.split)
  then have run: "?run = ((fst (fst ?run), fst (snd (fst ?run)), None), snd ?run)" by (metis prod.collapse)
  have names: "coNamespace defaultOpts = ''gpu''" "xpumDaemonSetName (cpName plainPolicy) = ''policy-xpu-manager''" by code_simp+
  have "xmConfigMapOverride (cpXPU (cpSpec plainPolicy)) = ''''" "xeMarshal memPolicyEnv (otelConfigFor (xeOTelConfig memPolicyEnv) plainPolicy) = Inr ''level: error interval: 5s''"
    by code_simp+
  then show ?thesis using config_hash_current [OF memXpum.xpum_store_axioms live run] unfolding names by auto
qed

end
