(* ===== verification/KueueGuarantees.thy ===== *)
theory KueueGuarantees
  imports PolicyWorld
begin

text \<open>
  What the Kueue part of the misc sub-controller promises: the queues share the resources of the cluster
  evenly and completely, and queues that are no longer in the policy go while all others stay.
\<close>

section \<open>Shares\<close>

lemma sum_share: "0 < n \<Longrightarrow> (\<Sum>i<n. share n i q) = quantityValue q"
proof -
  assume "0 < n"
  then have r: "quantityValue q mod n < n" by simp
  then have "{i. i < n \<and> i < quantityValue q mod n} = {..<quantityValue q mod n}" by auto
  then have "(\<Sum>i<n. if i < quantityValue q mod n then 1 else 0 :: nat) = quantityValue q mod n"
    by (simp add: sum.If_cases lessThan_def Int_def conj_commute)
  then show ?thesis unfolding share_def sum.distrib by simp
qed

lemma share_positive: "0 < n \<Longrightarrow> (\<forall>i < n. 1 \<le> share n i q) \<longleftrightarrow> n \<le> quantityValue q"
proof
  assume n: "0 < n" and all: "\<forall>i < n. 1 \<le> share n i q"
  have "(\<Sum>i<n. (1 :: nat)) \<le> (\<Sum>i<n. share n i q)" using all by (intro sum_mono) auto
  then show "n \<le> quantityValue q" using sum_share [OF n] by simp
next
  assume n: "0 < n" and le: "n \<le> quantityValue q"
  then have "1 \<le> quantityValue q div n" by (simp add: Suc_leI div_greater_zero_iff)
  then show "\<forall>i < n. 1 \<le> share n i q" by (simp add: share_def)
qed

definition nonzero :: "clusterResourceMap \<Rightarrow> clusterResourceMap" where
  "nonzero rs = filter (\<lambda>(k, q). q \<noteq> 0) rs"

definition sharesFor :: "nat \<Rightarrow> nat \<Rightarrow> clusterResourceMap \<Rightarrow> clusterResourceMap" where
  "sharesFor n i rs = map (\<lambda>(k, q). (k, nano * share n i q)) (nonzero rs)"

lemma keys_sharesFor: "map fst (sharesFor n i rs) = map fst (nonzero rs)"
  by (simp add: sharesFor_def case_prod_unfold)

lemma divideFor_Inr: "\<forall>(k, q) \<in> set (nonzero rs). 1 \<le> share n i q \<Longrightarrow> divideFor n i rs = Inr (sharesFor n i rs)"
  by (induction rs) (auto simp: nonzero_def sharesFor_def)

lemma divideFor_Inl: "\<not> (\<forall>(k, q) \<in> set (nonzero rs). 1 \<le> share n i q) \<Longrightarrow> \<exists>e. divideFor n i rs = Inl e"
proof (induction rs)
  case (Cons r rs)
  obtain k q where r: "r = (k, q)" by fastforce
  show ?case
  proof (cases "q = 0 \<or> 1 \<le> share n i q")
    case True
    then have "\<not> (\<forall>(k, q) \<in> set (nonzero rs). 1 \<le> share n i q)" using Cons.prems r by (auto simp: nonzero_def split: if_splits)
    then show ?thesis using Cons.IH True r by auto
  qed (use r in auto)
qed (simp add: nonzero_def)

lemma divideFor_iff: "divideFor n i rs = Inr ls \<longleftrightarrow> (\<forall>(k, q) \<in> set (nonzero rs). 1 \<le> share n i q) \<and> ls = sharesFor n i rs"
  using divideFor_Inr [of rs n i] divideFor_Inl [of rs n i] by fastforce

lemma divideFrom_iff:
  "divideFrom n rs is = Inr lss \<longleftrightarrow> (\<forall>i \<in> set is. \<forall>(k, q) \<in> set (nonzero rs). 1 \<le> share n i q) \<and> lss = map (\<lambda>i. sharesFor n i rs) is"
proof (induction "is" arbitrary: lss)
  case (Cons i "is")
  show ?case
  proof (cases "divideFor n i rs")
    case (Inl e)
    then have "\<not> (\<forall>(k, q) \<in> set (nonzero rs). 1 \<le> share n i q)" using divideFor_Inr by fastforce
    then show ?thesis using Inl by auto
  next
    case (Inr ls)
    then have ls: "(\<forall>(k, q) \<in> set (nonzero rs). 1 \<le> share n i q) \<and> ls = sharesFor n i rs" unfolding divideFor_iff .
    show ?thesis
    proof (cases "divideFrom n rs is")
      case (Inl e)
      then show ?thesis using Inr ls Cons.IH [of "map (\<lambda>i. sharesFor n i rs) is"] by auto
    next
      case (Inr b)
      then show ?thesis using \<open>divideFor n i rs = Inr ls\<close> ls Cons.IH [of b] by auto
    qed
  qed
qed auto

text \<open>
  C39. The queues share the resources. For one queue or more the division fails exactly when there is,
  in whole units rounded up, less than one for each queue of some resource the cluster has; otherwise
  there are as many shares as queues, each names exactly the resources that are not zero, and for each
  of these the shares of all queues add up to the amount in whole units, any two differ by at most one
  unit, an earlier queue gets no less than a later one, and none is without.
\<close>

theorem queues_share_resources:
  assumes "0 < n" "distinct (map fst rs)"
  shows "((\<exists>e. divideResources rs n = Inl e) \<longleftrightarrow> (\<exists>(k, q) \<in> set rs. q \<noteq> 0 \<and> quantityValue q < n))
    \<and> (\<forall>shares. divideResources rs n = Inr shares \<longrightarrow> length shares = n
        \<and> (\<forall>i < n. map fst (shares ! i) = map fst (filter (\<lambda>(k, q). q \<noteq> 0) rs))
        \<and> (\<forall>(k, q) \<in> set rs. q \<noteq> 0 \<longrightarrow> (\<exists>v. (\<forall>i < n. map_of (shares ! i) k = Some (nano * v i))
            \<and> (\<Sum>i<n. v i) = quantityValue q \<and> (\<forall>i < n. \<forall>j < n. v i \<le> Suc (v j)) \<and> (\<forall>i < n. \<forall>j < n. i \<le> j \<longrightarrow> v j \<le> v i) \<and> (\<forall>i < n. 1 \<le> v i))))"
proof -
  have "(\<exists>lss. divideResources rs n = Inr lss) \<longleftrightarrow> (\<forall>i < n. \<forall>(k, q) \<in> set (nonzero rs). 1 \<le> share n i q)"
    unfolding divideResources_def divideFrom_iff by auto
  also have "\<dots> \<longleftrightarrow> (\<forall>(k, q) \<in> set (nonzero rs). n \<le> quantityValue q)" using share_positive [OF assms(1)] by fastforce
  finally have ok: "(\<exists>lss. divideResources rs n = Inr lss) \<longleftrightarrow> (\<forall>(k, q) \<in> set (nonzero rs). n \<le> quantityValue q)" .
  have "(\<exists>e. divideResources rs n = Inl e) \<longleftrightarrow> \<not> (\<exists>lss. divideResources rs n = Inr lss)" by (cases "divideResources rs n") auto
  then have err: "(\<exists>e. divideResources rs n = Inl e) \<longleftrightarrow> (\<exists>(k, q) \<in> set rs. q \<noteq> 0 \<and> quantityValue q < n)"
    using ok by (auto simp: nonzero_def not_le)
  have "length shares = n \<and> (\<forall>i < n. map fst (shares ! i) = map fst (nonzero rs))
      \<and> (\<forall>(k, q) \<in> set rs. q \<noteq> 0 \<longrightarrow> (\<exists>v. (\<forall>i < n. map_of (shares ! i) k = Some (nano * v i))
          \<and> (\<Sum>i<n. v i) = quantityValue q \<and> (\<forall>i < n. \<forall>j < n. v i \<le> Suc (v j)) \<and> (\<forall>i < n. \<forall>j < n. i \<le> j \<longrightarrow> v j \<le> v i) \<and> (\<forall>i < n. 1 \<le> v i)))"
    if "divideResources rs n = Inr shares" for shares
  proof -
    have s: "shares = map (\<lambda>i. sharesFor n i rs) [0..<n]" using that unfolding divideResources_def divideFrom_iff by simp
    have dist: "distinct (map fst (nonzero rs))"
      using assms(2) unfolding nonzero_def by (metis distinct_map_filter)
    have share: "\<exists>v. (\<forall>i < n. map_of (shares ! i) k = Some (nano * v i))
          \<and> (\<Sum>i<n. v i) = quantityValue q \<and> (\<forall>i < n. \<forall>j < n. v i \<le> Suc (v j)) \<and> (\<forall>i < n. \<forall>j < n. i \<le> j \<longrightarrow> v j \<le> v i) \<and> (\<forall>i < n. 1 \<le> v i)"
      if "(k, q) \<in> set rs" "q \<noteq> 0" for k q
    proof (intro exI [of _ "\<lambda>i. share n i q"] conjI allI impI)
      have kq: "(k, q) \<in> set (nonzero rs)" using that by (simp add: nonzero_def)
      fix i assume i: "i < n"
      have "(k, nano * share n i q) \<in> set (shares ! i)" using kq i by (force simp: s sharesFor_def)
      moreover have "distinct (map fst (shares ! i))" using dist i by (simp add: s keys_sharesFor)
      ultimately show "map_of (shares ! i) k = Some (nano * share n i q)" by (simp add: map_of_is_SomeI)
      have "n \<le> quantityValue q" using \<open>divideResources rs n = Inr shares\<close> ok kq by auto
      then show "1 \<le> share n i q" using share_positive [OF assms(1)] i by blast
    qed (use sum_share [OF assms(1)] in \<open>auto simp: share_def\<close>)
    show ?thesis using share by (auto simp: s keys_sharesFor)
  qed
  then show ?thesis using err unfolding nonzero_def by blast
qed

theorem queues_share_resources_witness:
  "\<exists>shares. divideResources [(''cpu'', 7500000000), (''gpu.intel.com/xe'', 5000000000)] 2 = Inr shares
     \<and> map_of (shares ! 0) ''gpu.intel.com/xe'' = Some 3000000000
     \<and> (\<exists>v. (\<forall>i < 2. map_of (shares ! i) ''gpu.intel.com/xe'' = Some (nano * v i)) \<and> (\<Sum>i<2. v i) = 5)"
proof -
  let ?rs = "[(''cpu'', 7500000000 :: nat), (''gpu.intel.com/xe'', 5000000000)]"
  have run: "divideResources ?rs 2 = Inr [[(''cpu'', 4000000000), (''gpu.intel.com/xe'', 3000000000)], [(''cpu'', 4000000000), (''gpu.intel.com/xe'', 2000000000)]]"
    by code_simp
  have "quantityValue 5000000000 = 5" by code_simp
  moreover obtain v where "\<forall>i < 2. map_of ([[(''cpu'', 4000000000), (''gpu.intel.com/xe'', 3000000000)],
      [(''cpu'', 4000000000), (''gpu.intel.com/xe'', 2000000000)]] ! i) ''gpu.intel.com/xe'' = Some (nano * v i)" "(\<Sum>i<2. v i) = quantityValue 5000000000"
    using conjunct2 [OF queues_share_resources [of 2 ?rs], rule_format, OF _ _ run] by fastforce
  ultimately show ?thesis using run by auto
qed

section \<open>Counting devices\<close>

text \<open>The devices of a slice that count: those of the GPU driver on a node of the cluster.\<close>

definition countedDevices :: "(string \<times> clusterResourceMap) list \<Rightarrow> gpuSlice \<Rightarrow> nat" where
  "countedDevices nodes s =
     (case gsNodeName s of
        None \<Rightarrow> 0
      | Some n \<Rightarrow> if map_of nodes n = None \<or> gsDriver s \<noteq> gpuResourceName then 0
                else length (filter (\<lambda>d. sdHasAttributes d \<or> sdHasCapacity d) (gsDevices s)))"

lemma allocatable_add: "allocatable (addToResource k q rs) j = allocatable rs j + (if j = k then q else 0)"
  by (auto simp: allocatable_def addToResource_def AList.update_conv' split: option.split)

lemma allocatable_fold_add: "allocatable (fold (\<lambda>_. addToResource k q) xs rs) j = allocatable rs j + (if j = k then length xs * q else 0)"
  by (induction xs arbitrary: rs) (auto simp: allocatable_add)

lemma addSlices_devices:
  "addSlices nodes ss rs ns = Inr (rs', ns') \<Longrightarrow> allocatable rs' draResourceName = allocatable rs draResourceName + nano * sum_list (map (countedDevices nodes) ss)"
proof (induction nodes ss rs ns rule: addSlices.induct)
  case (2 nodes s ss rs ns)
  then obtain r n where r: "addResourceFromResourceSlice nodes s rs = Inr (r, n)" by (auto split: sum.splits)
  then have "allocatable r draResourceName = allocatable rs draResourceName + nano * countedDevices nodes s"
    by (auto simp: addResourceFromResourceSlice_def countedDevices_def Let_def allocatable_fold_add split: option.splits if_splits)
  moreover have "allocatable rs' draResourceName = allocatable r draResourceName + nano * sum_list (map (countedDevices nodes) ss)"
    using "2.IH" "2.prems" r by fastforce
  ultimately show ?case by (simp add: algebra_simps)
qed simp

lemma allocatable_fold_nodes:
  "allocatable (fold (\<lambda>n rs. case map_of nodes n of None \<Rightarrow> rs | Some al \<Rightarrow> addNodeResources al rs) ns rs) draResourceName = allocatable rs draResourceName"
proof (induction ns arbitrary: rs)
  case (Cons n ns)
  have "draResourceName \<noteq> ResourceCPU \<and> draResourceName \<noteq> ResourceMemory"
    by (simp add: draResourceName_def gpuResourceName_def ResourceCPU_def ResourceMemory_def)
  then have "allocatable (addNodeResources al rs) draResourceName = allocatable rs draResourceName" for al rs
    by (simp add: addNodeResources_def allocatable_add)
  then show ?case using Cons.IH by (simp split: option.split)
qed simp

lemma dra_devices_counted:
  "draResourcesOf nodes slices = Inr rs \<Longrightarrow> allocatable rs draResourceName = nano * sum_list (map (countedDevices nodes) slices)"
  using addSlices_devices by (fastforce simp: draResourcesOf_def allocatable_fold_nodes allocatable_def [of "[]"] split: sum.splits)

text \<open>
  The processors and memory of a node, in contrast, count once for each slice of the node: here twice.
\<close>

lemma node_counted_per_slice:
  "let s = \<lparr>gsDriver = gpuResourceName, gsNodeName = Some ''n'', gsDevices = [\<lparr>sdHasAttributes = True, sdHasCapacity = True\<rparr>]\<rparr>
   in map_option (\<lambda>rs. allocatable rs ResourceCPU) (case draResourcesOf [(''n'', [(ResourceCPU, 4 * nano)])] [s, s] of Inl e \<Rightarrow> None | Inr rs \<Rightarrow> Some rs)
     = Some (8 * nano)"
  by code_simp

text \<open>One slice that is not local to a node, of any driver, makes the pass panic.\<close>

lemma network_slice_panics:
  assumes "s \<in> set slices" "gsNodeName s = None"
  shows "\<exists>e. draResourcesOf nodes slices = Inl e"
proof -
  have "s \<in> set ss \<Longrightarrow> \<exists>e. addSlices nodes ss rs ns = Inl e" for ss rs ns
    using assms(2) by (induction nodes ss rs ns rule: addSlices.induct) (auto simp: addResourceFromResourceSlice_def split: sum.split)
  then obtain e where "addSlices nodes slices [] [] = Inl e" using assms(1) by blast
  then show ?thesis by (simp add: draResourcesOf_def)
qed

section \<open>Queues that are no longer in the policy\<close>

text \<open>
  \<open>live w\<close> lists the objects of one kind that exist and are not being deleted. A deletion that succeeds,
  or finds nothing, leaves none of that name; one that fails changes nothing.
\<close>

locale delete_store =
  fixes del :: "'q \<Rightarrow> ('w, go_error option) io" and live :: "'w \<Rightarrow> 'q list" and key :: "'q \<Rightarrow> 'k"
  assumes delete_ok: "run_state (del q) w = (r, w') \<Longrightarrow> live w' = (if ignoreNotFound r = None then filter (\<lambda>p. key p \<noteq> key q) (live w) else live w)"
begin

lemma deleteStale_live:
  "run_state (deleteStale del text xs) w = (r, w') \<Longrightarrow>
     (r = None \<longrightarrow> live w' = filter (\<lambda>p. key p \<notin> key ` set xs) (live w))
     \<and> set (live w') \<subseteq> set (live w) \<and> {p \<in> set (live w). key p \<notin> key ` set xs} \<subseteq> set (live w')"
proof (induction xs arbitrary: w)
  case Nil
  then show ?case by (simp add: deleteStale_def)
next
  case (Cons x xs)
  obtain d w1 where d: "run_state (del x) w = (d, w1)" by fastforce
  have live: "live w1 = (if ignoreNotFound d = None then filter (\<lambda>p. key p \<noteq> key x) (live w) else live w)" by (rule delete_ok [OF d])
  show ?case
  proof (cases "ignoreNotFound d")
    case None
    then have "run_state (deleteStale del text xs) w1 = (r, w')" using Cons.prems d by (simp add: deleteStale_def thenTry_def)
    note IH = Cons.IH [OF this]
    have "filter (\<lambda>p. key p \<notin> key ` set (x # xs)) (live w) = filter (\<lambda>p. key p \<notin> key ` set xs) (live w1)"
      using live None by (auto intro: filter_cong)
    moreover have "set (live w1) = {p \<in> set (live w). key p \<noteq> key x}" using live None by simp
    ultimately show ?thesis using IH by auto
  next
    case (Some e)
    then have "r \<noteq> None \<and> w' = w1" using Cons.prems d by (auto simp: deleteStale_def thenTry_def)
    then show ?thesis using live Some by auto
  qed
qed

end

text \<open>
  The two kinds of queues on the API server. A listing that succeeds has the live queues with the
  labels, perhaps others that are being deleted, and no other queue of the name of a live one.
\<close>

locale kueue_store =
  cq: delete_store "meDeleteClusterQueue E" cqs cquName + lq: delete_store "meDeleteLocalQueue E" lqs lquKey
  for E :: "('w, 'x) miscEnv_scheme" and cqs :: "'w \<Rightarrow> clusterQueue list" and lqs :: "'w \<Rightarrow> localQueue list" +
  assumes cq_delete_local: "keeps lqs (meDeleteClusterQueue E c)"
    and lq_delete_cluster: "keeps cqs (meDeleteLocalQueue E l)"
    and cq_list_keeps: "keeps (\<lambda>w. (cqs w, lqs w)) (meListClusterQueues E ls)"
    and lq_list_keeps: "keeps (\<lambda>w. (cqs w, lqs w)) (meListLocalQueues E ls)"
    and cq_listed: "run_state (meListClusterQueues E ls) w = (Inr xs, w') \<Longrightarrow> distinct (map cquName (cqs w)) \<Longrightarrow> q \<in> set (cqs w) \<Longrightarrow> cquName q \<in> cquName ` set xs \<longleftrightarrow> carries ls (cquLabels q)"
    and lq_listed: "run_state (meListLocalQueues E ls) w = (Inr ys, w') \<Longrightarrow> distinct (map lquKey (lqs w)) \<Longrightarrow> p \<in> set (lqs w) \<Longrightarrow> lquKey p \<in> lquKey ` set ys \<longleftrightarrow> carries ls (lquLabels p)"
begin

lemma keeps_deleteStale: "(\<And>q. keeps f (del q)) \<Longrightarrow> keeps f (deleteStale del text xs)"
  unfolding deleteStale_def by (induction xs) (auto simp: thenTry_def intro!: keeps_bind keeps_return split: option.split)

text \<open>One kind at a time: what the deletion of the stale ones of a listing leaves.\<close>

lemma cluster_cleaned:
  assumes "run_state (meListClusterQueues E ls) w = (Inr xs, w1)"
    and "run_state (deleteStale (meDeleteClusterQueue E) text (filter (\<lambda>q. cquName q \<notin> N) xs)) w1 = (r, w')" and "distinct (map cquName (cqs w))"
  shows "(r = None \<longrightarrow> cqs w' = filter (\<lambda>q. \<not> (carries ls (cquLabels q) \<and> cquName q \<notin> N)) (cqs w)) \<and> lqs w' = lqs w
    \<and> set (cqs w') \<subseteq> set (cqs w) \<and> {q \<in> set (cqs w). \<not> (carries ls (cquLabels q) \<and> cquName q \<notin> N)} \<subseteq> set (cqs w')"
proof -
  let ?S = "cquName ` set (filter (\<lambda>q. cquName q \<notin> N) xs)"
  have k: "cqs w1 = cqs w" "lqs w1 = lqs w" using keepsD [OF cq_list_keeps assms(1)] by auto
  have "n \<in> ?S \<longleftrightarrow> n \<in> cquName ` set xs \<and> n \<notin> N" for n by auto
  then have S: "q \<in> set (cqs w) \<Longrightarrow> cquName q \<notin> ?S \<longleftrightarrow> \<not> (carries ls (cquLabels q) \<and> cquName q \<notin> N)" for q
    using cq_listed [OF assms(1,3)] by simp
  then have filt: "filter (\<lambda>q. cquName q \<notin> ?S) (cqs w) = filter (\<lambda>q. \<not> (carries ls (cquLabels q) \<and> cquName q \<notin> N)) (cqs w)" by (rule filter_cong [OF refl])
  have sets: "{q \<in> set (cqs w). cquName q \<notin> ?S} = {q \<in> set (cqs w). \<not> (carries ls (cquLabels q) \<and> cquName q \<notin> N)}" using S by blast
  have "lqs w' = lqs w1" by (rule keepsD [OF keeps_deleteStale assms(2)]) (rule cq_delete_local)
  then show ?thesis using cq.deleteStale_live [OF assms(2)] unfolding k filt sets by simp
qed

lemma local_cleaned:
  assumes "run_state (meListLocalQueues E ls) w = (Inr ys, w1)"
    and "run_state (deleteStale (meDeleteLocalQueue E) text (filter (\<lambda>q. (lquNamespace q, lquName q) \<notin> N) ys)) w1 = (r, w')" and "distinct (map lquKey (lqs w))"
  shows "(r = None \<longrightarrow> lqs w' = filter (\<lambda>q. \<not> (carries ls (lquLabels q) \<and> lquKey q \<notin> N)) (lqs w)) \<and> cqs w' = cqs w
    \<and> set (lqs w') \<subseteq> set (lqs w) \<and> {q \<in> set (lqs w). \<not> (carries ls (lquLabels q) \<and> lquKey q \<notin> N)} \<subseteq> set (lqs w')"
proof -
  let ?S = "lquKey ` set (filter (\<lambda>q. (lquNamespace q, lquName q) \<notin> N) ys)"
  have k: "cqs w1 = cqs w" "lqs w1 = lqs w" using keepsD [OF lq_list_keeps assms(1)] by auto
  have "n \<in> ?S \<longleftrightarrow> n \<in> lquKey ` set ys \<and> n \<notin> N" for n by (auto simp: lquKey_def)
  then have S: "q \<in> set (lqs w) \<Longrightarrow> lquKey q \<notin> ?S \<longleftrightarrow> \<not> (carries ls (lquLabels q) \<and> lquKey q \<notin> N)" for q
    using lq_listed [OF assms(1,3)] by simp
  then have filt: "filter (\<lambda>q. lquKey q \<notin> ?S) (lqs w) = filter (\<lambda>q. \<not> (carries ls (lquLabels q) \<and> lquKey q \<notin> N)) (lqs w)" by (rule filter_cong [OF refl])
  have sets: "{q \<in> set (lqs w). lquKey q \<notin> ?S} = {q \<in> set (lqs w). \<not> (carries ls (lquLabels q) \<and> lquKey q \<notin> N)}" using S by blast
  have "cqs w' = cqs w1" by (rule keepsD [OF keeps_deleteStale assms(2)]) (rule lq_delete_cluster)
  then show ?thesis using lq.deleteStale_live [OF assms(2)] unfolding k filt sets by simp
qed

text \<open>What a cleanup leaves, and what it leaves alone even when it fails half way.\<close>

lemma cleanup_effect:
  assumes "run_state (cleanupStaleKueueQueues E owner sp) w = (r, w')" "distinct (map cquName (cqs w))" "distinct (map lquKey (lqs w))"
  shows "(r = None \<longrightarrow>
      cqs w' = filter (\<lambda>q. \<not> (carries (kueueLabels owner) (cquLabels q) \<and> cquName q \<notin> set (expectedClusterQueues sp))) (cqs w)
      \<and> lqs w' = filter (\<lambda>q. \<not> (carries (kueueLabels owner) (lquLabels q) \<and> lquKey q \<notin> set (expectedLocalQueues sp))) (lqs w))
    \<and> set (cqs w') \<subseteq> set (cqs w) \<and> set (lqs w') \<subseteq> set (lqs w)
    \<and> {q \<in> set (cqs w). \<not> (carries (kueueLabels owner) (cquLabels q) \<and> cquName q \<notin> set (expectedClusterQueues sp))} \<subseteq> set (cqs w')
    \<and> {q \<in> set (lqs w). \<not> (carries (kueueLabels owner) (lquLabels q) \<and> lquKey q \<notin> set (expectedLocalQueues sp))} \<subseteq> set (lqs w')"
proof -
  let ?ls = "kueueLabels owner"
  let ?ct = "\<lambda>q. ''unable to delete stale Kueue ClusterQueue '' @ quoted (cquName q)"
  let ?lt = "\<lambda>q. ''unable to delete stale Kueue LocalQueue '' @ quoted (lquNamespace q @ ''/'' @ lquName q)"
  obtain a w1 where a: "run_state (meListClusterQueues E ?ls) w = (a, w1)" by fastforce
  have k1: "cqs w1 = cqs w" "lqs w1 = lqs w" using keepsD [OF cq_list_keeps a] by auto
  show ?thesis
  proof (cases a)
    case (Inl e)
    then show ?thesis using assms(1) a k1 by (auto simp: cleanupStaleKueueQueues_def)
  next
    case (Inr xs)
    obtain b w2 where b: "run_state (deleteStale (meDeleteClusterQueue E) ?ct (filter (\<lambda>q. cquName q \<notin> set (expectedClusterQueues sp)) xs)) w1 = (b, w2)"
      by fastforce
    note cq = cluster_cleaned [OF a [unfolded Inr] b assms(2)]
    show ?thesis
    proof (cases b)
      case (Some e)
      then have "r \<noteq> None \<and> w' = w2" using assms(1) a Inr b by (auto simp: cleanupStaleKueueQueues_def thenTry_def)
      then show ?thesis using cq by auto
    next
      case None
      obtain c w3 where c: "run_state (meListLocalQueues E ?ls) w2 = (c, w3)" by fastforce
      have k3: "cqs w3 = cqs w2" "lqs w3 = lqs w2" using keepsD [OF lq_list_keeps c] by auto
      show ?thesis
      proof (cases c)
        case (Inl e)
        then have "r \<noteq> None \<and> w' = w3" using assms(1) a Inr b None c by (auto simp: cleanupStaleKueueQueues_def thenTry_def)
        then show ?thesis using cq k3 by auto
      next
        case (Inr ys)
        have "run_state (deleteStale (meDeleteLocalQueue E) ?lt (filter (\<lambda>q. (lquNamespace q, lquName q) \<notin> set (expectedLocalQueues sp)) ys)) w3 = (r, w')"
          using assms(1) a \<open>a = Inr xs\<close> b None c Inr by (simp add: cleanupStaleKueueQueues_def thenTry_def)
        moreover have "distinct (map lquKey (lqs w2))" using cq assms(3) by simp
        ultimately show ?thesis using local_cleaned [OF c [unfolded Inr]] cq None by auto
      qed
    qed
  qed
qed

end

text \<open>
  C40. Stale queues go and nothing else does. A cleanup of the Kueue queues that reports no error leaves
  exactly the ClusterQueues and LocalQueues that do not carry the labels of the policy or are in its
  spec, in their order; one that fails half way has removed none of these. So with no spec, as when the
  policy is deleted, no queue of the policy stays, and queues of other owners are never touched.
\<close>

theorem stale_queues_go:
  assumes "kueue_store E cqs lqs" "run_state (cleanupStaleKueueQueues E owner sp) w = (r, w')"
    and "distinct (map cquName (cqs w))" "distinct (map lquKey (lqs w))"
  shows "(r = None \<longrightarrow>
      cqs w' = filter (\<lambda>q. \<not> carries (kueueLabels owner) (cquLabels q) \<or> cquName q \<in> set (expectedClusterQueues sp)) (cqs w)
      \<and> lqs w' = filter (\<lambda>q. \<not> carries (kueueLabels owner) (lquLabels q) \<or> (lquNamespace q, lquName q) \<in> set (expectedLocalQueues sp)) (lqs w))
    \<and> set (cqs w') \<subseteq> set (cqs w) \<and> set (lqs w') \<subseteq> set (lqs w)
    \<and> (\<forall>q \<in> set (cqs w). \<not> carries (kueueLabels owner) (cquLabels q) \<or> cquName q \<in> set (expectedClusterQueues sp) \<longrightarrow> q \<in> set (cqs w'))
    \<and> (\<forall>q \<in> set (lqs w). \<not> carries (kueueLabels owner) (lquLabels q) \<or> (lquNamespace q, lquName q) \<in> set (expectedLocalQueues sp) \<longrightarrow> q \<in> set (lqs w'))"
  using kueue_store.cleanup_effect [OF assms] by (auto simp: lquKey_def)

lemma same_key: "distinct (map key xs) \<Longrightarrow> p \<in> set xs \<Longrightarrow> q \<in> set xs \<Longrightarrow> key p = key q \<Longrightarrow> p = q"
  by (auto simp: distinct_map dest: inj_onD)

interpretation memKueue: kueue_store memPolicyEnv pmClusterQueues pmLocalQueues
  by unfold_locales (auto simp: memPolicyEnv_calls keeps_def ignoreNotFound_def, (metis same_key)+)

definition queueWorld :: policyMem where
  "queueWorld = (policyWorld plainPolicy)\<lparr>pmClusterQueues :=
     [createClusterQueue ''policy'' [] \<lparr>cqName = ''old'', cqLocalQueues = []\<rparr>, createClusterQueue ''policy'' [] \<lparr>cqName = ''kept'', cqLocalQueues = []\<rparr>,
      createClusterQueue ''other'' [] \<lparr>cqName = ''foreign'', cqLocalQueues = []\<rparr>]\<rparr>"

theorem stale_queues_go_witness:
  "map cquName (pmClusterQueues (snd (run_state (cleanupStaleKueueQueues memPolicyEnv ''policy''
     (Some \<lparr>kqEqualResources = [\<lparr>cqName = ''kept'', cqLocalQueues = []\<rparr>]\<rparr>)) queueWorld))) = [''kept'', ''foreign'']"
proof -
  let ?run = "run_state (cleanupStaleKueueQueues memPolicyEnv ''policy'' (Some \<lparr>kqEqualResources = [\<lparr>cqName = ''kept'', cqLocalQueues = []\<rparr>]\<rparr>)) queueWorld"
  have run: "?run = (fst ?run, snd ?run)" by simp
  have ok: "fst ?run = None" and "distinct (map cquName (pmClusterQueues queueWorld))" "distinct (map lquKey (pmLocalQueues queueWorld))" by code_simp+
  from stale_queues_go [OF memKueue.kueue_store_axioms run this(2,3)] ok
  have "pmClusterQueues (snd ?run) = filter (\<lambda>q. \<not> carries (kueueLabels ''policy'') (cquLabels q)
      \<or> cquName q \<in> set (expectedClusterQueues (Some \<lparr>kqEqualResources = [\<lparr>cqName = ''kept'', cqLocalQueues = []\<rparr>]\<rparr>))) (pmClusterQueues queueWorld)" by blast
  moreover have "map cquName (filter (\<lambda>q. \<not> carries (kueueLabels ''policy'') (cquLabels q)
      \<or> cquName q \<in> set (expectedClusterQueues (Some \<lparr>kqEqualResources = [\<lparr>cqName = ''kept'', cqLocalQueues = []\<rparr>]\<rparr>))) (pmClusterQueues queueWorld)) = [''kept'', ''foreign'']"
    by code_simp
  ultimately show ?thesis by simp
qed

end
