(* ===== verification/ImageVerifier.thy ===== *)
theory ImageVerifier
  imports RecoveryPass Sha256
begin

text \<open>
  The content image verifier (\<^verbatim>\<open>internal/controller/common/contentimage_verifier.go\<close>), which both the
  recovery and the firmware update controller ask whether an image can be pulled and holds the files
  they need. The registry client is a third-party package: parsing a reference, asking for the
  manifest, pulling and exporting an image are fields of \<open>registry\<close>, as are the cluster's Secrets and
  the decoder of their content. An exported image is the sequence of entries \<^verbatim>\<open>tar.Reader\<close> yields and
  how the sequence ends. Every error of the source is a constructor of \<open>verifyError\<close>.
\<close>

section \<open>Paths\<close>

text \<open>\<^verbatim>\<open>path.Clean\<close>: the elements are visited from the left, a parent reference takes back the last one.\<close>

definition cleanStep :: "bool \<Rightarrow> string list \<Rightarrow> string \<Rightarrow> string list" where
  "cleanStep rooted out c =
     (if c = '''' \<or> c = ''.'' then out
      else if c = ''..''
      then (if out \<noteq> [] \<and> (rooted \<or> last out \<noteq> ''..'') then butlast out
            else if rooted then out else out @ [c])
      else out @ [c])"

definition pathClean :: "string \<Rightarrow> string" where
  "pathClean p =
     (if p = '''' then ''.''
      else let rooted = (hd p = CHR ''/'');
               s = joinStr ''/'' (foldl (cleanStep rooted) [] (splitOn (CHR ''/'') p))
           in if rooted then ''/'' @ s else if s = '''' then ''.'' else s)"

definition trimPrefix :: "string \<Rightarrow> string \<Rightarrow> string" where
  "trimPrefix s p = (if hasPrefix s p then drop (length p) s else s)"

definition normalizeImagePath :: "string \<Rightarrow> string" where
  "normalizeImagePath p = trimPrefix (pathClean (''/'' @ p)) ''/''"

section \<open>Registry access\<close>

datatype 'a keychain = DefaultKeychain | DockerConfigKeychain "(string \<times> 'a) list"

datatype 'a authenticator = Anonymous | FromConfig 'a

text \<open>
  \<^verbatim>\<open>Resolve\<close> visits the map of hosts in the order of the runtime, here the order of the list.
\<close>

definition hostMatches :: "string \<Rightarrow> string \<Rightarrow> bool" where
  "hostMatches reg host \<longleftrightarrow>
     trimPrefix (trimPrefix host ''https://'') ''http://'' = reg \<or> host = reg"

definition Resolve :: "(string \<times> 'a) list \<Rightarrow> string \<Rightarrow> 'a authenticator" where
  "Resolve auths reg =
     (case find (\<lambda>(host, _). hostMatches reg host) auths of
        None \<Rightarrow> Anonymous | Some (_, auth) \<Rightarrow> FromConfig auth)"

record tarEntry =
  teName :: string
  teRegular :: bool
  teContent :: "string res"

record tarStream =
  tsEntries :: "tarEntry list"
  tsEnd :: "go_error option"

record ('w, 'r, 'a, 'i) registry =
  vNamespace :: string
  vParseReference :: "string \<Rightarrow> 'r res"
  vGetSecret :: "string \<Rightarrow> string \<Rightarrow> ('w, (string \<times> string) list res) io"
  vParseDockerConfig :: "string \<Rightarrow> (string \<times> 'a) list res"
  vTransportKnown :: bool
  vHead :: "'r \<Rightarrow> 'a keychain \<Rightarrow> bool \<Rightarrow> ('w, go_error option) io"
  vImage :: "'r \<Rightarrow> 'a keychain \<Rightarrow> bool \<Rightarrow> ('w, 'i res) io"
  vExport :: "'i \<Rightarrow> ('w, tarStream) io"
  vMapOrder :: "(string \<times> string) list \<Rightarrow> (string \<times> string) list"

datatype verifyError =
    InvalidImageReference string go_error
  | PullSecretUnreadable string go_error
  | PullSecretKeyMissing string
  | PullSecretUnparsable string go_error
  | UnexpectedTransport
  | ImageUnresolved string go_error
  | ImageUnpulled string go_error
  | DuplicateFile string
  | FilesystemUnreadable go_error
  | NotRegularFile string
  | HashFailed string go_error
  | ChecksumMismatch string string string
  | FileNotFound string

definition dockerConfigJsonKey :: string where "dockerConfigJsonKey = ''.dockerconfigjson''"

definition buildKeychain ::
  "('w, 'r, 'a, 'i) registry \<Rightarrow> string \<Rightarrow> ('w, verifyError + 'a keychain) io" where
  "buildKeychain V secretName =
     (if secretName = '''' then State_Monad.return (Inr DefaultKeychain)
      else do {
        r \<leftarrow> vGetSecret V (vNamespace V) secretName;
        State_Monad.return (case r of
          Inl e \<Rightarrow> Inl (PullSecretUnreadable secretName e)
        | Inr secretData \<Rightarrow>
            (case map_of secretData dockerConfigJsonKey of
               None \<Rightarrow> Inl (PullSecretKeyMissing secretName)
             | Some raw \<Rightarrow>
                 (case vParseDockerConfig V raw of
                    Inl e \<Rightarrow> Inl (PullSecretUnparsable secretName e)
                  | Inr auths \<Rightarrow> Inr (DockerConfigKeychain auths))))
      })"

section \<open>Checking an exported filesystem\<close>

fun wantedFiles ::
  "(string \<times> string) list \<Rightarrow> (string \<times> string) list \<Rightarrow> verifyError + (string \<times> string) list" where
  "wantedFiles [] want = Inr want"
| "wantedFiles ((name, checksum) # fs) want =
     (let n = normalizeImagePath name
      in if map_of want n \<noteq> None then Inl (DuplicateFile name)
         else wantedFiles fs (put n checksum want))"

definition sha256Sum :: "string \<Rightarrow> string" where
  "sha256Sum content = ''sha256:'' @ hexSum content"

definition checkEntry :: "string \<Rightarrow> string \<Rightarrow> tarEntry \<Rightarrow> verifyError option" where
  "checkEntry base expected h =
     (if expected = '''' then None
      else if \<not> teRegular h then Some (NotRegularFile base)
      else case teContent h of
             Inl e \<Rightarrow> Some (HashFailed base e)
           | Inr content \<Rightarrow>
               let actual = sha256Sum content
               in if actual \<noteq> expected then Some (ChecksumMismatch base expected actual) else None)"

fun scanExport ::
  "(string \<times> string) list \<Rightarrow> string list \<Rightarrow> tarEntry list \<Rightarrow> go_error option \<Rightarrow> verifyError + string list" where
  "scanExport want found [] fin =
     (case fin of None \<Rightarrow> Inr found | Some e \<Rightarrow> Inl (FilesystemUnreadable e))"
| "scanExport want found (h # hs) fin =
     (let base = normalizeImagePath (teName h)
      in case map_of want base of
           None \<Rightarrow> scanExport want found hs fin
         | Some expected \<Rightarrow>
             (case checkEntry base expected h of
                Some e \<Rightarrow> Inl e
              | None \<Rightarrow>
                  (let found' = List.insert base found
                   in if length found' = length want then Inr found'
                      else scanExport want found' hs fin)))"

definition verifyChecksumsFromExport ::
  "((string \<times> string) list \<Rightarrow> (string \<times> string) list) \<Rightarrow> tarStream \<Rightarrow> (string \<times> string) list \<Rightarrow>
     verifyError option" where
  "verifyChecksumsFromExport mapOrder stream files =
     (case wantedFiles files [] of
        Inl e \<Rightarrow> Some e
      | Inr want \<Rightarrow>
          (case scanExport want [] (tsEntries stream) (tsEnd stream) of
             Inl e \<Rightarrow> Some e
           | Inr found \<Rightarrow>
               map_option (FileNotFound \<circ> fst) (find (\<lambda>(n, _). n \<notin> set found) (mapOrder want))))"

definition VerifyImage ::
  "('w, 'r, 'a, 'i) registry \<Rightarrow> imageVerifyRequest \<Rightarrow> ('w, verifyError option) io" where
  "VerifyImage V req =
     (case vParseReference V (ivImage req) of
        Inl e \<Rightarrow> State_Monad.return (Some (InvalidImageReference (ivImage req) e))
      | Inr ref \<Rightarrow> do {
          kc \<leftarrow> buildKeychain V (ivPullSecret req);
          case kc of
            Inl e \<Rightarrow> State_Monad.return (Some e)
          | Inr keys \<Rightarrow>
              if ivInsecureSkipTLSVerify req \<and> \<not> vTransportKnown V
              then State_Monad.return (Some UnexpectedTransport)
              else if ivFiles req = [] then do {
                r \<leftarrow> vHead V ref keys (ivInsecureSkipTLSVerify req);
                State_Monad.return (map_option (ImageUnresolved (ivImage req)) r)
              }
              else do {
                r \<leftarrow> vImage V ref keys (ivInsecureSkipTLSVerify req);
                case r of
                  Inl e \<Rightarrow> State_Monad.return (Some (ImageUnpulled (ivImage req) e))
                | Inr img \<Rightarrow> do {
                    stream \<leftarrow> vExport V img;
                    State_Monad.return (verifyChecksumsFromExport (vMapOrder V) stream (ivFiles req))
                  }
              }
        })"

end
