(* ===== verification/ImageGuarantees.thy ===== *)
theory ImageGuarantees
  imports ImageVerifier RecoveryMem
begin

text \<open>
  What the content image verifier promises: names of files are compared up to the ways of writing a
  path, the streaming check that stops early finds exactly what a look at the whole image would, and
  a reflash is started only with an image that has the firmware file.
\<close>

section \<open>Normalised paths\<close>

abbreviation elements :: "string \<Rightarrow> string list" where
  "elements p \<equiv> foldl (cleanStep True) [] (splitOn (CHR ''/'') p)"

lemma normalizeImagePath_eq: "normalizeImagePath p = joinStr ''/'' (elements p)"
  by (simp add: normalizeImagePath_def pathClean_def trimPrefix_def hasPrefix_def cleanStep_def)

definition plainElement :: "string \<Rightarrow> bool" where
  "plainElement c \<longleftrightarrow> c \<notin> {'''', ''.'', ''..''} \<and> CHR ''/'' \<notin> set c"

lemma splitOn_elements: "c \<in> set (splitOn sep s) \<Longrightarrow> sep \<notin> set c"
  by (induction sep s arbitrary: c rule: splitOn.induct) (auto split: if_splits list.splits)

lemma plain_cleanStep:
  "\<forall>x \<in> set out. plainElement x \<Longrightarrow> CHR ''/'' \<notin> set c \<Longrightarrow> \<forall>x \<in> set (cleanStep True out c). plainElement x"
  by (auto simp: cleanStep_def plainElement_def dest: in_set_butlastD)

lemma plain_foldl:
  "\<forall>x \<in> set out. plainElement x \<Longrightarrow> \<forall>c \<in> set cs. CHR ''/'' \<notin> set c \<Longrightarrow>
     \<forall>x \<in> set (foldl (cleanStep True) out cs). plainElement x"
proof (induction cs arbitrary: out)
  case (Cons c cs)
  then show ?case using plain_cleanStep [of out c] by simp
qed simp

lemma plain_elements: "\<forall>x \<in> set (elements p). plainElement x"
  by (rule plain_foldl) (auto dest: splitOn_elements)

lemma foldl_plain: "\<forall>x \<in> set cs. plainElement x \<Longrightarrow> foldl (cleanStep True) out cs = out @ cs"
  by (induction cs arbitrary: out) (auto simp: cleanStep_def plainElement_def)

lemma elements_join: "\<forall>x \<in> set cs. plainElement x \<Longrightarrow> elements (joinStr ''/'' cs) = cs"
proof (cases "cs = []")
  case False
  assume plain: "\<forall>x \<in> set cs. plainElement x"
  then have "splitOn (CHR ''/'') (joinStr ''/'' cs) = cs"
    using splitOn_join [of cs "CHR ''/''"] False by (auto simp: plainElement_def)
  then show ?thesis using foldl_plain [OF plain, of "[]"] by simp
qed (simp add: cleanStep_def)

text \<open>
  Two names denote the same file exactly when they lead to the same elements; a leading slash or
  \<^verbatim>\<open>./\<close> makes no difference, and a normalised name is its own normal form.
\<close>

lemma normalizeImagePath_iff: "normalizeImagePath p = normalizeImagePath q \<longleftrightarrow> elements p = elements q"
  unfolding normalizeImagePath_eq using elements_join [OF plain_elements] by metis

lemma normalizeImagePath_again: "normalizeImagePath (normalizeImagePath p) = normalizeImagePath p"
  by (simp add: normalizeImagePath_iff) (simp add: normalizeImagePath_eq elements_join [OF plain_elements])

lemma normalizeImagePath_forms:
  "normalizeImagePath (''/'' @ p) = normalizeImagePath p" "normalizeImagePath (''./'' @ p) = normalizeImagePath p"
  by (simp_all add: normalizeImagePath_iff cleanStep_def)

section \<open>The streaming check\<close>

lemma put_new: "map_of m k = None \<Longrightarrow> put k v m = m @ [(k, v)]"
  by (induction m) (auto split: if_splits)

abbreviation wantOf :: "(string \<times> string) list \<Rightarrow> (string \<times> string) list" where
  "wantOf files \<equiv> map (\<lambda>(n, c). (normalizeImagePath n, c)) files"

lemma wantedFiles_iff:
  "distinct (map fst want) \<Longrightarrow>
   wantedFiles files want = Inr m \<longleftrightarrow> distinct (map fst (want @ wantOf files)) \<and> m = want @ wantOf files"
proof (induction files want rule: wantedFiles.induct)
  case (2 name checksum fs want)
  let ?n = "normalizeImagePath name"
  show ?case
  proof (cases "map_of want ?n")
    case None
    then have "?n \<notin> fst ` set want" by (simp add: map_of_eq_None_iff)
    then show ?thesis using 2 None put_new [OF None, of checksum] by (auto simp: Let_def)
  next
    case (Some c)
    then have "?n \<in> set (map fst want)" by (force dest: map_of_SomeD)
    then show ?thesis using Some by (auto simp: Let_def)
  qed
qed auto

abbreviation entryBase :: "tarEntry \<Rightarrow> string" where
  "entryBase h \<equiv> normalizeImagePath (teName h)"

text \<open>The image has the file, with the declared checksum if there is one.\<close>

definition hasFile :: "tarEntry list \<Rightarrow> string \<times> string \<Rightarrow> bool" where
  "hasFile hs f \<longleftrightarrow>
     (\<exists>h \<in> set hs. entryBase h = normalizeImagePath (fst f)
        \<and> (snd f = '''' \<or> teRegular h \<and> (\<exists>content. teContent h = Inr content \<and> sha256Sum content = snd f)))"

lemma checkEntry_None:
  "checkEntry base expected h = None \<longleftrightarrow>
     expected = '''' \<or> teRegular h \<and> (\<exists>content. teContent h = Inr content \<and> sha256Sum content = expected)"
  by (auto simp: checkEntry_def Let_def split: sum.splits if_splits)

lemma scanExport_sound:
  assumes "scanExport want found hs fin = Inr found'" "n \<in> set found'"
  shows "n \<in> set found \<or> (\<exists>h \<in> set hs. \<exists>ex. entryBase h = n \<and> map_of want n = Some ex \<and> checkEntry n ex h = None)"
  using assms
proof (induction want found hs fin rule: scanExport.induct)
  case (1 want found fin)
  then show ?case by (simp split: option.splits)
next
  case (2 want found h hs fin)
  let ?b = "entryBase h"
  show ?case
  proof (cases "map_of want ?b")
    case None
    then show ?thesis using 2 by (auto simp: Let_def)
  next
    case (Some ex)
    then have ok: "checkEntry ?b ex h = None" using "2.prems" by (auto simp: Let_def split: option.splits)
    show ?thesis
    proof (cases "length (List.insert ?b found) = length want")
      case True
      then show ?thesis using "2.prems" Some ok by (auto simp: Let_def)
    next
      case False
      then have "scanExport want (List.insert ?b found) hs fin = Inr found'" using "2.prems"(1) Some ok by (simp add: Let_def)
      then have "n \<in> set (List.insert ?b found) \<or>
          (\<exists>h \<in> set hs. \<exists>ex. entryBase h = n \<and> map_of want n = Some ex \<and> checkEntry n ex h = None)"
        using "2.IH"(2) [OF refl Some ok refl False] "2.prems"(2) by blast
      then show ?thesis using Some ok by auto
    qed
  qed
qed

lemma scanExport_complete:
  assumes "distinct found" "set found \<subseteq> fst ` set want" "length found < length want" "distinct (map fst want)"
    and "\<forall>h \<in> set hs. \<forall>ex. map_of want (entryBase h) = Some ex \<longrightarrow> checkEntry (entryBase h) ex h = None"
    and "fst ` set want \<subseteq> set found \<union> entryBase ` set hs"
  shows "\<exists>found'. scanExport want found hs fin = Inr found' \<and> fst ` set want \<subseteq> set found'"
  using assms
proof (induction hs arbitrary: found)
  case Nil
  then have "card (fst ` set want) \<le> card (set found)" by (simp add: card_mono)
  then show ?case using Nil distinct_card [of "map fst want"] distinct_card [of found] by simp
next
  case (Cons h hs)
  let ?b = "entryBase h"
  show ?case
  proof (cases "map_of want ?b")
    case None
    then have "?b \<notin> fst ` set want" by (simp add: map_of_eq_None_iff)
    then have "fst ` set want \<subseteq> set found \<union> entryBase ` set hs" using Cons.prems(6) by (simp add: subset_insert)
    then show ?thesis using Cons.IH [of found] Cons.prems None by (simp add: Let_def)
  next
    case (Some ex)
    let ?f = "List.insert ?b found"
    have ok: "checkEntry ?b ex h = None" using Cons.prems(5) Some by simp
    have sub: "set ?f \<subseteq> fst ` set want" using Cons.prems(2) Some by (force dest: map_of_SomeD)
    have cw: "card (fst ` set want) = length want" using distinct_card [OF Cons.prems(4)] by simp
    have d: "distinct ?f" using Cons.prems(1) by simp
    then have cf: "card (set ?f) = length ?f" by (rule distinct_card)
    have le: "length ?f \<le> length want" using card_mono [OF _ sub] cw cf by simp
    show ?thesis
    proof (cases "length ?f = length want")
      case True
      then have "set ?f = fst ` set want" using card_subset_eq [OF _ sub] cw cf by simp
      then show ?thesis using True Some ok by (simp add: Let_def)
    next
      case False
      then have "length ?f < length want" using le by simp
      then show ?thesis using Cons.IH [OF d sub _ Cons.prems(4)] Cons.prems(5,6) False Some ok by (auto simp: Let_def)
    qed
  qed
qed

text \<open>What success means, for any stream.\<close>

lemma verifyChecksums_sound:
  assumes "\<And>m. set (mapOrder m) = set m" "verifyChecksumsFromExport mapOrder stream files = None"
  shows "\<forall>f \<in> set files. hasFile (tsEntries stream) f"
proof
  fix f assume f: "f \<in> set files"
  let ?w = "wantOf files"
  obtain m where "wantedFiles files [] = Inr m"
    using assms(2) by (auto simp: verifyChecksumsFromExport_def split: sum.splits)
  then have w: "wantedFiles files [] = Inr ?w" and d: "distinct (map fst ?w)" by (auto simp: wantedFiles_iff)
  obtain found where scan: "scanExport ?w [] (tsEntries stream) (tsEnd stream) = Inr found"
    and all: "\<forall>(n, _) \<in> set (mapOrder ?w). n \<in> set found"
    using assms(2) by (auto simp: verifyChecksumsFromExport_def w find_None_iff split: sum.splits)
  have mem: "(normalizeImagePath (fst f), snd f) \<in> set ?w" using f by (force simp: case_prod_beta')
  then have "normalizeImagePath (fst f) \<in> set found" using all assms(1) [of ?w] by blast
  moreover have "map_of ?w (normalizeImagePath (fst f)) = Some (snd f)" using d mem by (rule map_of_is_SomeI)
  ultimately show "hasFile (tsEntries stream) f"
    using scanExport_sound [OF scan] by (fastforce simp: hasFile_def checkEntry_None)
qed

text \<open>
  C16. The check of an exported image accepts exactly the images that have every requested file with
  its declared checksum, for requests that name no file twice. It reads the entries once and stops
  at the last file it needs, so a stream that breaks afterwards makes no difference, and it does not
  depend on the order in which the map of requested files is visited.
\<close>

theorem image_check_exact:
  assumes "distinct (map entryBase (tsEntries stream))" "files \<noteq> []" "\<And>m. set (mapOrder m) = set m"
  shows "verifyChecksumsFromExport mapOrder stream files = None \<longleftrightarrow>
    distinct (map (normalizeImagePath \<circ> fst) files) \<and> (\<forall>f \<in> set files. hasFile (tsEntries stream) f)"
proof (cases "distinct (map (normalizeImagePath \<circ> fst) files)")
  case False
  then have "wantedFiles files [] \<noteq> Inr m" for m by (simp add: wantedFiles_iff case_prod_beta' comp_def)
  then obtain e where "wantedFiles files [] = Inl e" by (cases "wantedFiles files []") auto
  then show ?thesis using False by (simp add: verifyChecksumsFromExport_def)
next
  case True
  let ?w = "wantOf files"
  let ?hs = "tsEntries stream"
  have d: "distinct (map fst ?w)" using True by (simp add: case_prod_beta' comp_def)
  then have w: "wantedFiles files [] = Inr ?w" by (simp add: wantedFiles_iff)
  have look: "map_of ?w (normalizeImagePath (fst f)) = Some (snd f)" if "f \<in> set files" for f
    using d that by (intro map_of_is_SomeI) (auto simp: case_prod_beta')
  have keys: "fst ` set ?w = (normalizeImagePath \<circ> fst) ` set files" by (force simp: case_prod_beta')
  show ?thesis
  proof
    assume "verifyChecksumsFromExport mapOrder stream files = None"
    then have "\<forall>f \<in> set files. hasFile ?hs f" by (rule verifyChecksums_sound [OF assms(3)])
    then show "distinct (map (normalizeImagePath \<circ> fst) files) \<and> (\<forall>f \<in> set files. hasFile ?hs f)"
      using True by simp
  next
    assume files: "distinct (map (normalizeImagePath \<circ> fst) files) \<and> (\<forall>f \<in> set files. hasFile ?hs f)"
    have "checkEntry (entryBase h) ex h = None" if h: "h \<in> set ?hs" and m: "map_of ?w (entryBase h) = Some ex" for h ex
    proof -
      obtain f where f: "f \<in> set files" "entryBase h = normalizeImagePath (fst f)"
        using map_of_SomeD [OF m] by (auto simp: case_prod_beta')
      then obtain h' where "h' \<in> set ?hs" "entryBase h' = entryBase h" "checkEntry (entryBase h) (snd f) h' = None"
        using files by (auto simp: hasFile_def checkEntry_None)
      moreover from this have "h' = h" using assms(1) h by (auto simp: distinct_map dest: inj_onD)
      ultimately show ?thesis using m look [OF f(1)] f(2) by simp
    qed
    moreover have "fst ` set ?w \<subseteq> entryBase ` set ?hs" using files unfolding keys by (force simp: hasFile_def)
    ultimately obtain found where "scanExport ?w [] ?hs (tsEnd stream) = Inr found" "fst ` set ?w \<subseteq> set found"
      using scanExport_complete [of "[]" ?w ?hs "tsEnd stream"] d assms(2) by auto
    moreover from this have "\<forall>x \<in> set (mapOrder ?w). fst x \<in> set found" unfolding assms(3) by blast
    ultimately show "verifyChecksumsFromExport mapOrder stream files = None"
      by (auto simp: verifyChecksumsFromExport_def w find_None_iff)
  qed
qed

section \<open>Images of a reflash\<close>

definition exports ::
  "('w, 'r, 'a, 'i) registry \<Rightarrow> string \<Rightarrow> bool \<Rightarrow> tarStream \<Rightarrow> bool" where
  "exports V name insecure stream \<longleftrightarrow>
     (\<exists>ref keys img w w1 w2. vParseReference V name = Inr ref
        \<and> run_state (vImage V ref keys insecure) w = (Inr img, w1) \<and> run_state (vExport V img) w1 = (stream, w2))"

lemma VerifyImage_files:
  assumes "run_state (VerifyImage V req) w = (None, w')" "ivFiles req \<noteq> []"
  shows "\<exists>stream. exports V (ivImage req) (ivInsecureSkipTLSVerify req) stream
    \<and> verifyChecksumsFromExport (vMapOrder V) stream (ivFiles req) = None"
proof -
  obtain ref where ref: "vParseReference V (ivImage req) = Inr ref"
    using assms by (cases "vParseReference V (ivImage req)") (auto simp: VerifyImage_def)
  obtain kc w0 where kc: "run_state (buildKeychain V (ivPullSecret req)) w = (kc, w0)" by fastforce
  then obtain keys where keys: "kc = Inr keys" using assms ref by (cases kc) (auto simp: VerifyImage_def)
  obtain r w1 where r: "run_state (vImage V ref keys (ivInsecureSkipTLSVerify req)) w0 = (r, w1)" by fastforce
  then obtain img where img: "r = Inr img"
    using assms ref kc keys by (cases r) (auto simp: VerifyImage_def split: if_splits)
  obtain stream w2 where st: "run_state (vExport V img) w1 = (stream, w2)" by fastforce
  then have "verifyChecksumsFromExport (vMapOrder V) stream (ivFiles req) = None"
    using assms ref kc keys r img by (auto simp: VerifyImage_def split: if_splits)
  then show ?thesis using ref r img st unfolding exports_def by blast
qed

lemma verifyImages_all:
  "run_state (verifyImages E imgs) w = (None, w') \<Longrightarrow> img \<in> set imgs \<Longrightarrow>
   \<exists>v v'. run_state (rVerifyImage E \<lparr>ivImage = riImage img, ivPullSecret = rSecretName E,
     ivInsecureSkipTLSVerify = riInsecureSkipTLSVerify img, ivFiles = riFiles img\<rparr>) v = (None, v')"
  by (induction imgs arbitrary: w) (auto split: prod.splits option.splits)

text \<open>
  The verifier as the controllers see it: an error value, whose text \<open>render\<close> is formatted by the
  source. The controller may rely on what a success means.
\<close>

locale image_checks =
  fixes E :: "('w, 'x) recoveryEnv_scheme" and V :: "('w, 'r, 'a, 'i) registry" and render :: "verifyError \<Rightarrow> go_error"
  assumes verifies: "rVerifyImage E req = VerifyImage V req \<bind> (\<lambda>r. State_Monad.return (map_option render r))"
begin

lemma verified:
  assumes "run_state (rVerifyImage E req) w = (None, w')"
  shows "\<exists>w1. run_state (VerifyImage V req) w = (None, w1)"
  using assms by (auto simp: verifies split: prod.splits)

lemma usable_images:
  assumes "run_state (ensureImagesUsable E p evt) w = ((p', evt', True), w')" "\<not> spSkipImageVerification (plSpec p)"
    and "img \<in> set (recoveryImagesForEvent p evt)" "riFiles img \<noteq> []"
  shows "\<exists>stream. exports V (riImage img) (riInsecureSkipTLSVerify img) stream
    \<and> verifyChecksumsFromExport (vMapOrder V) stream (riFiles img) = None"
proof -
  obtain r w1 where r: "run_state (verifyImages E (recoveryImagesForEvent p evt)) w = (r, w1)" by fastforce
  have "r = None"
    using assms(1,2) r
    by (auto simp: ensureImagesUsable_def getNow_def split: if_splits prod.splits option.splits)
  then show ?thesis
    using verifyImages_all [of E _ w w1 img] r assms(3,4) verified VerifyImage_files by fastforce
qed

text \<open>A recovery that starts has usable images.\<close>

lemma started_usable:
  assumes "run_state (startApproved E i a consumed blocked p evt) w = ((q, rest), w')"
    and "i < length (events p)" "\<not> inFlight evt" "inFlight (events q ! i)"
  shows "\<exists>p' evt' w1. run_state (ensureImagesUsable E p evt) w = ((p', evt', True), w1)"
proof -
  obtain p' evt' usable w1 where u: "run_state (ensureImagesUsable E p evt) w = ((p', evt', usable), w1)"
    by (metis prod.exhaust)
  have free: "nodeBusyWith (putEvent i evt p) evt = None"
  proof (rule ccontr)
    assume "nodeBusyWith (putEvent i evt p) evt \<noteq> None"
    then obtain b where "nodeBusyWith (putEvent i evt p) evt = Some b" by auto
    moreover have "events (fst (blockEvent now p evt b)) = events p" for now by (simp add: loggedD [OF logged_blockEvent])
    ultimately have "events q ! i = snd (blockEvent (cClock E w) p evt b)"
      using assms(1,2) by (auto simp: startApproved_def case_prod_beta)
    then show False using assms(4) by (simp add: inFlight_def)
  qed
  have "usable"
  proof (rule ccontr)
    assume no: "\<not> usable"
    have "imagesResult p evt (p', evt', usable)" using returnsD [OF returns_ensureImagesUsable u] .
    then have "\<not> inFlight evt'" "events p' = events p" using no assms(3) by (auto simp: imagesResult_def inFlight_def loggedD)
    then show False using assms(1,2,4) u free no by (auto simp: startApproved_def)
  qed
  then show ?thesis using u by auto
qed

end

text \<open>
  C15. When a reflash starts from a container image, the registry handed out that image in the same
  step and its filesystem holds the firmware file the Job copies, unless the plan turns the check
  off.
\<close>

theorem reflash_image_has_file:
  assumes "\<And>req. rVerifyImage E req = VerifyImage V req \<bind> (\<lambda>r. State_Monad.return (map_option render r))"
    and "\<And>m. set (vMapOrder V m) = set m"
    and "run_state (startApproved E i a consumed blocked p evt) w = ((q, rest), w')"
    and "i < length (events p)" "\<not> inFlight evt" "inFlight (events q ! i)"
    and "\<not> spSkipImageVerification (plSpec p)" "IsReflash (evRecoveryType evt)"
    and "spFirmware (plSpec p) = Some fw" "fsContainerSource (fwSource fw) = Some cs" "csName cs \<noteq> ''''" "fwFile fw \<noteq> ''''"
  shows "\<exists>stream. exports V (csName cs) (csInsecureSkipTLSVerify cs) stream
    \<and> hasFile (tsEntries stream) (firmwareImagePath (fwFile fw), '''')"
proof -
  have checks: "image_checks E V render" by unfold_locales (rule assms(1))
  let ?img = "\<lparr>riImage = csName cs, riField = ''spec.firmware.source.containerSource.name'',
    riInsecureSkipTLSVerify = csInsecureSkipTLSVerify cs, riFiles = [(firmwareImagePath (fwFile fw), '''')]\<rparr>"
  have "?img \<in> set (recoveryImagesForEvent p evt)" using assms(8-12) by (simp add: recoveryImagesForEvent_def)
  then obtain stream where st: "exports V (csName cs) (csInsecureSkipTLSVerify cs) stream"
    and ok: "verifyChecksumsFromExport (vMapOrder V) stream [(firmwareImagePath (fwFile fw), '''')] = None"
    using image_checks.started_usable [OF checks assms(3-6)] image_checks.usable_images [OF checks _ assms(7), of evt _ _ _ _ ?img]
    by fastforce
  show ?thesis using st verifyChecksums_sound [OF assms(2) ok] by auto
qed

section \<open>A registry with one image\<close>

definition shippedImage :: "tarEntry list" where
  "shippedImage =
     [\<lparr>teName = ''./etc/os-release'', teRegular = True, teContent = Inr ''os''\<rparr>,
      \<lparr>teName = ''fwupdate/'', teRegular = False, teContent = Inr ''''\<rparr>,
      \<lparr>teName = ''fwupdate/gfx.bin'', teRegular = True, teContent = Inr ''fw''\<rparr>]"

definition memRegistry :: "('w, string, unit, unit) registry" where
  "memRegistry = \<lparr>vNamespace = ''gpu'', vParseReference = Inr,
     vGetSecret = (\<lambda>ns n. State_Monad.return (Inl (notFound n))), vParseDockerConfig = (\<lambda>s. Inr []),
     vTransportKnown = True, vHead = (\<lambda>r k i. State_Monad.return None),
     vImage = (\<lambda>r k i. State_Monad.return (Inr ())),
     vExport = (\<lambda>i. State_Monad.return \<lparr>tsEntries = shippedImage, tsEnd = None\<rparr>), vMapOrder = (\<lambda>m. m)\<rparr>"

definition checkedEnv :: "planMem recoveryEnv" where
  "checkedEnv = memEnv\<lparr>rVerifyImage := \<lambda>req. VerifyImage memRegistry req \<bind>
     (\<lambda>r. State_Monad.return (map_option (\<lambda>_. newErr ''image'') r))\<rparr>"

interpretation memImages: image_checks checkedEnv memRegistry "\<lambda>_. newErr ''image''"
  by unfold_locales (simp add: checkedEnv_def)

theorem image_check_exact_witness:
  "distinct (map entryBase (tsEntries \<lparr>tsEntries = shippedImage, tsEnd = Some (newErr ''reset'')\<rparr>))
   \<and> verifyChecksumsFromExport rev \<lparr>tsEntries = shippedImage, tsEnd = Some (newErr ''reset'')\<rparr>
       [(''/fwupdate/gfx.bin'', ''''), (''/etc/./os-release'', '''')] = None"
proof
  show d: "distinct (map entryBase (tsEntries \<lparr>tsEntries = shippedImage, tsEnd = Some (newErr ''reset'')\<rparr>))"
    by code_simp
  show "verifyChecksumsFromExport rev \<lparr>tsEntries = shippedImage, tsEnd = Some (newErr ''reset'')\<rparr>
       [(''/fwupdate/gfx.bin'', ''''), (''/etc/./os-release'', '''')] = None"
    unfolding image_check_exact [OF d list.distinct(2) set_rev]
    by (simp add: hasFile_def shippedImage_def) code_simp
qed

definition imageFirmware :: FirmwareSpec where
  "imageFirmware = \<lparr>fwSource = \<lparr>fsContainerSource = Some \<lparr>csName = ''fw'', csInsecureSkipTLSVerify = False\<rparr>,
     fsVolumeSource = None\<rparr>, fwFile = ''gfx.bin''\<rparr>"

definition imageEvent :: event where
  "imageEvent = (wedgedEvent WaitingApproval)\<lparr>evRecoveryType := \<lparr>rtType = Reflash, rtSuggestedType = noType\<rparr>\<rparr>"

definition imagePlan :: plan where
  "imagePlan = (newPlan [approvalFor ''app-1'' (evID imageEvent)] [imageEvent])
     \<lparr>plSpec := (planSpec [approvalFor ''app-1'' (evID imageEvent)])
        \<lparr>spFirmware := Some imageFirmware, spSkipImageVerification := False\<rparr>\<rparr>"

definition imageRun :: "approvalLoop \<times> planMem" where
  "imageRun = run_state (startApproved checkedEnv 0 (approvalFor ''app-1'' (evID imageEvent)) [] [] imagePlan imageEvent)
     (memCluster [] imagePlan)"

theorem reflash_image_has_file_witness:
  "inFlight (events (fst (fst imageRun)) ! 0)
   \<and> (\<exists>stream. exports (memRegistry :: (planMem, string, unit, unit) registry) ''fw'' False stream
        \<and> hasFile (tsEntries stream) (firmwareImagePath ''gfx.bin'', ''''))"
proof
  show started: "inFlight (events (fst (fst imageRun)) ! 0)" by code_simp
  have run: "run_state (startApproved checkedEnv 0 (approvalFor ''app-1'' (evID imageEvent)) [] [] imagePlan imageEvent)
      (memCluster [] imagePlan) = ((fst (fst imageRun), snd (fst imageRun)), snd imageRun)"
    by (simp add: imageRun_def)
  show "\<exists>stream. exports (memRegistry :: (planMem, string, unit, unit) registry) ''fw'' False stream
        \<and> hasFile (tsEntries stream) (firmwareImagePath ''gfx.bin'', '''')"
    using reflash_image_has_file [OF memImages.verifies _ run _ _ started, of imageFirmware
        "\<lparr>csName = ''fw'', csInsecureSkipTLSVerify = False\<rparr>"]
    by (simp add: memRegistry_def imagePlan_def newPlan_def imageEvent_def wedgedEvent_def inFlight_def IsReflash_def imageFirmware_def)
qed

end
