(* ===== verification/KubectlPlugin.thy ===== *)
theory KubectlPlugin
  imports RecoveryAdmission RecoveryApprovals
begin

text \<open>
  The kubectl plugin with which an administrator reads and approves recovery events
  (\<^verbatim>\<open>cmd/kubectl-gpurecovery\<close>). It works on unstructured objects: a JSON value is a \<open>js\<close>, and the
  helpers of apimachinery that walk them, the API calls, the retry helper and the construction of
  the client are the fields of \<open>pluginEnv\<close>. A command takes its flags and arguments and yields an
  error or the line it prints; the layout of the tables is left out.
\<close>

section \<open>Unstructured objects\<close>

datatype js = JNull | JBool bool | JNumber string | JStr string | JList "js list" | JMap "(string \<times> js) list"

text \<open>The type assertions \<^verbatim>\<open>m[k].(string)\<close> and \<^verbatim>\<open>m[k].(bool)\<close>, whose failure leaves the zero value.\<close>

definition strField :: "(string \<times> js) list \<Rightarrow> string \<Rightarrow> string" where
  "strField m k = (case map_of m k of Some (JStr s) \<Rightarrow> s | _ \<Rightarrow> '''')"

definition boolField :: "(string \<times> js) list \<Rightarrow> string \<Rightarrow> bool" where
  "boolField m k = (case map_of m k of Some (JBool b) \<Rightarrow> b | _ \<Rightarrow> False)"

text \<open>The entries of a list that are maps, which is what the loops of the plugin go on with.\<close>

definition mapsOf :: "js list \<Rightarrow> (string \<times> js) list list" where
  "mapsOf xs = List.map_filter (\<lambda>x. case x of JMap m \<Rightarrow> Some m | _ \<Rightarrow> None) xs"

section \<open>Vocabulary\<close>

definition recoveryTypes :: "string list" where
  "recoveryTypes = [''sbr'', ''slot'', ''amc'', ''reflash'']"

definition overridableRecoveryTypes :: "string list" where
  "overridableRecoveryTypes = [''sbr'', ''slot'', ''amc'']"

definition approvableEventStates :: "string list" where
  "approvableEventStates = [''waiting-approval'', ''missing-firmware'', ''failed'']"

datatype pluginError =
    OverrideReflash
  | InvalidOverride string
  | InvalidRecoveryType string
  | NodeAndSelector
  | NegativeTail
  | UnsupportedFormat string
  | NoClient go_error
  | PlanUnreadable string go_error
  | ApprovalsNotSet go_error
  | UpdateRefused go_error
  | ApprovalNotFound string string
  | DuringCommand string pluginError

text \<open>What \<^verbatim>\<open>errors.IsConflict\<close> finds when it unwraps the error.\<close>

definition isConflict :: "pluginError \<Rightarrow> bool" where
  "isConflict e =
     (case e of PlanUnreadable _ g \<Rightarrow> reason g = Conflict | ApprovalsNotSet g \<Rightarrow> reason g = Conflict
      | UpdateRefused g \<Rightarrow> reason g = Conflict | _ \<Rightarrow> False)"

definition validateOverride :: "string \<Rightarrow> pluginError option" where
  "validateOverride override =
     (if override = '''' \<or> override \<in> set overridableRecoveryTypes then None
      else if override = ''reflash'' then Some OverrideReflash
      else Some (InvalidOverride override))"

definition completeStaticValues :: "string list \<Rightarrow> string \<Rightarrow> string list" where
  "completeStaticValues vals toComplete = filter (\<lambda>v. hasPrefix v toComplete) vals"

section \<open>Reading and editing a plan\<close>

record 'w pluginEnv =
  kClient :: "('w, go_error option) io"
  kGet :: "string \<Rightarrow> ('w, js res) io"
  kUpdate :: "js \<Rightarrow> ('w, go_error option) io"
  kList :: "('w, js list res) io"
  kGetName :: "js \<Rightarrow> string"
  kNestedSlice :: "js \<Rightarrow> string list \<Rightarrow> js list option"
  kNestedString :: "js \<Rightarrow> string list \<Rightarrow> string option"
  kSetNestedSlice :: "js \<Rightarrow> js list \<Rightarrow> string list \<Rightarrow> js res"
  kRetryOnConflict :: "('w, pluginError option) io \<Rightarrow> ('w, pluginError option) io"

definition nestedSlice :: "('w, 'x) pluginEnv_scheme \<Rightarrow> js \<Rightarrow> string list \<Rightarrow> js list" where
  "nestedSlice E obj fs = (case kNestedSlice E obj fs of None \<Rightarrow> [] | Some xs \<Rightarrow> xs)"

definition nestedString :: "('w, 'x) pluginEnv_scheme \<Rightarrow> js \<Rightarrow> string list \<Rightarrow> string" where
  "nestedString E obj fs = (case kNestedString E obj fs of None \<Rightarrow> '''' | Some s \<Rightarrow> s)"

definition getPlan :: "('w, 'x) pluginEnv_scheme \<Rightarrow> string \<Rightarrow> ('w, pluginError + js) io" where
  "getPlan E name = do {
     r \<leftarrow> kGet E name;
     State_Monad.return (case r of Inl e \<Rightarrow> Inl (PlanUnreadable name e) | Inr obj \<Rightarrow> Inr obj)
   }"

definition approvalsPath :: "string list" where
  "approvalsPath = [''spec'', ''approvals'']"

text \<open>The common end of both edits: put the list back and send the object.\<close>

definition sendApprovals ::
  "('w, 'x) pluginEnv_scheme \<Rightarrow> js \<Rightarrow> js list \<Rightarrow> ('w, pluginError option) io" where
  "sendApprovals E obj as =
     (case kSetNestedSlice E obj as approvalsPath of
        Inl e \<Rightarrow> State_Monad.return (Some (ApprovalsNotSet e))
      | Inr obj' \<Rightarrow> do {
          r \<leftarrow> kUpdate E obj';
          State_Monad.return (map_option UpdateRefused r)
        })"

definition addOnce :: "('w, 'x) pluginEnv_scheme \<Rightarrow> string \<Rightarrow> js \<Rightarrow> ('w, pluginError option) io" where
  "addOnce E planName approval = do {
     r \<leftarrow> getPlan E planName;
     case r of
       Inl e \<Rightarrow> State_Monad.return (Some e)
     | Inr obj \<Rightarrow> sendApprovals E obj (nestedSlice E obj approvalsPath @ [approval])
   }"

definition addApproval :: "('w, 'x) pluginEnv_scheme \<Rightarrow> string \<Rightarrow> js \<Rightarrow> ('w, pluginError option) io" where
  "addApproval E planName approval = kRetryOnConflict E (addOnce E planName approval)"

definition isApproval :: "string \<Rightarrow> js \<Rightarrow> bool" where
  "isApproval approvalID raw = (case raw of JMap ap \<Rightarrow> strField ap ''id'' = approvalID | _ \<Rightarrow> False)"

definition removeOnce :: "('w, 'x) pluginEnv_scheme \<Rightarrow> string \<Rightarrow> string \<Rightarrow> ('w, pluginError option) io" where
  "removeOnce E planName approvalID = do {
     r \<leftarrow> getPlan E planName;
     case r of
       Inl e \<Rightarrow> State_Monad.return (Some e)
     | Inr obj \<Rightarrow>
         (let as = nestedSlice E obj approvalsPath
          in if \<not> list_ex (isApproval approvalID) as
             then State_Monad.return (Some (ApprovalNotFound approvalID planName))
             else sendApprovals E obj (filter (\<lambda>a. \<not> isApproval approvalID a) as))
   }"

definition removeApprovalByID ::
  "('w, 'x) pluginEnv_scheme \<Rightarrow> string \<Rightarrow> string \<Rightarrow> ('w, pluginError option) io" where
  "removeApprovalByID E planName approvalID = kRetryOnConflict E (removeOnce E planName approvalID)"

section \<open>Formatting\<close>

definition dash :: string where "dash = ''-''"

definition orDash :: "string \<Rightarrow> string" where
  "orDash s = (if s = '''' then dash else s)"

definition joinOrDash :: "string list \<Rightarrow> string" where
  "joinOrDash items = (if items = [] then dash else joinStr '','' items)"

definition selectorLabels :: "(string \<times> js) list \<Rightarrow> string" where
  "selectorLabels sel =
     (case map_of sel ''nodeSelector'' of
        Some (JMap raw) \<Rightarrow>
          joinStr '','' (sort (map (\<lambda>(k, v). k @ ''='' @ (case v of JStr s \<Rightarrow> s | _ \<Rightarrow> '''')) raw))
      | _ \<Rightarrow> '''')"

definition approvalSummary :: "(string \<times> js) list \<Rightarrow> string \<times> string \<times> bool" where
  "approvalSummary ap =
     (let persistent = boolField ap ''persistent''; eventID = strField ap ''eventId''
      in if eventID \<noteq> '''' then (''singular'', eventID, persistent)
         else case map_of ap ''selector'' of
                Some (JMap sel) \<Rightarrow>
                  (let rt = strField sel ''recoveryType''; node = strField sel ''nodeName''; labels = selectorLabels sel;
                       parts = (if rt \<noteq> '''' then [''type='' @ rt] else [])
                         @ (if node \<noteq> '''' then [''node='' @ node] else [])
                         @ (if labels \<noteq> '''' then [''labels='' @ labels] else [])
                   in (''selector'', if parts = [] then ''(any)'' else joinStr '' '' parts, persistent))
              | _ \<Rightarrow> (''unknown'', dash, persistent))"

definition recoveryTypeSummary :: "(string \<times> js) list \<Rightarrow> string" where
  "recoveryTypeSummary ev =
     (case map_of ev ''recoveryType'' of
        Some (JMap rt) \<Rightarrow>
          (let t = strField rt ''type''; suggested = strField rt ''suggestedType''
           in if t = '''' then dash
              else if suggested \<noteq> '''' \<and> suggested \<noteq> t then t @ '' (was '' @ suggested @ '')''
              else t)
      | _ \<Rightarrow> dash)"

definition attemptCount :: "('w, 'x) pluginEnv_scheme \<Rightarrow> (string \<times> js) list \<Rightarrow> nat" where
  "attemptCount E ev =
     length (nestedSlice E (JMap ev) [''pastJobs''])
     + (if nestedString E (JMap ev) [''jobName''] \<noteq> '''' then 1 else 0)"

definition blockers :: "('w, 'x) pluginEnv_scheme \<Rightarrow> (string \<times> js) list \<Rightarrow> string list" where
  "blockers E ev =
     concat (map (\<lambda>field. List.map_filter (\<lambda>raw. case raw of JStr s \<Rightarrow> if s \<noteq> '''' then Some s else None | _ \<Rightarrow> None)
        (nestedSlice E (JMap ev) [field])) [''podsBlockingDrain'', ''claimsBlockingReset''])"

definition countWaitingEvents :: "js list \<Rightarrow> nat" where
  "countWaitingEvents evs =
     length (filter (\<lambda>ev. strField ev ''state'' \<in> set approvableEventStates) (mapsOf evs))"

definition planMessages :: "('w, 'x) pluginEnv_scheme \<Rightarrow> js \<Rightarrow> string \<Rightarrow> nat \<Rightarrow> string list" where
  "planMessages E plan eventID tail =
     (let out = List.map_filter (\<lambda>item. case item of
            JStr msg \<Rightarrow> if eventID \<noteq> '''' \<and> \<not> containsStr msg eventID then None else Some msg | _ \<Rightarrow> None)
          (nestedSlice E plan [''status'', ''messages''])
      in if tail > 0 \<and> length out > tail then drop (length out - tail) out else out)"

datatype outputFormat = outputTable | outputWide | outputYAML

definition parseOutputFormat :: "string \<Rightarrow> pluginError + outputFormat" where
  "parseOutputFormat s =
     (if s = '''' then Inr outputTable else if s = ''wide'' then Inr outputWide
      else if s = ''yaml'' then Inr outputYAML else Inl (UnsupportedFormat s))"

section \<open>Commands\<close>

definition withClient ::
  "('w, 'x) pluginEnv_scheme \<Rightarrow> string \<Rightarrow> ('w, pluginError option) io \<Rightarrow> string \<Rightarrow> ('w, pluginError + string) io" where
  "withClient E what act said = do {
     c \<leftarrow> kClient E;
     case c of
       Some e \<Rightarrow> State_Monad.return (Inl (NoClient e))
     | None \<Rightarrow> do {
         r \<leftarrow> act;
         State_Monad.return (case r of Some e \<Rightarrow> Inl (DuringCommand what e) | None \<Rightarrow> Inr said)
       }
   }"

definition approveObject :: "string \<Rightarrow> string \<Rightarrow> string \<Rightarrow> js" where
  "approveObject eventID override comment =
     JMap ([(''eventId'', JStr eventID)]
       @ (if override \<noteq> '''' then [(''override'', JMap [(''recoveryType'', JStr override)])] else [])
       @ (if comment \<noteq> '''' then [(''comment'', JStr comment)] else []))"

definition approveCmd ::
  "('w, 'x) pluginEnv_scheme \<Rightarrow> string \<Rightarrow> string \<Rightarrow> string \<Rightarrow> string \<Rightarrow> ('w, pluginError + string) io" where
  "approveCmd E override comment planName eventID =
     (case validateOverride override of
        Some e \<Rightarrow> State_Monad.return (Inl e)
      | None \<Rightarrow> withClient E ''approve event'' (addApproval E planName (approveObject eventID override comment))
          (if override \<noteq> ''''
           then ''Approved event '' @ eventID @ '' on plan '' @ planName
                  @ '', overriding the recovery type to '' @ override @ ''.''
           else ''Approved event '' @ eventID @ '' on plan '' @ planName @ ''.''))"

record confirmFlags =
  cfPersistent :: bool
  cfNodeName :: string
  cfNodeSelector :: "(string \<times> string) list"
  cfOverride :: string
  cfComment :: string

definition approvalKind :: "bool \<Rightarrow> string" where
  "approvalKind persistent = (if persistent then ''persistent'' else ''one-shot'')"

definition toUnstructuredMap :: "(string \<times> string) list \<Rightarrow> (string \<times> js) list" where
  "toUnstructuredMap m = map (\<lambda>(k, v). (k, JStr v)) m"

definition scopeSuffix :: "confirmFlags \<Rightarrow> string" where
  "scopeSuffix f =
     (if cfNodeName f \<noteq> '''' then '' on node '' @ cfNodeName f
      else if cfNodeSelector f \<noteq> []
      then '' on nodes matching '' @ selectorLabels [(''nodeSelector'', JMap (toUnstructuredMap (cfNodeSelector f)))]
      else '''')"

definition overrideSuffix :: "string \<Rightarrow> string" where
  "overrideSuffix override =
     (if override = '''' then '''' else '', overriding the recovery type to '' @ override)"

definition confirmObject :: "confirmFlags \<Rightarrow> string \<Rightarrow> js" where
  "confirmObject f recoveryType =
     JMap ([(''selector'', JMap ([(''recoveryType'', JStr recoveryType)]
          @ (if cfNodeName f \<noteq> '''' then [(''nodeName'', JStr (cfNodeName f))] else [])
          @ (if cfNodeSelector f \<noteq> [] then [(''nodeSelector'', JMap (toUnstructuredMap (cfNodeSelector f)))] else [])))]
       @ (if cfPersistent f then [(''persistent'', JBool True)] else [])
       @ (if cfOverride f \<noteq> '''' then [(''override'', JMap [(''recoveryType'', JStr (cfOverride f))])] else [])
       @ (if cfComment f \<noteq> '''' then [(''comment'', JStr (cfComment f))] else []))"

definition confirmCmd ::
  "('w, 'x) pluginEnv_scheme \<Rightarrow> confirmFlags \<Rightarrow> string \<Rightarrow> string \<Rightarrow> ('w, pluginError + string) io" where
  "confirmCmd E f planName recoveryType =
     (if recoveryType \<notin> set recoveryTypes then State_Monad.return (Inl (InvalidRecoveryType recoveryType))
      else case validateOverride (cfOverride f) of
        Some e \<Rightarrow> State_Monad.return (Inl e)
      | None \<Rightarrow>
          if cfNodeName f \<noteq> '''' \<and> cfNodeSelector f \<noteq> [] then State_Monad.return (Inl NodeAndSelector)
          else withClient E ''confirm group'' (addApproval E planName (confirmObject f recoveryType))
            (''Added '' @ approvalKind (cfPersistent f) @ '' '' @ recoveryType @ '' approval'' @ scopeSuffix f
               @ '' to plan '' @ planName @ overrideSuffix (cfOverride f) @ ''.''))"

definition removeCmd ::
  "('w, 'x) pluginEnv_scheme \<Rightarrow> string \<Rightarrow> string \<Rightarrow> ('w, pluginError + string) io" where
  "removeCmd E planName approvalID =
     withClient E ''remove approval'' (removeApprovalByID E planName approvalID)
       (''Removed approval '' @ approvalID @ '' from plan '' @ planName @ ''.'')"

text \<open>What the listing commands print, row by row and cell by cell, without the rule under the header.\<close>

definition boolText :: "bool \<Rightarrow> string" where
  "boolText b = (if b then ''true'' else ''false'')"

definition approvalRow :: "('w, 'x) pluginEnv_scheme \<Rightarrow> (string \<times> js) list \<Rightarrow> string list" where
  "approvalRow E ap =
     (case approvalSummary ap of (kind, target, persistent) \<Rightarrow>
        [nestedString E (JMap ap) [''id''], kind, target,
         orDash (nestedString E (JMap ap) [''override'', ''recoveryType'']),
         boolText persistent, boolText (boolField ap ''consumed''),
         orDash (nestedString E (JMap ap) [''comment''])])"

definition approvalsCmd ::
  "('w, 'x) pluginEnv_scheme \<Rightarrow> string \<Rightarrow> ('w, pluginError + string list list) io" where
  "approvalsCmd E planName = do {
     c \<leftarrow> kClient E;
     case c of
       Some e \<Rightarrow> State_Monad.return (Inl (NoClient e))
     | None \<Rightarrow> do {
         r \<leftarrow> getPlan E planName;
         State_Monad.return (case r of
           Inl e \<Rightarrow> Inl e
         | Inr obj \<Rightarrow>
             (let as = nestedSlice E obj approvalsPath
              in Inr (if as = [] then [[''No approvals.'']]
                      else [''ID'', ''KIND'', ''TARGET'', ''OVERRIDE'', ''PERSISTENT'', ''CONSUMED'', ''COMMENT'']
                        # map (approvalRow E) (mapsOf as))))
       }
   }"

definition messagesCmd ::
  "('w, 'x) pluginEnv_scheme \<Rightarrow> int \<Rightarrow> string \<Rightarrow> string \<Rightarrow> ('w, pluginError + string list) io" where
  "messagesCmd E tail eventID planName =
     (if tail < 0 then State_Monad.return (Inl NegativeTail)
      else do {
        c \<leftarrow> kClient E;
        case c of
          Some e \<Rightarrow> State_Monad.return (Inl (NoClient e))
        | None \<Rightarrow> do {
            r \<leftarrow> getPlan E planName;
            State_Monad.return (case r of
              Inl e \<Rightarrow> Inl e
            | Inr obj \<Rightarrow>
                (let msgs = planMessages E obj eventID (nat tail)
                 in Inr (if msgs = []
                         then [if eventID \<noteq> '''' then ''No messages mentioning '' @ eventID @ ''.'' else ''No messages.'']
                         else msgs)))
          }
      })"

section \<open>Completion\<close>

text \<open>\<open>None\<close> is \<^verbatim>\<open>ShellCompDirectiveError\<close>; otherwise the candidates.\<close>

definition completePlanNames ::
  "('w, 'x) pluginEnv_scheme \<Rightarrow> string list \<Rightarrow> string \<Rightarrow> ('w, string list option) io" where
  "completePlanNames E args toComplete =
     (if args \<noteq> [] then State_Monad.return (Some [])
      else do {
        c \<leftarrow> kClient E;
        case c of
          Some e \<Rightarrow> State_Monad.return None
        | None \<Rightarrow> do {
            r \<leftarrow> kList E;
            State_Monad.return (case r of
              Inl e \<Rightarrow> None
            | Inr items \<Rightarrow> Some (filter (\<lambda>n. hasPrefix n toComplete) (map (kGetName E) items)))
          }
      })"

definition completeFromPlan ::
  "('w, 'x) pluginEnv_scheme \<Rightarrow> string \<Rightarrow> (js \<Rightarrow> string list) \<Rightarrow> ('w, string list option) io" where
  "completeFromPlan E planName ids = do {
     c \<leftarrow> kClient E;
     case c of
       Some e \<Rightarrow> State_Monad.return None
     | None \<Rightarrow> do {
         r \<leftarrow> getPlan E planName;
         State_Monad.return (case r of Inl e \<Rightarrow> None | Inr obj \<Rightarrow> Some (ids obj))
       }
   }"

definition completeEventIDsInPlan ::
  "('w, 'x) pluginEnv_scheme \<Rightarrow> string \<Rightarrow> string \<Rightarrow> string list option \<Rightarrow> ('w, string list option) io" where
  "completeEventIDsInPlan E planName toComplete states =
     completeFromPlan E planName (\<lambda>obj.
       filter (\<lambda>i. hasPrefix i toComplete) (map (\<lambda>ev. strField ev ''id'')
         (filter (\<lambda>ev. case states of None \<Rightarrow> True | Some ss \<Rightarrow> strField ev ''state'' \<in> set ss)
           (mapsOf (nestedSlice E obj [''status'', ''events''])))))"

definition completeEventIDs ::
  "('w, 'x) pluginEnv_scheme \<Rightarrow> string list \<Rightarrow> string \<Rightarrow> ('w, string list option) io" where
  "completeEventIDs E args toComplete =
     (case args of
        [] \<Rightarrow> completePlanNames E args toComplete
      | [planName] \<Rightarrow> completeEventIDsInPlan E planName toComplete (Some approvableEventStates)
      | _ \<Rightarrow> State_Monad.return (Some []))"

definition completeEventIDsForFlag ::
  "('w, 'x) pluginEnv_scheme \<Rightarrow> string list \<Rightarrow> string \<Rightarrow> ('w, string list option) io" where
  "completeEventIDsForFlag E args toComplete =
     (case args of [] \<Rightarrow> State_Monad.return (Some [])
      | planName # _ \<Rightarrow> completeEventIDsInPlan E planName toComplete None)"

definition completeApprovalIDs ::
  "('w, 'x) pluginEnv_scheme \<Rightarrow> string list \<Rightarrow> string \<Rightarrow> ('w, string list option) io" where
  "completeApprovalIDs E args toComplete =
     (case args of
        [] \<Rightarrow> completePlanNames E args toComplete
      | [planName] \<Rightarrow> completeFromPlan E planName (\<lambda>obj.
          filter (\<lambda>i. hasPrefix i toComplete)
            (map (\<lambda>ap. strField ap ''id'') (mapsOf (nestedSlice E obj approvalsPath))))
      | _ \<Rightarrow> State_Monad.return (Some []))"

section \<open>The approval the operator reads\<close>

text \<open>
  Decoding an entry of \<^verbatim>\<open>spec.approvals\<close> along the JSON tags of \<^verbatim>\<open>RecoveryApproval\<close>: a field that is
  absent or null keeps its zero value, one of another type is an error.
\<close>

definition rtOf :: "string \<Rightarrow> RecoveryType" where
  "rtOf s = (if s = ''sbr'' then SBR else if s = ''slot'' then Slot else if s = ''amc'' then AMC
     else if s = ''reflash'' then Reflash else OtherType s)"

definition decodeField :: "'a \<Rightarrow> (js \<Rightarrow> 'a option) \<Rightarrow> (string \<times> js) list \<Rightarrow> string \<Rightarrow> 'a option" where
  "decodeField zero dec m k =
     (case map_of m k of None \<Rightarrow> Some zero | Some JNull \<Rightarrow> Some zero | Some v \<Rightarrow> dec v)"

definition asString :: "js \<Rightarrow> string option" where
  "asString v = (case v of JStr s \<Rightarrow> Some s | _ \<Rightarrow> None)"

definition asBool :: "js \<Rightarrow> bool option" where
  "asBool v = (case v of JBool b \<Rightarrow> Some b | _ \<Rightarrow> None)"

definition asStrings :: "js \<Rightarrow> (string \<times> string) list option" where
  "asStrings v =
     (case v of
        JMap m \<Rightarrow> those (map (\<lambda>(k, x). map_option (Pair k) (case x of JNull \<Rightarrow> Some '''' | _ \<Rightarrow> asString x)) m)
      | _ \<Rightarrow> None)"

definition asSelector :: "js \<Rightarrow> ApprovalSelector option option" where
  "asSelector v =
     (case v of
        JMap m \<Rightarrow> do {
          rt \<leftarrow> decodeField '''' asString m ''recoveryType'';
          node \<leftarrow> decodeField '''' asString m ''nodeName'';
          labels \<leftarrow> decodeField [] asStrings m ''nodeSelector'';
          Some (Some \<lparr>selRecoveryType = rtOf rt, selNodeName = node, selNodeSelector = labels\<rparr>)
        }
      | _ \<Rightarrow> None)"

definition asOverride :: "js \<Rightarrow> RecoveryType option option" where
  "asOverride v =
     (case v of
        JMap m \<Rightarrow> map_option (\<lambda>s. Some (rtOf s)) (decodeField '''' asString m ''recoveryType'')
      | _ \<Rightarrow> None)"

definition decodeApproval :: "js \<Rightarrow> approval option" where
  "decodeApproval v =
     (case v of
        JMap m \<Rightarrow> do {
          ident \<leftarrow> decodeField '''' asString m ''id'';
          eventID \<leftarrow> decodeField '''' asString m ''eventId'';
          sel \<leftarrow> decodeField None asSelector m ''selector'';
          ov \<leftarrow> decodeField None asOverride m ''override'';
          persistent \<leftarrow> decodeField False asBool m ''persistent'';
          consumed \<leftarrow> decodeField False asBool m ''consumed'';
          comment \<leftarrow> decodeField '''' asString m ''comment'';
          Some \<lparr>apID = ident, apEventID = eventID, apSelector = sel, apOverride = ov,
            apPersistent = persistent, apConsumed = consumed, apComment = comment\<rparr>
        }
      | _ \<Rightarrow> None)"

end
