(* ===== verification/PluginGuarantees.thy ===== *)
theory PluginGuarantees
  imports KubectlPlugin RecoveryMem "HOL-Library.Sublist"
begin

text \<open>
  What the kubectl plugin promises: its edits change nothing but the list of approvals and lose none
  that is added meanwhile, and an approval it writes passes the admission webhook and is the one the
  controller acts upon.
\<close>

section \<open>Approvals that take effect\<close>


























section \<open>Edits\<close>

text \<open>
  Runs of a function that is retried on a conflict: \<open>attempts f w v\<close> holds when the runs before the
  one that starts in \<open>v\<close> all ended in a conflict.
\<close>

inductive attempts :: "('w, pluginError option) io \<Rightarrow> 'w \<Rightarrow> 'w \<Rightarrow> bool" for f where
  first: "attempts f w w"
| again: "attempts f w v \<Longrightarrow> run_state f v = (Some e, v') \<Longrightarrow> isConflict e \<Longrightarrow> attempts f w v'"

lemma attempts_before:
  assumes "attempts f w1 v" "run_state f w = (Some e, w1)" "isConflict e" shows "attempts f w v"
  using assms by (induction rule: attempts.induct) (auto intro: attempts.intros)

text \<open>Two field paths of which neither leads to the other.\<close>

definition elsewhere :: "string list \<Rightarrow> string list \<Rightarrow> bool" where
  "elsewhere p q \<longleftrightarrow> \<not> prefix p q \<and> \<not> prefix q p"

text \<open>The object \<open>obj\<close> is \<open>old\<close> but for its approvals, which relate to the old ones by \<open>R\<close>.\<close>

definition editedApprovals ::
  "('w, 'x) pluginEnv_scheme \<Rightarrow> (js list \<Rightarrow> js list \<Rightarrow> bool) \<Rightarrow> js \<Rightarrow> js \<Rightarrow> bool" where
  "editedApprovals E R old obj \<longleftrightarrow> R (nestedSlice E old approvalsPath) (nestedSlice E obj approvalsPath)
     \<and> (\<forall>path. elsewhere approvalsPath path \<longrightarrow>
          kNestedSlice E obj path = kNestedSlice E old path \<and> kNestedString E obj path = kNestedString E old path)"

definition added :: "js \<Rightarrow> js list \<Rightarrow> js list \<Rightarrow> bool" where
  "added ap as bs \<longleftrightarrow> bs = as @ [ap]"

definition removed :: "string \<Rightarrow> js list \<Rightarrow> js list \<Rightarrow> bool" where
  "removed i as bs \<longleftrightarrow> list_ex (isApproval i) as \<and> bs = filter (\<lambda>a. \<not> isApproval i a) as"

text \<open>
  The calls the server sees, in their order, with what it answered to a reading. In a log of edits
  every object sent was made from the object read by the call right before.
\<close>

datatype call = Missed | Got js | Sent js

fun editLog :: "('w, 'x) pluginEnv_scheme \<Rightarrow> (js list \<Rightarrow> js list \<Rightarrow> bool) \<Rightarrow> call list \<Rightarrow> bool" where
  "editLog E R [] = True"
| "editLog E R (Missed # tr) = editLog E R tr"
| "editLog E R (Sent obj # tr) = False"
| "editLog E R [Got old] = True"
| "editLog E R (Got old # Sent obj # tr) = (editedApprovals E R old obj \<and> editLog E R tr)"
| "editLog E R (Got old # Missed # tr) = editLog E R tr"
| "editLog E R (Got old # Got old' # tr) = editLog E R (Got old' # tr)"

lemma editLog_append: "editLog E R tr \<Longrightarrow> editLog E R tr' \<Longrightarrow> editLog E R (tr @ tr')"
proof (induction E R tr rule: editLog.induct)
  case (4 E R old)
  then show ?case by (cases "(E, R, tr')" rule: editLog.cases) auto
qed auto

text \<open>
  An edit took place: the last two calls read \<open>old\<close> and sent the edited \<open>obj\<close>, and in the history of
  the plan what the server made of \<open>obj\<close> comes directly after \<open>old\<close>, which was current at some time
  since the command began in \<open>w\<close>. Nothing that others stored lies in between.
\<close>

definition landed ::
  "('w, 'x) pluginEnv_scheme \<Rightarrow> ('w \<Rightarrow> string \<Rightarrow> js list) \<Rightarrow> (js \<Rightarrow> js \<Rightarrow> bool) \<Rightarrow> string \<Rightarrow> (js list \<Rightarrow> js list \<Rightarrow> bool)
     \<Rightarrow> 'w \<Rightarrow> call list \<Rightarrow> 'w \<Rightarrow> bool" where
  "landed E hist admits name R w tr w' \<longleftrightarrow>
     (\<exists>before old obj stored xs ys. tr = before @ [Got old, Sent obj] \<and> editedApprovals E R old obj \<and> admits obj stored
        \<and> hist w' name = xs @ [old, stored] @ ys \<and> length (hist w name) \<le> Suc (length xs))"

text \<open>Every call of a command is part of an edit, and success means that the edit landed.\<close>

definition edits ::
  "('w, 'x) pluginEnv_scheme \<Rightarrow> ('w \<Rightarrow> call list) \<Rightarrow> ('w \<Rightarrow> string \<Rightarrow> js list) \<Rightarrow> (js \<Rightarrow> js \<Rightarrow> bool) \<Rightarrow> string
     \<Rightarrow> (js list \<Rightarrow> js list \<Rightarrow> bool) \<Rightarrow> 'w \<Rightarrow> bool \<Rightarrow> 'w \<Rightarrow> bool" where
  "edits E calls hist admits name R w ok w' \<longleftrightarrow>
     (\<exists>tr. calls w' = calls w @ tr \<and> editLog E R tr \<and> prefix (hist w name) (hist w' name)
        \<and> (ok \<longrightarrow> landed E hist admits name R w tr w'))"

definition namePath :: "string list" where
  "namePath = [''metadata'', ''name'']"

definition versionPath :: "string list" where
  "versionPath = [''metadata'', ''resourceVersion'']"

text \<open>
  The server as the plugin sees it, with the log of the calls and the history of each plan, which
  other clients extend during every call. A reading returns a stored object of that name. An update
  is taken only if the object carries the resource version of the one it replaces, and puts what
  admission makes of it (\<open>admits\<close>) behind that one; no two objects of a history carry the same
  version. The retry helper runs its function again only after a conflict and returns what the last
  run returned, and setting a field sets that field only.
\<close>

locale plugin_server =
  fixes E :: "('w, 'x) pluginEnv_scheme" and calls :: "'w \<Rightarrow> call list"
    and hist :: "'w \<Rightarrow> string \<Rightarrow> js list" and admits :: "js \<Rightarrow> js \<Rightarrow> bool"
  assumes client_calls: "keeps calls (kClient E)"
    and get_calls: "run_state (kGet E n) w = (r, w') \<Longrightarrow> calls w' = calls w @ [case r of Inl e \<Rightarrow> Missed | Inr old \<Rightarrow> Got old]"
    and update_calls: "run_state (kUpdate E obj) w = (u, w') \<Longrightarrow> calls w' = calls w @ [Sent obj]"
    and client_grows: "run_state (kClient E) w = (c, w') \<Longrightarrow> prefix (hist w n) (hist w' n)"
    and get_grows: "run_state (kGet E n') w = (r, w') \<Longrightarrow> prefix (hist w n) (hist w' n)"
    and update_grows: "run_state (kUpdate E obj) w = (u, w') \<Longrightarrow> prefix (hist w n) (hist w' n)"
    and get_stored: "run_state (kGet E n) w = (Inr old, w') \<Longrightarrow>
      old \<in> set (hist w' n) \<and> kNestedString E old namePath = Some n"
    and update_replaces: "run_state (kUpdate E obj) w = (None, w') \<Longrightarrow> kNestedString E obj namePath = Some n \<Longrightarrow>
      \<exists>xs prev stored ys. hist w' n = xs @ [prev, stored] @ ys \<and> length (hist w n) \<le> Suc (length xs)
        \<and> kNestedString E prev versionPath = kNestedString E obj versionPath \<and> admits obj stored"
    and versions: "distinct (map (\<lambda>obj. kNestedString E obj versionPath) (hist w n))"
    and retry_last: "run_state (kRetryOnConflict E f) w = (res, w') \<Longrightarrow> \<exists>v. attempts f w v \<and> run_state f v = (res, w')"
    and set_get: "kSetNestedSlice E old xs path = Inr obj \<Longrightarrow> kNestedSlice E obj path = Some xs"
    and set_frame: "kSetNestedSlice E old xs path = Inr obj \<Longrightarrow> elsewhere path path' \<Longrightarrow>
      kNestedSlice E obj path' = kNestedSlice E old path' \<and> kNestedString E obj path' = kNestedString E old path'"
begin

lemma edits_refused:
  "calls w' = calls w @ tr \<Longrightarrow> editLog E R tr \<Longrightarrow> prefix (hist w name) (hist w' name) \<Longrightarrow>
     edits E calls hist admits name R w False w'"
  by (auto simp: edits_def)

text \<open>One step of a command after another.\<close>

lemma edits_trans:
  assumes "edits E calls hist admits name R w False v" "edits E calls hist admits name R v ok w'"
  shows "edits E calls hist admits name R w ok w'"
proof -
  obtain tr tr' where tr: "calls v = calls w @ tr" "editLog E R tr" "prefix (hist w name) (hist v name)"
    and tr': "calls w' = calls v @ tr'" "editLog E R tr'" "prefix (hist v name) (hist w' name)"
      "ok \<longrightarrow> landed E hist admits name R v tr' w'"
    using assms unfolding edits_def by blast
  have "landed E hist admits name R w (tr @ tr') w'" if ok
  proof -
    obtain before old obj stored xs ys where l: "tr' = before @ [Got old, Sent obj]" "editedApprovals E R old obj"
      "admits obj stored" "hist w' name = xs @ [old, stored] @ ys" "length (hist v name) \<le> Suc (length xs)"
      using tr'(4) \<open>ok\<close> unfolding landed_def by blast
    have "length (hist w name) \<le> Suc (length xs)" using prefix_length_le [OF tr(3)] l(5) by simp
    then show ?thesis unfolding landed_def using l(1-4)
      by (intro exI [of _ "tr @ before"] exI [of _ old] exI [of _ obj] exI [of _ stored] exI [of _ xs] exI [of _ ys]) simp
  qed
  then show ?thesis unfolding edits_def
    using tr tr' editLog_append [OF tr(2) tr'(2)] prefix_order.trans [OF tr(3) tr'(3)]
    by (intro exI [of _ "tr @ tr'"]) simp
qed

text \<open>Versions make an update that is taken land on the object it was made from.\<close>

lemma update_lands:
  assumes g: "run_state (kGet E name) w = (Inr old, w1)" and ed: "editedApprovals E R old obj"
    and u: "run_state (kUpdate E obj) w1 = (None, w')"
  shows "landed E hist admits name R w [Got old, Sent obj] w'"
proof -
  have same: "kNestedString E obj path = kNestedString E old path" if "path \<in> {namePath, versionPath}" for path
    using ed that by (auto simp: editedApprovals_def elsewhere_def approvalsPath_def namePath_def versionPath_def)
  note old = get_stored [OF g]
  obtain xs prev stored ys where h: "hist w' name = xs @ [prev, stored] @ ys" "length (hist w1 name) \<le> Suc (length xs)"
    "kNestedString E prev versionPath = kNestedString E obj versionPath" "admits obj stored"
    using update_replaces [OF u, of name] old same by auto
  have "old \<in> set (hist w' name)" using old set_mono_prefix [OF update_grows [OF u]] by blast
  then have "prev = old"
    using h(1,3) same versions [of w' name] by (auto simp: distinct_map dest: inj_onD)
  moreover have "length (hist w name) \<le> Suc (length xs)" using prefix_length_le [OF get_grows [OF g]] h(2) by (meson order_trans)
  ultimately show ?thesis unfolding landed_def using h(1,4) ed by (intro exI [of _ "[]"]) auto
qed

lemma edits_send:
  assumes g: "run_state (kGet E name) w = (Inr old, w1)" and R: "R (nestedSlice E old approvalsPath) as"
    and s: "run_state (sendApprovals E old as) w1 = (r, w')"
  shows "edits E calls hist admits name R w (r = None) w'"
proof (cases "kSetNestedSlice E old as approvalsPath")
  case (Inl e)
  then show ?thesis using s get_calls [OF g] get_grows [OF g, of name]
    by (auto simp: sendApprovals_def intro!: edits_refused [of _ _ "[Got old]"])
next
  case (Inr obj)
  obtain u w2 where u: "run_state (kUpdate E obj) w1 = (u, w2)" by fastforce
  have w2: "w' = w2" "r = None \<longleftrightarrow> u = None" using s Inr u by (auto simp: sendApprovals_def)
  have "nestedSlice E obj approvalsPath = as" using set_get [OF Inr] by (simp add: nestedSlice_def)
  then have ed: "editedApprovals E R old obj" using R set_frame [OF Inr] unfolding editedApprovals_def by blast
  have "calls w2 = calls w @ [Got old, Sent obj]" using get_calls [OF g] update_calls [OF u] by simp
  moreover have "prefix (hist w name) (hist w2 name)"
    using get_grows [OF g] update_grows [OF u] by (rule prefix_order.trans)
  ultimately show ?thesis
    unfolding edits_def w2 using ed update_lands [OF g ed] u by (intro exI [of _ "[Got old, Sent obj]"]) simp
qed

lemma run_getPlan:
  assumes "run_state (getPlan E name) w = (x, w1)"
  shows "edits E calls hist admits name R w False w1" "x = Inr old \<Longrightarrow> run_state (kGet E name) w = (Inr old, w1)"
proof -
  obtain g w2 where g: "run_state (kGet E name) w = (g, w2)" by fastforce
  then have w2: "w2 = w1" "x = (case g of Inl e \<Rightarrow> Inl (PlanUnreadable name e) | Inr obj \<Rightarrow> Inr obj)"
    using assms by (auto simp: getPlan_def)
  show "edits E calls hist admits name R w False w1"
    using edits_refused [OF get_calls [OF g] _ get_grows [OF g]] w2(1) by (cases g) auto
  show "x = Inr old \<Longrightarrow> run_state (kGet E name) w = (Inr old, w1)" using g w2 by (auto split: sum.splits)
qed

text \<open>A run that reads the plan and then either gives up or sends an edit.\<close>

lemma edits_read:
  assumes "run_state (getPlan E name \<bind> k) w = (r, w')"
    and "\<And>e. k (Inl e) = State_Monad.return (Some e)"
    and "\<And>old. (\<exists>e. k (Inr old) = State_Monad.return (Some e))
           \<or> (\<exists>as. R (nestedSlice E old approvalsPath) as \<and> k (Inr old) = sendApprovals E old as)"
  shows "edits E calls hist admits name R w (r = None) w'"
proof -
  obtain x w1 where x: "run_state (getPlan E name) w = (x, w1)" by fastforce
  note quiet = run_getPlan(1) [OF x]
  show ?thesis
  proof (cases x)
    case (Inl e)
    then show ?thesis using assms(1,2) x quiet by auto
  next
    case (Inr old)
    from assms(3) [of old] show ?thesis
    proof (elim disjE exE conjE)
      fix e assume "k (Inr old) = State_Monad.return (Some e)"
      then show ?thesis using assms(1) x Inr quiet by auto
    next
      fix as assume "R (nestedSlice E old approvalsPath) as" "k (Inr old) = sendApprovals E old as"
      then show ?thesis using assms(1) x Inr by (intro edits_send [OF run_getPlan(2) [OF x Inr]]) auto
    qed
  qed
qed

lemma edits_addOnce: "run_state (addOnce E name ap) w = (r, w') \<Longrightarrow> edits E calls hist admits name (added ap) w (r = None) w'"
  unfolding addOnce_def by (erule edits_read) (auto simp: added_def)

lemma edits_removeOnce: "run_state (removeOnce E name i) w = (r, w') \<Longrightarrow> edits E calls hist admits name (removed i) w (r = None) w'"
  unfolding removeOnce_def by (erule edits_read) (auto simp: removed_def Let_def)

lemma attempts_edits:
  assumes "attempts f w v" "\<And>u r u'. run_state f u = (r, u') \<Longrightarrow> edits E calls hist admits name R u (r = None) u'"
  shows "edits E calls hist admits name R w False v"
  using assms(1)
proof (induction rule: attempts.induct)
  case (first w)
  then show ?case by (simp add: edits_def)
next
  case (again w v e v')
  then show ?case using edits_trans [OF again.IH] assms(2) [OF again.hyps(2)] by simp
qed

lemma retry_edits:
  assumes "\<And>u r u'. run_state f u = (r, u') \<Longrightarrow> edits E calls hist admits name R u (r = None) u'"
    and "run_state (kRetryOnConflict E f) w = (r, w')"
  shows "edits E calls hist admits name R w (r = None) w'"
proof -
  obtain v where "attempts f w v" "run_state f v = (r, w')" using retry_last [OF assms(2)] by blast
  then show ?thesis using edits_trans attempts_edits assms(1) by blast
qed

lemma client_edits:
  assumes "run_state (withClient E what act said) w = (x, w')"
    and "\<And>u r u'. run_state act u = (r, u') \<Longrightarrow> edits E calls hist admits name R u (r = None) u'"
  shows "edits E calls hist admits name R w (\<not> isl x) w'"
proof -
  obtain c w1 where c: "run_state (kClient E) w = (c, w1)" by fastforce
  have w1: "edits E calls hist admits name R w False w1"
    using edits_refused [of w1 w "[]"] keepsD [OF client_calls c] client_grows [OF c] by simp
  show ?thesis
  proof (cases c)
    case None
    obtain r w2 where r: "run_state act w1 = (r, w2)" by fastforce
    then have "w' = w2" "\<not> isl x \<longleftrightarrow> r = None" using assms(1) c None by (auto simp: withClient_def split: option.splits)
    then show ?thesis using edits_trans [OF w1] assms(2) [OF r] by simp
  next
    case (Some e)
    then show ?thesis using assms(1) c w1 by (auto simp: withClient_def)
  qed
qed

text \<open>The three ways a command goes.\<close>

lemma refuses: "run_state (State_Monad.return (Inl e)) w = (x, w') \<Longrightarrow> edits E calls hist admits name R w (\<not> isl x) w'"
  by (auto simp: edits_def)

lemma adds:
  "run_state (withClient E what (addApproval E name ap) said) w = (x, w') \<Longrightarrow>
     edits E calls hist admits name (added ap) w (\<not> isl x) w'"
  by (rule client_edits) (auto simp: addApproval_def intro: retry_edits [OF edits_addOnce])

lemma removes:
  "run_state (withClient E what (removeApprovalByID E name i) said) w = (x, w') \<Longrightarrow>
     edits E calls hist admits name (removed i) w (\<not> isl x) w'"
  by (rule client_edits) (auto simp: removeApprovalByID_def intro: retry_edits [OF edits_removeOnce])

end

lemma approveCmd_shape:
  "(\<exists>e. approveCmd E ov comment name i = State_Monad.return (Inl e))
   \<or> (\<exists>what said. approveCmd E ov comment name i = withClient E what (addApproval E name (approveObject i ov comment)) said)"
  by (cases "validateOverride ov") (auto simp: approveCmd_def)

lemma confirmCmd_shape:
  "(\<exists>e. confirmCmd E f name rt = State_Monad.return (Inl e))
   \<or> (\<exists>what said. confirmCmd E f name rt = withClient E what (addApproval E name (confirmObject f rt)) said)"
  by (cases "validateOverride (cfOverride f)") (auto simp: confirmCmd_def)

text \<open>
  C22. The plugin's commands edit the approvals of a plan and nothing else of it. In the order of the
  calls the server sees, each object sent comes right after the reading of the object it was made
  from, with one entry appended by \<^verbatim>\<open>approve\<close> and \<^verbatim>\<open>confirm\<close>, or with the entries of the given ID taken
  out, of which there was one, by \<^verbatim>\<open>remove\<close>, the others in their order; so every attempt after a
  conflict starts from what the plan has become. When a command reports success, the server has
  stored its last object directly on top of the one it was made from, so that no change another
  client made, before or meanwhile, is lost.
\<close>

theorem plugin_edits_approvals:
  assumes "plugin_server E calls hist admits"
  shows "(run_state (approveCmd E ov comment name eventID) w = (x, w') \<longrightarrow>
      edits E calls hist admits name (added (approveObject eventID ov comment)) w (\<not> isl x) w')
    \<and> (run_state (confirmCmd E f name rt) w = (x, w') \<longrightarrow>
      edits E calls hist admits name (added (confirmObject f rt)) w (\<not> isl x) w')
    \<and> (run_state (removeCmd E name approvalID) w = (x, w') \<longrightarrow>
      edits E calls hist admits name (removed approvalID) w (\<not> isl x) w')"
proof (intro conjI impI)
  assume "run_state (approveCmd E ov comment name eventID) w = (x, w')"
  then show "edits E calls hist admits name (added (approveObject eventID ov comment)) w (\<not> isl x) w'"
    using approveCmd_shape [of E ov comment name eventID] plugin_server.refuses [OF assms] plugin_server.adds [OF assms]
    by metis
next
  assume "run_state (confirmCmd E f name rt) w = (x, w')"
  then show "edits E calls hist admits name (added (confirmObject f rt)) w (\<not> isl x) w'"
    using confirmCmd_shape [of E f name rt] plugin_server.refuses [OF assms] plugin_server.adds [OF assms] by metis
next
  assume "run_state (removeCmd E name approvalID) w = (x, w')"
  then show "edits E calls hist admits name (removed approvalID) w (\<not> isl x) w'"
    unfolding removeCmd_def by (rule plugin_server.removes [OF assms])
qed

section \<open>A server in memory\<close>

fun fieldAt :: "js \<Rightarrow> string list \<Rightarrow> js option" where
  "fieldAt v [] = Some v"
| "fieldAt (JMap m) (k # ks) = (case map_of m k of None \<Rightarrow> None | Some v \<Rightarrow> fieldAt v ks)"
| "fieldAt _ (k # ks) = None"

fun setFieldAt :: "js \<Rightarrow> string list \<Rightarrow> js \<Rightarrow> js option" where
  "setFieldAt v [] x = Some x"
| "setFieldAt (JMap m) (k # ks) x =
     map_option (\<lambda>v. JMap (put k v m)) (setFieldAt (case map_of m k of None \<Rightarrow> JMap [] | Some v \<Rightarrow> v) ks x)"
| "setFieldAt _ (k # ks) x = None"

lemma fieldAt_set: "setFieldAt v p x = Some v' \<Longrightarrow> fieldAt v' p = Some x"
  by (induction v p x arbitrary: v' rule: setFieldAt.induct) auto

lemma fieldAt_empty: "q \<noteq> [] \<Longrightarrow> fieldAt (JMap []) q = None"
  by (cases q) auto

lemma fieldAt_frame: "setFieldAt v p x = Some v' \<Longrightarrow> elsewhere p q \<Longrightarrow> fieldAt v' q = fieldAt v q"
proof (induction v p x arbitrary: v' q rule: setFieldAt.induct)
  case (2 m k ks x)
  then obtain u where u: "setFieldAt (case map_of m k of None \<Rightarrow> JMap [] | Some v \<Rightarrow> v) ks x = Some u"
    and v': "v' = JMap (put k u m)" by auto
  obtain j qs where q: "q = j # qs" using "2.prems"(2) by (cases q) (auto simp: elsewhere_def)
  show ?case
  proof (cases "j = k")
    case True
    then have "elsewhere ks qs" "qs \<noteq> []" using "2.prems"(2) q by (auto simp: elsewhere_def)
    then show ?thesis using "2.IH" [OF u] True q v' by (auto simp: fieldAt_empty split: option.splits)
  next
    case False
    then show ?thesis using q v' by simp
  qed
qed (auto simp: elsewhere_def)

text \<open>The retry helper with a bound on the attempts, as its default back-off has.\<close>

fun retryUpTo :: "nat \<Rightarrow> ('w, pluginError option) io \<Rightarrow> ('w, pluginError option) io" where
  "retryUpTo 0 f = f"
| "retryUpTo (Suc n) f = do {
     r \<leftarrow> f;
     case r of None \<Rightarrow> State_Monad.return None
     | Some e \<Rightarrow> if isConflict e then retryUpTo n f else State_Monad.return (Some e)
   }"

lemma retryUpTo_last: "run_state (retryUpTo n f) w = (r, w') \<Longrightarrow> \<exists>v. attempts f w v \<and> run_state f v = (r, w')"
proof (induction n arbitrary: w)
  case (Suc n)
  obtain r1 w1 where r1: "run_state f w = (r1, w1)" by fastforce
  show ?case
  proof (cases "\<exists>e. r1 = Some e \<and> isConflict e")
    case True
    then obtain e where e: "r1 = Some e" "isConflict e" by blast
    then have "run_state (retryUpTo n f) w1 = (r, w')" using Suc.prems r1 by simp
    then obtain v where v: "attempts f w1 v" "run_state f v = (r, w')" using Suc.IH by metis
    have "attempts f w v" by (rule attempts_before [OF v(1)]) (use r1 e in simp_all)
    then show ?thesis using v(2) by (intro exI conjI)
  next
    case False
    then have "r = r1" "w' = w1" using Suc.prems r1 by (auto split: option.splits)
    then show ?thesis using r1 by (intro exI [of _ w]) (simp add: attempts.first)
  qed
qed (simp, intro exI conjI, rule attempts.first)

text \<open>
  The specs a plan has had, the newest last, the calls, and what other clients are about to store:
  one change before each of the next updates. The version of an object is its place in the history.
\<close>

record pluginMem =
  pgName :: string
  pgSpecs :: "js list"
  pgOthers :: "js list"
  pgCalls :: "call list"

definition planObject :: "string \<Rightarrow> nat \<times> js \<Rightarrow> js" where
  "planObject name v = JMap [(''metadata'', JMap [(''name'', JStr name), (''resourceVersion'', JStr (natStr (fst v)))]),
     (''spec'', snd v)]"

definition memHist :: "pluginMem \<Rightarrow> string \<Rightarrow> js list" where
  "memHist m n = (if n = pgName m then map (planObject n) (enumerate 0 (pgSpecs m)) else [])"

definition stringAt :: "js \<Rightarrow> string list \<Rightarrow> string option" where
  "stringAt obj p = (case fieldAt obj p of Some (JStr s) \<Rightarrow> Some s | _ \<Rightarrow> None)"

definition sameSpec :: "js \<Rightarrow> js \<Rightarrow> bool" where
  "sameSpec obj stored \<longleftrightarrow> fieldAt stored [''spec''] = fieldAt obj [''spec'']"

definition memGet :: "string \<Rightarrow> (pluginMem, js res) io" where
  "memGet n = State (\<lambda>m. if memHist m n = [] then (Inl (notFound n), m\<lparr>pgCalls := pgCalls m @ [Missed]\<rparr>)
     else (Inr (last (memHist m n)), m\<lparr>pgCalls := pgCalls m @ [Got (last (memHist m n))]\<rparr>))"

definition othersStore :: "pluginMem \<Rightarrow> pluginMem" where
  "othersStore m = (case pgOthers m of [] \<Rightarrow> m | sp # rest \<Rightarrow> m\<lparr>pgSpecs := pgSpecs m @ [sp], pgOthers := rest\<rparr>)"

definition memUpdate :: "js \<Rightarrow> (pluginMem, go_error option) io" where
  "memUpdate obj = State (\<lambda>m. let m' = (othersStore m)\<lparr>pgCalls := pgCalls m @ [Sent obj]\<rparr> in
     case fieldAt obj [''spec''] of
       Some sp \<Rightarrow>
         if pgSpecs m' \<noteq> [] \<and> stringAt obj namePath = Some (pgName m')
           \<and> stringAt obj versionPath = Some (natStr (length (pgSpecs m') - 1))
         then (None, m'\<lparr>pgSpecs := pgSpecs m' @ [sp]\<rparr>)
         else (Some (Err Conflict ''conflict''), m')
     | None \<Rightarrow> (Some (newErr ''no spec''), m'))"

definition memPlugin :: "pluginMem pluginEnv" where
  "memPlugin = \<lparr>kClient = State_Monad.return None, kGet = memGet, kUpdate = memUpdate,
     kList = observe (\<lambda>m. Inr (memHist m (pgName m))),
     kGetName = (\<lambda>obj. case stringAt obj namePath of Some s \<Rightarrow> s | None \<Rightarrow> ''''),
     kNestedSlice = (\<lambda>obj p. case fieldAt obj p of Some (JList xs) \<Rightarrow> Some xs | _ \<Rightarrow> None),
     kNestedString = stringAt,
     kSetNestedSlice = (\<lambda>obj xs p. case setFieldAt obj p (JList xs) of None \<Rightarrow> Inl (newErr ''not a map'') | Some v \<Rightarrow> Inr v),
     kRetryOnConflict = retryUpTo 4\<rparr>"

lemma planObject_fields:
  "stringAt (planObject n v) namePath = Some n" "stringAt (planObject n v) versionPath = Some (natStr (fst v))"
  "fieldAt (planObject n v) [''spec''] = Some (snd v)"
  by (simp_all add: planObject_def stringAt_def namePath_def versionPath_def)

lemma memHist_grows: "pgName m' = pgName m \<Longrightarrow> prefix (pgSpecs m) (pgSpecs m') \<Longrightarrow> prefix (memHist m n) (memHist m' n)"
  by (auto simp: memHist_def prefix_def enumerate_append_eq)

lemma othersStore_grows: "pgName (othersStore m) = pgName m" "prefix (pgSpecs m) (pgSpecs (othersStore m))"
  by (auto simp: othersStore_def split: list.split)

lemma memUpdate_effect:
  assumes "run_state (memUpdate obj) m = (u, m')"
  shows "pgCalls m' = pgCalls m @ [Sent obj]" "prefix (memHist m n) (memHist m' n)"
  using assms othersStore_grows [of m]
  by (auto simp: memUpdate_def Let_def intro!: memHist_grows split: option.splits if_splits)

lemma memUpdate_replaces:
  assumes "run_state (memUpdate obj) m = (None, m')" "stringAt obj namePath = Some n"
  shows "\<exists>xs prev stored ys. memHist m' n = xs @ [prev, stored] @ ys \<and> length (memHist m n) \<le> Suc (length xs)
    \<and> stringAt prev versionPath = stringAt obj versionPath \<and> sameSpec obj stored"
proof -
  define m1 where "m1 = othersStore m"
  obtain sp where sp: "fieldAt obj [''spec''] = Some sp" "pgSpecs m1 \<noteq> []" "n = pgName m1"
    "stringAt obj versionPath = Some (natStr (length (pgSpecs m1) - 1))" "pgSpecs m' = pgSpecs m1 @ [sp]" "pgName m' = pgName m1"
    using assms by (auto simp: memUpdate_def Let_def m1_def split: option.splits if_splits)
  obtain zs z where z: "pgSpecs m1 = zs @ [z]" using sp(2) by (metis rev_exhaust)
  have h: "memHist m' n = map (planObject n) (enumerate 0 zs) @ [planObject n (length zs, z), planObject n (Suc (length zs), sp)] @ []"
    using sp(3,5,6) z by (simp add: memHist_def enumerate_append_eq)
  have "length (memHist m n) \<le> Suc (length (map (planObject n) (enumerate 0 zs)))"
    using prefix_length_le [OF othersStore_grows(2) [of m]] z by (simp add: memHist_def m1_def)
  moreover have "stringAt (planObject n (length zs, z)) versionPath = stringAt obj versionPath"
    using sp(4) z by (simp add: planObject_fields)
  moreover have "sameSpec obj (planObject n (Suc (length zs), sp))" using sp(1) by (simp add: sameSpec_def planObject_fields)
  ultimately show ?thesis using h by blast
qed

lemma memHist_versions: "distinct (map (\<lambda>obj. stringAt obj versionPath) (memHist m n))"
proof -
  have "map (\<lambda>obj. stringAt obj versionPath) (map (planObject n) (enumerate 0 sps)) = map (\<lambda>i. Some (natStr i)) (map fst (enumerate 0 sps))" for sps
    unfolding map_map by (simp add: comp_def planObject_fields)
  moreover have "distinct (map (\<lambda>i. Some (natStr i)) [0..<k])" for k by (simp add: distinct_map inj_on_def natStr_inject)
  ultimately have "distinct (map (\<lambda>obj. stringAt obj versionPath) (map (planObject n) (enumerate 0 sps)))" for sps
    unfolding map_fst_enumerate by simp
  then show ?thesis unfolding memHist_def by (cases "n = pgName m") simp_all
qed

interpretation memServer: plugin_server memPlugin pgCalls memHist sameSpec
proof
  fix n w r w' assume g: "run_state (kGet memPlugin n) w = (r, w')"
  show "pgCalls w' = pgCalls w @ [case r of Inl e \<Rightarrow> Missed | Inr old \<Rightarrow> Got old]"
    using g by (auto simp: memPlugin_def memGet_def split: if_splits)
  show "prefix (memHist w n') (memHist w' n')" for n'
    using g by (auto simp: memPlugin_def memGet_def memHist_def split: if_splits)
next
  fix n w old w' assume g: "run_state (kGet memPlugin n) w = (Inr old, w')"
  then have "old = last (memHist w' n)" "memHist w' n \<noteq> []"
    by (auto simp: memPlugin_def memGet_def memHist_def split: if_splits)
  then have old: "old \<in> set (memHist w' n)" by simp
  then have "stringAt old namePath = Some n" by (auto simp: memHist_def planObject_fields split: if_splits)
  then show "old \<in> set (memHist w' n) \<and> kNestedString memPlugin old namePath = Some n" using old by (simp add: memPlugin_def)
next
  fix obj w u w' assume u: "run_state (kUpdate memPlugin obj) w = (u, w')"
  then have u: "run_state (memUpdate obj) w = (u, w')" by (simp add: memPlugin_def)
  show "pgCalls w' = pgCalls w @ [Sent obj]" by (rule memUpdate_effect(1) [OF u])
  show "prefix (memHist w n) (memHist w' n)" for n by (rule memUpdate_effect(2) [OF u])
next
  fix obj w w' n assume "run_state (kUpdate memPlugin obj) w = (None, w')" "kNestedString memPlugin obj namePath = Some n"
  then show "\<exists>xs prev stored ys. memHist w' n = xs @ [prev, stored] @ ys \<and> length (memHist w n) \<le> Suc (length xs)
      \<and> kNestedString memPlugin prev versionPath = kNestedString memPlugin obj versionPath \<and> sameSpec obj stored"
    using memUpdate_replaces by (simp add: memPlugin_def)
next
  show "distinct (map (\<lambda>obj. kNestedString memPlugin obj versionPath) (memHist w n))" for w n
    using memHist_versions by (simp add: memPlugin_def)
  show "\<exists>v. attempts f w v \<and> run_state f v = (r, w')" if "run_state (kRetryOnConflict memPlugin f) w = (r, w')" for f w r w'
    using that retryUpTo_last by (simp add: memPlugin_def)
next
  fix old xs path obj assume set: "kSetNestedSlice memPlugin old xs path = Inr obj"
  then have at: "setFieldAt old path (JList xs) = Some obj" by (simp add: memPlugin_def split: option.splits)
  then show "kNestedSlice memPlugin obj path = Some xs" by (simp add: memPlugin_def fieldAt_set)
  show "kNestedSlice memPlugin obj path' = kNestedSlice memPlugin old path' \<and> kNestedString memPlugin obj path' = kNestedString memPlugin old path'"
    if "elsewhere path path'" for path' using fieldAt_frame [OF at that] by (simp add: memPlugin_def stringAt_def)
qed (simp_all add: memPlugin_def keeps_return)

text \<open>Another client approves an event while the plugin approves one, and an approval is removed after that.\<close>

definition specWith :: "js list \<Rightarrow> js" where
  "specWith as = JMap [(''deviceId'', JStr ''0xe20b''), (''approvals'', JList as)]"

definition firstEntry :: js where
  "firstEntry = JMap [(''id'', JStr ''app-1''), (''eventId'', JStr ''e1'')]"

definition otherEntry :: js where
  "otherEntry = JMap [(''id'', JStr ''app-2''), (''eventId'', JStr ''e9'')]"

definition storedPlan :: pluginMem where
  "storedPlan = \<lparr>pgName = ''plan'', pgSpecs = [specWith [firstEntry]], pgOthers = [specWith [firstEntry, otherEntry]],
     pgCalls = []\<rparr>"

definition approveRun :: "(pluginError + string) \<times> pluginMem" where
  "approveRun = run_state (approveCmd memPlugin ''slot'' '''' ''plan'' ''e2'') storedPlan"

definition removeRun :: "(pluginError + string) \<times> pluginMem" where
  "removeRun = run_state (removeCmd memPlugin ''plan'' ''app-1'') (snd approveRun)"

theorem plugin_edits_approvals_witness:
  "fst approveRun = Inr ''Approved event e2 on plan plan, overriding the recovery type to slot.''
   \<and> pgSpecs (snd approveRun) = [specWith [firstEntry], specWith [firstEntry, otherEntry],
        specWith [firstEntry, otherEntry, approveObject ''e2'' ''slot'' '''']]
   \<and> edits memPlugin pgCalls memHist sameSpec ''plan'' (added (approveObject ''e2'' ''slot'' '''')) storedPlan True (snd approveRun)
   \<and> last (pgSpecs (snd removeRun)) = specWith [otherEntry, approveObject ''e2'' ''slot'' '''']
   \<and> edits memPlugin pgCalls memHist sameSpec ''plan'' (removed ''app-1'') (snd approveRun) True (snd removeRun)"
proof (intro conjI)
  show a: "fst approveRun = Inr ''Approved event e2 on plan plan, overriding the recovery type to slot.''" by code_simp
  show "pgSpecs (snd approveRun) = [specWith [firstEntry], specWith [firstEntry, otherEntry],
        specWith [firstEntry, otherEntry, approveObject ''e2'' ''slot'' '''']]" by code_simp
  show "last (pgSpecs (snd removeRun)) = specWith [otherEntry, approveObject ''e2'' ''slot'' '''']" by code_simp
  have r: "\<not> isl (fst removeRun)" by code_simp
  have run: "run_state (approveCmd memPlugin ''slot'' '''' ''plan'' ''e2'') storedPlan = (fst approveRun, snd approveRun)"
    "run_state (removeCmd memPlugin ''plan'' ''app-1'') (snd approveRun) = (fst removeRun, snd removeRun)"
    by (simp_all add: approveRun_def removeRun_def)
  note all = plugin_edits_approvals [OF memServer.plugin_server_axioms]
  show "edits memPlugin pgCalls memHist sameSpec ''plan'' (added (approveObject ''e2'' ''slot'' '''')) storedPlan True (snd approveRun)"
    using all [of "''slot''" "''''" "''plan''" "''e2''" storedPlan "fst approveRun" "snd approveRun"] run(1) a by simp
  show "edits memPlugin pgCalls memHist sameSpec ''plan'' (removed ''app-1'') (snd approveRun) True (snd removeRun)"
    using all [of _ _ "''plan''" _ "snd approveRun" "fst removeRun" "snd removeRun" _ _ "''app-1''"] run(2) r by simp
qed





end
