(* ===== verification/OperatorSetup.thy ===== *)
theory OperatorSetup
  imports PolicyController
begin

text \<open>
  How the operator is put together: the features it detects in the cluster and the options it hands
  to every controller (\<^verbatim>\<open>cmd/main.go\<close>), and which pod events wake the ClusterPolicy reconciler
  (\<^verbatim>\<open>draPodToClusterPolicy\<close> and \<^verbatim>\<open>draPodReadinessPredicate\<close> of \<^verbatim>\<open>clusterpolicy_controller.go\<close>).
  The client configuration, the discovery call and the environment variables are arguments.
\<close>

section \<open>Features and options\<close>

definition openShiftGroups :: "string list" where
  "openShiftGroups = [''route.openshift.io'', ''security.openshift.io'']"

definition draGroups :: "string list" where "draGroups = [''resource.k8s.io'']"

definition kmmGroups :: "string list" where "kmmGroups = [''kmm.sigs.x-k8s.io'']"

definition openshiftCluster :: string where "openshiftCluster = ''OpenShift''"

definition draCluster :: string where "draCluster = ''DRA''"

definition kmmCluster :: string where "kmmCluster = ''KMM''"

definition defaultOperatorNamespace :: string where
  "defaultOperatorNamespace = ''intel-gpu-base-operator''"

definition noteGroup :: "string \<Rightarrow> (string \<times> bool) list \<Rightarrow> (string \<times> bool) list" where
  "noteGroup g features =
     (let f1 = (if g \<in> set openShiftGroups then put openshiftCluster True features else features);
          f2 = (if g \<in> set draGroups then put draCluster True f1 else f1)
      in if g \<in> set kmmGroups then put kmmCluster True f2 else f2)"

definition detectClusterFeatures ::
  "('w, go_error option) io \<Rightarrow> ('w, string list res) io \<Rightarrow> ('w, (string \<times> bool) list res) io" where
  "detectClusterFeatures client serverGroups = do {
     c \<leftarrow> client;
     case c of
       Some e \<Rightarrow> State_Monad.return (Inl e)
     | None \<Rightarrow> do {
         r \<leftarrow> serverGroups;
         State_Monad.return (case r of
           Inl e \<Rightarrow> Inl e
         | Inr groups \<Rightarrow>
             Inr (fold noteGroup groups [(openshiftCluster, False), (draCluster, False), (kmmCluster, False)]))
       }
   }"

definition feature :: "(string \<times> bool) list \<Rightarrow> string \<Rightarrow> bool" where
  "feature features k = (map_of features k = Some True)"

definition orDefault :: "string \<Rightarrow> string \<Rightarrow> string" where
  "orDefault s d = (if s = '''' then d else s)"

definition controllerOpts :: "(string \<Rightarrow> string) \<Rightarrow> (string \<times> bool) list \<Rightarrow> ControllerOpts" where
  "controllerOpts getenv features =
     \<lparr>coReqName = '''', coNamespace = orDefault (getenv ''OPERATOR_NAMESPACE'') defaultOperatorNamespace,
      coSecretName = getenv ''OPERATOR_SECRET'', coRequeueDelay = 5 * 10 ^ 9,
      coDRAEnable = feature features draCluster, coOpenShift = feature features openshiftCluster,
      coKMMEnable = feature features kmmCluster,
      coModuleLoaderServiceAccountName = orDefault (getenv ''MODULE_LOADER_SERVICE_ACCOUNT_NAME'') ''module-loader'',
      coKMMModuleReadyLabel = ''''\<rparr>"

section \<open>Watched pods\<close>

definition draValue :: string where "draValue = ''intel-gpu-resource-driver-kubelet-plugin''"

record watchedPod =
  wpLabels :: "(string \<times> string) list"
  wpConditions :: "(string \<times> string) list"

datatype podEvent =
    PodCreated watchedPod
  | PodUpdated (podOld: watchedPod) (podNew: watchedPod)
  | PodDeleted watchedPod
  | PodGeneric watchedPod

definition isDRAPod :: "watchedPod \<Rightarrow> bool" where
  "isDRAPod p \<longleftrightarrow> map_of (wpLabels p) ''app'' = Some draValue"

fun isPodReadyIn :: "(string \<times> string) list \<Rightarrow> bool" where
  "isPodReadyIn [] = False"
| "isPodReadyIn ((t, st) # cs) = (if t = ''Ready'' then st = ''True'' else isPodReadyIn cs)"

definition isPodReady :: "watchedPod \<Rightarrow> bool" where
  "isPodReady p = isPodReadyIn (wpConditions p)"

definition draPodReadinessPredicate :: "podEvent \<Rightarrow> bool" where
  "draPodReadinessPredicate e =
     (case e of
        PodCreated p \<Rightarrow> isDRAPod p
      | PodUpdated old new \<Rightarrow> isDRAPod new \<and> isPodReady old \<noteq> isPodReady new
      | PodDeleted p \<Rightarrow> isDRAPod p
      | PodGeneric p \<Rightarrow> False)"

definition draPodToClusterPolicy :: "('w, string list res) io \<Rightarrow> ('w, string list) io" where
  "draPodToClusterPolicy listPolicies = do {
     r \<leftarrow> listPolicies;
     State_Monad.return (case r of Inl e \<Rightarrow> [] | Inr names \<Rightarrow> names)
   }"

section \<open>What the options say\<close>

lemma map_of_noteGroup:
  "map_of (noteGroup g features) k = Some True \<longleftrightarrow>
     map_of features k = Some True
     \<or> (k = openshiftCluster \<and> g \<in> set openShiftGroups) \<or> (k = draCluster \<and> g \<in> set draGroups)
     \<or> (k = kmmCluster \<and> g \<in> set kmmGroups)"
  by (auto simp: noteGroup_def Let_def openshiftCluster_def draCluster_def kmmCluster_def)

lemma feature_fold:
  "feature (fold noteGroup groups features) k \<longleftrightarrow>
     feature features k
     \<or> (\<exists>g \<in> set groups. (k = openshiftCluster \<and> g \<in> set openShiftGroups) \<or> (k = draCluster \<and> g \<in> set draGroups)
          \<or> (k = kmmCluster \<and> g \<in> set kmmGroups))"
  by (induction groups arbitrary: features) (auto simp: feature_def map_of_noteGroup)

text \<open>A feature is on exactly when the API server serves one of its groups.\<close>

lemma features_of_groups:
  assumes "run_state (detectClusterFeatures client serverGroups) w = (Inr features, w')"
  shows "\<exists>w1 groups. run_state serverGroups w1 = (Inr groups, w')
    \<and> coDRAEnable (controllerOpts getenv features) = (\<exists>g \<in> set groups. g \<in> set draGroups)
    \<and> coOpenShift (controllerOpts getenv features) = (\<exists>g \<in> set groups. g \<in> set openShiftGroups)
    \<and> coKMMEnable (controllerOpts getenv features) = (\<exists>g \<in> set groups. g \<in> set kmmGroups)"
proof -
  obtain c w1 where c: "run_state client w = (c, w1)" by fastforce
  then have n: "c = None" using assms by (cases c) (auto simp: detectClusterFeatures_def)
  obtain r w2 where r: "run_state serverGroups w1 = (r, w2)" by fastforce
  then obtain groups where g: "r = Inr groups" "w' = w2"
    and f: "features = fold noteGroup groups [(openshiftCluster, False), (draCluster, False), (kmmCluster, False)]"
    using assms c n by (cases r) (auto simp: detectClusterFeatures_def)
  have "draCluster \<noteq> openshiftCluster" "kmmCluster \<noteq> openshiftCluster" "draCluster \<noteq> kmmCluster"
    by (simp_all add: openshiftCluster_def draCluster_def kmmCluster_def)
  then have "feature [(openshiftCluster, False), (draCluster, False), (kmmCluster, False)] k = False"
    "feature features draCluster = (\<exists>g \<in> set groups. g \<in> set draGroups)"
    "feature features openshiftCluster = (\<exists>g \<in> set groups. g \<in> set openShiftGroups)"
    "feature features kmmCluster = (\<exists>g \<in> set groups. g \<in> set kmmGroups)" for k
    unfolding f feature_fold by (auto simp: feature_def)
  then show ?thesis using r g by (auto simp: controllerOpts_def)
qed

end
