(* ===== verification/Spec2Isabelle.thy ===== *)
theory Spec2Isabelle
  imports RecoveryPersist RecoveryMirror RecoveryHolds RecoveryAdmission
    FirmwareGuarantees FirmwareJobs DeviceRefreshGuarantees PolicyAdmission PolicyGuarantees
    XpumGuarantees KueueGuarantees ImageGuarantees PluginGuarantees OperatorSetup
begin

text \<open>
  A verification development for the Intel GPU base operator, a Kubernetes operator written in Go.

  \<^bold>\<open>The program.\<close> Four controllers share the packages \<^verbatim>\<open>api/v1alpha1\<close> (custom resources and admission
  webhooks) and \<^verbatim>\<open>internal/controller/common\<close> (taints, drains, OpenShift objects).
  \<^item> The GPU recovery plan controller (\<^verbatim>\<open>internal/controller/gpurecoveryplan\<close>) turns device taints in
    ResourceSlices into recovery events, waits for an approval, drains the node, runs a recovery Job
    and records the outcome.
  \<^item> The GPU firmware update controller (\<^verbatim>\<open>internal/controller/gpufirmwareupdate\<close>) is a state machine
    stored in the status: select, taint and drain nodes, run update Jobs, pause after a canary, clean up.
  \<^item> The xpumd device refresh controller (\<^verbatim>\<open>clusterpolicy/xpum_device_refresh.go\<close>) deletes monitoring
    pods that miss a GPU of their node so that they are replaced.
  \<^item> The ClusterPolicy controller (\<^verbatim>\<open>internal/controller/clusterpolicy\<close>) runs sub-controllers that
    deploy the DRA driver, the device plugin, monitoring, kernel modules and the rest.
  \<^item> Administrators read and approve recovery events with a kubectl plugin (\<^verbatim>\<open>cmd/kubectl-gpurecovery\<close>),
    which edits the list of approvals the recovery controller acts upon.

  \<^bold>\<open>How the model is built.\<close> Every Go function is one definition with the function's name, its branches
  and early returns included; a loop is a recursive function or \<open>foldM\<close>. A call into the cluster is a
  computation of the state monad over an unknown world (theory Prelude): it may fail and may change
  the world in any way, so a theorem that assumes nothing of a call holds whatever the API server,
  other clients and the network do. The calls are the fields of a record (\<open>client\<close> in Cluster, extended
  per controller); so is code of other modules, such as image reference parsing, the registry client,
  \<^verbatim>\<open>CreateOrPatch\<close>, owner references and objects decoded from embedded YAML. A Go error is its text and the
  reason the code looks for; results are sums, optional fields options, structs records with the
  fields the code reads or writes. Durations are 64-bit words, counters that cannot overflow are
  natural numbers. Log lines, metrics and manager set-up are left out.

  \<^bold>\<open>Theories and sources.\<close>
  \<^item> Prelude, GoText, Sha256: shared vocabulary; the string, UTF-8, path, time and hash functions of Go's
    library that the program uses.
  \<^item> Cluster, Drain, OpenShift: Kubernetes objects and the client; \<^verbatim>\<open>common/drain.go\<close>, \<^verbatim>\<open>common/gpu.go\<close>;
    \<^verbatim>\<open>common/openshift.go\<close>. DrainGuarantees proves what tainting and eviction do.
  \<^item> RecoveryTypes, RecoveryWebhook: the GPURecoveryPlan resource and its webhooks
    (\<^verbatim>\<open>gpurecoveryplan_types.go\<close>, \<^verbatim>\<open>gpurecoveryplan_webhook.go\<close>). RecoveryAdmission proves what they
    accept (C19, C20).
  \<^item> RecoveryNames, RecoveryEvents, RecoveryController, RecoveryDetection, RecoveryApprovals, RecoveryDrains,
    RecoveryReconcile: the controller, phase by phase (\<^verbatim>\<open>gpurecoveryplan_helpers.go\<close>,
    \<^verbatim>\<open>gpurecoveryplan_const.go\<close>, \<^verbatim>\<open>gpurecoveryplan_imageverific.go\<close>, \<^verbatim>\<open>gpurecoveryplan_controller.go\<close>).
    RecoveryIdentity, RecoverySystem, RecoveryPass, RecoveryPersist, RecoveryMirror and RecoveryHolds prove
    its properties over one pass and over all reachable states (C1 to C14, C17, C18); RecoveryMem is an in-memory
    cluster on which the witnesses run.
  \<^item> ImageVerifier: the content image verifier of both controllers (\<^verbatim>\<open>common/contentimage_verifier.go\<close>);
    ImageGuarantees proves that its check is exact and joins it to the recovery controller (C15, C16).
  \<^item> KubectlPlugin: the commands of \<^verbatim>\<open>cmd/kubectl-gpurecovery\<close> on unstructured objects; PluginGuarantees
    follows an approval from the command through decoding and admission to the controller, and shows
    what the commands change (C21, C22).
  \<^item> FirmwareUpdate, FirmwareController: the GPUFirmwareUpdate resource, its webhook and its controller
    (\<^verbatim>\<open>gpufirmwareupdate_types.go\<close>, \<^verbatim>\<open>gpufirmwareupdate_webhook.go\<close>, \<^verbatim>\<open>gpufirmwareupdate_controller.go\<close>).
    FirmwareMachine, FirmwareGuarantees and FirmwareJobs prove C23 to C29.
  \<^item> DeviceRefresh: \<^verbatim>\<open>xpum_device_refresh.go\<close>; DeviceRefreshGuarantees proves C30 to C32.
  \<^item> PolicyTypes, PolicyWebhook, PolicyController: \<^verbatim>\<open>clusterpolicy_types.go\<close>, \<^verbatim>\<open>clusterpolicy_webhook.go\<close>,
    \<^verbatim>\<open>clusterpolicy_controller.go\<close> with \<^verbatim>\<open>controller_utils.go\<close>. The sub-controllers: PolicyDRA
    (\<^verbatim>\<open>dra_controller.go\<close>), PolicyDevicePlugin (\<^verbatim>\<open>deviceplugin_controller.go\<close>), PolicyKMM
    (\<^verbatim>\<open>kmm_controller.go\<close>), PolicyOTel and PolicyXPUM (\<^verbatim>\<open>deployments/otel_types.go\<close>,
    \<^verbatim>\<open>xpumanager_controller.go\<close>), PolicyMisc and PolicyKueue (\<^verbatim>\<open>misc_controller.go\<close>); PolicyKueue ends with
    the list of all five as the reconciler runs them. PolicyWorld is an in-memory API server for the
    witnesses. PolicyAdmission proves C33, PolicyGuarantees C34 and C35, XpumGuarantees C36 to C38,
    KueueGuarantees C39 and C40.
  \<^item> OperatorSetup: the features \<^verbatim>\<open>cmd/main.go\<close> detects and the options it hands out, and the watch on DRA
    pods of the ClusterPolicy controller.

  \<^bold>\<open>What the theorems show.\<close> Of a recovery plan: at most one recovery in flight per node in every
  reachable state (up to addresses that differ in case only, which the code does not tell apart by ID),
  recoveries only with an unspent approval and of the type it allows, running recoveries kept, readiness only
  after a drain that was observed, taints held while wanted and released after, approvals merged with
  concurrent edits, deadlines and names within their bounds, command lines free of metacharacters, a reflash only with an
  image that holds its file, a deletion that waits for running Jobs, approvals of the plugin that take
  effect and edits that land on what they were made from. Of a
  firmware update: its machine, the record of every node selected, that it comes to rest after at most
  eight changes of state along any history of passes and edits, one
  tainted node for a canary, Jobs after the drain, success only when logs vouch for it, fields fixed
  while it runs. Of the refresh: deletions only for cause, within a budget, and made when due. Of a
  ClusterPolicy: exactly the acceptable specs are admitted, the finalizer goes last, claims protect
  the driver, updates of DaemonSets settle, the collector finds every secret and file its configuration
  refers to and is replaced when it changes, and Kueue queues share the cluster evenly and go when stale.

  \<^bold>\<open>Interfaces.\<close> What a controller relies on of the API server is a locale: \<open>node_store\<close> and its extensions
  for Nodes, \<open>plan_store\<close> and \<open>status_writes\<close> for the writes of a plan, \<open>fw_store\<close> for the answers to
  writes of a firmware update, \<open>fw_nodes\<close>, \<open>fw_nodes_openshift\<close> and \<open>fw_nodes_reliable\<close>, \<open>deletion_log\<close>, \<open>policy_calls\<close> with its extensions \<open>policy_quiet\<close> and \<open>all_quiet\<close>,
  \<open>update_log\<close>, \<open>xpum_store\<close>, \<open>image_checks\<close> for the verifier as the controller calls it, \<open>plugin_server\<close> with the
  resource versions of the stored objects, and \<open>kueue_store\<close>, which joins two copies of \<open>delete_store\<close>. Each is interpreted on
  the in-memory environment of its controller.

  \<^bold>\<open>Bounds.\<close> No fuel is used: every loop of the program is structural or has a termination proof. Job
  attempts in names are bounded by one hundred in \<open>names_fit_labels\<close>, as the name budget of the code assumes.

  A panic of the program is an error of the operation that panics; what the surrounding loop does after
  it is not claimed.

  \<^bold>\<open>Not modelled.\<close> Of the main program, flags, TLS and the set-up of the manager; of the plugin, the layout
  of its tables, YAML output and the rendering of ages; the registry client behind the image verifier is a
  third-party package; generated deep copies and the decoding of embedded YAML have no counterpart in a
  model of immutable values; test support is not part of the operator.
\<close>

end
